(* ===== verification/Go_Prelude.thy ===== *)
theory Go_Prelude
  imports Main "HOL-Library.Word" "HOL-Library.Multiset"
begin

text \<open>
  The vocabulary every component of the driver is written in.

  A Go function that may touch state and returns \<open>(T, error)\<close> is an \<open>act\<close>: a function of
  the state that gives an outcome and the next state. The outcome is the value
  (\<open>Ok\<close>: the error is nil), the error (\<open>Err\<close>: the value is dropped by every caller),
  a run-time panic (\<open>Panic\<close>: nil dereference), or a goroutine that waits for ever on a
  mutex it already holds (\<open>Blocked\<close>).

  The theory also holds the errors of the program, the two loop shapes of the source, the
  weakest-precondition calculus (\<open>wp\<close>) in which the component proofs are carried out, and the
  record of an environment (an external world plus the trace of the calls made to it).
\<close>

subsection \<open>Errors\<close>

text \<open>
  Errors made by packages outside the repository are opaque, except that the code asks whether
  one is (or wraps) \<open>govcd.ErrorEntityNotFound\<close>.
\<close>

datatype ext_error = EntityNotFound | ExtMsg string | ExtWrap string ext_error

datatype grpc_code =
  InvalidArgument | NotFound | AlreadyExists | FailedPrecondition | OutOfRange
| Unimplemented | Internal

text \<open>
  The package's own sentinel errors, the errors built by \<open>errors.New\<close>, \<open>fmt.Errorf\<close> and
  \<open>status.Error\<close>/\<open>status.Errorf\<close>, and external errors. A formatted text is kept as its format
  and its arguments; \<open>ErrText e\<close> is \<open>e.Error()\<close> used as a message, \<open>FmtText e\<close> is
  \<open>e.Error()\<close> used as a format with no arguments.
\<close>

datatype go_error =
  ErrVmNotFound
| ErrWrongDiskAttach
| ErrDiskAlreadyExists
| ErrDiskNotExists
| ErrNoFreeUnits
| ErrDiskAttachedToVm
| ErrNew string
| Errorf string "fmt_arg list"
| Status grpc_code go_message
| Ext ext_error
and fmt_arg = FStr string | FInt int | FErr go_error | FStrs "string list"
and go_message = Msg string | Msgf string "fmt_arg list" | ErrText go_error | FmtText go_error

fun ext_is_not_found :: "ext_error \<Rightarrow> bool" where
  "ext_is_not_found EntityNotFound = True"
| "ext_is_not_found (ExtMsg _) = False"
| "ext_is_not_found (ExtWrap _ e) = ext_is_not_found e"

text \<open>\<open>errors.Is(err, govcd.ErrorEntityNotFound)\<close>\<close>

fun is_entity_not_found :: "go_error \<Rightarrow> bool" where
  "is_entity_not_found (Ext e) = ext_is_not_found e"
| "is_entity_not_found _ = False"

subsection \<open>Outcomes and actions\<close>

datatype 'a outcome = Ok 'a | Err go_error | Panic | Blocked

type_synonym ('s, 'a) act = "'s \<Rightarrow> 'a outcome \<times> 's"

definition ret :: "'a \<Rightarrow> ('s, 'a) act" where
  "ret v s = (Ok v, s)"

definition raise :: "go_error \<Rightarrow> ('s, 'a) act" where
  "raise e s = (Err e, s)"

definition panic :: "('s, 'a) act" where
  "panic s = (Panic, s)"

text \<open>\<open>x, err := m; if err != nil { return err }; f x\<close>\<close>

definition andThen :: "('s, 'a) act \<Rightarrow> ('a \<Rightarrow> ('s, 'b) act) \<Rightarrow> ('s, 'b) act" where
  "andThen m f s =
     (case m s of
        (Ok v, s') \<Rightarrow> f v s'
      | (Err e, s') \<Rightarrow> (Err e, s')
      | (Panic, s') \<Rightarrow> (Panic, s')
      | (Blocked, s') \<Rightarrow> (Blocked, s'))"

text \<open>\<open>x, err := m\<close>, where the code goes on to look at \<open>err\<close> itself.\<close>

definition attempt :: "('s, 'a) act \<Rightarrow> ('s, go_error + 'a) act" where
  "attempt m s =
     (case m s of
        (Ok v, s') \<Rightarrow> (Ok (Inr v), s')
      | (Err e, s') \<Rightarrow> (Ok (Inl e), s')
      | (Panic, s') \<Rightarrow> (Panic, s')
      | (Blocked, s') \<Rightarrow> (Blocked, s'))"

text \<open>\<open>x, err := m; if err != nil { return h(err) }\<close>\<close>

definition mapErr :: "('s, 'a) act \<Rightarrow> (go_error \<Rightarrow> go_error) \<Rightarrow> ('s, 'a) act" where
  "mapErr m h s =
     (case m s of
        (Err e, s') \<Rightarrow> (Err (h e), s')
      | (r, s') \<Rightarrow> (r, s'))"

definition gets :: "('s \<Rightarrow> 'a) \<Rightarrow> ('s, 'a) act" where
  "gets f s = (Ok (f s), s)"

definition modify :: "('s \<Rightarrow> 's) \<Rightarrow> ('s, unit) act" where
  "modify f s = (Ok (), f s)"

text \<open>A pointer that is dereferenced: nil panics.\<close>

fun deref :: "'a option \<Rightarrow> ('s, 'a) act" where
  "deref None = panic"
| "deref (Some x) = ret x"

text \<open>A returned \<open>(T, error)\<close> pair of a call, as a sum or as an optional error.\<close>

fun of_sum :: "go_error + 'a \<Rightarrow> ('s, 'a) act" where
  "of_sum (Inl e) = raise e"
| "of_sum (Inr v) = ret v"

fun of_ext :: "ext_error + 'a \<Rightarrow> ('s, 'a) act" where
  "of_ext (Inl e) = raise (Ext e)"
| "of_ext (Inr v) = ret v"

fun of_ext_opt :: "ext_error option \<Rightarrow> ('s, unit) act" where
  "of_ext_opt None = ret ()"
| "of_ext_opt (Some e) = raise (Ext e)"

text \<open>
  \<open>mu.Lock(); defer mu.Unlock(); m\<close>: a mutex that is held already is never released by the goroutine
  that waits for it; the deferred unlock also runs when the body returns an error or panics.
\<close>

definition with_mutex ::
  "('s \<Rightarrow> bool) \<Rightarrow> (bool \<Rightarrow> 's \<Rightarrow> 's) \<Rightarrow> ('s, 'a) act \<Rightarrow> ('s, 'a) act" where
  "with_mutex held set_held m s =
     (if held s then (Blocked, s)
      else case m (set_held True s) of
             (Blocked, s') \<Rightarrow> (Blocked, s')
           | (r, s') \<Rightarrow> (r, set_held False s'))"

subsection \<open>Loops\<close>

text \<open>
  \<open>for _, x := range xs { body }; after\<close>, where the body ends an iteration (by falling off its
  end or by \<open>continue\<close>) or returns from the enclosing function.
\<close>

datatype 'a ctl = Continue | Return 'a

fun for_each :: "'x list \<Rightarrow> ('x \<Rightarrow> ('s, 'a ctl) act) \<Rightarrow> ('s, 'a) act \<Rightarrow> ('s, 'a) act" where
  "for_each [] body after = after"
| "for_each (x # xs) body after =
     andThen (body x) (\<lambda>c. case c of Return v \<Rightarrow> ret v | Continue \<Rightarrow> for_each xs body after)"

text \<open>A loop that builds up a value and leaves early only with an error.\<close>

fun fold_act :: "('x \<Rightarrow> 'acc \<Rightarrow> ('s, 'acc) act) \<Rightarrow> 'x list \<Rightarrow> 'acc \<Rightarrow> ('s, 'acc) act" where
  "fold_act body [] acc = ret acc"
| "fold_act body (x # xs) acc = andThen (body x acc) (\<lambda>acc'. fold_act body xs acc')"

subsection \<open>Environments: an external world and the trace of the calls made to it\<close>

text \<open>
  \<open>world\<close> is the state of everything outside the repository; it only changes through the
  functions the model takes as parameters. \<open>trace\<close> is ghost state: the calls made, newest first,
  each with its answer.
\<close>

record ('w, 'e) env =
  world :: 'w
  trace :: "'e list"

definition ext_call ::
  "('w \<Rightarrow> 'r \<times> 'w) \<Rightarrow> ('r \<Rightarrow> 'e) \<Rightarrow> (('w, 'e, 'z) env_scheme, 'r) act" where
  "ext_call f ev s =
     (case f (world s) of (r, w) \<Rightarrow> (Ok r, s\<lparr>world := w, trace := ev r # trace s\<rparr>))"

text \<open>An action on a part of the state.\<close>

definition zoom :: "('s \<Rightarrow> 't) \<Rightarrow> ('t \<Rightarrow> 's \<Rightarrow> 's) \<Rightarrow> ('t, 'a) act \<Rightarrow> ('s, 'a) act" where
  "zoom part put_part m s = (case m (part s) of (r, t) \<Rightarrow> (r, put_part t s))"

subsection \<open>Weakest preconditions\<close>

definition wp :: "('s, 'a) act \<Rightarrow> ('a outcome \<Rightarrow> 's \<Rightarrow> bool) \<Rightarrow> 's \<Rightarrow> bool" where
  "wp m Q s = (case m s of (r, s') \<Rightarrow> Q r s')"

named_theorems wp_rules

lemma wp_ret [wp_rules]: "wp (ret v) Q s = Q (Ok v) s"
  by (simp add: wp_def ret_def)

lemma wp_raise [wp_rules]: "wp (raise e) Q s = Q (Err e) s"
  by (simp add: wp_def raise_def)

lemma wp_panic [wp_rules]: "wp panic Q s = Q Panic s"
  by (simp add: wp_def panic_def)

lemma wp_andThen [wp_rules]:
  "wp (andThen m f) Q s =
     wp m (\<lambda>r s'. case r of Ok v \<Rightarrow> wp (f v) Q s' | Err e \<Rightarrow> Q (Err e) s'
                  | Panic \<Rightarrow> Q Panic s' | Blocked \<Rightarrow> Q Blocked s') s"
  by (auto simp: wp_def andThen_def split: prod.splits outcome.splits)

lemma wp_attempt [wp_rules]:
  "wp (attempt m) Q s =
     wp m (\<lambda>r s'. case r of Ok v \<Rightarrow> Q (Ok (Inr v)) s' | Err e \<Rightarrow> Q (Ok (Inl e)) s'
                  | Panic \<Rightarrow> Q Panic s' | Blocked \<Rightarrow> Q Blocked s') s"
  by (auto simp: wp_def attempt_def split: prod.splits outcome.splits)

lemma wp_mapErr [wp_rules]:
  "wp (mapErr m h) Q s =
     wp m (\<lambda>r s'. case r of Ok v \<Rightarrow> Q (Ok v) s' | Err e \<Rightarrow> Q (Err (h e)) s'
                  | Panic \<Rightarrow> Q Panic s' | Blocked \<Rightarrow> Q Blocked s') s"
  by (auto simp: wp_def mapErr_def split: prod.splits outcome.splits)

lemma wp_gets [wp_rules]: "wp (gets f) Q s = Q (Ok (f s)) s"
  by (simp add: wp_def gets_def)

lemma wp_modify [wp_rules]: "wp (modify f) Q s = Q (Ok ()) (f s)"
  by (simp add: wp_def modify_def)

lemma wp_deref [wp_rules]:
  "wp (deref p) Q s = (case p of None \<Rightarrow> Q Panic s | Some x \<Rightarrow> Q (Ok x) s)"
  by (cases p) (simp_all add: wp_rules)

lemma wp_of_sum [wp_rules]:
  "wp (of_sum r) Q s = (case r of Inl e \<Rightarrow> Q (Err e) s | Inr v \<Rightarrow> Q (Ok v) s)"
  by (cases r) (simp_all add: wp_rules)

lemma wp_of_ext [wp_rules]:
  "wp (of_ext r) Q s = (case r of Inl e \<Rightarrow> Q (Err (Ext e)) s | Inr v \<Rightarrow> Q (Ok v) s)"
  by (cases r) (simp_all add: wp_rules)

lemma wp_of_ext_opt [wp_rules]:
  "wp (of_ext_opt r) Q s = (case r of None \<Rightarrow> Q (Ok ()) s | Some e \<Rightarrow> Q (Err (Ext e)) s)"
  by (cases r) (simp_all add: wp_rules)

lemma wp_with_mutex [wp_rules]:
  "wp (with_mutex held set_held m) Q s =
     (if held s then Q Blocked s
      else wp m (\<lambda>r s'. case r of Blocked \<Rightarrow> Q Blocked s' | _ \<Rightarrow> Q r (set_held False s'))
             (set_held True s))"
  by (auto simp: wp_def with_mutex_def split: prod.splits outcome.splits)

lemma wp_ext_call [wp_rules]:
  "wp (ext_call f ev) Q s =
     (\<forall>r w. f (world s) = (r, w) \<longrightarrow> Q (Ok r) (s\<lparr>world := w, trace := ev r # trace s\<rparr>))"
  by (auto simp: wp_def ext_call_def split: prod.splits)

lemma wp_zoom [wp_rules]: "wp (zoom part put_part m) Q s = wp m (\<lambda>r t. Q r (put_part t s)) (part s)"
  by (simp add: wp_def zoom_def split: prod.split)

text \<open>Conditionals and case distinctions under \<open>wp\<close>.\<close>

lemma wp_if [wp_rules]: "wp (if b then m else n) Q s = (if b then wp m Q s else wp n Q s)"
  by simp

lemma wp_case_option [wp_rules]:
  "wp (case p of None \<Rightarrow> m | Some x \<Rightarrow> n x) Q s =
     (case p of None \<Rightarrow> wp m Q s | Some x \<Rightarrow> wp (n x) Q s)"
  by (cases p) simp_all

lemma wp_case_sum [wp_rules]:
  "wp (case p of Inl e \<Rightarrow> m e | Inr x \<Rightarrow> n x) Q s =
     (case p of Inl e \<Rightarrow> wp (m e) Q s | Inr x \<Rightarrow> wp (n x) Q s)"
  by (cases p) simp_all

lemma wp_case_prod [wp_rules]:
  "wp (case p of (x, y) \<Rightarrow> m x y) Q s = (case p of (x, y) \<Rightarrow> wp (m x y) Q s)"
  by (cases p) simp

lemma wp_case_ctl [wp_rules]:
  "wp (case c of Continue \<Rightarrow> m | Return v \<Rightarrow> n v) Q s =
     (case c of Continue \<Rightarrow> wp m Q s | Return v \<Rightarrow> wp (n v) Q s)"
  by (cases c) simp_all

text \<open>From a precondition to the result of a run, and back.\<close>

lemma wpD: "wp m Q s \<Longrightarrow> m s = (r, s') \<Longrightarrow> Q r s'"
  by (simp add: wp_def)

lemma wpI: "(\<And>r s'. m s = (r, s') \<Longrightarrow> Q r s') \<Longrightarrow> wp m Q s"
  by (simp add: wp_def split: prod.split)

lemma wp_mono: "wp m Q s \<Longrightarrow> (\<And>r s'. Q r s' \<Longrightarrow> R r s') \<Longrightarrow> wp m R s"
  by (auto simp: wp_def)

lemma wp_conj: "wp m Q s \<Longrightarrow> wp m R s \<Longrightarrow> wp m (\<lambda>r s'. Q r s' \<and> R r s') s"
  by (auto simp: wp_def)

text \<open>
  The loop rules: an invariant kept by every iteration that goes on, and the postcondition
  established by every iteration that leaves the loop.
\<close>

lemma wp_for_each:
  assumes "I s"
    and "\<And>x s. x \<in> set xs \<Longrightarrow> I s \<Longrightarrow>
           wp (body x) (\<lambda>r s'. case r of Ok Continue \<Rightarrow> I s' | Ok (Return v) \<Rightarrow> Q (Ok v) s'
                                | Err e \<Rightarrow> Q (Err e) s' | Panic \<Rightarrow> Q Panic s'
                                | Blocked \<Rightarrow> Q Blocked s') s"
    and "\<And>s. I s \<Longrightarrow> wp after Q s"
  shows "wp (for_each xs body after) Q s"
  using assms
proof (induction xs arbitrary: s)
  case Nil
  then show ?case by simp
next
  case (Cons x xs)
  have tail: "wp (for_each xs body after) Q t" if "I t" for t
    using Cons.IH [OF that] Cons.prems(2,3) by simp
  have "wp (body x) (\<lambda>r s'. case r of Ok Continue \<Rightarrow> I s' | Ok (Return v) \<Rightarrow> Q (Ok v) s'
          | Err e \<Rightarrow> Q (Err e) s' | Panic \<Rightarrow> Q Panic s' | Blocked \<Rightarrow> Q Blocked s') s"
    using Cons.prems(1,2) by simp
  then show ?case
    unfolding for_each.simps wp_andThen
    by (rule wp_mono) (auto simp: wp_rules tail split: outcome.splits ctl.splits)
qed

lemma wp_fold_act:
  assumes "I [] acc s"
    and "\<And>ys x acc s. ys @ [x] = take (Suc (length ys)) xs \<Longrightarrow> I ys acc s \<Longrightarrow>
           wp (body x acc) (\<lambda>r s'. case r of Ok acc' \<Rightarrow> I (ys @ [x]) acc' s'
                                | Err e \<Rightarrow> Q (Err e) s' | Panic \<Rightarrow> Q Panic s'
                                | Blocked \<Rightarrow> Q Blocked s') s"
    and "\<And>acc s. I xs acc s \<Longrightarrow> Q (Ok acc) s"
  shows "wp (fold_act body xs acc) Q s"
proof -
  have "wp (fold_act body zs acc) Q s" if "ys @ zs = xs" and "I ys acc s" for ys zs acc s
    using that
  proof (induction zs arbitrary: ys acc s)
    case Nil
    then show ?case using assms(3) by (simp add: wp_rules)
  next
    case (Cons z zs)
    have "ys @ [z] = take (Suc (length ys)) xs"
      using Cons.prems(1) by auto
    from assms(2) [OF this Cons.prems(2)] show ?case
      unfolding fold_act.simps wp_andThen
      by (rule wp_mono) (use Cons in \<open>auto split: outcome.splits\<close>)
  qed
  from this [of "[]" xs] assms(1) show ?thesis by simp
qed

subsection \<open>Invariants kept by every outcome\<close>

text \<open>
  \<open>keeps I m\<close>: from a state with the invariant, the action never waits for ever, and leaves the
  invariant behind however it ends. The rules follow the structure of the action, so that a
  component proves an invariant of all its operations by \<open>keeps_intros\<close>.
\<close>

definition keeps :: "('s \<Rightarrow> bool) \<Rightarrow> ('s, 'a) act \<Rightarrow> bool" where
  "keeps I m \<longleftrightarrow> (\<forall>s. I s \<longrightarrow> wp m (\<lambda>r s'. r \<noteq> Blocked \<and> I s') s)"

named_theorems keeps_intros

lemma keepsD: "keeps I m \<Longrightarrow> I s \<Longrightarrow> wp m (\<lambda>r s'. r \<noteq> Blocked \<and> I s') s"
  by (simp add: keeps_def)

lemma keeps_ret [keeps_intros]: "keeps I (ret v)"
  and keeps_raise [keeps_intros]: "keeps I (raise e)"
  and keeps_panic [keeps_intros]: "keeps I panic"
  and keeps_gets [keeps_intros]: "keeps I (gets f)"
  by (simp_all add: keeps_def wp_rules)

lemma keeps_modify [keeps_intros]: "(\<And>s. I s \<Longrightarrow> I (f s)) \<Longrightarrow> keeps I (modify f)"
  by (simp add: keeps_def wp_rules)

lemma keeps_deref [keeps_intros]: "keeps I (deref p)"
  by (cases p) (simp_all add: keeps_intros)

lemma keeps_of_sum [keeps_intros]: "keeps I (of_sum r)"
  by (cases r) (simp_all add: keeps_intros)

lemma keeps_of_ext [keeps_intros]: "keeps I (of_ext r)"
  by (cases r) (simp_all add: keeps_intros)

lemma keeps_of_ext_opt [keeps_intros]: "keeps I (of_ext_opt r)"
  by (cases r) (simp_all add: keeps_intros)

lemma keeps_andThen [keeps_intros]:
  assumes "keeps I m" and "\<And>v. keeps I (f v)"
  shows "keeps I (andThen m f)"
  unfolding keeps_def wp_andThen
proof (intro allI impI)
  fix s
  assume "I s"
  show "wp m (\<lambda>r s'. case r of Ok v \<Rightarrow> wp (f v) (\<lambda>r s'. r \<noteq> Blocked \<and> I s') s'
          | Err e \<Rightarrow> Err e \<noteq> Blocked \<and> I s' | Panic \<Rightarrow> Panic \<noteq> Blocked \<and> I s'
          | Blocked \<Rightarrow> Blocked \<noteq> Blocked \<and> I s') s"
    by (rule wp_mono [OF keepsD [OF assms(1) \<open>I s\<close>]])
      (auto intro: keepsD [OF assms(2)] split: outcome.splits)
qed

lemma keeps_attempt [keeps_intros]: "keeps I m \<Longrightarrow> keeps I (attempt m)"
  unfolding keeps_def wp_attempt by (auto elim!: wp_mono split: outcome.splits)

lemma keeps_mapErr [keeps_intros]: "keeps I m \<Longrightarrow> keeps I (mapErr m h)"
  unfolding keeps_def wp_mapErr by (auto elim!: wp_mono split: outcome.splits)

lemma keeps_ext_call [keeps_intros]:
  "(\<And>s r w. I s \<Longrightarrow> I (s\<lparr>world := w, trace := ev r # trace s\<rparr>)) \<Longrightarrow> keeps I (ext_call f ev)"
  by (simp add: keeps_def wp_rules)

lemma keeps_zoom [keeps_intros]:
  assumes "\<And>s. I s \<Longrightarrow> J (part s)" and "\<And>s t. I s \<Longrightarrow> J t \<Longrightarrow> I (put_part t s)" and "keeps J m"
  shows "keeps I (zoom part put_part m)"
  unfolding keeps_def wp_zoom
  using assms(1,2) by (blast intro: wp_mono [OF keepsD [OF assms(3)]])

lemma keeps_if [keeps_intros]:
  "(b \<Longrightarrow> keeps I m) \<Longrightarrow> (\<not> b \<Longrightarrow> keeps I n) \<Longrightarrow> keeps I (if b then m else n)"
  by simp

lemma keeps_case_option [keeps_intros]:
  "keeps I m \<Longrightarrow> (\<And>x. keeps I (n x)) \<Longrightarrow> keeps I (case p of None \<Rightarrow> m | Some x \<Rightarrow> n x)"
  by (cases p) simp_all

lemma keeps_case_sum [keeps_intros]:
  "(\<And>e. keeps I (m e)) \<Longrightarrow> (\<And>x. keeps I (n x)) \<Longrightarrow>
     keeps I (case p of Inl e \<Rightarrow> m e | Inr x \<Rightarrow> n x)"
  by (cases p) simp_all

lemma keeps_case_prod [keeps_intros]:
  "(\<And>x y. keeps I (m x y)) \<Longrightarrow> keeps I (case p of (x, y) \<Rightarrow> m x y)"
  by (cases p) simp

lemma keeps_case_ctl [keeps_intros]:
  "keeps I m \<Longrightarrow> (\<And>x. keeps I (n x)) \<Longrightarrow>
     keeps I (case p of Continue \<Rightarrow> m | Return x \<Rightarrow> n x)"
  by (cases p) simp_all

lemma keeps_for_each [keeps_intros]:
  "(\<And>x. keeps I (body x)) \<Longrightarrow> keeps I after \<Longrightarrow> keeps I (for_each xs body after)"
  by (induction xs) (auto intro!: keeps_intros)

lemma keeps_fold_act [keeps_intros]:
  "(\<And>x acc. keeps I (body x acc)) \<Longrightarrow> keeps I (fold_act body xs acc)"
  by (induction xs arbitrary: acc) (auto intro!: keeps_intros)

subsection \<open>The errors an action can return\<close>

definition errs :: "go_error set \<Rightarrow> ('s, 'a) act \<Rightarrow> bool" where
  "errs E m \<longleftrightarrow> (\<forall>s e s'. m s = (Err e, s') \<longrightarrow> e \<in> E)"

named_theorems errs_intros

lemma errsD: "errs E m \<Longrightarrow> m s = (Err e, s') \<Longrightarrow> e \<in> E"
  by (auto simp: errs_def)

lemma errsI: "(\<And>s e s'. m s = (Err e, s') \<Longrightarrow> e \<in> E) \<Longrightarrow> errs E m"
  by (auto simp: errs_def)

lemma errs_ret [errs_intros]: "errs E (ret v)"
  and errs_panic [errs_intros]: "errs E panic"
  and errs_gets [errs_intros]: "errs E (gets f)"
  and errs_modify [errs_intros]: "errs E (modify g)"
  and errs_attempt [errs_intros]: "errs E (attempt m)"
  and errs_raise [errs_intros]: "e \<in> E \<Longrightarrow> errs E (raise e)"
  by (auto simp: errs_def ret_def panic_def gets_def modify_def raise_def attempt_def
      split: prod.splits outcome.splits)

lemma errs_deref [errs_intros]: "errs E (deref p)"
  by (cases p) (simp_all add: errs_intros)

lemma errs_ext_call [errs_intros]: "errs E (ext_call f ev)"
  by (auto simp: errs_def ext_call_def split: prod.splits)

lemma errs_of_ext [errs_intros]: "range Ext \<subseteq> E \<Longrightarrow> errs E (of_ext r)"
  by (cases r) (auto intro!: errs_intros)

lemma errs_of_ext_opt [errs_intros]: "range Ext \<subseteq> E \<Longrightarrow> errs E (of_ext_opt r)"
  by (cases r) (auto intro!: errs_intros)

lemma errs_andThen [errs_intros]:
  "errs E m \<Longrightarrow> (\<And>v. errs E (f v)) \<Longrightarrow> errs E (andThen m f)"
  by (rule errsI) (auto simp: andThen_def dest: errsD split: prod.splits outcome.splits)

text \<open>\<open>x, err := m; if err != nil { ... }\<close>: the error that is looked at is one of the call's.\<close>

lemma errs_try:
  assumes "errs E' m" and "\<And>e. e \<in> E' \<Longrightarrow> errs E (h e)" and "\<And>v. errs E (k v)"
  shows "errs E (andThen (attempt m) (\<lambda>r. case r of Inl e \<Rightarrow> h e | Inr v \<Rightarrow> k v))"
  by (rule errsI)
    (auto simp: andThen_def attempt_def dest: errsD [OF assms(1)] errsD [OF assms(2)]
      errsD [OF assms(3)] split: prod.splits outcome.splits)

lemma errs_mapErr:
  "errs E' m \<Longrightarrow> (\<And>e. e \<in> E' \<Longrightarrow> h e \<in> E) \<Longrightarrow> errs E (mapErr m h)"
  by (rule errsI) (auto simp: mapErr_def dest: errsD split: prod.splits outcome.splits)

lemma errs_if [errs_intros]:
  "(b \<Longrightarrow> errs E m) \<Longrightarrow> (\<not> b \<Longrightarrow> errs E n) \<Longrightarrow> errs E (if b then m else n)"
  by simp

lemma errs_case_option [errs_intros]:
  "errs E m \<Longrightarrow> (\<And>x. errs E (n x)) \<Longrightarrow> errs E (case p of None \<Rightarrow> m | Some x \<Rightarrow> n x)"
  by (cases p) simp_all

lemma errs_case_sum [errs_intros]:
  "(\<And>e. errs E (m e)) \<Longrightarrow> (\<And>x. errs E (n x)) \<Longrightarrow> errs E (case p of Inl e \<Rightarrow> m e | Inr x \<Rightarrow> n x)"
  by (cases p) simp_all

lemma errs_case_prod [errs_intros]:
  "(\<And>x y. errs E (m x y)) \<Longrightarrow> errs E (case p of (x, y) \<Rightarrow> m x y)"
  by (cases p) simp

lemma errs_case_ctl [errs_intros]:
  "errs E m \<Longrightarrow> (\<And>x. errs E (n x)) \<Longrightarrow> errs E (case p of Continue \<Rightarrow> m | Return x \<Rightarrow> n x)"
  by (cases p) simp_all

lemma errs_for_each [errs_intros]:
  "(\<And>x. errs E (body x)) \<Longrightarrow> errs E after \<Longrightarrow> errs E (for_each xs body after)"
  by (induction xs) (auto intro!: errs_intros)

lemma errs_fold_act [errs_intros]:
  "(\<And>x acc. errs E (body x acc)) \<Longrightarrow> errs E (fold_act body xs acc)"
  by (induction xs arbitrary: acc) (auto intro!: errs_intros)

lemma errs_zoom [errs_intros]: "errs E m \<Longrightarrow> errs E (zoom part put_part m)"
  by (rule errsI) (auto simp: zoom_def dest: errsD split: prod.splits)

lemma errs_with_mutex [errs_intros]: "errs E m \<Longrightarrow> errs E (with_mutex held set_held m)"
  by (rule errsI)
    (auto simp: with_mutex_def dest: errsD split: prod.splits outcome.splits if_splits)

subsection \<open>The values an action can return\<close>

definition vals :: "'a set \<Rightarrow> ('s, 'a) act \<Rightarrow> bool" where
  "vals V m \<longleftrightarrow> (\<forall>s v s'. m s = (Ok v, s') \<longrightarrow> v \<in> V)"

named_theorems vals_intros

lemma valsD: "vals V m \<Longrightarrow> m s = (Ok v, s') \<Longrightarrow> v \<in> V"
  by (auto simp: vals_def)

lemma valsI: "(\<And>s v s'. m s = (Ok v, s') \<Longrightarrow> v \<in> V) \<Longrightarrow> vals V m"
  by (auto simp: vals_def)

lemma vals_UNIV: "vals UNIV m"
  by (simp add: vals_def)

lemma vals_ret [vals_intros]: "v \<in> V \<Longrightarrow> vals V (ret v)"
  and vals_raise [vals_intros]: "vals V (raise e)"
  and vals_panic [vals_intros]: "vals V panic"
  by (auto simp: vals_def ret_def raise_def panic_def)

lemma vals_deref [vals_intros]: "(\<And>x. p = Some x \<Longrightarrow> x \<in> V) \<Longrightarrow> vals V (deref p)"
  by (cases p) (auto intro: vals_intros)

lemma vals_bind:
  assumes "vals W m" and "\<And>w. w \<in> W \<Longrightarrow> vals V (f w)"
  shows "vals V (andThen m f)"
  by (rule valsI)
    (auto simp: andThen_def dest: valsD [OF assms(1)] valsD [OF assms(2)]
      split: prod.splits outcome.splits)

lemma vals_andThen [vals_intros]: "(\<And>v. vals V (f v)) \<Longrightarrow> vals V (andThen m f)"
  by (rule vals_bind [OF vals_UNIV])

lemma vals_mapErr [vals_intros]: "vals V m \<Longrightarrow> vals V (mapErr m h)"
  by (rule valsI) (auto simp: mapErr_def dest: valsD split: prod.splits outcome.splits)

lemma vals_if [vals_intros]:
  "(b \<Longrightarrow> vals V m) \<Longrightarrow> (\<not> b \<Longrightarrow> vals V n) \<Longrightarrow> vals V (if b then m else n)"
  by simp

lemma vals_case_option [vals_intros]:
  "vals V m \<Longrightarrow> (\<And>x. vals V (n x)) \<Longrightarrow> vals V (case p of None \<Rightarrow> m | Some x \<Rightarrow> n x)"
  by (cases p) simp_all

lemma vals_case_sum [vals_intros]:
  "(\<And>e. vals V (m e)) \<Longrightarrow> (\<And>x. vals V (n x)) \<Longrightarrow> vals V (case p of Inl e \<Rightarrow> m e | Inr x \<Rightarrow> n x)"
  by (cases p) simp_all

lemma vals_case_prod [vals_intros]:
  "(\<And>x y. vals V (m x y)) \<Longrightarrow> vals V (case p of (x, y) \<Rightarrow> m x y)"
  by (cases p) simp

lemma vals_for_each:
  assumes "\<And>x. x \<in> set xs \<Longrightarrow> vals (insert Continue (Return ` V)) (body x)" and "vals V after"
  shows "vals V (for_each xs body after)"
  using assms(1)
proof (induction xs)
  case Nil
  then show ?case using assms(2) by simp
next
  case (Cons x xs)
  have body: "vals (insert Continue (Return ` V)) (body x)" by (rule Cons.prems) simp
  have "vals V (for_each xs body after)" using Cons by simp
  then show ?case
    unfolding for_each.simps by (intro vals_bind [OF body]) (auto intro: vals_ret)
qed

lemma vals_with_mutex [vals_intros]: "vals V m \<Longrightarrow> vals V (with_mutex held set_held m)"
  by (rule valsI)
    (auto simp: with_mutex_def dest: valsD split: prod.splits outcome.splits if_splits)

subsection \<open>The calls an action makes\<close>

text \<open>
  \<open>emits L P m\<close>: the log \<open>L\<close> of the state (newest entry first) only grows, and every entry the
  action adds satisfies \<open>P\<close>, however the action ends.
\<close>

definition emits :: "('s \<Rightarrow> 'e list) \<Rightarrow> ('e \<Rightarrow> bool) \<Rightarrow> ('s, 'a) act \<Rightarrow> bool" where
  "emits L P m \<longleftrightarrow>
     (\<forall>s r s'. m s = (r, s') \<longrightarrow> (\<exists>new. L s' = new @ L s \<and> (\<forall>e \<in> set new. P e)))"

named_theorems emits_intros

lemma emitsD: "emits L P m \<Longrightarrow> m s = (r, s') \<Longrightarrow> \<exists>new. L s' = new @ L s \<and> (\<forall>e \<in> set new. P e)"
  by (auto simp: emits_def)

lemma emitsI:
  "(\<And>s r s'. m s = (r, s') \<Longrightarrow> \<exists>new. L s' = new @ L s \<and> (\<forall>e \<in> set new. P e)) \<Longrightarrow> emits L P m"
  by (auto simp: emits_def)

lemma emits_wp: "emits L P m \<Longrightarrow> wp m (\<lambda>r s'. \<exists>new. L s' = new @ L s \<and> (\<forall>e \<in> set new. P e)) s"
  by (rule wpI) (rule emitsD)

lemma emits_mono: "emits L P m \<Longrightarrow> (\<And>e. P e \<Longrightarrow> P' e) \<Longrightarrow> emits L P' m"
  unfolding emits_def by blast

lemma emits_ret [emits_intros]: "emits L P (ret v)"
  and emits_raise [emits_intros]: "emits L P (raise e)"
  and emits_panic [emits_intros]: "emits L P panic"
  and emits_gets [emits_intros]: "emits L P (gets f)"
  by (simp_all add: emits_def ret_def raise_def panic_def gets_def)

lemma emits_modify [emits_intros]: "(\<And>s. L (g s) = L s) \<Longrightarrow> emits L P (modify g)"
  by (simp add: emits_def modify_def)

lemma emits_deref [emits_intros]: "emits L P (deref p)"
  by (cases p) (simp_all add: emits_intros)

lemma emits_of_sum [emits_intros]: "emits L P (of_sum r)"
  by (cases r) (simp_all add: emits_intros)

lemma emits_of_ext [emits_intros]: "emits L P (of_ext r)"
  by (cases r) (simp_all add: emits_intros)

lemma emits_of_ext_opt [emits_intros]: "emits L P (of_ext_opt r)"
  by (cases r) (simp_all add: emits_intros)

lemma emits_ext_call [emits_intros]: "(\<And>r. P (ev r)) \<Longrightarrow> emits trace P (ext_call f ev)"
  by (rule emitsI) (auto simp: ext_call_def split: prod.splits)

lemma append_trans:
  "\<exists>new. b = new @ a \<and> (\<forall>e \<in> set new. P e) \<Longrightarrow> \<exists>new. c = new @ b \<and> (\<forall>e \<in> set new. P e) \<Longrightarrow>
     \<exists>new. c = new @ a \<and> (\<forall>e \<in> set new. P e)"
  by (metis append.assoc set_append Un_iff)

lemma emits_bind:
  assumes "emits L P m" and "vals V m" and "\<And>v. v \<in> V \<Longrightarrow> emits L P (f v)"
  shows "emits L P (andThen m f)"
proof (rule emitsI)
  fix s r s'
  assume run: "andThen m f s = (r, s')"
  obtain q t where m: "m s = (q, t)" by fastforce
  note one = emitsD [OF assms(1) m]
  show "\<exists>new. L s' = new @ L s \<and> (\<forall>e \<in> set new. P e)"
  proof (cases q)
    case (Ok v)
    with m run have "f v t = (r, s')" by (simp add: andThen_def)
    moreover have "v \<in> V" using m Ok valsD [OF assms(2)] by simp
    ultimately show ?thesis
      by (rule append_trans [OF one emitsD [OF assms(3), rotated]])
  qed (use one m run in \<open>simp_all add: andThen_def\<close>)
qed

lemma emits_andThen [emits_intros]:
  "emits L P m \<Longrightarrow> (\<And>v. emits L P (f v)) \<Longrightarrow> emits L P (andThen m f)"
  by (rule emits_bind [OF _ vals_UNIV])

lemma emits_attempt [emits_intros]: "emits L P m \<Longrightarrow> emits L P (attempt m)"
  by (rule emitsI) (auto simp: attempt_def dest: emitsD split: prod.splits outcome.splits)

lemma emits_mapErr [emits_intros]: "emits L P m \<Longrightarrow> emits L P (mapErr m h)"
  by (rule emitsI) (auto simp: mapErr_def dest: emitsD split: prod.splits outcome.splits)

lemma emits_if [emits_intros]:
  "(b \<Longrightarrow> emits L P m) \<Longrightarrow> (\<not> b \<Longrightarrow> emits L P n) \<Longrightarrow> emits L P (if b then m else n)"
  by simp

lemma emits_case_option [emits_intros]:
  "emits L P m \<Longrightarrow> (\<And>x. emits L P (n x)) \<Longrightarrow> emits L P (case p of None \<Rightarrow> m | Some x \<Rightarrow> n x)"
  by (cases p) simp_all

lemma emits_case_sum [emits_intros]:
  "(\<And>e. emits L P (m e)) \<Longrightarrow> (\<And>x. emits L P (n x)) \<Longrightarrow>
     emits L P (case p of Inl e \<Rightarrow> m e | Inr x \<Rightarrow> n x)"
  by (cases p) simp_all

lemma emits_case_prod [emits_intros]:
  "(\<And>x y. emits L P (m x y)) \<Longrightarrow> emits L P (case p of (x, y) \<Rightarrow> m x y)"
  by (cases p) simp

lemma emits_case_ctl [emits_intros]:
  "emits L P m \<Longrightarrow> (\<And>x. emits L P (n x)) \<Longrightarrow>
     emits L P (case p of Continue \<Rightarrow> m | Return x \<Rightarrow> n x)"
  by (cases p) simp_all

lemma emits_for_each [emits_intros]:
  "(\<And>x. emits L P (body x)) \<Longrightarrow> emits L P after \<Longrightarrow> emits L P (for_each xs body after)"
  by (induction xs) (auto intro!: emits_intros)

lemma emits_fold_act [emits_intros]:
  "(\<And>x acc. emits L P (body x acc)) \<Longrightarrow> emits L P (fold_act body xs acc)"
  by (induction xs arbitrary: acc) (auto intro!: emits_intros)

lemma emits_with_mutex [emits_intros]:
  assumes "\<And>b s. L (set_held b s) = L s" and "emits L P m"
  shows "emits L P (with_mutex held set_held m)"
proof (rule emitsI)
  fix s r s'
  assume run: "with_mutex held set_held m s = (r, s')"
  obtain q t where m: "m (set_held True s) = (q, t)" by fastforce
  from emitsD [OF assms(2) m] show "\<exists>new. L s' = new @ L s \<and> (\<forall>e \<in> set new. P e)"
    using run m by (auto simp: with_mutex_def assms(1) split: outcome.splits if_splits)
qed

lemma emits_zoom:
  assumes "emits L P m" and "\<And>s. K s = L (part s)" and "\<And>s t. K (put_part t s) = L t"
  shows "emits K P (zoom part put_part m)"
proof (rule emitsI)
  fix s r s'
  assume "zoom part put_part m s = (r, s')"
  then obtain t where "m (part s) = (r, t)" and "s' = put_part t s"
    by (auto simp: zoom_def split: prod.splits)
  then show "\<exists>new. K s' = new @ K s \<and> (\<forall>e \<in> set new. P e)"
    using emitsD [OF assms(1)] assms(2,3) by simp
qed

lemma emits_zoom_other [emits_intros]:
  "(\<And>s t. K (put_part t s) = K s) \<Longrightarrow> emits K P (zoom part put_part m)"
  by (rule emitsI) (auto simp: zoom_def split: prod.splits)

subsection \<open>Go maps\<close>

text \<open>
  A Go map is an association list with distinct keys. \<open>range\<close> visits its entries in an order the
  language leaves open, so a model that iterates takes the order as a parameter: a function that
  permutes the entries.
\<close>

definition map_order :: "('x list \<Rightarrow> 'x list) \<Rightarrow> bool" where
  "map_order ord \<longleftrightarrow> (\<forall>xs. mset (ord xs) = mset xs)"

lemma map_order_set [simp]: "map_order ord \<Longrightarrow> set (ord xs) = set xs"
  unfolding map_order_def by (metis set_mset_mset)

lemma map_order_distinct [simp]: "map_order ord \<Longrightarrow> distinct (ord xs) = distinct xs"
  unfolding map_order_def by (metis mset_eq_imp_distinct_iff)

lemma map_order_length [simp]: "map_order ord \<Longrightarrow> length (ord xs) = length xs"
  unfolding map_order_def by (metis size_mset)

lemma map_order_Nil [simp]: "map_order ord \<Longrightarrow> ord [] = []"
  unfolding map_order_def by (metis mset_zero_iff mset.simps(1))

lemma map_order_id [simp, intro]: "map_order (\<lambda>xs. xs)"
  by (simp add: map_order_def)

lemma map_order_rev [simp, intro]: "map_order rev"
  by (simp add: map_order_def)

end
