(* ===== verification/Go_Lib.thy ===== *)
theory Go_Lib
  imports Go_Prelude "HOL-Library.Sublist"
begin

text \<open>
  What the driver uses of Go's standard library, on strings of bytes: \<open>strconv.Itoa\<close>,
  \<open>strconv.ParseUint\<close>, \<open>strconv.ParseInt\<close> (base 10, 64 bits), \<open>strings.Split\<close> (one-byte
  separator), \<open>strings.Join\<close>, \<open>strings.TrimSpace\<close> (ASCII white space), \<open>strings.TrimSuffix\<close>,
  \<open>filepath.Dir\<close> and the decimal formatting of a \<open>float64\<close> with one fraction digit. The lemmas
  are the round trips and the injectivity that the components rest on.
\<close>

subsection \<open>Decimal numbers\<close>

definition digit_char :: "nat \<Rightarrow> char" where
  "digit_char d = char_of (48 + d)"

definition is_digit :: "char \<Rightarrow> bool" where
  "is_digit c \<longleftrightarrow> 48 \<le> (of_char c :: nat) \<and> (of_char c :: nat) \<le> 57"

definition digit_val :: "char \<Rightarrow> nat" where
  "digit_val c = of_char c - 48"

fun nat_digits :: "nat \<Rightarrow> string" where
  "nat_digits n =
     (if n < 10 then [digit_char n] else nat_digits (n div 10) @ [digit_char (n mod 10)])"

declare nat_digits.simps [simp del]

text \<open>\<open>strconv.Itoa\<close>\<close>

definition itoa :: "int \<Rightarrow> string" where
  "itoa i = (if i < 0 then CHR ''-'' # nat_digits (nat (- i)) else nat_digits (nat i))"

datatype num_error = ErrSyntax | ErrRange

text \<open>The digit loop of \<open>strconv.ParseUint\<close>: it stops at the first byte that is no digit, or as
  soon as the value passes the limit.\<close>

fun parse_digits :: "nat \<Rightarrow> nat \<Rightarrow> string \<Rightarrow> num_error + nat" where
  "parse_digits limit acc [] = Inr acc"
| "parse_digits limit acc (c # cs) =
     (if \<not> is_digit c then Inl ErrSyntax
      else let n = acc * 10 + digit_val c in
           if limit < n then Inl ErrRange else parse_digits limit n cs)"

definition parse_uint64 :: "string \<Rightarrow> num_error + nat" where
  "parse_uint64 s = (if s = [] then Inl ErrSyntax else parse_digits (2 ^ 64 - 1) 0 s)"

text \<open>\<open>strconv.ParseInt\<close>: an optional sign, then \<open>ParseUint\<close>; its range error is turned into the
  signed one by the comparison with the cutoff.\<close>

definition parse_int64 :: "string \<Rightarrow> num_error + int" where
  "parse_int64 s =
     (let neg = (case s of c # _ \<Rightarrow> c = CHR ''-'' | [] \<Rightarrow> False);
          body = (case s of c # cs \<Rightarrow> if c = CHR ''-'' \<or> c = CHR ''+'' then cs else s | [] \<Rightarrow> [])
      in case parse_uint64 body of
           Inl ErrSyntax \<Rightarrow> Inl ErrSyntax
         | Inl ErrRange \<Rightarrow> Inl ErrRange
         | Inr un \<Rightarrow>
             if \<not> neg \<and> 2 ^ 63 \<le> un then Inl ErrRange
             else if neg \<and> 2 ^ 63 < un then Inl ErrRange
             else Inr (if neg then - int un else int un))"

lemma of_char_digit_char [simp]: "d < 10 \<Longrightarrow> (of_char (digit_char d) :: nat) = 48 + d"
  by (simp add: digit_char_def)

lemma is_digit_digit_char [simp]: "d < 10 \<Longrightarrow> is_digit (digit_char d)"
  by (simp add: is_digit_def)

lemma digit_val_digit_char [simp]: "d < 10 \<Longrightarrow> digit_val (digit_char d) = d"
  by (simp add: digit_val_def)

lemma nat_digits_nonempty [simp]: "nat_digits n \<noteq> []"
  by (subst nat_digits.simps) simp

lemma nat_digits_all: "c \<in> set (nat_digits n) \<Longrightarrow> is_digit c"
proof (induction n rule: nat_digits.induct)
  case (1 n)
  then show ?case
    by (subst (asm) (2) nat_digits.simps) (auto split: if_splits)
qed

lemma parse_digits_append:
  "parse_digits limit acc (xs @ ys) =
     (case parse_digits limit acc xs of Inl e \<Rightarrow> Inl e | Inr n \<Rightarrow> parse_digits limit n ys)"
  by (induction limit acc xs rule: parse_digits.induct) (auto simp: Let_def)

lemma parse_nat_digits: "n \<le> limit \<Longrightarrow> parse_digits limit 0 (nat_digits n) = Inr n"
proof (induction n rule: nat_digits.induct)
  case (1 n)
  show ?case
  proof (cases "n < 10")
    case True
    with "1.prems" show ?thesis by (simp add: nat_digits.simps [of n])
  next
    case False
    then have "parse_digits limit 0 (nat_digits (n div 10)) = Inr (n div 10)"
      using "1.prems" by (intro "1.IH") auto
    moreover have "n div 10 * 10 + n mod 10 = n" by simp
    ultimately show ?thesis
      using False "1.prems" by (simp add: nat_digits.simps [of n] parse_digits_append)
  qed
qed

lemma parse_uint64_itoa:
  "0 \<le> i \<Longrightarrow> i < 2 ^ 64 \<Longrightarrow> parse_uint64 (itoa i) = Inr (nat i)"
  by (simp add: parse_uint64_def itoa_def parse_nat_digits)

lemma minus_no_digit [simp]: "\<not> is_digit (CHR ''-'')" "\<not> is_digit (CHR ''+'')"
  by (simp_all add: is_digit_def)

lemma nat_digits_inject [simp]: "nat_digits m = nat_digits n \<longleftrightarrow> m = n"
proof
  assume eq: "nat_digits m = nat_digits n"
  have "parse_digits (max m n) 0 (nat_digits m) = Inr m"
    by (rule parse_nat_digits) (rule max.cobounded1)
  moreover have "parse_digits (max m n) 0 (nat_digits n) = Inr n"
    by (rule parse_nat_digits) (rule max.cobounded2)
  ultimately have "(Inr m :: num_error + nat) = Inr n"
    unfolding eq by (rule trans [OF sym])
  then show "m = n" by (rule Inr_inject)
qed (rule arg_cong)

lemma nat_digits_no_minus [simp]: "nat_digits m \<noteq> CHR ''-'' # s" "CHR ''-'' # s \<noteq> nat_digits m"
  using nat_digits_all [of "CHR ''-''" m] by (metis list.set_intros(1) minus_no_digit(1))+

lemma itoa_inject [simp]: "itoa i = itoa j \<longleftrightarrow> i = j"
  by (auto simp: itoa_def)

lemma itoa_nonempty [simp]: "itoa i \<noteq> []"
  by (simp add: itoa_def)

lemma itoa_chars: "c \<in> set (itoa i) \<Longrightarrow> is_digit c \<or> c = CHR ''-''"
  by (auto simp: itoa_def dest: nat_digits_all split: if_splits)

lemma parse_int64_itoa:
  assumes "- (2 ^ 63) \<le> i" and "i < 2 ^ 63"
  shows "parse_int64 (itoa i) = Inr i"
proof (cases "i < 0")
  case True
  then have "parse_uint64 (nat_digits (nat (- i))) = Inr (nat (- i))"
    using assms by (simp add: parse_uint64_def parse_nat_digits)
  moreover have "\<not> 2 ^ 63 < nat (- i)" using assms by simp
  ultimately show ?thesis
    using True by (simp add: parse_int64_def itoa_def)
next
  case False
  obtain c cs where c: "nat_digits (nat i) = c # cs" by (cases "nat_digits (nat i)") auto
  then have "is_digit c" using nat_digits_all [of c "nat i"] by simp
  then have sign: "c \<noteq> CHR ''-''" "c \<noteq> CHR ''+''" by auto
  have "parse_uint64 (nat_digits (nat i)) = Inr (nat i)"
    using False assms by (simp add: parse_uint64_def parse_nat_digits)
  moreover have "\<not> 2 ^ 63 \<le> nat i" using False assms by simp
  ultimately show ?thesis
    using False sign c by (simp add: parse_int64_def itoa_def)
qed

subsection \<open>Splitting, joining and trimming\<close>

text \<open>\<open>strings.Split(s, sep)\<close> for a separator of one byte.\<close>

fun split_on :: "char \<Rightarrow> string \<Rightarrow> string list" where
  "split_on c [] = [[]]"
| "split_on c (x # xs) =
     (if x = c then [] # split_on c xs
      else case split_on c xs of y # ys \<Rightarrow> (x # y) # ys | [] \<Rightarrow> [[x]])"

fun join :: "string \<Rightarrow> string list \<Rightarrow> string" where
  "join sep [] = []"
| "join sep [x] = x"
| "join sep (x # y # ys) = x @ sep @ join sep (y # ys)"

lemma split_on_nonempty [simp]: "split_on c s \<noteq> []"
  by (induction c s rule: split_on.induct) (auto split: list.splits)

lemma join_split_on: "join [c] (split_on c s) = s"
proof (induction c s rule: split_on.induct)
  case (1 c)
  show ?case by simp
next
  case (2 c x xs)
  obtain y ys where split: "split_on c xs = y # ys"
    by (cases "split_on c xs") auto
  then show ?case
    using 2 by (cases ys) auto
qed

lemma split_on_append: "c \<notin> set x \<Longrightarrow> split_on c (x @ c # s) = x # split_on c s"
  by (induction x) auto

lemma split_on_atom: "c \<notin> set x \<Longrightarrow> split_on c x = [x]"
  by (induction x) auto

lemma split_on_join:
  "(\<And>x. x \<in> set xs \<Longrightarrow> c \<notin> set x) \<Longrightarrow> xs \<noteq> [] \<Longrightarrow> split_on c (join [c] xs) = xs"
  by (induction "[c]" xs rule: join.induct) (auto simp: split_on_append split_on_atom)

definition is_space :: "char \<Rightarrow> bool" where
  "is_space c \<longleftrightarrow> (of_char c :: nat) \<in> {9, 10, 11, 12, 13, 32}"

definition trim_space :: "string \<Rightarrow> string" where
  "trim_space s = rev (dropWhile is_space (rev (dropWhile is_space s)))"

definition trim_suffix :: "string \<Rightarrow> string \<Rightarrow> string" where
  "trim_suffix s suf = (if suffix suf s then take (length s - length suf) s else s)"

lemma trim_space_blank: "trim_space s = [] \<longleftrightarrow> (\<forall>c \<in> set s. is_space c)"
proof
  assume "trim_space s = []"
  then have "\<forall>c \<in> set (dropWhile is_space s). is_space c"
    by (simp add: trim_space_def dropWhile_eq_Nil_conv)
  then have "dropWhile is_space s = []"
    by (metis hd_dropWhile hd_in_set)
  then show "\<forall>c \<in> set s. is_space c" by (simp add: dropWhile_eq_Nil_conv)
next
  assume "\<forall>c \<in> set s. is_space c"
  then have "dropWhile is_space s = []"
    by (induction s) auto
  then show "trim_space s = []"
    by (simp only: trim_space_def) simp
qed

lemma trim_suffix_append [simp]: "trim_suffix (x @ suf) suf = x"
  by (simp add: trim_suffix_def suffix_def)

subsection \<open>Paths\<close>

text \<open>
  \<open>filepath.Clean\<close> on a Unix path: empty and \<open>.\<close> elements go, \<open>..\<close> removes the element before it,
  and is dropped at the root. The stack holds the output elements, last first.
\<close>

fun clean_elems :: "bool \<Rightarrow> string list \<Rightarrow> string list \<Rightarrow> string list" where
  "clean_elems rooted stack [] = rev stack"
| "clean_elems rooted stack (e # es) =
     (if e = [] \<or> e = ''.'' then clean_elems rooted stack es
      else if e = ''..'' then
        (case stack of
           prev # rest \<Rightarrow> if prev = ''..'' then clean_elems rooted (e # stack) es
                        else clean_elems rooted rest es
         | [] \<Rightarrow> if rooted then clean_elems rooted [] es else clean_elems rooted [e] es)
      else clean_elems rooted (e # stack) es)"

definition path_clean :: "string \<Rightarrow> string" where
  "path_clean p =
     (let rooted = (case p of c # _ \<Rightarrow> c = CHR ''/'' | [] \<Rightarrow> False);
          out = (if rooted then ''/'' else []) @
                join ''/'' (clean_elems rooted [] (split_on (CHR ''/'') p))
      in if out = [] then ''.'' else out)"

text \<open>\<open>filepath.Dir\<close>: the path up to and including its last slash, cleaned.\<close>

definition path_dir :: "string \<Rightarrow> string" where
  "path_dir p = path_clean (rev (dropWhile (\<lambda>c. c \<noteq> CHR ''/'') (rev p)))"

lemma path_dir_example: "path_dir ''/var/lib/kubelet/plugins/dev'' = ''/var/lib/kubelet/plugins''"
  by (simp add: path_dir_def path_clean_def)

subsection \<open>Formatting a float with one fraction digit\<close>

text \<open>Division rounded to the nearest integer, ties to the even one.\<close>

definition div_half_even :: "nat \<Rightarrow> nat \<Rightarrow> nat" where
  "div_half_even n d =
     (let q = n div d; r = n mod d in
      if d < 2 * r \<or> (d = 2 * r \<and> odd q) then Suc q else q)"

fun bit_len :: "nat \<Rightarrow> nat" where
  "bit_len n = (if n = 0 then 0 else Suc (bit_len (n div 2)))"

declare bit_len.simps [simp del]

text \<open>The conversion of an integer to \<open>float64\<close>: 53 significant bits, nearest, ties to even. The
  result is again an integer.\<close>

definition float64_of_nat :: "nat \<Rightarrow> nat" where
  "float64_of_nat n =
     (let e = bit_len n - 53 in div_half_even n (2 ^ e) * 2 ^ e)"

text \<open>\<open>strconv.FormatFloat(n / d, 'f', 1, 64)\<close> for the exact quotient of a non-negative \<open>n\<close> by a
  power of two: tenths, rounded to the nearest, ties to even.\<close>

definition format_tenths :: "nat \<Rightarrow> nat \<Rightarrow> string" where
  "format_tenths n d =
     (let t = div_half_even (10 * n) d in nat_digits (t div 10) @ ''.'' @ nat_digits (t mod 10))"

lemma div_half_even_1 [simp]: "div_half_even n (Suc 0) = n"
  by (simp add: div_half_even_def)

lemma div_half_even_mult [simp]: "0 < d \<Longrightarrow> div_half_even (k * d) d = k"
  by (simp add: div_half_even_def)

lemma bit_len_bound: "n < 2 ^ k \<Longrightarrow> bit_len n \<le> k"
proof (induction n arbitrary: k rule: bit_len.induct)
  case (1 n)
  show ?case
  proof (cases "n = 0")
    case True
    then show ?thesis by (simp add: bit_len.simps [of 0])
  next
    case False
    with "1.prems" obtain j where k: "k = Suc j" by (cases k) auto
    with "1.prems" have "n div 2 < 2 ^ j" by simp
    with False k show ?thesis by (simp add: bit_len.simps [of n] "1.IH")
  qed
qed

lemma float64_of_nat_small: "n < 2 ^ 53 \<Longrightarrow> float64_of_nat n = n"
  using bit_len_bound [of n 53] by (simp add: float64_of_nat_def)

end
