(* ===== verification/Storage_Size.thy ===== *)
theory Storage_Size
  imports Go_Lib "HOL-Library.Signed_Division"
begin

text \<open>
  \<open>pkg/types/disk.go\<close>: the size of a volume, a signed 64-bit number of bytes, and its conversions
  from and to mebibytes. The cloud counts in mebibytes, the CSI requests in bytes; the lemmas say
  when the conversions are exact and what truncation and wrap-around do otherwise.
\<close>

type_synonym int64 = "64 word"

text \<open>Go's signed division truncates towards zero.\<close>

definition go_div :: "int64 \<Rightarrow> int64 \<Rightarrow> int64" where
  "go_div x y = word_of_int (sint x sdiv sint y)"

datatype storage_size = StorageSize (sz_b: int64)

definition NewStorageSizeFromMb :: "int64 \<Rightarrow> storage_size" where
  "NewStorageSizeFromMb mb = StorageSize (mb * 1024 * 1024)"

definition NewStorageSize :: "int64 \<Rightarrow> storage_size" where
  "NewStorageSize b = StorageSize b"

definition Mb :: "storage_size \<Rightarrow> int64" where
  "Mb s = go_div (go_div (sz_b s) 1024) 1024"

definition Bytes :: "storage_size \<Rightarrow> int64" where
  "Bytes s = sz_b s"

text \<open>Sizes are compared by their bytes, as signed numbers.\<close>

instantiation storage_size :: linorder
begin

definition less_eq_storage_size :: "storage_size \<Rightarrow> storage_size \<Rightarrow> bool" where
  "s \<le> t \<longleftrightarrow> Bytes s <=s Bytes t"

definition less_storage_size :: "storage_size \<Rightarrow> storage_size \<Rightarrow> bool" where
  "s < t \<longleftrightarrow> Bytes s <s Bytes t"

instance
proof
  fix x y z :: storage_size
  show "x < y \<longleftrightarrow> x \<le> y \<and> \<not> y \<le> x"
    by (auto simp: less_eq_storage_size_def less_storage_size_def word_sle_eq word_sless_alt)
  show "x \<le> x"
    by (simp add: less_eq_storage_size_def word_sle_eq)
  show "x \<le> y \<Longrightarrow> y \<le> z \<Longrightarrow> x \<le> z"
    by (simp add: less_eq_storage_size_def word_sle_eq)
  show "x \<le> y \<Longrightarrow> y \<le> x \<Longrightarrow> x = y"
    by (cases x; cases y)
      (auto simp: less_eq_storage_size_def word_sle_eq Bytes_def dest: signed_word_eqI)
  show "x \<le> y \<or> y \<le> x"
    by (auto simp: less_eq_storage_size_def word_sle_eq)
qed

end

abbreviation MiB :: int where "MiB \<equiv> 1048576"

lemma sint_bounds64: "- (2 ^ 63) \<le> sint (x :: int64)" "sint (x :: int64) < 2 ^ 63"
  using sint_ge [of x] sint_lt [of x] by simp_all

lemma sint_of_int64: "- (2 ^ 63) \<le> i \<Longrightarrow> i < 2 ^ 63 \<Longrightarrow> sint (word_of_int i :: int64) = i"
  by (simp add: sint_sbintrunc' signed_take_bit_int_eq_self)

lemma sint_go_div:
  assumes "0 \<le> sint x" and "1 \<le> sint y"
  shows "sint (go_div x y) = sint x div sint y"
proof -
  have "sint x sdiv sint y = sint x div sint y"
    using assms by (cases "sint x = 0") (simp_all add: signed_divide_int_def)
  moreover have "0 \<le> sint x div sint y"
    using assms by (simp add: pos_imp_zdiv_nonneg_iff)
  moreover have "sint x div sint y \<le> sint x"
    using assms int_div_less_self [of "sint x" "sint y"]
    by (cases "sint y = 1 \<or> sint x = 0") auto
  ultimately show ?thesis
    using sint_bounds64 [of x] by (simp add: go_div_def sint_of_int64)
qed

lemma sint_mult64:
  fixes x y :: int64
  assumes "- (2 ^ 63) \<le> sint x * sint y" and "sint x * sint y < 2 ^ 63"
  shows "sint (x * y) = sint x * sint y"
proof -
  have "x * y = word_of_int (sint x * sint y)" by simp
  then show ?thesis using sint_of_int64 [OF assms] by (simp only:)
qed

text \<open>\<open>Mb\<close> rounds a non-negative size down to whole mebibytes.\<close>

lemma sint_Mb:
  assumes "0 \<le> sint (Bytes s)"
  shows "sint (Mb s) = sint (Bytes s) div MiB"
proof -
  have K: "sint (1024 :: int64) = 1024" by simp
  have first: "sint (go_div (sz_b s) 1024) = sint (sz_b s) div 1024"
    using assms by (simp add: sint_go_div Bytes_def)
  moreover have "0 \<le> sint (sz_b s) div 1024"
    using assms by (simp add: Bytes_def)
  ultimately have "sint (Mb s) = sint (sz_b s) div 1024 div 1024"
    by (simp add: Mb_def sint_go_div)
  then show ?thesis
    by (simp add: Bytes_def zdiv_zmult2_eq [symmetric])
qed

text \<open>A number of mebibytes below \<open>2 ^ 43\<close> is converted to bytes without wrap-around.\<close>

lemma sint_NewStorageSizeFromMb:
  assumes "0 \<le> sint mb" and "sint mb < 2 ^ 43"
  shows "sint (Bytes (NewStorageSizeFromMb mb)) = sint mb * MiB"
proof -
  have first: "sint (mb * 1024) = sint mb * 1024"
    using assms by (subst sint_mult64) auto
  have "sint (mb * 1024 * 1024) = sint (mb * 1024) * 1024"
    using assms first by (subst sint_mult64) auto
  with first show ?thesis by (simp add: Bytes_def NewStorageSizeFromMb_def)
qed

lemma NewStorageSize_Bytes [simp]: "Bytes (NewStorageSize b) = b" "NewStorageSize (Bytes s) = s"
  by (simp_all add: Bytes_def NewStorageSize_def)

end
