(* ===== verification/Govcd.thy ===== *)
theory Govcd
  imports Storage_Size
begin

text \<open>
  The interface of the vCloud Director library (\<open>govcd\<close>, not part of the repository) as far as
  \<open>pkg/vcd-client/client.go\<close> calls it. Its functions are the fields of a record that the
  definitions of the client take as a parameter; each maps the state of the cloud and of the
  library's cached objects (\<open>'w\<close>) to an answer and the next state. Objects the code only passes back
  are opaque references; of the others the fields the code reads are kept. A pointer the code
  dereferences without a check is an option.
\<close>

subsection \<open>Objects\<close>

datatype vdc_ref = VdcRef nat
datatype org_ref = OrgRef nat
datatype vapp_ref = VAppRef nat
datatype task_ref = TaskRef nat
datatype profile_ref = ProfileRef nat

text \<open>\<open>types.Reference\<close>, \<open>types.ResourceReference\<close>\<close>

record reference =
  ref_name :: string
  ref_type :: string
  ref_href :: string

text \<open>\<open>govcd.Disk\<close>\<close>

record disk =
  disk_name :: string
  disk_type :: string
  disk_href :: string
  disk_size_mb :: int64

text \<open>\<open>types.DiskSettings\<close>: one disk of a VM, at a unit of a bus. The disk is nil when it is not an
  independent disk.\<close>

record disk_setting =
  UnitNumber :: int
  BusNumber :: int
  setting_disk :: "reference option"

record disk_section = DiskSettings :: "disk_setting option list"
record vm_spec_section = DiskSection :: "disk_section option"

record vm =
  vm_name :: string
  vm_href :: string
  VmSpecSection :: "vm_spec_section option"

record disk_create_params =
  create_name :: string
  create_size_mb :: int64
  create_profile :: profile_ref
  create_bus_type :: string
  create_bus_sub_type :: string

record attach_params =
  param_disk :: reference
  param_bus :: int
  param_unit :: int

subsection \<open>Operations\<close>

record 'w govcd =
  MimeDisk :: string
  MimeVApp :: string
  Authenticate :: "string \<Rightarrow> string \<Rightarrow> string \<Rightarrow> 'w \<Rightarrow> ext_error option \<times> 'w"
  GetAuthResponse :: "string \<Rightarrow> string \<Rightarrow> string \<Rightarrow> 'w \<Rightarrow> (ext_error + int) \<times> 'w"
  GetOrgByNameOrId :: "string \<Rightarrow> 'w \<Rightarrow> (ext_error + org_ref) \<times> 'w"
  GetVDCByName :: "org_ref \<Rightarrow> string \<Rightarrow> bool \<Rightarrow> 'w \<Rightarrow> (ext_error + vdc_ref) \<times> 'w"
  Vdc_Refresh :: "vdc_ref \<Rightarrow> 'w \<Rightarrow> ext_error option \<times> 'w"
  ResourceEntities :: "vdc_ref \<Rightarrow> 'w \<Rightarrow> reference list list"
  GetDiskByHref :: "vdc_ref \<Rightarrow> string \<Rightarrow> 'w \<Rightarrow> (ext_error + disk) \<times> 'w"
  GetDisksByName :: "vdc_ref \<Rightarrow> string \<Rightarrow> bool \<Rightarrow> 'w \<Rightarrow> (ext_error + disk list) \<times> 'w"
  FindStorageProfileReference :: "vdc_ref \<Rightarrow> string \<Rightarrow> 'w \<Rightarrow> (ext_error + profile_ref) \<times> 'w"
  Vdc_CreateDisk :: "vdc_ref \<Rightarrow> disk_create_params \<Rightarrow> 'w \<Rightarrow> (task_ref \<times> ext_error option) \<times> 'w"
  WaitTaskCompletion :: "task_ref \<Rightarrow> 'w \<Rightarrow> ext_error option \<times> 'w"
  AttachedVM :: "disk \<Rightarrow> 'w \<Rightarrow> (ext_error + reference option) \<times> 'w"
  Disk_Delete :: "disk \<Rightarrow> 'w \<Rightarrow> (ext_error + task_ref) \<times> 'w"
  Disk_Update :: "disk \<Rightarrow> string \<Rightarrow> int64 \<Rightarrow> 'w \<Rightarrow> (ext_error + task_ref) \<times> 'w"
  GetVAppByName :: "vdc_ref \<Rightarrow> string \<Rightarrow> bool \<Rightarrow> 'w \<Rightarrow> (ext_error + vapp_ref) \<times> 'w"
  VApp_GetVMByName :: "vapp_ref \<Rightarrow> string \<Rightarrow> bool \<Rightarrow> 'w \<Rightarrow> (ext_error + vm) \<times> 'w"
  VM_AttachDisk :: "vm \<Rightarrow> attach_params \<Rightarrow> 'w \<Rightarrow> (ext_error + task_ref) \<times> 'w"
  VM_DetachDisk :: "vm \<Rightarrow> attach_params \<Rightarrow> 'w \<Rightarrow> (ext_error + task_ref) \<times> 'w"

subsection \<open>Calls\<close>

text \<open>
  The trace of the client: the calls it makes and their answers. The calls that only read the
  inventory are not told apart.
\<close>

datatype cloud_event =
  EvSession
| EvRefresh vdc_ref "ext_error option"
| EvLookup
| EvDisksByName vdc_ref string "ext_error + disk list"
| EvCreateDisk vdc_ref disk_create_params "ext_error option"
| EvAttachedVM disk "ext_error + reference option"
| EvDelete disk "ext_error + task_ref"
| EvUpdate disk string int64 "ext_error + task_ref"
| EvAttach vm attach_params "ext_error + task_ref"
| EvDetach vm attach_params "ext_error + task_ref"
| EvWait task_ref "ext_error option"

text \<open>The calls that change the cloud.\<close>

fun mutating :: "cloud_event \<Rightarrow> bool" where
  "mutating (EvCreateDisk _ _ _) = True"
| "mutating (EvDelete _ _) = True"
| "mutating (EvUpdate _ _ _ _) = True"
| "mutating (EvAttach _ _ _) = True"
| "mutating (EvDetach _ _ _) = True"
| "mutating _ = False"

text \<open>
  A call whose error is returned at once. The state of the caller extends the environment, so these
  are usable from any component that talks to the cloud.
\<close>

definition api_call ::
  "('w \<Rightarrow> (ext_error + 'r) \<times> 'w) \<Rightarrow> (ext_error + 'r \<Rightarrow> cloud_event) \<Rightarrow>
     (('w, cloud_event, 'z) env_scheme, 'r) act" where
  "api_call f ev = andThen (ext_call f ev) of_ext"

definition api_call0 ::
  "('w \<Rightarrow> ext_error option \<times> 'w) \<Rightarrow> (ext_error option \<Rightarrow> cloud_event) \<Rightarrow>
     (('w, cloud_event, 'z) env_scheme, unit) act" where
  "api_call0 f ev = andThen (ext_call f ev) of_ext_opt"

lemma wp_api_call [wp_rules]:
  "wp (api_call f ev) Q s =
     (\<forall>r w. f (world s) = (r, w) \<longrightarrow>
        (case r of Inl e \<Rightarrow> Q (Err (Ext e)) (s\<lparr>world := w, trace := ev r # trace s\<rparr>)
         | Inr v \<Rightarrow> Q (Ok v) (s\<lparr>world := w, trace := ev r # trace s\<rparr>)))"
  by (simp add: api_call_def wp_rules)

lemma wp_api_call0 [wp_rules]:
  "wp (api_call0 f ev) Q s =
     (\<forall>r w. f (world s) = (r, w) \<longrightarrow>
        (case r of Some e \<Rightarrow> Q (Err (Ext e)) (s\<lparr>world := w, trace := ev r # trace s\<rparr>)
         | None \<Rightarrow> Q (Ok ()) (s\<lparr>world := w, trace := ev r # trace s\<rparr>)))"
  by (auto simp: api_call0_def wp_rules split: option.splits)

text \<open>\<open>task.WaitTaskCompletion()\<close>\<close>

definition wait_task ::
  "'w govcd \<Rightarrow> task_ref \<Rightarrow> (('w, cloud_event, 'z) env_scheme, unit) act" where
  "wait_task api task = api_call0 (WaitTaskCompletion api task) (EvWait task)"

lemma keeps_api_call [keeps_intros]:
  "(\<And>s r w. I s \<Longrightarrow> I (s\<lparr>world := w, trace := ev r # trace s\<rparr>)) \<Longrightarrow> keeps I (api_call f ev)"
  unfolding api_call_def by (intro keeps_intros)

lemma keeps_api_call0 [keeps_intros]:
  "(\<And>s r w. I s \<Longrightarrow> I (s\<lparr>world := w, trace := ev r # trace s\<rparr>)) \<Longrightarrow> keeps I (api_call0 f ev)"
  unfolding api_call0_def by (intro keeps_intros)

lemma keeps_wait_task [keeps_intros]:
  "(\<And>s r w. I s \<Longrightarrow> I (s\<lparr>world := w, trace := EvWait task r # trace s\<rparr>)) \<Longrightarrow>
     keeps I (wait_task api task)"
  unfolding wait_task_def by (intro keeps_intros)

lemma wp_wait_task [wp_rules]:
  "wp (wait_task api task) Q s =
     (\<forall>r w. WaitTaskCompletion api task (world s) = (r, w) \<longrightarrow>
        (case r of Some e \<Rightarrow> Q (Err (Ext e)) (s\<lparr>world := w, trace := EvWait task r # trace s\<rparr>)
         | None \<Rightarrow> Q (Ok ()) (s\<lparr>world := w, trace := EvWait task r # trace s\<rparr>)))"
  by (simp add: wait_task_def wp_rules)

end
