(* ===== verification/Config.thy ===== *)
theory Config
  imports Go_Prelude
begin

text \<open>
  \<open>conf/conf.go\<close>: the configuration read from the environment, with the defaults of its struct
  tags, and the level of the logger. Reading the environment (\<open>envconfig.Process\<close>) and the names of the
  levels (\<open>logrus.ParseLevel\<close>) are library calls and parameters here.
\<close>

record controller_config =
  HttpListen :: string
  UnixSocket :: string
  ControllerName :: string
  NodeName :: string
  NodeVdc :: string
  Vdcs :: "string list"
  DefaultSubBusType :: string
  DefaultBusType :: string
  DefaultBusNum :: int
  LogLevel :: string
  User :: string
  Password :: string
  Org :: string
  Href :: string
  Insecure :: bool

text \<open>The configuration with the given required fields, the others at their defaults.\<close>

definition default_config :: "string list \<Rightarrow> string \<Rightarrow> string \<Rightarrow> string \<Rightarrow> string \<Rightarrow> controller_config" where
  "default_config vdcs user password org href =
     \<lparr>HttpListen = ''0.0.0.0:8155'', UnixSocket = ''unix:///var/run/vcd-csi.sock'',
      ControllerName = ''vcd.csi.fght.net'', NodeName = ''local'', NodeVdc = ''vcd-1'',
      Vdcs = vdcs, DefaultSubBusType = ''VirtualSCSI'', DefaultBusType = ''6'',
      DefaultBusNum = 3, LogLevel = [], User = user, Password = password, Org = org, Href = href,
      Insecure = False\<rparr>"

definition prefixVar :: string where "prefixVar = ''VCSI''"

text \<open>\<open>&ControllerConfig{}\<close>\<close>

definition zero_config :: controller_config where
  "zero_config =
     \<lparr>HttpListen = [], UnixSocket = [], ControllerName = [], NodeName = [], NodeVdc = [], Vdcs = [],
      DefaultSubBusType = [], DefaultBusType = [], DefaultBusNum = 0, LogLevel = [], User = [],
      Password = [], Org = [], Href = [], Insecure = False\<rparr>"

definition new_controller_config ::
  "(string \<Rightarrow> controller_config \<Rightarrow> ext_error option \<times> controller_config) \<Rightarrow> go_error + controller_config" where
  "new_controller_config process =
     (case process prefixVar zero_config of
        (Some err, _) \<Rightarrow> Inl (Ext err)
      | (None, c) \<Rightarrow> Inr c)"

text \<open>The level \<open>GetLogger\<close> sets.\<close>

definition logger_level :: "(string \<Rightarrow> ext_error + 'level) \<Rightarrow> 'level \<Rightarrow> controller_config \<Rightarrow> 'level" where
  "logger_level parse info cc =
     (case parse (LogLevel cc) of Inl err \<Rightarrow> info | Inr level \<Rightarrow> level)"

end
