(* ===== verification/Vcd_Client.thy ===== *)
theory Vcd_Client
  imports Govcd Config "HOL-Library.AList"
begin

text \<open>
  \<open>pkg/vcd-client/client.go\<close>: the client of the cloud. Its state is the environment (the cloud and
  the trace of the calls) extended by the map of VDC objects and the mutex. The public methods
  hold the mutex from their first statement to their return and refresh the session first; the
  others are helpers that run under the mutex.
\<close>

subsection \<open>State\<close>

record 'w vcd_client = "('w, cloud_event) env" +
  VdcClients :: "(string \<times> vdc_ref) list"
  mt :: bool

text \<open>The orders in which \<open>range\<close> visits the two maps the client iterates over.\<close>

record go_runtime =
  range_vdcs :: "(string \<times> vdc_ref) list \<Rightarrow> (string \<times> vdc_ref) list"
  range_units :: "(int \<times> bool) list \<Rightarrow> (int \<times> bool) list"

definition runtime_ok :: "go_runtime \<Rightarrow> bool" where
  "runtime_ok rt \<longleftrightarrow> map_order (range_vdcs rt) \<and> map_order (range_units rt)"

type_synonym ('w, 'a) client_act = "('w vcd_client, 'a) act"

text \<open>\<open>v.mt.Lock(); defer v.mt.Unlock()\<close>\<close>

definition locked :: "('w, 'a) client_act \<Rightarrow> ('w, 'a) client_act" where
  "locked = with_mutex mt (\<lambda>b v. v\<lparr>mt := b\<rparr>)"

record volume_with_cap =
  Name :: string
  Cap :: storage_size
  VdcName :: string

record disk_attach_params =
  attach_name :: string
  attach_path :: string
  attach_size :: storage_size

subsection \<open>Session\<close>

definition build_clients :: "'w govcd \<Rightarrow> controller_config \<Rightarrow> ('w, unit) client_act" where
  "build_clients api c =
     andThen (api_call0 (Authenticate api (User c) (Password c) (Org c)) (\<lambda>_. EvSession)) (\<lambda>_.
     andThen (api_call (GetOrgByNameOrId api (Org c)) (\<lambda>_. EvSession)) (\<lambda>org.
     for_each (Vdcs c)
       (\<lambda>vdcName.
          andThen (api_call (GetVDCByName api org vdcName True) (\<lambda>_. EvSession)) (\<lambda>vdc.
          andThen (modify (\<lambda>v. v\<lparr>VdcClients := AList.update vdcName vdc (VdcClients v)\<rparr>)) (\<lambda>_.
          ret Continue)))
       (ret ())))"

definition refresh_auth :: "'w govcd \<Rightarrow> controller_config \<Rightarrow> ('w, unit) client_act" where
  "refresh_auth api c =
     andThen (api_call (GetAuthResponse api (User c) (Password c) (Org c)) (\<lambda>_. EvSession))
       (\<lambda>status. if status = 401 then build_clients api c else ret ())"

text \<open>
  \<open>NewVcdClient\<close>: the argument \<open>href_err\<close> is the error of \<open>url.ParseRequestURI\<close> on the configured
  address; then a client with no VDC and a free mutex, whose VDC objects are built.
\<close>

definition new_vcd_client ::
  "'w govcd \<Rightarrow> controller_config \<Rightarrow> ext_error option \<Rightarrow> 'w \<Rightarrow> unit outcome \<times> 'w vcd_client" where
  "new_vcd_client api c href_err w =
     (let vc = \<lparr>world = w, trace = [], VdcClients = [], mt = False\<rparr> in
      case href_err of
        Some err \<Rightarrow> (Err (Errorf ''unable to pass url: %s'' [FErr (Ext err)]), vc)
      | None \<Rightarrow> build_clients api c vc)"

definition vdc_refresh :: "'w govcd \<Rightarrow> vdc_ref \<Rightarrow> ('w, unit) client_act" where
  "vdc_refresh api client = api_call0 (Vdc_Refresh api client) (EvRefresh client)"

subsection \<open>Look-ups\<close>

definition get_disk_by_name :: "'w govcd \<Rightarrow> vdc_ref \<Rightarrow> string \<Rightarrow> ('w, disk) client_act" where
  "get_disk_by_name api client diskName =
     andThen (api_call (GetDisksByName api client diskName True) (EvDisksByName client diskName))
       (\<lambda>disks.
          if length disks \<noteq> 1 then
            raise (Errorf ''disk count mismatch, we want excatly one, seems like collision, count: %d''
                     [FInt (int (length disks))])
          else ret (hd disks))"

definition disks_exists :: "'w govcd \<Rightarrow> vdc_ref \<Rightarrow> string \<Rightarrow> ('w, bool) client_act" where
  "disks_exists api client diskName =
     andThen (attempt
       (api_call (GetDisksByName api client diskName False) (EvDisksByName client diskName)))
       (\<lambda>d. case d of
              Inl err \<Rightarrow> if is_entity_not_found err then ret False else raise err
            | Inr _ \<Rightarrow> ret True)"

definition attached_vm :: "'w govcd \<Rightarrow> disk \<Rightarrow> ('w, reference option) client_act" where
  "attached_vm api d = api_call (AttachedVM api d) (EvAttachedVM d)"

text \<open>The two nested loops over the entities of a VDC are one loop over their concatenation.\<close>

definition get_vm_by_name :: "'w govcd \<Rightarrow> vdc_ref \<Rightarrow> string \<Rightarrow> ('w, vm) client_act" where
  "get_vm_by_name api client vmName =
     andThen (gets (\<lambda>v. concat (ResourceEntities api client (world v)))) (\<lambda>ents.
     for_each ents
       (\<lambda>obj.
          if ref_type obj = MimeVApp api then
            andThen (api_call (GetVAppByName api client (ref_name obj) False) (\<lambda>_. EvLookup)) (\<lambda>vApp.
            andThen (attempt (api_call (VApp_GetVMByName api vApp vmName False) (\<lambda>_. EvLookup)))
              (\<lambda>r. case r of
                     Inl err \<Rightarrow> if is_entity_not_found err then ret Continue else raise err
                   | Inr vappVm \<Rightarrow> ret (Return vappVm)))
          else ret Continue)
       (raise ErrVmNotFound))"

text \<open>\<open>vm.VM.VmSpecSection.DiskSection.DiskSettings\<close>\<close>

definition vm_disk_settings :: "vm \<Rightarrow> ('w, disk_setting option list) client_act" where
  "vm_disk_settings v =
     andThen (deref (VmSpecSection v)) (\<lambda>spec.
     andThen (deref (DiskSection spec)) (\<lambda>section.
     ret (DiskSettings section)))"

subsection \<open>Units of a bus\<close>

definition build_disk_units :: "(int \<times> bool) list" where
  "build_disk_units = map (\<lambda>i. (i, False)) [8..15]"

fun mark_units_in_use :: "int \<Rightarrow> disk_setting option list \<Rightarrow> (int \<times> bool) list \<Rightarrow> (int \<times> bool) list" where
  "mark_units_in_use busNum [] units = units"
| "mark_units_in_use busNum (None # ds) units = mark_units_in_use busNum ds units"
| "mark_units_in_use busNum (Some d # ds) units =
     mark_units_in_use busNum ds
       (if BusNumber d = busNum then AList.update (UnitNumber d) True units else units)"

text \<open>The first entry not in use, in the order of the iteration. As in the code, the error comes with
  the unit 0.\<close>

fun pick_free :: "(int \<times> bool) list \<Rightarrow> int \<times> go_error option" where
  "pick_free [] = (0, Some ErrNoFreeUnits)"
| "pick_free ((k, v) # units) = (if \<not> v then (k, None) else pick_free units)"

definition free_unit :: "go_runtime \<Rightarrow> disk_setting option list \<Rightarrow> int \<Rightarrow> int \<times> go_error option" where
  "free_unit rt settings busNum =
     pick_free (range_units rt (mark_units_in_use busNum settings build_disk_units))"

definition get_free_unit_num :: "go_runtime \<Rightarrow> vm \<Rightarrow> int \<Rightarrow> ('w, int \<times> go_error option) client_act" where
  "get_free_unit_num rt v busNum =
     andThen (vm_disk_settings v) (\<lambda>settings. ret (free_unit rt settings busNum))"

subsection \<open>detachDisk\<close>

definition detach_from_spec ::
  "'w govcd \<Rightarrow> vm \<Rightarrow> disk \<Rightarrow> disk_setting option \<Rightarrow> ('w, unit ctl) client_act" where
  "detach_from_spec api vappVm d diskSpec =
     andThen (deref diskSpec) (\<lambda>spec.
     case setting_disk spec of
       None \<Rightarrow> ret Continue
     | Some r \<Rightarrow>
         if ref_href r = disk_href d then
           (let params = \<lparr>param_disk = r, param_bus = BusNumber spec, param_unit = UnitNumber spec\<rparr> in
            andThen (api_call (VM_DetachDisk api vappVm params) (EvDetach vappVm params)) (\<lambda>task.
            andThen (wait_task api task) (\<lambda>_.
            ret (Return ()))))
         else ret Continue)"

definition detach_disk_in :: "'w govcd \<Rightarrow> vdc_ref \<Rightarrow> string \<Rightarrow> ('w, unit) client_act" where
  "detach_disk_in api client volumeName =
     andThen (get_disk_by_name api client volumeName) (\<lambda>d.
     andThen (attached_vm api d) (\<lambda>attachedVM.
     case attachedVM of
       None \<Rightarrow> ret ()
     | Some avm \<Rightarrow>
         andThen (get_vm_by_name api client (ref_name avm)) (\<lambda>vappVm.
         andThen (vm_disk_settings vappVm) (\<lambda>settings.
         for_each settings (detach_from_spec api vappVm d) (ret ())))))"

subsection \<open>Public methods\<close>

definition list_entity ::
  "'w govcd \<Rightarrow> string \<Rightarrow> vdc_ref \<Rightarrow> reference \<Rightarrow> volume_with_cap list \<Rightarrow> ('w, volume_with_cap list) client_act" where
  "list_entity api vdcName vcd obj resp =
     (if ref_type obj = MimeDisk api then
        andThen (api_call (GetDiskByHref api vcd (ref_href obj)) (\<lambda>_. EvLookup)) (\<lambda>d.
        ret (resp @ [\<lparr>Name = ref_name obj, Cap = NewStorageSizeFromMb (disk_size_mb d),
                      VdcName = vdcName\<rparr>]))
      else ret resp)"

definition list_vdc ::
  "'w govcd \<Rightarrow> string \<times> vdc_ref \<Rightarrow> volume_with_cap list \<Rightarrow> ('w, volume_with_cap list) client_act" where
  "list_vdc api entry resp =
     (case entry of (vdcName, vcd) \<Rightarrow>
        andThen (vdc_refresh api vcd) (\<lambda>_.
        andThen (gets (\<lambda>v. concat (ResourceEntities api vcd (world v)))) (\<lambda>ents.
        fold_act (list_entity api vdcName vcd) ents resp)))"

definition list_volumes ::
  "go_runtime \<Rightarrow> 'w govcd \<Rightarrow> controller_config \<Rightarrow> ('w, volume_with_cap list) client_act" where
  "list_volumes rt api c =
     locked (
       andThen (refresh_auth api c) (\<lambda>_.
       andThen (gets VdcClients) (\<lambda>clients.
       fold_act (list_vdc api) (range_vdcs rt clients) [])))"

text \<open>In \<open>CreateDisk\<close> the error of the creation call is only logged: the task returned with it is
  waited for whatever it is.\<close>

definition create_disk ::
  "'w govcd \<Rightarrow> controller_config \<Rightarrow> string \<Rightarrow> string \<Rightarrow> string \<Rightarrow> storage_size \<Rightarrow> ('w, unit) client_act" where
  "create_disk api c vdcName diskName profile capacity =
     locked (
       andThen (refresh_auth api c) (\<lambda>_.
       andThen (gets VdcClients) (\<lambda>clients.
       case map_of clients vdcName of
         None \<Rightarrow> raise (ErrNew (''vdcName not found: '' @ vdcName))
       | Some client \<Rightarrow>
           andThen (vdc_refresh api client) (\<lambda>_.
           andThen (disks_exists api client diskName) (\<lambda>ex.
           if ex then ret ()
           else
             andThen (api_call (FindStorageProfileReference api client profile) (\<lambda>_. EvLookup)) (\<lambda>prof.
             let params = \<lparr>create_name = diskName, create_size_mb = Mb capacity,
                           create_profile = prof, create_bus_type = DefaultBusType c,
                           create_bus_sub_type = DefaultSubBusType c\<rparr> in
             andThen (ext_call (Vdc_CreateDisk api client params)
                        (\<lambda>te. EvCreateDisk client params (snd te))) (\<lambda>te.
             wait_task api (fst te))))))))"

definition delete_in_vdc ::
  "'w govcd \<Rightarrow> string \<Rightarrow> string \<times> vdc_ref \<Rightarrow> ('w, unit ctl) client_act" where
  "delete_in_vdc api diskName entry =
     (case entry of (vdcName, client) \<Rightarrow>
        andThen (vdc_refresh api client) (\<lambda>_.
        andThen (attempt (get_disk_by_name api client diskName)) (\<lambda>r.
        case r of
          Inl err \<Rightarrow> ret Continue
        | Inr d \<Rightarrow>
            andThen (attached_vm api d) (\<lambda>vmAttach.
            andThen (if vmAttach \<noteq> None then detach_disk_in api client diskName else ret ()) (\<lambda>_.
            andThen (api_call (Disk_Delete api d) (EvDelete d)) (\<lambda>task.
            andThen (wait_task api task) (\<lambda>_.
            ret (Return ()))))))))"

definition delete_disk ::
  "go_runtime \<Rightarrow> 'w govcd \<Rightarrow> controller_config \<Rightarrow> string \<Rightarrow> ('w, unit) client_act" where
  "delete_disk rt api c diskName =
     locked (
       andThen (refresh_auth api c) (\<lambda>_.
       andThen (gets VdcClients) (\<lambda>clients.
       for_each (range_vdcs rt clients) (delete_in_vdc api diskName) (ret ()))))"

text \<open>\<open>DetachDisk\<close> takes the name of the VM and does not look at it.\<close>

definition detach_in_vdc ::
  "'w govcd \<Rightarrow> string \<Rightarrow> string \<times> vdc_ref \<Rightarrow> ('w, unit ctl) client_act" where
  "detach_in_vdc api volumeName entry =
     (case entry of (vdcName, client) \<Rightarrow>
        andThen (vdc_refresh api client) (\<lambda>_.
        andThen (attempt (detach_disk_in api client volumeName)) (\<lambda>r.
        case r of
          Inl err \<Rightarrow> if is_entity_not_found err then ret Continue else raise err
        | Inr _ \<Rightarrow> ret (Return ()))))"

definition detach_disk ::
  "go_runtime \<Rightarrow> 'w govcd \<Rightarrow> controller_config \<Rightarrow> string \<Rightarrow> string \<Rightarrow> ('w, unit) client_act" where
  "detach_disk rt api c vmName volumeName =
     locked (
       andThen (refresh_auth api c) (\<lambda>_.
       andThen (gets VdcClients) (\<lambda>clients.
       for_each (range_vdcs rt clients) (detach_in_vdc api volumeName) (ret ()))))"

text \<open>The search of an attached disk in the settings of its VM: the unit it is plugged in.\<close>

definition find_attachment ::
  "disk \<Rightarrow> disk_setting option \<Rightarrow> ('w, int option ctl) client_act" where
  "find_attachment d diskSpec =
     andThen (deref diskSpec) (\<lambda>spec.
     case setting_disk spec of
       None \<Rightarrow> ret Continue
     | Some r \<Rightarrow> if ref_href r = disk_href d then ret (Return (Some (UnitNumber spec))) else ret Continue)"

text \<open>The end of \<open>AttachDisk\<close>: pick a unit, attach, wait. The error of the search for a unit is
  overwritten by the one of the next call.\<close>

definition do_attach ::
  "go_runtime \<Rightarrow> 'w govcd \<Rightarrow> controller_config \<Rightarrow> vm \<Rightarrow> string \<Rightarrow> disk \<Rightarrow> ('w, disk_attach_params) client_act" where
  "do_attach rt api c vappVm diskName d =
     andThen (get_free_unit_num rt vappVm (DefaultBusNum c)) (\<lambda>(unitNum, _).
     let params = \<lparr>param_disk = \<lparr>ref_name = disk_name d, ref_type = disk_type d, ref_href = disk_href d\<rparr>,
                   param_bus = DefaultBusNum c, param_unit = unitNum\<rparr> in
     andThen (api_call (VM_AttachDisk api vappVm params) (EvAttach vappVm params)) (\<lambda>task.
     andThen (wait_task api task) (\<lambda>_.
     ret \<lparr>attach_name = diskName, attach_path = itoa unitNum,
          attach_size = NewStorageSizeFromMb (disk_size_mb d)\<rparr>)))"

text \<open>A disk that is attached already: the unit if it is attached to the right VM and found there;
  otherwise it is detached first.\<close>

definition check_attached ::
  "'w govcd \<Rightarrow> vdc_ref \<Rightarrow> vm \<Rightarrow> string \<Rightarrow> disk \<Rightarrow> reference \<Rightarrow> ('w, int option) client_act" where
  "check_attached api client vappVm diskName d attachedVM =
     andThen
       (if vm_href vappVm = ref_href attachedVM then
          andThen (vm_disk_settings vappVm) (\<lambda>settings.
          for_each settings (find_attachment d) (ret None))
        else ret None)
       (\<lambda>found. case found of
          Some unit \<Rightarrow> ret (Some unit)
        | None \<Rightarrow>
            andThen (mapErr (detach_disk_in api client diskName) (\<lambda>_. ErrWrongDiskAttach)) (\<lambda>_.
            ret None))"

definition attach_in_vdc ::
  "go_runtime \<Rightarrow> 'w govcd \<Rightarrow> controller_config \<Rightarrow> string \<Rightarrow> string \<Rightarrow> string \<times> vdc_ref \<Rightarrow>
     ('w, disk_attach_params ctl) client_act" where
  "attach_in_vdc rt api c vmName diskName entry =
     (case entry of (vdcName, client) \<Rightarrow>
        andThen (vdc_refresh api client) (\<lambda>_.
        andThen (attempt (get_vm_by_name api client vmName)) (\<lambda>r.
        case r of
          Inl err \<Rightarrow> if err = ErrVmNotFound then ret Continue else raise err
        | Inr vappVm \<Rightarrow>
            andThen (mapErr (get_disk_by_name api client diskName)
                       (\<lambda>err. if is_entity_not_found err then ErrDiskNotExists else err)) (\<lambda>d.
            andThen (attached_vm api d) (\<lambda>attachedVM.
            andThen (case attachedVM of
                       None \<Rightarrow> ret None
                     | Some avm \<Rightarrow> check_attached api client vappVm diskName d avm) (\<lambda>found.
            case found of
              Some unit \<Rightarrow>
                ret (Return \<lparr>attach_name = diskName, attach_path = itoa unit,
                             attach_size = NewStorageSizeFromMb (disk_size_mb d)\<rparr>)
            | None \<Rightarrow>
                andThen (do_attach rt api c vappVm diskName d) (\<lambda>p. ret (Return p))))))))"

definition attach_disk ::
  "go_runtime \<Rightarrow> 'w govcd \<Rightarrow> controller_config \<Rightarrow> string \<Rightarrow> string \<Rightarrow> ('w, disk_attach_params) client_act" where
  "attach_disk rt api c vmName diskName =
     locked (
       andThen (refresh_auth api c) (\<lambda>_.
       andThen (gets VdcClients) (\<lambda>clients.
       for_each (range_vdcs rt clients) (attach_in_vdc rt api c vmName diskName)
         (raise ErrVmNotFound))))"

definition resize_disk ::
  "'w govcd \<Rightarrow> controller_config \<Rightarrow> string \<Rightarrow> string \<Rightarrow> storage_size \<Rightarrow> ('w, unit) client_act" where
  "resize_disk api c vdcName diskName newDiskSize =
     locked (
       andThen (refresh_auth api c) (\<lambda>_.
       andThen (gets VdcClients) (\<lambda>clients.
       case map_of clients vdcName of
         None \<Rightarrow> raise (ErrNew ''vdc not exists'')
       | Some client \<Rightarrow>
           andThen (get_disk_by_name api client diskName) (\<lambda>d.
           andThen (attached_vm api d) (\<lambda>v.
           if v \<noteq> None then raise ErrDiskAttachedToVm
           else
             andThen (api_call (Disk_Update api d (disk_name d) (Mb newDiskSize))
                        (EvUpdate d (disk_name d) (Mb newDiskSize))) (\<lambda>task.
             wait_task api task))))))"

end
