(* ===== verification/Cloud_Model.thy ===== *)
theory Cloud_Model
  imports Govcd "HOL-Library.AList"
begin

text \<open>
  A reference cloud: the inventory that the documentation of vCloud Director describes (VDCs that
  hold independent disks and vApps with VMs; a disk is attached to at most one VM, at a unit of one
  of its buses), and an implementation of the library's interface on it. It plays two roles: it
  is the concrete cloud on which the hypotheses about the cloud are shown satisfiable, and the state
  space in which the client's functional behaviour is stated.

  A request that changes the inventory returns a task; the change happens when the task is waited
  for.
\<close>

subsection \<open>The inventory\<close>

datatype change =
  ChCreate vdc_ref disk
| ChDelete string
| ChResize string int64
| ChAttach string string int int
| ChDetach string

record cloud =
  c_vdcs :: "(string \<times> vdc_ref) list"
  c_disks :: "(vdc_ref \<times> disk) list"
  c_vapps :: "(vdc_ref \<times> string \<times> (string \<times> string) list) list"
  c_plugs :: "(string \<times> string \<times> int \<times> int) list"
  c_profiles :: "string list"
  c_tasks :: "task_ref \<rightharpoonup> change"
  c_next :: nat

definition disks_named :: "cloud \<Rightarrow> vdc_ref \<Rightarrow> string \<Rightarrow> disk list" where
  "disks_named cl v n = remdups (map snd (filter (\<lambda>(v', d). v' = v \<and> disk_name d = n) (c_disks cl)))"

text \<open>The attachment of a disk, by its reference: VM, bus and unit.\<close>

definition plug_of :: "cloud \<Rightarrow> string \<Rightarrow> (string \<times> int \<times> int) option" where
  "plug_of cl h = map_of (c_plugs cl) h"

definition all_vms :: "cloud \<Rightarrow> (vdc_ref \<times> string \<times> string) list" where
  "all_vms cl = concat (map (\<lambda>(v, _, vms). map (\<lambda>(n, h). (v, n, h)) vms) (c_vapps cl))"

definition vm_name_of :: "cloud \<Rightarrow> string \<Rightarrow> string option" where
  "vm_name_of cl h = map_option (\<lambda>(_, n, _). n) (find (\<lambda>(_, _, h'). h' = h) (all_vms cl))"

definition disk_ref :: "cloud \<Rightarrow> string \<Rightarrow> reference" where
  "disk_ref cl h =
     (case find (\<lambda>(_, d). disk_href d = h) (c_disks cl) of
        None \<Rightarrow> \<lparr>ref_name = [], ref_type = [], ref_href = h\<rparr>
      | Some (_, d) \<Rightarrow> \<lparr>ref_name = disk_name d, ref_type = disk_type d, ref_href = h\<rparr>)"

text \<open>The settings of a VM: one entry for every disk plugged into it.\<close>

definition settings_of :: "cloud \<Rightarrow> string \<Rightarrow> disk_setting option list" where
  "settings_of cl vmh =
     map (\<lambda>(h, _, b, u). Some \<lparr>UnitNumber = u, BusNumber = b, setting_disk = Some (disk_ref cl h)\<rparr>)
       (filter (\<lambda>(h, p). plug_of cl h = Some p \<and> fst p = vmh) (c_plugs cl))"

definition vm_object :: "cloud \<Rightarrow> string \<Rightarrow> string \<Rightarrow> vm" where
  "vm_object cl n h =
     \<lparr>vm_name = n, vm_href = h,
      VmSpecSection = Some \<lparr>DiskSection = Some \<lparr>DiskSettings = settings_of cl h\<rparr>\<rparr>\<rparr>"

fun apply_change :: "change \<Rightarrow> cloud \<Rightarrow> cloud" where
  "apply_change (ChCreate v d) cl = cl\<lparr>c_disks := c_disks cl @ [(v, d)]\<rparr>"
| "apply_change (ChDelete h) cl =
     cl\<lparr>c_disks := filter (\<lambda>(_, d). disk_href d \<noteq> h) (c_disks cl)\<rparr>"
| "apply_change (ChResize h mb) cl =
     cl\<lparr>c_disks := map (\<lambda>(v, d). (v, if disk_href d = h then d\<lparr>disk_size_mb := mb\<rparr> else d)) (c_disks cl)\<rparr>"
| "apply_change (ChAttach h vmh b u) cl = cl\<lparr>c_plugs := (h, vmh, b, u) # c_plugs cl\<rparr>"
| "apply_change (ChDetach h) cl = cl\<lparr>c_plugs := filter (\<lambda>(h', _). h' \<noteq> h) (c_plugs cl)\<rparr>"

subsection \<open>The library's interface on it\<close>

definition request :: "change \<Rightarrow> cloud \<Rightarrow> (ext_error + task_ref) \<times> cloud" where
  "request ch cl =
     (let t = TaskRef (c_next cl) in
      (Inr t, cl\<lparr>c_tasks := (c_tasks cl)(t \<mapsto> ch), c_next := Suc (c_next cl)\<rparr>))"

definition refuse :: "string \<Rightarrow> cloud \<Rightarrow> (ext_error + 'a) \<times> cloud" where
  "refuse msg cl = (Inl (ExtMsg msg), cl)"

fun vapp_index :: "vapp_ref \<Rightarrow> nat" where "vapp_index (VAppRef i) = i"

definition sim_wait :: "task_ref \<Rightarrow> cloud \<Rightarrow> ext_error option \<times> cloud" where
  "sim_wait t cl =
     (case c_tasks cl t of
        Some ch \<Rightarrow> (None, apply_change ch cl)
      | None \<Rightarrow> (Some (ExtMsg ''cannot refresh, Object is empty''), cl))"

definition sim_disks_by_name ::
  "vdc_ref \<Rightarrow> string \<Rightarrow> bool \<Rightarrow> cloud \<Rightarrow> (ext_error + disk list) \<times> cloud" where
  "sim_disks_by_name v n rf cl =
     (let ds = disks_named cl v n in (if ds = [] then Inl EntityNotFound else Inr ds, cl))"

definition sim_create ::
  "vdc_ref \<Rightarrow> disk_create_params \<Rightarrow> cloud \<Rightarrow> (task_ref \<times> ext_error option) \<times> cloud" where
  "sim_create v p cl =
     (case request
             (ChCreate v \<lparr>disk_name = create_name p, disk_type = ''disk'',
                          disk_href = ''disk/'' @ itoa (int (c_next cl)),
                          disk_size_mb = create_size_mb p\<rparr>) cl of
        (Inr t, cl') \<Rightarrow> ((t, None), cl')
      | (Inl e, cl') \<Rightarrow> ((TaskRef 0, Some e), cl'))"

definition sim_attached :: "disk \<Rightarrow> cloud \<Rightarrow> (ext_error + reference option) \<times> cloud" where
  "sim_attached d cl =
     (case plug_of cl (disk_href d) of
        None \<Rightarrow> (Inr None, cl)
      | Some (vmh, _) \<Rightarrow>
          (case vm_name_of cl vmh of
             None \<Rightarrow> refuse ''the VM of the disk cannot be read'' cl
           | Some n \<Rightarrow> (Inr (Some \<lparr>ref_name = n, ref_type = ''vm'', ref_href = vmh\<rparr>), cl)))"

definition sim_delete :: "disk \<Rightarrow> cloud \<Rightarrow> (ext_error + task_ref) \<times> cloud" where
  "sim_delete d cl =
     (if plug_of cl (disk_href d) \<noteq> None then refuse ''disk is attached'' cl
      else request (ChDelete (disk_href d)) cl)"

definition sim_update :: "disk \<Rightarrow> string \<Rightarrow> int64 \<Rightarrow> cloud \<Rightarrow> (ext_error + task_ref) \<times> cloud" where
  "sim_update d n mb cl = request (ChResize (disk_href d) mb) cl"

definition sim_attach :: "vm \<Rightarrow> attach_params \<Rightarrow> cloud \<Rightarrow> (ext_error + task_ref) \<times> cloud" where
  "sim_attach v p cl =
     (if plug_of cl (ref_href (param_disk p)) \<noteq> None then refuse ''disk is attached'' cl
      else if \<exists>q \<in> set (c_plugs cl). snd q = (vm_href v, param_bus p, param_unit p)
        then refuse ''unit is in use'' cl
      else request (ChAttach (ref_href (param_disk p)) (vm_href v) (param_bus p) (param_unit p)) cl)"

definition sim_detach :: "vm \<Rightarrow> attach_params \<Rightarrow> cloud \<Rightarrow> (ext_error + task_ref) \<times> cloud" where
  "sim_detach v p cl =
     (if plug_of cl (ref_href (param_disk p)) = Some (vm_href v, param_bus p, param_unit p)
      then request (ChDetach (ref_href (param_disk p))) cl
      else refuse ''disk is not attached there'' cl)"

definition sim_entities :: "vdc_ref \<Rightarrow> cloud \<Rightarrow> reference list list" where
  "sim_entities v cl =
     [map (\<lambda>(_, n, _). \<lparr>ref_name = n, ref_type = ''vapp'', ref_href = n\<rparr>)
        (filter (\<lambda>(v', _). v' = v) (c_vapps cl)),
      map (\<lambda>(_, d). \<lparr>ref_name = disk_name d, ref_type = ''disk'', ref_href = disk_href d\<rparr>)
        (filter (\<lambda>(v', _). v' = v) (c_disks cl))]"

fun index_of :: "('a \<Rightarrow> bool) \<Rightarrow> 'a list \<Rightarrow> nat \<Rightarrow> nat option" where
  "index_of p [] i = None"
| "index_of p (x # xs) i = (if p x then Some i else index_of p xs (Suc i))"

definition sim_vapp :: "vdc_ref \<Rightarrow> string \<Rightarrow> bool \<Rightarrow> cloud \<Rightarrow> (ext_error + vapp_ref) \<times> cloud" where
  "sim_vapp v n rf cl =
     (case index_of (\<lambda>(v', n', _). v' = v \<and> n' = n) (c_vapps cl) 0 of
        None \<Rightarrow> Inl EntityNotFound
      | Some i \<Rightarrow> Inr (VAppRef i), cl)"

definition sim_vm :: "vapp_ref \<Rightarrow> string \<Rightarrow> bool \<Rightarrow> cloud \<Rightarrow> (ext_error + vm) \<times> cloud" where
  "sim_vm va n rf cl =
     (if vapp_index va < length (c_vapps cl) then
        (case map_of (snd (snd (c_vapps cl ! vapp_index va))) n of
           None \<Rightarrow> Inl EntityNotFound
         | Some h \<Rightarrow> Inr (vm_object cl n h))
      else Inl EntityNotFound, cl)"

definition sim_api :: "cloud govcd" where
  "sim_api = \<lparr>
     MimeDisk = ''disk'', MimeVApp = ''vapp'',
     Authenticate = (\<lambda>_ _ _ cl. (None, cl)),
     GetAuthResponse = (\<lambda>_ _ _ cl. (Inr 200, cl)),
     GetOrgByNameOrId = (\<lambda>_ cl. (Inr (OrgRef 0), cl)),
     GetVDCByName = (\<lambda>_ n _ cl.
       (case map_of (c_vdcs cl) n of None \<Rightarrow> Inl EntityNotFound | Some v \<Rightarrow> Inr v, cl)),
     Vdc_Refresh = (\<lambda>_ cl. (None, cl)),
     ResourceEntities = sim_entities,
     GetDiskByHref = (\<lambda>v h cl.
       (case find (\<lambda>(v', d). v' = v \<and> disk_href d = h) (c_disks cl) of
          None \<Rightarrow> Inl EntityNotFound | Some (_, d) \<Rightarrow> Inr d, cl)),
     GetDisksByName = sim_disks_by_name,
     FindStorageProfileReference = (\<lambda>_ n cl.
       (if n \<in> set (c_profiles cl) then Inr (ProfileRef 0) else Inl EntityNotFound, cl)),
     Vdc_CreateDisk = sim_create,
     WaitTaskCompletion = sim_wait,
     AttachedVM = sim_attached,
     Disk_Delete = sim_delete,
     Disk_Update = sim_update,
     GetVAppByName = sim_vapp,
     VApp_GetVMByName = sim_vm,
     VM_AttachDisk = sim_attach,
     VM_DetachDisk = sim_detach\<rparr>"

text \<open>A small cloud: one VDC with a profile, two VMs in one vApp, a free disk and an attached one.\<close>

definition example_disk :: disk where
  "example_disk = \<lparr>disk_name = ''pvc-1'', disk_type = ''disk'', disk_href = ''d1'', disk_size_mb = 10\<rparr>"

definition example_disk2 :: disk where
  "example_disk2 = \<lparr>disk_name = ''pvc-2'', disk_type = ''disk'', disk_href = ''d2'', disk_size_mb = 20\<rparr>"

definition example_cloud :: cloud where
  "example_cloud = \<lparr>
     c_vdcs = [(''vdc'', VdcRef 0)],
     c_disks = [(VdcRef 0, example_disk), (VdcRef 0, example_disk2)],
     c_vapps = [(VdcRef 0, ''app'', [(''node-1'', ''vm1''), (''node-2'', ''vm2'')])],
     c_plugs = [(''d2'', ''vm1'', 3, 8)],
     c_profiles = [''hdd''],
     c_tasks = Map.empty,
     c_next = 1\<rparr>"

end
