(* ===== verification/Client_Examples.thy ===== *)
theory Client_Examples
  imports Vcd_Client Cloud_Model
begin

text \<open>
  Concrete instances of the client's parameters: a configuration, iteration orders, and a client of
  the reference cloud as \<open>NewVcdClient\<close> leaves it. The witnesses of the properties use them.
\<close>

definition example_config :: controller_config where
  "example_config = default_config [''vdc''] ''user'' ''password'' ''org'' ''https://vcd.cloud/api''"

definition example_runtime :: go_runtime where
  "example_runtime = \<lparr>range_vdcs = (\<lambda>xs. xs), range_units = rev\<rparr>"

definition example_client :: "cloud vcd_client" where
  "example_client =
     \<lparr>world = example_cloud, trace = [], VdcClients = [(''vdc'', VdcRef 0)], mt = False\<rparr>"

lemma new_client_example:
  "new_vcd_client sim_api example_config None example_cloud =
     (Ok (), example_client\<lparr>trace := [EvSession, EvSession, EvSession]\<rparr>)"
  by (simp add: new_vcd_client_def build_clients_def sim_api_def example_config_def default_config_def
      example_cloud_def example_client_def api_call_def api_call0_def andThen_def ext_call_def
      ret_def modify_def)

lemma example_runtime_ok: "runtime_ok example_runtime"
  by (simp add: runtime_ok_def example_runtime_def map_order_def)

end
