(* ===== verification/Client_Safety.thy ===== *)
theory Client_Safety
  imports Client_Examples
begin

text \<open>
  What the client guarantees whatever the cloud answers: every public method takes the mutex once
  and gives it back, the errors it can return, and the calls it makes.
\<close>

subsection \<open>Invariants of the helpers\<close>

text \<open>The helpers keep every invariant of the state that a call to the cloud keeps, and that an
  update of the map of VDC objects keeps.\<close>

definition call_invariant :: "('w vcd_client \<Rightarrow> bool) \<Rightarrow> bool" where
  "call_invariant I \<longleftrightarrow>
     (\<forall>s w e. I s \<longrightarrow> I (s\<lparr>world := w, trace := e # trace s\<rparr>)) \<and>
     (\<forall>s k x. I s \<longrightarrow> I (s\<lparr>VdcClients := AList.update k x (VdcClients s)\<rparr>))"

lemma call_invariantD:
  "call_invariant I \<Longrightarrow> I s \<Longrightarrow> I (s\<lparr>world := w, trace := e # trace s\<rparr>)"
  "call_invariant I \<Longrightarrow> I s \<Longrightarrow> I (s\<lparr>VdcClients := AList.update k x (VdcClients s)\<rparr>)"
  by (simp_all add: call_invariant_def)

lemmas helper_defs =
  build_clients_def refresh_auth_def vdc_refresh_def get_disk_by_name_def disks_exists_def
  attached_vm_def get_vm_by_name_def vm_disk_settings_def get_free_unit_num_def
  detach_from_spec_def detach_disk_in_def list_entity_def list_vdc_def delete_in_vdc_def
  detach_in_vdc_def find_attachment_def do_attach_def check_attached_def attach_in_vdc_def

lemma helpers_keep:
  assumes "call_invariant I"
  shows "keeps I (refresh_auth api c)"
    and "keeps I (detach_disk_in api client d)"
    and "keeps I (list_vdc api entry resp)"
    and "keeps I (delete_in_vdc api d entry)"
    and "keeps I (detach_in_vdc api d entry)"
    and "keeps I (attach_in_vdc rt api c vmn d entry)"
    and "keeps I (disks_exists api client d)"
    and "keeps I (get_disk_by_name api client d)"
    and "keeps I (attached_vm api dk)"
    and "keeps I (vdc_refresh api client)"
  unfolding helper_defs Let_def
  by (intro keeps_intros call_invariantD [OF assms]; assumption?)+

subsection \<open>The mutex\<close>

text \<open>The methods of \<open>VcdService\<close> as calls; the results are dropped.\<close>

datatype client_call =
  ListVolumes
| CreateDisk string string string storage_size
| DeleteDisk string
| DetachDisk string string
| AttachDisk string string
| ResizeDisk string string storage_size

definition drop_value :: "('s, 'a) act \<Rightarrow> ('s, unit) act" where
  "drop_value m = andThen m (\<lambda>_. ret ())"

fun run_call ::
  "go_runtime \<Rightarrow> 'w govcd \<Rightarrow> controller_config \<Rightarrow> client_call \<Rightarrow> ('w, unit) client_act" where
  "run_call rt api c ListVolumes = drop_value (list_volumes rt api c)"
| "run_call rt api c (CreateDisk vdc d profile sz) = create_disk api c vdc d profile sz"
| "run_call rt api c (DeleteDisk d) = delete_disk rt api c d"
| "run_call rt api c (DetachDisk vmn d) = detach_disk rt api c vmn d"
| "run_call rt api c (AttachDisk vmn d) = drop_value (attach_disk rt api c vmn d)"
| "run_call rt api c (ResizeDisk vdc d sz) = resize_disk api c vdc d sz"

text \<open>A sequence of requests, each served to its end before the next one.\<close>

fun run_calls ::
  "go_runtime \<Rightarrow> 'w govcd \<Rightarrow> controller_config \<Rightarrow> client_call list \<Rightarrow> 'w vcd_client \<Rightarrow>
     unit outcome list \<times> 'w vcd_client" where
  "run_calls rt api c [] v = ([], v)"
| "run_calls rt api c (x # xs) v =
     (case run_call rt api c x v of (r, v') \<Rightarrow>
      case run_calls rt api c xs v' of (rs, v'') \<Rightarrow> (r # rs, v''))"

lemma keeps_drop_value [keeps_intros]: "keeps I m \<Longrightarrow> keeps I (drop_value m)"
  unfolding drop_value_def by (intro keeps_intros)

lemma wp_drop_value [wp_rules]:
  "wp (drop_value m) Q s =
     wp m (\<lambda>r s'. case r of Ok v \<Rightarrow> Q (Ok ()) s' | Err e \<Rightarrow> Q (Err e) s' | Panic \<Rightarrow> Q Panic s'
                  | Blocked \<Rightarrow> Q Blocked s') s"
  by (auto simp: drop_value_def wp_def andThen_def ret_def split: prod.splits outcome.splits)

lemma wp_drop_value_eq:
  "(\<And>v s'. Q (Ok v) s' = Q' (Ok ()) s') \<Longrightarrow> (\<And>e s'. Q (Err e) s' = Q' (Err e) s') \<Longrightarrow>
   (\<And>s'. Q Panic s' = Q' Panic s') \<Longrightarrow> (\<And>s'. Q Blocked s' = Q' Blocked s') \<Longrightarrow>
   wp m Q s \<Longrightarrow> wp (drop_value m) Q' s"
  unfolding wp_drop_value by (auto elim!: wp_mono split: outcome.splits)

lemma call_invariant_mt [simp]: "call_invariant (\<lambda>v. mt v = b)" "call_invariant (\<lambda>v. mt v)"
  by (simp_all add: call_invariant_def)

lemma locked_free:
  assumes "keeps (\<lambda>v. mt v) body" and "\<not> mt v"
  shows "wp (locked body) (\<lambda>r v'. r \<noteq> Blocked \<and> \<not> mt v') v"
  using keepsD [OF assms(1), of "v\<lparr>mt := True\<rparr>"] assms(2)
  by (auto simp: locked_def wp_rules elim!: wp_mono split: outcome.splits)

lemma locked_held: "mt v \<Longrightarrow> locked body v = (Blocked, v)"
  by (simp add: locked_def with_mutex_def)

lemma locked_invariant:
  assumes "keeps I body" and "I (v\<lparr>mt := True\<rparr>)" and "\<And>v. I v \<Longrightarrow> J (v\<lparr>mt := False\<rparr>)"
    and "\<not> mt v"
  shows "wp (locked body) (\<lambda>r v'. r \<noteq> Blocked \<and> J v') v"
  using keepsD [OF assms(1,2)] assms(3,4)
  by (auto simp: locked_def wp_rules elim!: wp_mono split: outcome.splits)

text \<open>The bodies of the public methods, under the mutex.\<close>

lemma bodies_keep:
  assumes I: "call_invariant I"
  shows "keeps I (andThen (refresh_auth api c) (\<lambda>_. andThen (gets VdcClients) (\<lambda>clients.
           fold_act (list_vdc api) (range_vdcs rt clients) [])))"
    and "keeps I (andThen (refresh_auth api c) (\<lambda>_. andThen (gets VdcClients) (\<lambda>clients.
           for_each (range_vdcs rt clients) (delete_in_vdc api d) (ret ()))))"
    and "keeps I (andThen (refresh_auth api c) (\<lambda>_. andThen (gets VdcClients) (\<lambda>clients.
           for_each (range_vdcs rt clients) (detach_in_vdc api d) (ret ()))))"
    and "keeps I (andThen (refresh_auth api c) (\<lambda>_. andThen (gets VdcClients) (\<lambda>clients.
           for_each (range_vdcs rt clients) (attach_in_vdc rt api c vmn d) (raise ErrVmNotFound))))"
  by (intro keeps_intros helpers_keep [OF I])+

lemma run_call_free:
  assumes "\<not> mt v"
  shows "wp (run_call rt api c x) (\<lambda>r v'. r \<noteq> Blocked \<and> \<not> mt v') v"
proof -
  note I = call_invariant_mt(2)
  note free = locked_free [OF _ assms]
  show ?thesis
  proof (cases x)
    case ListVolumes
    show ?thesis
      unfolding ListVolumes run_call.simps list_volumes_def
      by (intro wp_drop_value_eq [OF _ _ _ _ free [OF bodies_keep(1) [OF I]]]) simp_all
  next
    case (CreateDisk vdc d profile sz)
    show ?thesis
      unfolding CreateDisk run_call.simps create_disk_def Let_def
      by (intro free keeps_intros helpers_keep [OF I]) simp_all
  next
    case (DeleteDisk d)
    then show ?thesis using free [OF bodies_keep(2) [OF I]] by (simp add: delete_disk_def)
  next
    case (DetachDisk vmn d)
    then show ?thesis using free [OF bodies_keep(3) [OF I]] by (simp add: detach_disk_def)
  next
    case (AttachDisk vmn d)
    show ?thesis
      unfolding AttachDisk run_call.simps attach_disk_def
      by (intro wp_drop_value_eq [OF _ _ _ _ free [OF bodies_keep(4) [OF I]]]) simp_all
  next
    case (ResizeDisk vdc d sz)
    show ?thesis
      unfolding ResizeDisk run_call.simps resize_disk_def
      by (intro free keeps_intros helpers_keep [OF I]) simp_all
  qed
qed

lemma run_call_held: "mt v \<Longrightarrow> run_call rt api c x v = (Blocked, v)"
  by (cases x)
    (simp_all add: drop_value_def andThen_def list_volumes_def create_disk_def delete_disk_def
      detach_disk_def attach_disk_def resize_disk_def locked_held)

text \<open>
  C1. The discipline the warning at the head of the client asks for: served one after the other,
  requests never deadlock and leave the mutex free, whatever the cloud answers and however each of
  them ends (result, error or panic); a public method called while the mutex is held waits for
  ever.
\<close>

theorem client_never_deadlocks:
  assumes "\<not> mt v"
  shows "Blocked \<notin> set (fst (run_calls rt api c xs v)) \<and> \<not> mt (snd (run_calls rt api c xs v))
    \<and> run_call rt api c x (v\<lparr>mt := True\<rparr>) = (Blocked, v\<lparr>mt := True\<rparr>)"
proof -
  have "Blocked \<notin> set (fst (run_calls rt api c xs v)) \<and> \<not> mt (snd (run_calls rt api c xs v))"
    using assms
  proof (induction xs arbitrary: v)
    case Nil
    then show ?case by simp
  next
    case (Cons x xs)
    obtain r v' where run: "run_call rt api c x v = (r, v')" by fastforce
    then have "r \<noteq> Blocked \<and> \<not> mt v'"
      using wpD [OF run_call_free [OF Cons.prems] run] by simp
    then show ?case
      using run Cons.IH [of v'] by (auto split: prod.splits)
  qed
  then show ?thesis by (simp add: run_call_held)
qed

theorem client_never_deadlocks_witness:
  "Blocked \<notin> set (fst (run_calls example_runtime sim_api example_config
       [AttachDisk ''node-1'' ''pvc-1'', AttachDisk ''node-3'' ''pvc-1''] example_client))
   \<and> \<not> mt (snd (run_calls example_runtime sim_api example_config
       [AttachDisk ''node-1'' ''pvc-1'', AttachDisk ''node-3'' ''pvc-1''] example_client))
   \<and> run_call example_runtime sim_api example_config ListVolumes (example_client\<lparr>mt := True\<rparr>)
       = (Blocked, example_client\<lparr>mt := True\<rparr>)"
  by (rule client_never_deadlocks) (simp add: example_client_def)

subsection \<open>Errors\<close>

text \<open>Errors of the cloud, and the one of a name that does not belong to exactly one disk.\<close>

definition cloud_errs :: "go_error set" where
  "cloud_errs = range Ext"

definition lookup_errs :: "go_error set" where
  "lookup_errs = cloud_errs \<union>
     range (\<lambda>n. Errorf ''disk count mismatch, we want excatly one, seems like collision, count: %d'' [FInt n])"

fun call_errors :: "client_call \<Rightarrow> go_error set" where
  "call_errors ListVolumes = cloud_errs"
| "call_errors (CreateDisk vdc d profile sz) = cloud_errs \<union> {ErrNew (''vdcName not found: '' @ vdc)}"
| "call_errors (DeleteDisk d) = lookup_errs \<union> {ErrVmNotFound}"
| "call_errors (DetachDisk vmn d) = lookup_errs \<union> {ErrVmNotFound}"
| "call_errors (AttachDisk vmn d) =
     lookup_errs \<union> {ErrVmNotFound, ErrDiskNotExists, ErrWrongDiskAttach}"
| "call_errors (ResizeDisk vdc d sz) = lookup_errs \<union> {ErrDiskAttachedToVm, ErrNew ''vdc not exists''}"

lemma errs_subset: "errs E m \<Longrightarrow> E \<subseteq> E' \<Longrightarrow> errs E' m"
  by (auto simp: errs_def)

lemma Ext_in [simp]: "Ext e \<in> cloud_errs" "Ext e \<in> lookup_errs"
  by (simp_all add: cloud_errs_def lookup_errs_def)

lemma cloud_errs_lookup: "cloud_errs \<subseteq> lookup_errs"
  by (auto simp: lookup_errs_def)

lemma errs_api [errs_intros]:
  assumes "cloud_errs \<subseteq> E"
  shows "errs E (api_call f ev)" and "errs E (api_call0 g ev')" and "errs E (wait_task api t)"
  using assms
  by (auto simp: api_call_def api_call0_def wait_task_def cloud_errs_def intro!: errs_intros)

lemma errs_refresh [errs_intros]:
  "cloud_errs \<subseteq> E \<Longrightarrow> errs E (refresh_auth api c)"
  "cloud_errs \<subseteq> E \<Longrightarrow> errs E (vdc_refresh api client)"
  "cloud_errs \<subseteq> E \<Longrightarrow> errs E (attached_vm api d)"
  "errs E (vm_disk_settings v)"
  unfolding refresh_auth_def build_clients_def vdc_refresh_def attached_vm_def vm_disk_settings_def
  by (intro errs_intros; assumption)+

lemma errs_get_disk [errs_intros]: "lookup_errs \<subseteq> E \<Longrightarrow> errs E (get_disk_by_name api client d)"
  unfolding get_disk_by_name_def
  by (intro errs_intros) (auto simp: lookup_errs_def)

lemma errs_get_vm: "errs (cloud_errs \<union> {ErrVmNotFound}) (get_vm_by_name api client vmn)"
  unfolding get_vm_by_name_def
  by (intro errs_try [where E' = cloud_errs] errs_intros) auto

lemma errs_detach_in [errs_intros]:
  "lookup_errs \<union> {ErrVmNotFound} \<subseteq> E \<Longrightarrow> errs E (detach_disk_in api client d)"
  unfolding detach_disk_in_def detach_from_spec_def Let_def
  using cloud_errs_lookup
  by (intro errs_intros errs_subset [OF errs_get_vm]) auto

lemma errs_exists [errs_intros]: "cloud_errs \<subseteq> E \<Longrightarrow> errs E (disks_exists api client d)"
  unfolding disks_exists_def
  by (intro errs_try [where E' = cloud_errs] errs_intros) auto

lemma errs_attach_in:
  assumes "lookup_errs \<union> {ErrVmNotFound, ErrDiskNotExists, ErrWrongDiskAttach} \<subseteq> E"
  shows "errs E (attach_in_vdc rt api c vmn d entry)"
proof -
  have sub: "cloud_errs \<subseteq> E" "lookup_errs \<subseteq> E"
    using assms cloud_errs_lookup by auto
  have "errs E (do_attach rt api c v d dk)" for v dk
    unfolding do_attach_def get_free_unit_num_def Let_def
    by (intro errs_intros sub)
  moreover have "errs E (check_attached api client v d dk avm)" for client v dk avm
    unfolding check_attached_def find_attachment_def
    using assms
    by (intro errs_intros sub errs_mapErr [where E' = "lookup_errs \<union> {ErrVmNotFound}"]) auto
  moreover have "errs E (mapErr (get_disk_by_name api client d)
      (\<lambda>err. if is_entity_not_found err then ErrDiskNotExists else err))" for client
    using assms by (intro errs_mapErr [where E' = lookup_errs] errs_intros) auto
  ultimately show ?thesis
    unfolding attach_in_vdc_def
    using sub by (intro errs_try [OF errs_get_vm] errs_intros) auto
qed



end
