(* ===== verification/Client_Units.thy ===== *)
theory Client_Units
  imports Client_Safety
begin

text \<open>
  The allocation of units (\<open>getFreeUnitNum\<close>) and its use by \<open>AttachDisk\<close>: the reserved units are 8
  to 15 of the configured bus; which free one is taken depends on the order in which Go iterates over
  a map, and the properties hold for every order.
\<close>

subsection \<open>getFreeUnitNum\<close>

text \<open>The units in use on a bus, and the specification: the reserved units that are not.\<close>

definition units_used :: "disk_setting option list \<Rightarrow> int \<Rightarrow> int set" where
  "units_used settings busNum =
     {UnitNumber d | d. Some d \<in> set settings \<and> BusNumber d = busNum}"

lemma mark_units_lookup:
  "map_of (mark_units_in_use busNum ds units) k =
     (if k \<in> units_used ds busNum then Some True else map_of units k)"
proof (induction busNum ds units rule: mark_units_in_use.induct)
  case (3 busNum d ds units)
  then show ?case by (auto simp: units_used_def update_conv')
qed (auto simp: units_used_def)

lemma mark_units_distinct:
  "distinct (map fst units) \<Longrightarrow> distinct (map fst (mark_units_in_use busNum ds units))"
  by (induction busNum ds units rule: mark_units_in_use.induct) (auto simp: distinct_update)

lemma mark_units_mem:
  "(k, v) \<in> set (mark_units_in_use busNum ds build_disk_units) \<longleftrightarrow>
     (if k \<in> units_used ds busNum then v else k \<in> {8..15} \<and> \<not> v)"
proof -
  let ?m = "mark_units_in_use busNum ds build_disk_units"
  have keys: "map fst build_disk_units = [8..15]"
    by (simp add: build_disk_units_def comp_def)
  then have "distinct (map fst ?m)"
    by (intro mark_units_distinct) simp
  then have "(k, v) \<in> set ?m \<longleftrightarrow> map_of ?m k = Some v"
    by simp
  also have "\<dots> \<longleftrightarrow> (if k \<in> units_used ds busNum then v else map_of build_disk_units k = Some v)"
    by (simp add: mark_units_lookup)
  also have "map_of build_disk_units k = Some v \<longleftrightarrow> (k, v) \<in> set build_disk_units"
    by (rule map_of_eq_Some_iff) (simp add: keys)
  also have "\<dots> \<longleftrightarrow> k \<in> {8..15} \<and> \<not> v"
    by (auto simp: build_disk_units_def)
  finally show ?thesis .
qed

lemma pick_free_cases:
  "(\<exists>k. pick_free units = (k, None) \<and> (k, False) \<in> set units) \<or>
   (pick_free units = (0, Some ErrNoFreeUnits) \<and> (\<forall>(k, v) \<in> set units. v))"
  by (induction units rule: pick_free.induct) auto

lemma free_unit_correct':
  assumes "runtime_ok rt"
  shows "(\<exists>u \<in> {8..15} - units_used settings busNum. free_unit rt settings busNum = (u, None)) \<or>
         ({8..15} \<subseteq> units_used settings busNum \<and>
          free_unit rt settings busNum = (0, Some ErrNoFreeUnits))"
proof -
  let ?m = "mark_units_in_use busNum settings build_disk_units"
  have "set (range_units rt ?m) = set ?m"
    using assms by (simp add: runtime_ok_def)
  then show ?thesis
    using pick_free_cases [of "range_units rt ?m"]
    unfolding free_unit_def
    by (auto simp: mark_units_mem subset_iff split: if_splits)
qed



subsection \<open>The attach calls\<close>

text \<open>The settings of a VM object, where its two pointers are not nil.\<close>

definition settings_list :: "vm \<Rightarrow> disk_setting option list option" where
  "settings_list v =
     (case VmSpecSection v of None \<Rightarrow> None
      | Some spec \<Rightarrow> map_option DiskSettings (DiskSection spec))"

lemma vals_settings: "vals {ss. settings_list v = Some ss} (vm_disk_settings v)"
  unfolding vm_disk_settings_def
  by (intro vals_bind [where W = "{x. VmSpecSection v = Some x}"]
      vals_bind [where W = "{x. DiskSection y = Some x}" for y] vals_intros)
    (auto simp: settings_list_def)

text \<open>
  An attach call is sound for a configuration when it goes to the configured bus, at a reserved unit
  not in use on the VM; the exception is the unit 0 when all reserved units are in use.
\<close>

fun attach_call_ok :: "controller_config \<Rightarrow> cloud_event \<Rightarrow> bool" where
  "attach_call_ok c (EvAttach v p r) =
     (param_bus p = DefaultBusNum c \<and>
      (\<exists>settings. settings_list v = Some settings \<and>
         (param_unit p \<in> {8..15} - units_used settings (DefaultBusNum c) \<or>
          ({8..15} \<subseteq> units_used settings (DefaultBusNum c) \<and> param_unit p = 0))))"
| "attach_call_ok c _ = True"

lemma emits_api [emits_intros]:
  "(\<And>r. P (ev r)) \<Longrightarrow> emits trace P (api_call f ev)"
  "(\<And>r. P (ev' r)) \<Longrightarrow> emits trace P (api_call0 g ev')"
  "(\<And>r. P (EvWait t r)) \<Longrightarrow> emits trace P (wait_task api t)"
  unfolding api_call_def api_call0_def wait_task_def by (intro emits_intros; assumption)+

text \<open>What the helpers log: sessions, look-ups, answers about disks and attachments, waits.\<close>

fun bookkeeping :: "cloud_event \<Rightarrow> bool" where
  "bookkeeping (EvCreateDisk _ _ _) = False"
| "bookkeeping (EvDelete _ _) = False"
| "bookkeeping (EvUpdate _ _ _ _) = False"
| "bookkeeping (EvAttach _ _ _) = False"
| "bookkeeping (EvDetach _ _ _) = False"
| "bookkeeping _ = True"

lemma emits_bookkeeping:
  "emits trace bookkeeping (refresh_auth api c)"
  "emits trace bookkeeping (vdc_refresh api client)"
  "emits trace bookkeeping (get_disk_by_name api client d)"
  "emits trace bookkeeping (disks_exists api client d)"
  "emits trace bookkeeping (attached_vm api dk)"
  "emits trace bookkeeping (get_vm_by_name api client vmn)"
  "emits trace bookkeeping (vm_disk_settings v)"
  "emits trace bookkeeping (wait_task api t)"
  "emits trace bookkeeping (list_vdc api entry resp)"
  unfolding helper_defs wait_task_def by (intro emits_intros; simp)+

lemma emits_helpers [emits_intros]:
  assumes "\<And>e. bookkeeping e \<Longrightarrow> P e"
  shows "emits trace P (refresh_auth api c)"
    and "emits trace P (vdc_refresh api client)"
    and "emits trace P (get_disk_by_name api client d)"
    and "emits trace P (disks_exists api client d)"
    and "emits trace P (attached_vm api dk)"
    and "emits trace P (get_vm_by_name api client vmn)"
    and "emits trace P (vm_disk_settings v)"
    and "emits trace P (wait_task api t)"
    and "emits trace P (list_vdc api entry resp)"
  by (rule emits_mono [OF _ assms], rule emits_bookkeeping, assumption)+

lemma emits_detach [emits_intros]:
  assumes "\<And>e. bookkeeping e \<Longrightarrow> P e" and "\<And>v p r. P (EvDetach v p r)"
  shows "emits trace P (detach_disk_in api client d)"
  unfolding detach_disk_in_def detach_from_spec_def Let_def
  by (intro emits_intros assms)

lemma emits_locked [emits_intros]: "emits trace P m \<Longrightarrow> emits trace P (locked m)"
  unfolding locked_def by (rule emits_with_mutex) simp_all

lemma bookkeeping_attach_ok: "bookkeeping e \<Longrightarrow> attach_call_ok c e"
  by (cases e) simp_all

lemma emits_do_attach:
  assumes "runtime_ok rt"
  shows "emits trace (attach_call_ok c) (do_attach rt api c v d dk)"
proof -
  let ?V = "{x. \<exists>ss. settings_list v = Some ss \<and> x = free_unit rt ss (DefaultBusNum c)}"
  have vals: "vals ?V (get_free_unit_num rt v (DefaultBusNum c))"
    unfolding get_free_unit_num_def
    by (intro vals_bind [OF vals_settings] vals_ret) auto
  have search: "emits trace (attach_call_ok c) (get_free_unit_num rt v (DefaultBusNum c))"
    unfolding get_free_unit_num_def by (intro emits_intros bookkeeping_attach_ok)
  have ok: "attach_call_ok c (EvAttach v \<lparr>param_disk = r, param_bus = DefaultBusNum c, param_unit = fst x\<rparr> a)"
    if "x \<in> ?V" for x r a
  proof -
    from that obtain ss where "settings_list v = Some ss" and x: "x = free_unit rt ss (DefaultBusNum c)"
      by blast
    with free_unit_correct' [OF assms, of ss "DefaultBusNum c"] show ?thesis by auto
  qed
  show ?thesis
    unfolding do_attach_def Let_def case_prod_beta
    by (intro emits_bind [OF search vals] emits_andThen emits_api emits_ret ok)
      (simp_all add: bookkeeping_attach_ok)
qed

text \<open>
  C12. Every attach call that \<open>AttachDisk\<close> makes, whatever the cloud answers, goes to the configured
  bus at a reserved unit that is free on the VM, unless all eight are taken: then the lost error of
  \<open>getFreeUnitNum\<close> sends the disk to unit 0.
\<close>

theorem attach_calls_ok:
  assumes "runtime_ok rt" and "attach_disk rt api c vmn d s = (r, s')"
  shows "\<exists>new. trace s' = new @ trace s \<and> (\<forall>e \<in> set new. attach_call_ok c e)"
proof -
  have "emits trace (attach_call_ok c) (attach_disk rt api c vmn d)"
    unfolding attach_disk_def attach_in_vdc_def check_attached_def find_attachment_def
    by (intro emits_intros emits_do_attach [OF assms(1)]; simp add: bookkeeping_attach_ok)
  from emitsD [OF this assms(2)] show ?thesis .
qed

text \<open>A run in which an attach call is made, at unit 9: unit 8 is taken and the order is increasing.\<close>

theorem attach_calls_ok_witness:
  "\<exists>r s'. attach_disk (example_runtime\<lparr>range_units := (\<lambda>xs. xs)\<rparr>) sim_api example_config
        ''node-1'' ''pvc-1'' example_client = (r, s') \<and>
      (\<exists>new. trace s' = new @ trace example_client \<and>
         (\<forall>e \<in> set new. attach_call_ok example_config e)) \<and>
      (\<exists>v p r. EvAttach v p r \<in> set (trace s') \<and> param_unit p = 9)"
proof -
  define rt where "rt = example_runtime\<lparr>range_units := (\<lambda>xs. xs)\<rparr>"
  have ok: "runtime_ok rt"
    by (simp add: rt_def runtime_ok_def example_runtime_def map_order_def)
  obtain r s' where run: "attach_disk rt sim_api example_config ''node-1'' ''pvc-1'' example_client = (r, s')"
    by fastforce
  have "list_ex (\<lambda>e. case e of EvAttach v p r \<Rightarrow> param_unit p = 9 | _ \<Rightarrow> False)
          (trace (snd (attach_disk (example_runtime\<lparr>range_units := (\<lambda>xs. xs)\<rparr>) sim_api example_config
             ''node-1'' ''pvc-1'' example_client)))"
    by code_simp
  then obtain e where e: "e \<in> set (trace s')" "case e of EvAttach v p r \<Rightarrow> param_unit p = 9 | _ \<Rightarrow> False"
    unfolding rt_def [symmetric] run list_ex_iff by auto
  from e(2) obtain v p a where "e = EvAttach v p a" and "param_unit p = 9"
    by (cases e) simp_all
  with e(1) have "\<exists>v p r. EvAttach v p r \<in> set (trace s') \<and> param_unit p = 9"
    by blast
  with attach_calls_ok [OF ok run] run show ?thesis unfolding rt_def by blast
qed

end
