(* ===== verification/Go_Hoare.thy ===== *)
theory Go_Hoare
  imports Go_Prelude
begin

text \<open>
  Triples over actions: from a state with the precondition, a run that ends with a value satisfies
  the postcondition of values and a run that ends with an error the one of errors. The rules follow
  the structure of an action, as those of \<open>keeps\<close>, \<open>errs\<close>, \<open>vals\<close> and \<open>emits\<close> do.
\<close>

definition triple ::
  "('s \<Rightarrow> bool) \<Rightarrow> ('s, 'a) act \<Rightarrow> ('a \<Rightarrow> 's \<Rightarrow> bool) \<Rightarrow> (go_error \<Rightarrow> 's \<Rightarrow> bool) \<Rightarrow> bool" where
  "triple P m Q E \<longleftrightarrow>
     (\<forall>s. P s \<longrightarrow> wp m (\<lambda>r s'. (\<forall>v. r = Ok v \<longrightarrow> Q v s') \<and> (\<forall>e. r = Err e \<longrightarrow> E e s')) s)"

named_theorems triple_intros

lemma tripleI:
  assumes "\<And>s v s'. P s \<Longrightarrow> m s = (Ok v, s') \<Longrightarrow> Q v s'"
    and "\<And>s e s'. P s \<Longrightarrow> m s = (Err e, s') \<Longrightarrow> E e s'"
  shows "triple P m Q E"
  using assms by (auto simp: triple_def wp_def split: prod.split)

lemma tripleD: "triple P m Q E \<Longrightarrow> P s \<Longrightarrow> m s = (Ok v, s') \<Longrightarrow> Q v s'"
  by (auto simp: triple_def wp_def)

lemma tripleD_err: "triple P m Q E \<Longrightarrow> P s \<Longrightarrow> m s = (Err e, s') \<Longrightarrow> E e s'"
  by (auto simp: triple_def wp_def)

lemma triple_weaken:
  assumes "triple P' m Q' E'" and "\<And>s. P s \<Longrightarrow> P' s" and "\<And>v s. Q' v s \<Longrightarrow> Q v s"
    and "\<And>e s. E' e s \<Longrightarrow> E e s"
  shows "triple P m Q E"
  by (rule tripleI)
    (blast intro: assms(2-) tripleD [OF assms(1)] tripleD_err [OF assms(1)])+

lemma triple_conj:
  "triple P m Q E \<Longrightarrow> triple P' m Q' E' \<Longrightarrow>
     triple (\<lambda>s. P s \<and> P' s) m (\<lambda>v s. Q v s \<and> Q' v s) (\<lambda>e s. E e s \<and> E' e s)"
  by (rule tripleI) (auto dest: tripleD tripleD_err)

text \<open>A fact that does not depend on the state can be assumed.\<close>

lemma triple_fact: "(F \<Longrightarrow> triple P m Q E) \<Longrightarrow> triple (\<lambda>s. F \<and> P s) m Q E"
  by (auto simp: triple_def)

lemma triple_ret [triple_intros]: "(\<And>s. P s \<Longrightarrow> Q v s) \<Longrightarrow> triple P (ret v) Q E"
  and triple_raise [triple_intros]: "(\<And>s. P s \<Longrightarrow> E e s) \<Longrightarrow> triple P (raise e) Q E"
  and triple_panic [triple_intros]: "triple P panic Q E"
  and triple_gets [triple_intros]: "(\<And>s. P s \<Longrightarrow> Q' (f s) s) \<Longrightarrow> triple P (gets f) Q' E"
  by (simp_all add: triple_def wp_rules)

lemma triple_modify [triple_intros]: "(\<And>s. P s \<Longrightarrow> Q () (f s)) \<Longrightarrow> triple P (modify f) Q E"
  by (simp add: triple_def wp_rules)

lemma triple_deref [triple_intros]:
  "(\<And>x s. p = Some x \<Longrightarrow> P s \<Longrightarrow> Q x s) \<Longrightarrow> triple P (deref p) Q E"
  by (cases p) (auto intro!: triple_intros)

lemma triple_bind [triple_intros]:
  assumes "triple P m R E" and "\<And>v. triple (R v) (f v) Q E"
  shows "triple P (andThen m f) Q E"
proof (rule tripleI)
  fix s v s'
  assume "P s" and "andThen m f s = (Ok v, s')"
  then obtain x t where "m s = (Ok x, t)" "f x t = (Ok v, s')"
    by (auto simp: andThen_def split: prod.splits outcome.splits)
  with tripleD [OF assms(1) \<open>P s\<close>] tripleD [OF assms(2)] show "Q v s'" by blast
next
  fix s e s'
  assume "P s" and "andThen m f s = (Err e, s')"
  then consider "m s = (Err e, s')" | x t where "m s = (Ok x, t)" "f x t = (Err e, s')"
    by (auto simp: andThen_def split: prod.splits outcome.splits)
  then show "E e s'"
    by cases (use tripleD_err [OF assms(1) \<open>P s\<close>] tripleD [OF assms(1) \<open>P s\<close>]
        tripleD_err [OF assms(2)] in blast)+
qed

lemma triple_attempt [triple_intros]:
  "triple P m (\<lambda>v. Q (Inr v)) (\<lambda>e. Q (Inl e)) \<Longrightarrow> triple P (attempt m) Q E"
  by (rule tripleI)
    (auto simp: attempt_def dest: tripleD tripleD_err split: prod.splits outcome.splits)

lemma triple_mapErr [triple_intros]:
  "triple P m Q (\<lambda>e. E (h e)) \<Longrightarrow> triple P (mapErr m h) Q E"
  by (rule tripleI)
    (auto simp: mapErr_def dest: tripleD tripleD_err split: prod.splits outcome.splits)

lemma triple_if [triple_intros]:
  "(b \<Longrightarrow> triple P m Q E) \<Longrightarrow> (\<not> b \<Longrightarrow> triple P n Q E) \<Longrightarrow> triple P (if b then m else n) Q E"
  by simp

lemma triple_case_option [triple_intros]:
  "(p = None \<Longrightarrow> triple P m Q E) \<Longrightarrow> (\<And>x. p = Some x \<Longrightarrow> triple P (n x) Q E) \<Longrightarrow>
     triple P (case p of None \<Rightarrow> m | Some x \<Rightarrow> n x) Q E"
  by (cases p) simp_all

lemma triple_case_sum [triple_intros]:
  "(\<And>e. p = Inl e \<Longrightarrow> triple P (m e) Q E) \<Longrightarrow> (\<And>x. p = Inr x \<Longrightarrow> triple P (n x) Q E) \<Longrightarrow>
     triple P (case p of Inl e \<Rightarrow> m e | Inr x \<Rightarrow> n x) Q E"
  by (cases p) simp_all

lemma triple_case_prod [triple_intros]:
  "(\<And>x y. p = (x, y) \<Longrightarrow> triple P (m x y) Q E) \<Longrightarrow> triple P (case p of (x, y) \<Rightarrow> m x y) Q E"
  by (cases p) simp

lemma triple_case_ctl [triple_intros]:
  "(p = Continue \<Longrightarrow> triple P m Q E) \<Longrightarrow> (\<And>x. p = Return x \<Longrightarrow> triple P (n x) Q E) \<Longrightarrow>
     triple P (case p of Continue \<Rightarrow> m | Return x \<Rightarrow> n x) Q E"
  by (cases p) simp_all

text \<open>The loop rule: the invariant may depend on the elements passed so far.\<close>

lemma triple_for_each:
  assumes step: "\<And>ys x zs. xs = ys @ x # zs \<Longrightarrow>
      triple (I ys) (body x) (\<lambda>c s. case c of Continue \<Rightarrow> I (ys @ [x]) s | Return v \<Rightarrow> Q v s) E"
    and "triple (I xs) after Q E"
  shows "triple (I []) (for_each xs body after) Q E"
proof -
  have "triple (I ys) (for_each zs body after) Q E" if "xs = ys @ zs" for ys zs
    using that
  proof (induction zs arbitrary: ys)
    case Nil
    with assms(2) show ?case by simp
  next
    case (Cons x zs)
    have "triple (I (ys @ [x])) (for_each zs body after) Q E"
      using Cons.prems by (intro Cons.IH) simp
    then show ?case
      unfolding for_each.simps
      by (intro triple_bind [OF step [OF Cons.prems]] triple_case_ctl)
        (auto intro: triple_ret)
  qed
  from this [of "[]" xs] show ?thesis by simp
qed

text \<open>The same with one invariant throughout.\<close>

lemma triple_for_each_inv:
  assumes "\<And>x. x \<in> set xs \<Longrightarrow>
      triple I (body x) (\<lambda>c s. case c of Continue \<Rightarrow> I s | Return v \<Rightarrow> Q v s) E"
    and "triple I after Q E"
  shows "triple I (for_each xs body after) Q E"
  by (rule triple_for_each [where I = "\<lambda>_. I"]) (use assms in auto)

lemma triple_fold_act:
  assumes step: "\<And>ys x zs acc. xs = ys @ x # zs \<Longrightarrow>
      triple (I ys acc) (body x acc) (\<lambda>acc'. I (ys @ [x]) acc') E"
  shows "triple (I [] acc) (fold_act body xs acc) (\<lambda>acc'. I xs acc') E"
proof -
  have "triple (I ys acc) (fold_act body zs acc) (\<lambda>acc'. I xs acc') E" if "xs = ys @ zs" for ys zs acc
    using that
  proof (induction zs arbitrary: ys acc)
    case Nil
    then show ?case by (auto intro: triple_ret)
  next
    case (Cons x zs)
    have "triple (I (ys @ [x]) acc') (fold_act body zs acc') (\<lambda>acc'. I xs acc') E" for acc'
      using Cons.prems by (intro Cons.IH) simp
    then show ?case
      unfolding fold_act.simps by (intro triple_bind [OF step [OF Cons.prems]])
  qed
  from this [of "[]" xs] show ?thesis by simp
qed

lemma triple_ext_call [triple_intros]:
  "(\<And>s r w. P s \<Longrightarrow> f (world s) = (r, w) \<Longrightarrow> Q r (s\<lparr>world := w, trace := ev r # trace s\<rparr>)) \<Longrightarrow>
     triple P (ext_call f ev) Q E"
  by (simp add: triple_def wp_rules)

lemma triple_zoom [triple_intros]:
  assumes "triple P' m Q' E'" and "\<And>s. P s \<Longrightarrow> P' (part s)"
    and "\<And>s v t. P s \<Longrightarrow> Q' v t \<Longrightarrow> Q v (put_part t s)" and "\<And>s e t. P s \<Longrightarrow> E' e t \<Longrightarrow> E e (put_part t s)"
  shows "triple P (zoom part put_part m) Q E"
  by (rule tripleI)
    (auto simp: zoom_def split: prod.splits
      intro: assms(2-) tripleD [OF assms(1)] tripleD_err [OF assms(1)])

text \<open>A mutex the assertions do not look at.\<close>

lemma triple_with_mutex:
  assumes "triple P m Q E" and "\<And>s b. P s \<Longrightarrow> P (set_held b s)"
    and "\<And>v s b. Q v s \<Longrightarrow> Q v (set_held b s)" and "\<And>e s b. E e s \<Longrightarrow> E e (set_held b s)"
  shows "triple P (with_mutex held set_held m) Q E"
  by (rule tripleI)
    (auto simp: with_mutex_def intro: assms(2-) tripleD [OF assms(1)] tripleD_err [OF assms(1)]
      split: prod.splits outcome.splits if_splits)

end
