(* ===== verification/Cloud_Laws.thy ===== *)
theory Cloud_Laws
  imports Client_Units Go_Hoare
begin

text \<open>
  What the client relies on in the library and the cloud behind it, stated over an abstract
  inventory: for every VDC its disks, its vApps, the VMs by name and reference, and the attachment of
  every disk. \<open>cloud_laws api inven\<close> says that the functions of \<open>api\<close>, on states whose inventory is
  \<open>inven w\<close>, do what the documentation of vCloud Director says they do; the client is the only one to
  change the inventory while a method runs. Nothing is assumed about when calls fail. The reference
  cloud satisfies the laws.
\<close>

subsection \<open>Inventory\<close>

record inventory =
  inv_disks :: "vdc_ref \<Rightarrow> disk set"
  inv_vapps :: "vdc_ref \<Rightarrow> string set"
  inv_vms :: "(string \<times> string) set"
  inv_plug :: "string \<rightharpoonup> string \<times> int \<times> int"

definition named :: "inventory \<Rightarrow> vdc_ref \<Rightarrow> string \<Rightarrow> disk set" where
  "named I client n = {d \<in> inv_disks I client. disk_name d = n}"

text \<open>The changes a client can ask for.\<close>

definition plug :: "string \<Rightarrow> string \<times> int \<times> int \<Rightarrow> inventory \<Rightarrow> inventory" where
  "plug h x I = I\<lparr>inv_plug := (inv_plug I)(h \<mapsto> x)\<rparr>"

definition unplug :: "string \<Rightarrow> inventory \<Rightarrow> inventory" where
  "unplug h I = I\<lparr>inv_plug := (inv_plug I)(h := None)\<rparr>"

definition remove_disk :: "string \<Rightarrow> inventory \<Rightarrow> inventory" where
  "remove_disk h I = I\<lparr>inv_disks := \<lambda>v. {d \<in> inv_disks I v. disk_href d \<noteq> h}\<rparr>"

definition add_disk :: "vdc_ref \<Rightarrow> disk \<Rightarrow> inventory \<Rightarrow> inventory" where
  "add_disk v d I = I\<lparr>inv_disks := (inv_disks I)(v := insert d (inv_disks I v))\<rparr>"

definition set_size :: "string \<Rightarrow> int64 \<Rightarrow> inventory \<Rightarrow> inventory" where
  "set_size h mb I =
     I\<lparr>inv_disks := \<lambda>v. (\<lambda>d. if disk_href d = h then d\<lparr>disk_size_mb := mb\<rparr> else d) ` inv_disks I v\<rparr>"

lemma plug_simps [simp]:
  "plug h x (plug h y I) = plug h x I"
  "plug h x (unplug h I) = plug h x I"
  "inv_disks (plug h x I) = inv_disks I"
  "inv_disks (unplug h I) = inv_disks I"
  "inv_vms (plug h x I) = inv_vms I"
  "inv_vms (unplug h I) = inv_vms I"
  "inv_plug (plug h x I) = (inv_plug I)(h \<mapsto> x)"
  "inv_plug (unplug h I) = (inv_plug I)(h := None)"
  "named (unplug h I) = named I"
  by (simp_all add: plug_def unplug_def named_def fun_eq_iff)

lemma plug_same: "inv_plug I h = Some x \<Longrightarrow> plug h x I = I"
  by (simp add: plug_def fun_upd_idem)

lemma unplug_same: "inv_plug I h = None \<Longrightarrow> unplug h I = I"
  by (simp add: unplug_def fun_upd_idem)

text \<open>A VM object shows exactly the disks plugged into the VM.\<close>

definition shows_disk :: "disk_setting option list \<Rightarrow> string \<Rightarrow> int \<Rightarrow> int \<Rightarrow> bool" where
  "shows_disk ss h b u \<longleftrightarrow>
     (\<exists>s r. Some s \<in> set ss \<and> setting_disk s = Some r \<and> ref_href r = h \<and> BusNumber s = b \<and> UnitNumber s = u)"

definition vm_shows :: "inventory \<Rightarrow> vm \<Rightarrow> bool" where
  "vm_shows I v \<longleftrightarrow>
     (\<forall>ss. settings_list v = Some ss \<longrightarrow>
        (\<forall>h b u. shows_disk ss h b u \<longleftrightarrow> inv_plug I h = Some (vm_href v, b, u)))"

subsection \<open>Laws\<close>

definition reads :: "('w \<Rightarrow> inventory) \<Rightarrow> ('w \<Rightarrow> 'r \<times> 'w) \<Rightarrow> bool" where
  "reads inven f \<longleftrightarrow> (\<forall>w r w'. f w = (r, w') \<longrightarrow> inven w' = inven w)"

text \<open>Calls that change nothing.\<close>

definition read_laws :: "'w govcd \<Rightarrow> ('w \<Rightarrow> inventory) \<Rightarrow> bool" where
  "read_laws api inven \<longleftrightarrow>
     (\<forall>u p org. reads inven (Authenticate api u p org)) \<and>
     (\<forall>u p org. reads inven (GetAuthResponse api u p org)) \<and>
     (\<forall>org. reads inven (GetOrgByNameOrId api org)) \<and>
     (\<forall>org n rf. reads inven (GetVDCByName api org n rf)) \<and>
     (\<forall>v. reads inven (Vdc_Refresh api v)) \<and>
     (\<forall>v h. reads inven (GetDiskByHref api v h)) \<and>
     (\<forall>v n rf. reads inven (GetDisksByName api v n rf)) \<and>
     (\<forall>v n. reads inven (FindStorageProfileReference api v n)) \<and>
     (\<forall>d. reads inven (AttachedVM api d)) \<and>
     (\<forall>v n rf. reads inven (GetVAppByName api v n rf)) \<and>
     (\<forall>va n rf. reads inven (VApp_GetVMByName api va n rf))"

text \<open>What look-ups answer. A look-up by name that finds nothing fails with \<open>ErrorEntityNotFound\<close>;
  the look-up of a vApp that is listed, the look-up of an attachment and the end of a detach do not.\<close>

definition lookup_laws :: "'w govcd \<Rightarrow> ('w \<Rightarrow> inventory) \<Rightarrow> bool" where
  "lookup_laws api inven \<longleftrightarrow>
     (\<forall>v n rf w ds w'. GetDisksByName api v n rf w = (Inr ds, w') \<longrightarrow>
        ds \<noteq> [] \<and> distinct ds \<and> set ds = named (inven w) v n) \<and>
     (\<forall>v n rf w e w'. GetDisksByName api v n rf w = (Inl e, w') \<longrightarrow> ext_is_not_found e \<longrightarrow>
        named (inven w) v n = {}) \<and>
     (\<forall>d w w'. AttachedVM api d w = (Inr None, w') \<longrightarrow> inv_plug (inven w) (disk_href d) = None) \<and>
     (\<forall>d w r w'. AttachedVM api d w = (Inr (Some r), w') \<longrightarrow>
        (\<exists>b u. inv_plug (inven w) (disk_href d) = Some (ref_href r, b, u)) \<and>
        (ref_name r, ref_href r) \<in> inv_vms (inven w)) \<and>
     (\<forall>va n rf w vm w'. VApp_GetVMByName api va n rf w = (Inr vm, w') \<longrightarrow>
        (n, vm_href vm) \<in> inv_vms (inven w) \<and> vm_shows (inven w) vm) \<and>
     (\<forall>v w r. r \<in> set (concat (ResourceEntities api v w)) \<longrightarrow> ref_type r = MimeVApp api \<longrightarrow>
        ref_name r \<in> inv_vapps (inven w) v) \<and>
     (\<forall>v w n rf e w'. GetVAppByName api v n rf w = (Inl e, w') \<longrightarrow> n \<in> inv_vapps (inven w) v \<longrightarrow>
        \<not> ext_is_not_found e) \<and>
     (\<forall>d w e w'. AttachedVM api d w = (Inl e, w') \<longrightarrow> \<not> ext_is_not_found e)"

text \<open>The disks of a VDC as its listing shows them.\<close>

definition listing_laws :: "'w govcd \<Rightarrow> ('w \<Rightarrow> inventory) \<Rightarrow> bool" where
  "listing_laws api inven \<longleftrightarrow>
     (\<forall>v w. {(ref_name r, ref_href r) | r. r \<in> set (concat (ResourceEntities api v w)) \<and>
               ref_type r = MimeDisk api}
            = (\<lambda>d. (disk_name d, disk_href d)) ` inv_disks (inven w) v) \<and>
     (\<forall>v h w d w'. GetDiskByHref api v h w = (Inr d, w') \<longrightarrow>
        d \<in> inv_disks (inven w) v \<and> disk_href d = h)"

text \<open>What a request does once its task has been waited for. The task that comes with a failed
  creation is empty, and waiting for it fails.\<close>

definition change_laws :: "'w govcd \<Rightarrow> ('w \<Rightarrow> inventory) \<Rightarrow> bool" where
  "change_laws api inven \<longleftrightarrow>
     (\<forall>v p w t w' w''. VM_AttachDisk api v p w = (Inr t, w') \<longrightarrow>
        WaitTaskCompletion api t w' = (None, w'') \<longrightarrow>
        inven w'' = plug (ref_href (param_disk p)) (vm_href v, param_bus p, param_unit p) (inven w)) \<and>
     (\<forall>v p w t w' w''. VM_DetachDisk api v p w = (Inr t, w') \<longrightarrow>
        WaitTaskCompletion api t w' = (None, w'') \<longrightarrow> inven w'' = unplug (ref_href (param_disk p)) (inven w)) \<and>
     (\<forall>v p w e w'. VM_DetachDisk api v p w = (Inl e, w') \<longrightarrow> \<not> ext_is_not_found e) \<and>
     (\<forall>v p w t w' e w''. VM_DetachDisk api v p w = (Inr t, w') \<longrightarrow>
        WaitTaskCompletion api t w' = (Some e, w'') \<longrightarrow> \<not> ext_is_not_found e) \<and>
     (\<forall>d w t w' w''. Disk_Delete api d w = (Inr t, w') \<longrightarrow>
        WaitTaskCompletion api t w' = (None, w'') \<longrightarrow> inven w'' = remove_disk (disk_href d) (inven w)) \<and>
     (\<forall>d mb w t w' w''. Disk_Update api d (disk_name d) mb w = (Inr t, w') \<longrightarrow>
        WaitTaskCompletion api t w' = (None, w'') \<longrightarrow> inven w'' = set_size (disk_href d) mb (inven w)) \<and>
     (\<forall>v p w t w' w''. Vdc_CreateDisk api v p w = ((t, None), w') \<longrightarrow>
        WaitTaskCompletion api t w' = (None, w'') \<longrightarrow>
        (\<exists>d. disk_name d = create_name p \<and> disk_size_mb d = create_size_mb p \<and>
             inven w'' = add_disk v d (inven w))) \<and>
     (\<forall>v p w t e w' w''. Vdc_CreateDisk api v p w = ((t, Some e), w') \<longrightarrow>
        WaitTaskCompletion api t w' \<noteq> (None, w''))"

definition cloud_laws :: "'w govcd \<Rightarrow> ('w \<Rightarrow> inventory) \<Rightarrow> bool" where
  "cloud_laws api inven \<longleftrightarrow>
     read_laws api inven \<and> lookup_laws api inven \<and> listing_laws api inven \<and> change_laws api inven"

subsection \<open>The reference cloud satisfies the laws\<close>

definition sim_inventory :: "cloud \<Rightarrow> inventory" where
  "sim_inventory cl =
     \<lparr>inv_disks = (\<lambda>v. {d. (v, d) \<in> set (c_disks cl)}),
      inv_vapps = (\<lambda>v. {n. \<exists>vms. (v, n, vms) \<in> set (c_vapps cl)}),
      inv_vms = (\<lambda>(_, n, h). (n, h)) ` set (all_vms cl),
      inv_plug = map_of (c_plugs cl)\<rparr>"

lemma sim_reads: "read_laws sim_api sim_inventory"
  by (auto simp: read_laws_def reads_def sim_api_def sim_disks_by_name_def sim_attached_def
      sim_vapp_def sim_vm_def refuse_def Let_def split: option.splits prod.splits if_splits)

lemma sim_named: "set (disks_named cl v n) = named (sim_inventory cl) v n"
  by (force simp: disks_named_def named_def sim_inventory_def)

lemma index_of_None: "index_of p xs i = None \<longleftrightarrow> (\<forall>x \<in> set xs. \<not> p x)"
  by (induction xs arbitrary: i) auto

lemma disk_ref_href [simp]: "ref_href (disk_ref cl k) = k"
  by (auto simp: disk_ref_def find_Some_iff split: option.split)

lemma sim_shows: "vm_shows (sim_inventory cl) (vm_object cl n h)"
proof -
  have "shows_disk (settings_of cl h) k b u \<longleftrightarrow> map_of (c_plugs cl) k = Some (h, b, u)" for k b u
  proof
    show "shows_disk (settings_of cl h) k b u \<Longrightarrow> map_of (c_plugs cl) k = Some (h, b, u)"
      by (auto simp: shows_disk_def settings_of_def plug_of_def)
    assume "map_of (c_plugs cl) k = Some (h, b, u)"
    then have "(k, h, b, u) \<in> set (filter (\<lambda>(k, p). plug_of cl k = Some p \<and> fst p = h) (c_plugs cl))"
      by (auto simp: plug_of_def dest: map_of_SomeD)
    then have "Some \<lparr>UnitNumber = u, BusNumber = b, setting_disk = Some (disk_ref cl k)\<rparr>
        \<in> set (settings_of cl h)"
      unfolding settings_of_def set_map by (rule rev_image_eqI) simp
    then show "shows_disk (settings_of cl h) k b u"
      unfolding shows_disk_def by (intro exI conjI) auto
  qed
  then show ?thesis
    by (simp add: vm_shows_def vm_object_def settings_list_def sim_inventory_def)
qed

lemma sim_vm_known:
  assumes "i < length (c_vapps cl)" and "map_of (snd (snd (c_vapps cl ! i))) n = Some h"
  shows "(n, h) \<in> inv_vms (sim_inventory cl)"
proof -
  obtain v m vms where e: "c_vapps cl ! i = (v, m, vms)" by (cases "c_vapps cl ! i")
  with assms have "(v, m, vms) \<in> set (c_vapps cl)" "(n, h) \<in> set vms"
    by (auto dest: map_of_SomeD nth_mem)
  then have "(v, n, h) \<in> set (all_vms cl)" by (force simp: all_vms_def)
  then show ?thesis by (force simp: sim_inventory_def)
qed

lemma sim_vm_name: "vm_name_of cl h = Some n \<Longrightarrow> (n, h) \<in> inv_vms (sim_inventory cl)"
  by (auto simp: vm_name_of_def sim_inventory_def find_Some_iff) (force simp: in_set_conv_nth)

lemma sim_attached_law:
  assumes "AttachedVM sim_api d w = (Inr (Some r), w')"
  shows "(\<exists>b u. inv_plug (sim_inventory w) (disk_href d) = Some (ref_href r, b, u)) \<and>
         (ref_name r, ref_href r) \<in> inv_vms (sim_inventory w)"
proof -
  from assms obtain h b u n where "plug_of w (disk_href d) = Some (h, b, u)" "vm_name_of w h = Some n"
      "r = \<lparr>ref_name = n, ref_type = ''vm'', ref_href = h\<rparr>"
    by (auto simp: sim_api_def sim_attached_def refuse_def split: option.splits prod.splits)
  with sim_vm_name [of w h n] show ?thesis by (simp add: sim_inventory_def plug_of_def)
qed

lemma sim_vm_law:
  assumes "VApp_GetVMByName sim_api va n rf w = (Inr v, w')"
  shows "(n, vm_href v) \<in> inv_vms (sim_inventory w) \<and> vm_shows (sim_inventory w) v"
proof -
  from assms obtain h where "vapp_index va < length (c_vapps w)"
      "map_of (snd (snd (c_vapps w ! vapp_index va))) n = Some h" "v = vm_object w n h"
    by (auto simp: sim_api_def sim_vm_def split: option.splits if_splits)
  with sim_vm_known [of "vapp_index va" w n h] sim_shows [of w n h] show ?thesis
    by (simp add: vm_object_def)
qed

lemma sim_lookups: "lookup_laws sim_api sim_inventory"
proof -
  have names: "disks_named w v n = [] \<longleftrightarrow> named (sim_inventory w) v n = {}" for w v n
    using sim_named [of w v n] by (cases "disks_named w v n") auto
  have distinct_names: "distinct (disks_named w v n)" for w v n
    by (simp add: disks_named_def)
  show ?thesis
    unfolding lookup_laws_def
    apply (intro conjI allI)
    subgoal by (auto simp: sim_api_def sim_disks_by_name_def Let_def sim_named [symmetric]
          distinct_names split: if_splits)
    subgoal by (auto simp: sim_api_def sim_disks_by_name_def Let_def names split: if_splits)
    subgoal by (auto simp: sim_api_def sim_attached_def plug_of_def sim_inventory_def refuse_def
          split: option.splits)
    subgoal by (blast dest: sim_attached_law)
    subgoal by (blast dest: sim_vm_law)
    subgoal by (auto simp: sim_api_def sim_entities_def sim_inventory_def)
    subgoal by (auto simp: sim_api_def sim_vapp_def sim_inventory_def index_of_None split: option.splits)
    subgoal by (auto simp: sim_api_def sim_attached_def refuse_def split: option.splits)
    done
qed

lemma sim_listings: "listing_laws sim_api sim_inventory"
  unfolding listing_laws_def
  apply (intro conjI allI)
  subgoal by (force simp: sim_api_def sim_entities_def sim_inventory_def image_iff)
  subgoal by (auto simp: sim_api_def sim_inventory_def find_Some_iff split: option.splits)
    (metis nth_mem)
  done

lemma sim_apply:
  "sim_inventory (apply_change (ChCreate v d) cl) = add_disk v d (sim_inventory cl)"
  "sim_inventory (apply_change (ChDelete h) cl) = remove_disk h (sim_inventory cl)"
  "sim_inventory (apply_change (ChResize h mb) cl) = set_size h mb (sim_inventory cl)"
  "sim_inventory (apply_change (ChAttach h vmh b u) cl) = plug h (vmh, b, u) (sim_inventory cl)"
  "sim_inventory (apply_change (ChDetach h) cl) = unplug h (sim_inventory cl)"
proof -
  have "map_of (filter (\<lambda>(h', _). h' \<noteq> h) ps) = (map_of ps)(h := None)" for ps :: "(string \<times> 'p) list"
    by (induction ps) auto
  then show "sim_inventory (apply_change (ChDetach h) cl) = unplug h (sim_inventory cl)"
    by (simp add: sim_inventory_def unplug_def all_vms_def)
  show "sim_inventory (apply_change (ChAttach h vmh b u) cl) = plug h (vmh, b, u) (sim_inventory cl)"
    by (simp add: sim_inventory_def plug_def all_vms_def)
  have "(\<lambda>v'. {d'. (v', d') \<in> set (c_disks cl @ [(v, d)])})
      = (\<lambda>v'. {d'. (v', d') \<in> set (c_disks cl)})(v := insert d {d'. (v, d') \<in> set (c_disks cl)})"
    by (auto simp: fun_eq_iff)
  then show "sim_inventory (apply_change (ChCreate v d) cl) = add_disk v d (sim_inventory cl)"
    by (simp add: sim_inventory_def add_disk_def all_vms_def)
  have "{d. (v, d) \<in> set (filter (\<lambda>(_, d). disk_href d \<noteq> h) ds)}
      = {d. (v, d) \<in> set ds \<and> disk_href d \<noteq> h}" for v and ds :: "(vdc_ref \<times> disk) list"
    by auto
  then show "sim_inventory (apply_change (ChDelete h) cl) = remove_disk h (sim_inventory cl)"
    by (simp add: sim_inventory_def remove_disk_def all_vms_def)
  have "{d. (v, d) \<in> set (map (\<lambda>(v, d). (v, f d)) ds)} = f ` {d. (v, d) \<in> set ds}"
    for v and f :: "disk \<Rightarrow> disk" and ds :: "(vdc_ref \<times> disk) list"
    by force
  then show "sim_inventory (apply_change (ChResize h mb) cl) = set_size h mb (sim_inventory cl)"
    by (simp add: sim_inventory_def set_size_def all_vms_def del: set_map)
qed

lemma sim_request:
  assumes "request ch w = (Inr t, w')" and "sim_wait t w' = (r, w'')"
  shows "r = None \<and> sim_inventory w'' = sim_inventory (apply_change ch w)"
proof -
  let ?w = "w\<lparr>c_tasks := (c_tasks w)(TaskRef (c_next w) \<mapsto> ch), c_next := Suc (c_next w)\<rparr>"
  from assms have "r = None" and "w'' = apply_change ch ?w"
    by (auto simp: request_def sim_wait_def Let_def)
  moreover have "sim_inventory (apply_change ch ?w) = sim_inventory (apply_change ch w)"
    by (cases ch) (simp_all add: sim_inventory_def all_vms_def)
  ultimately show ?thesis by simp
qed

lemma sim_changes: "change_laws sim_api sim_inventory"
  unfolding change_laws_def
  apply (intro conjI allI)
  subgoal by (auto simp: sim_api_def sim_attach_def refuse_def dest!: sim_request simp: sim_apply simp del: apply_change.simps split: if_splits)
  subgoal by (auto simp: sim_api_def sim_detach_def refuse_def dest!: sim_request simp: sim_apply simp del: apply_change.simps split: if_splits)
  subgoal by (auto simp: sim_api_def sim_detach_def refuse_def request_def Let_def split: if_splits)
  subgoal by (auto simp: sim_api_def sim_detach_def refuse_def dest!: sim_request split: if_splits)
  subgoal by (auto simp: sim_api_def sim_delete_def refuse_def dest!: sim_request simp: sim_apply simp del: apply_change.simps split: if_splits)
  subgoal by (auto simp: sim_api_def sim_update_def dest!: sim_request simp: sim_apply simp del: apply_change.simps)
  subgoal by (auto simp: sim_api_def sim_create_def dest!: sim_request simp: sim_apply simp del: apply_change.simps split: prod.splits sum.splits)
    (rule exI, rule conjI [rotated], rule conjI [rotated], rule refl, simp_all)
  subgoal by (auto simp: sim_api_def sim_create_def request_def Let_def split: prod.splits sum.splits)
  done

lemma sim_laws: "cloud_laws sim_api sim_inventory"
  by (simp add: cloud_laws_def sim_reads sim_lookups sim_listings sim_changes)

end
