(* ===== verification/Client_Effects.thy ===== *)
theory Client_Effects
  imports Client_Units
begin

text \<open>
  Which calls that change the cloud a method of the client makes, and in which order it makes them,
  whatever the cloud answers.
\<close>

subsection \<open>The calls a method may make\<close>

text \<open>\<open>intended x e\<close>: the call \<open>e\<close> does not change the cloud, or changes it in the way the method
  \<open>x\<close> is asked to.\<close>

fun intended :: "controller_config \<Rightarrow> client_call \<Rightarrow> cloud_event \<Rightarrow> bool" where
  "intended c (CreateDisk vdc d profile sz) (EvCreateDisk _ p _) =
     (create_name p = d \<and> create_size_mb p = Mb sz \<and> create_bus_type p = DefaultBusType c \<and>
      create_bus_sub_type p = DefaultSubBusType c)"
| "intended c (DeleteDisk d) (EvDelete _ _) = True"
| "intended c (DeleteDisk d) (EvDetach _ _ _) = True"
| "intended c (DetachDisk vmn d) (EvDetach _ _ _) = True"
| "intended c (AttachDisk vmn d) (EvDetach _ _ _) = True"
| "intended c (AttachDisk vmn d) (EvAttach _ p _) = (param_bus p = DefaultBusNum c)"
| "intended c (ResizeDisk vdc d sz) (EvUpdate dk n mb _) = (n = disk_name dk \<and> mb = Mb sz)"
| "intended c _ e = (\<not> mutating e)"

lemma bookkeeping_not_mutating: "bookkeeping e \<Longrightarrow> \<not> mutating e"
  by (cases e) simp_all

lemma not_mutating_intended: "\<not> mutating e \<Longrightarrow> intended c x e"
  by (cases "(c, x, e)" rule: intended.cases) simp_all

lemmas bookkeeping_intended = bookkeeping_not_mutating [THEN not_mutating_intended]

lemma emits_drop_value [emits_intros]: "emits trace P m \<Longrightarrow> emits trace P (drop_value m)"
  unfolding drop_value_def by (intro emits_intros)

lemma emits_intended: "emits trace (intended c x) (run_call rt api c x)"
proof (cases x)
  case ListVolumes
  show ?thesis
    unfolding ListVolumes run_call.simps list_volumes_def list_vdc_def list_entity_def
    by (intro emits_intros; simp add: bookkeeping_intended bookkeeping_not_mutating)
next
  case (CreateDisk vdc d profile sz)
  show ?thesis
    unfolding CreateDisk run_call.simps create_disk_def Let_def
    by (intro emits_intros; simp add: bookkeeping_intended bookkeeping_not_mutating)
next
  case (DeleteDisk d)
  show ?thesis
    unfolding DeleteDisk run_call.simps delete_disk_def delete_in_vdc_def
    by (intro emits_intros; simp add: bookkeeping_intended bookkeeping_not_mutating)
next
  case (DetachDisk vmn d)
  show ?thesis
    unfolding DetachDisk run_call.simps detach_disk_def detach_in_vdc_def
    by (intro emits_intros; simp add: bookkeeping_intended bookkeeping_not_mutating)
next
  case (AttachDisk vmn d)
  show ?thesis
    unfolding AttachDisk run_call.simps attach_disk_def attach_in_vdc_def check_attached_def
      find_attachment_def do_attach_def get_free_unit_num_def Let_def
    by (intro emits_intros; simp add: bookkeeping_intended bookkeeping_not_mutating)
next
  case (ResizeDisk vdc d sz)
  show ?thesis
    unfolding ResizeDisk run_call.simps resize_disk_def
    by (intro emits_intros; simp add: bookkeeping_intended bookkeeping_not_mutating)
qed



subsection \<open>Resizing only what is detached\<close>

text \<open>
  The look-ups that must come right before an update of a disk (the trace has the newest call
  first): the name belonged to this disk alone, and the disk was attached to no VM.
\<close>

fun just_found_detached :: "disk \<Rightarrow> cloud_event list \<Rightarrow> bool" where
  "just_found_detached dk (EvAttachedVM dk' (Inr None) # EvDisksByName _ _ (Inr [x]) # _) =
     (dk' = dk \<and> x = dk)"
| "just_found_detached dk _ = False"

fun updates_guarded :: "cloud_event list \<Rightarrow> bool" where
  "updates_guarded [] = True"
| "updates_guarded (EvUpdate dk n mb r # tr) = (just_found_detached dk tr \<and> updates_guarded tr)"
| "updates_guarded (_ # tr) = updates_guarded tr"

fun is_update :: "cloud_event \<Rightarrow> bool" where
  "is_update (EvUpdate _ _ _ _) = True"
| "is_update _ = False"

lemma updates_guarded_Cons: "\<not> is_update e \<Longrightarrow> updates_guarded (e # tr) = updates_guarded tr"
  by (cases e) simp_all

lemma updates_guarded_append:
  "\<forall>e \<in> set new. \<not> is_update e \<Longrightarrow> updates_guarded (new @ tr) = updates_guarded tr"
  by (induction new) (simp_all add: updates_guarded_Cons)

lemma emits_guarded:
  assumes "emits trace (\<lambda>e. \<not> is_update e) m" and "updates_guarded (trace s)"
  shows "wp m (\<lambda>r s'. updates_guarded (trace s')) s"
  by (rule wp_mono [OF emits_wp [OF assms(1)]]) (auto simp: updates_guarded_append assms(2))

lemma resize_guarded:
  assumes "updates_guarded (trace v)"
  shows "wp (resize_disk api c vdc d sz) (\<lambda>r v'. updates_guarded (trace v')) v"
proof -
  have refresh: "emits trace (\<lambda>e. \<not> is_update e) (refresh_auth api c)"
    by (rule emits_mono [OF emits_bookkeeping(1)]) (case_tac e, simp_all)
  have single: "xs = [hd xs]" if "\<not> length xs \<noteq> 1" for xs :: "disk list"
    using that by (cases xs) simp_all
  have rest: "wp (case map_of (VdcClients s) vdc of
       None \<Rightarrow> raise (ErrNew ''vdc not exists'')
     | Some client \<Rightarrow>
         andThen (get_disk_by_name api client d) (\<lambda>dk.
         andThen (attached_vm api dk) (\<lambda>vm.
         if vm \<noteq> None then raise ErrDiskAttachedToVm
         else
           andThen (api_call (Disk_Update api dk (disk_name dk) (Mb sz))
                      (EvUpdate dk (disk_name dk) (Mb sz))) (wait_task api))))
      (\<lambda>r s'. updates_guarded (trace s')) s" if "updates_guarded (trace s)" for s :: "'a vcd_client"
    using that
    by (auto simp: wp_rules wait_task_def get_disk_by_name_def attached_vm_def length_Suc_conv
        split: option.split sum.split)
  show ?thesis
    unfolding resize_disk_def locked_def wp_with_mutex
    using assms
    by (auto simp: wp_andThen wp_gets intro!: wp_mono [OF emits_guarded [OF refresh]] wp_mono [OF rest]
        split: outcome.splits)
qed

lemma run_call_guarded:
  assumes "updates_guarded (trace v)"
  shows "wp (run_call rt api c x) (\<lambda>r v'. updates_guarded (trace v')) v"
proof (cases "\<exists>vdc d sz. x = ResizeDisk vdc d sz")
  case True
  with resize_guarded [OF assms] show ?thesis by auto
next
  case False
  have "intended c x e \<Longrightarrow> \<not> is_update e" for e
    using False by (cases e; cases x) auto
  then have "emits trace (\<lambda>e. \<not> is_update e) (run_call rt api c x)"
    by (rule emits_mono [OF emits_intended])
  from emits_guarded [OF this assms] show ?thesis .
qed

text \<open>
  C11. Over any sequence of requests, and whatever the cloud answers, the size of a disk is only ever
  changed right after the cloud has said that the requested name belongs to this disk alone and
  that the disk is attached to no VM.
\<close>

theorem resize_only_detached:
  assumes "updates_guarded (trace v)"
  shows "updates_guarded (trace (snd (run_calls rt api c xs v)))"
  using assms
proof (induction xs arbitrary: v)
  case Nil
  then show ?case by simp
next
  case (Cons x xs)
  obtain r v' where run: "run_call rt api c x v = (r, v')" by fastforce
  with wpD [OF run_call_guarded [OF Cons.prems] run] Cons.IH [of v'] show ?case
    by (auto split: prod.splits)
qed

text \<open>The free disk is resized, the attached one refused.\<close>

theorem resize_only_detached_witness:
  "(let (rs, v') = run_calls example_runtime sim_api example_config
       [ResizeDisk ''vdc'' ''pvc-1'' (StorageSize 20971520), ResizeDisk ''vdc'' ''pvc-2'' (StorageSize 41943040)]
       example_client
    in rs = [Ok (), Err ErrDiskAttachedToVm] \<and> length (filter is_update (trace v')) = 1) \<and>
   updates_guarded (trace (snd (run_calls example_runtime sim_api example_config
       [ResizeDisk ''vdc'' ''pvc-1'' (StorageSize 20971520), ResizeDisk ''vdc'' ''pvc-2'' (StorageSize 41943040)]
       example_client)))"
proof
  show "let (rs, v') = run_calls example_runtime sim_api example_config
       [ResizeDisk ''vdc'' ''pvc-1'' (StorageSize 20971520), ResizeDisk ''vdc'' ''pvc-2'' (StorageSize 41943040)]
       example_client
    in rs = [Ok (), Err ErrDiskAttachedToVm] \<and> length (filter is_update (trace v')) = 1"
    by code_simp
qed (rule resize_only_detached, simp add: example_client_def)

end
