(* ===== verification/Client_Refinement.thy ===== *)
theory Client_Refinement
  imports Cloud_Laws Client_Effects
begin

text \<open>
  What the methods of the client do to the inventory of a cloud that obeys the laws: each method is
  specified as a change of the abstract inventory, and its successful runs are shown to make exactly
  that change.
\<close>

subsection \<open>Calls\<close>

text \<open>The inventory and the VDC objects of the client at a point of a run.\<close>

definition seen :: "('w \<Rightarrow> inventory) \<Rightarrow> inventory \<Rightarrow> (string \<times> vdc_ref) list \<Rightarrow> 'w vcd_client \<Rightarrow> bool" where
  "seen inven I cs s \<longleftrightarrow> inven (world s) = I \<and> VdcClients s = cs"

lemma seen_simps [simp]:
  "seen inven I cs (s\<lparr>world := w, trace := tr\<rparr>) \<longleftrightarrow> inven w = I \<and> VdcClients s = cs"
  "seen inven I cs (s\<lparr>mt := b\<rparr>) \<longleftrightarrow> seen inven I cs s"
  by (simp_all add: seen_def)

lemma seenD: "seen inven I cs s \<Longrightarrow> inven (world s) = I" "seen inven I cs s \<Longrightarrow> VdcClients s = cs"
  by (simp_all add: seen_def)

lemma triple_api_call:
  assumes "\<And>s v w. P s \<Longrightarrow> f (world s) = (Inr v, w) \<Longrightarrow> Q v (s\<lparr>world := w, trace := ev (Inr v) # trace s\<rparr>)"
    and "\<And>s e w. P s \<Longrightarrow> f (world s) = (Inl e, w) \<Longrightarrow> E (Ext e) (s\<lparr>world := w, trace := ev (Inl e) # trace s\<rparr>)"
  shows "triple P (api_call f ev) Q E"
  using assms by (auto simp: triple_def wp_api_call split: sum.split)

lemma triple_api_call0:
  assumes "\<And>s w. P s \<Longrightarrow> f (world s) = (None, w) \<Longrightarrow> Q () (s\<lparr>world := w, trace := ev None # trace s\<rparr>)"
    and "\<And>s e w. P s \<Longrightarrow> f (world s) = (Some e, w) \<Longrightarrow> E (Ext e) (s\<lparr>world := w, trace := ev (Some e) # trace s\<rparr>)"
  shows "triple P (api_call0 f ev) Q E"
  using assms by (auto simp: triple_def wp_api_call0 split: option.split)

text \<open>A request and the wait for its task.\<close>

lemma triple_request:
  assumes "\<And>s t w w'. P s \<Longrightarrow> f (world s) = (Inr t, w) \<Longrightarrow> WaitTaskCompletion api t w = (None, w') \<Longrightarrow>
      Q () (s\<lparr>world := w', trace := EvWait t None # ev (Inr t) # trace s\<rparr>)"
    and "\<And>s e w tr. P s \<Longrightarrow> f (world s) = (Inl e, w) \<Longrightarrow> E (Ext e) (s\<lparr>world := w, trace := tr\<rparr>)"
    and "\<And>s t w e w' tr. P s \<Longrightarrow> f (world s) = (Inr t, w) \<Longrightarrow> WaitTaskCompletion api t w = (Some e, w') \<Longrightarrow>
      E (Ext e) (s\<lparr>world := w', trace := tr\<rparr>)"
  shows "triple P (andThen (api_call f ev) (wait_task api)) Q E"
  using assms by (auto simp: triple_def wp_rules split: sum.split option.split)

lemma andThen_assoc: "andThen (andThen m f) g = andThen m (\<lambda>x. andThen (f x) g)"
  by (rule ext) (simp add: andThen_def split: prod.split outcome.split)

lemma triple_frame: "triple (\<lambda>s. F) m (\<lambda>_ _. F) (\<lambda>_ _. F)"
  by (rule tripleI)

lemma triple_disj:
  "triple P m Q E \<Longrightarrow> triple P' m Q E \<Longrightarrow> triple (\<lambda>s. P s \<or> P' s) m Q E"
  by (auto simp: triple_def)

lemma andThen_ret: "andThen (ret x) f = f x"
  by (rule ext) (simp add: andThen_def ret_def)

lemma triple_request_then:
  assumes "triple P (andThen (api_call f ev) (wait_task api)) R E" and "\<And>x. triple (R x) (k x) Q E"
  shows "triple P (andThen (api_call f ev) (\<lambda>t. andThen (wait_task api t) k)) Q E"
  using triple_bind [OF assms] by (simp add: andThen_assoc)

subsection \<open>Helpers\<close>

lemma law_reads:
  assumes "cloud_laws api inven"
  shows "Authenticate api u p org w = (r1, w') \<Longrightarrow> inven w' = inven w"
    and "GetAuthResponse api u p org w = (r2, w') \<Longrightarrow> inven w' = inven w"
    and "GetOrgByNameOrId api org w = (r3, w') \<Longrightarrow> inven w' = inven w"
    and "GetVDCByName api oref n rf w = (r4, w') \<Longrightarrow> inven w' = inven w"
    and "Vdc_Refresh api v w = (r5, w') \<Longrightarrow> inven w' = inven w"
    and "GetDiskByHref api v h w = (r6, w') \<Longrightarrow> inven w' = inven w"
    and "GetDisksByName api v n rf w = (r7, w') \<Longrightarrow> inven w' = inven w"
    and "FindStorageProfileReference api v n w = (r8, w') \<Longrightarrow> inven w' = inven w"
    and "AttachedVM api d w = (r9, w') \<Longrightarrow> inven w' = inven w"
    and "GetVAppByName api v n rf w = (r10, w') \<Longrightarrow> inven w' = inven w"
    and "VApp_GetVMByName api va n rf w = (r11, w') \<Longrightarrow> inven w' = inven w"
  using assms by (simp_all add: cloud_laws_def read_laws_def reads_def)

lemma law_parts:
  assumes "cloud_laws api inven"
  shows "lookup_laws api inven" and "listing_laws api inven" and "change_laws api inven"
  using assms by (simp_all add: cloud_laws_def)

text \<open>The laws one by one, in the order of their definitions.\<close>

lemmas lookup_parts = law_parts(1) [unfolded lookup_laws_def]
lemmas change_parts = law_parts(3) [unfolded change_laws_def]

lemmas law_lookups =
  lookup_parts [THEN conjunct1, rule_format]
  lookup_parts [THEN conjunct2, THEN conjunct1, rule_format]
  lookup_parts [THEN conjunct2, THEN conjunct2, THEN conjunct1, rule_format]
  lookup_parts [THEN conjunct2, THEN conjunct2, THEN conjunct2, THEN conjunct1, rule_format]
  lookup_parts [THEN conjunct2, THEN conjunct2, THEN conjunct2, THEN conjunct2, THEN conjunct1, rule_format]
  lookup_parts [THEN conjunct2, THEN conjunct2, THEN conjunct2, THEN conjunct2, THEN conjunct2, THEN conjunct1, rule_format]
  lookup_parts [THEN conjunct2, THEN conjunct2, THEN conjunct2, THEN conjunct2, THEN conjunct2, THEN conjunct2, THEN conjunct1, rule_format]
  lookup_parts [THEN conjunct2, THEN conjunct2, THEN conjunct2, THEN conjunct2, THEN conjunct2, THEN conjunct2, THEN conjunct2, rule_format]

lemmas law_changes =
  change_parts [THEN conjunct1, rule_format]
  change_parts [THEN conjunct2, THEN conjunct1, rule_format]
  change_parts [THEN conjunct2, THEN conjunct2, THEN conjunct1, rule_format]
  change_parts [THEN conjunct2, THEN conjunct2, THEN conjunct2, THEN conjunct1, rule_format]
  change_parts [THEN conjunct2, THEN conjunct2, THEN conjunct2, THEN conjunct2, THEN conjunct1, rule_format]
  change_parts [THEN conjunct2, THEN conjunct2, THEN conjunct2, THEN conjunct2, THEN conjunct2, THEN conjunct1, rule_format]
  change_parts [THEN conjunct2, THEN conjunct2, THEN conjunct2, THEN conjunct2, THEN conjunct2, THEN conjunct2, THEN conjunct1, rule_format]
  change_parts [THEN conjunct2, THEN conjunct2, THEN conjunct2, THEN conjunct2, THEN conjunct2, THEN conjunct2, THEN conjunct2, rule_format]

text \<open>The session calls change the VDC objects and not the inventory.\<close>

lemma refresh_triple:
  assumes "cloud_laws api inven"
  shows "triple (\<lambda>s. inven (world s) = I) (refresh_auth api c) (\<lambda>_ s. inven (world s) = I)
      (\<lambda>_ s. inven (world s) = I)"
proof -
  have "triple (\<lambda>s. inven (world s) = I) (build_clients api c) (\<lambda>_ s. inven (world s) = I)
      (\<lambda>_ s. inven (world s) = I)"
    unfolding build_clients_def
    by (intro triple_bind [where R = "\<lambda>_ s. inven (world s) = I"] triple_for_each_inv triple_api_call
        triple_api_call0 triple_modify triple_ret) (simp_all add: law_reads [OF assms])
  then show ?thesis
    unfolding refresh_auth_def
    by (intro triple_bind [where R = "\<lambda>_ s. inven (world s) = I"] triple_api_call triple_if triple_ret)
      (simp_all add: law_reads [OF assms])
qed

lemma vdc_refresh_triple:
  assumes "cloud_laws api inven"
  shows "triple (seen inven I cs) (vdc_refresh api client) (\<lambda>_. seen inven I cs) (\<lambda>_. seen inven I cs)"
  unfolding vdc_refresh_def
  by (intro triple_api_call0) (auto simp: law_reads [OF assms] dest: seenD)

lemma disks_by_name_triple:
  fixes api :: "'w govcd"
  assumes "cloud_laws api inven"
  shows "triple (seen inven I cs) (api_call (GetDisksByName api client d rf) ev)
     (\<lambda>ds s. seen inven I cs s \<and> ds \<noteq> [] \<and> set ds = named I client d)
     (\<lambda>e s. seen inven I cs s \<and> (is_entity_not_found e \<longrightarrow> named I client d = {}))"
proof (rule triple_api_call)
  show "seen inven I cs (s\<lparr>world := w, trace := ev (Inr ds) # trace s\<rparr>) \<and> ds \<noteq> [] \<and> set ds = named I client d"
    if "seen inven I cs s" "GetDisksByName api client d rf (world s) = (Inr ds, w)" for s :: "'w vcd_client" and ds w
    using that law_lookups(1) [OF assms that(2)] law_reads(7) [OF assms that(2)] by (simp add: seen_def)
  show "seen inven I cs (s\<lparr>world := w, trace := ev (Inl e) # trace s\<rparr>) \<and>
      (is_entity_not_found (Ext e) \<longrightarrow> named I client d = {})"
    if "seen inven I cs s" "GetDisksByName api client d rf (world s) = (Inl e, w)" for s :: "'w vcd_client" and e w
    using that law_lookups(2) [OF assms that(2)] law_reads(7) [OF assms that(2)] by (simp add: seen_def)
qed

lemma get_disk_triple:
  assumes "cloud_laws api inven"
  shows "triple (seen inven I cs) (get_disk_by_name api client d)
     (\<lambda>dk s. seen inven I cs s \<and> named I client d = {dk})
     (\<lambda>e s. seen inven I cs s \<and> (is_entity_not_found e \<longrightarrow> named I client d = {}))"
  unfolding get_disk_by_name_def
proof (rule triple_bind [OF disks_by_name_triple [OF assms]])
  fix ds :: "disk list"
  let ?P = "\<lambda>s. seen inven I cs s \<and> ds \<noteq> [] \<and> set ds = named I client d"
  have "named I client d = {hd ds}" if "set ds = named I client d" "length ds = 1"
    using that by (cases ds) auto
  then show "triple ?P
      (if length ds \<noteq> 1 then
         raise (Errorf ''disk count mismatch, we want excatly one, seems like collision, count: %d''
                  [FInt (int (length ds))])
       else ret (hd ds))
      (\<lambda>dk s. seen inven I cs s \<and> named I client d = {dk})
      (\<lambda>e s. seen inven I cs s \<and> (is_entity_not_found e \<longrightarrow> named I client d = {}))"
    by (simp add: triple_def wp_rules)
qed

lemma exists_triple:
  assumes "cloud_laws api inven"
  shows "triple (seen inven I cs) (disks_exists api client d)
     (\<lambda>b s. seen inven I cs s \<and> (b \<longleftrightarrow> named I client d \<noteq> {})) (\<lambda>_. seen inven I cs)"
proof -
  let ?R = "\<lambda>r s. seen inven I cs s \<and>
      (case r of Inl e \<Rightarrow> is_entity_not_found e \<longrightarrow> named I client d = {} | Inr _ \<Rightarrow> named I client d \<noteq> {})"
  have "triple (seen inven I cs)
      (attempt (api_call (GetDisksByName api client d False) (EvDisksByName client d))) ?R E" for E
    by (intro triple_attempt triple_weaken [OF disks_by_name_triple [OF assms]]) auto
  then show ?thesis
    unfolding disks_exists_def
    by (rule triple_bind) (intro triple_case_sum triple_if triple_raise triple_ret; simp)
qed

lemma attached_triple:
  assumes "cloud_laws api inven"
  shows "triple (seen inven I cs) (attached_vm api dk)
     (\<lambda>at s. seen inven I cs s \<and>
        (case at of None \<Rightarrow> inv_plug I (disk_href dk) = None
         | Some r \<Rightarrow> (\<exists>b u. inv_plug I (disk_href dk) = Some (ref_href r, b, u)) \<and>
                     (ref_name r, ref_href r) \<in> inv_vms I))
     (\<lambda>e s. seen inven I cs s \<and> \<not> is_entity_not_found e)"
  unfolding attached_vm_def
  by (intro triple_api_call)
    (auto dest: seenD law_lookups(3,4,8) [OF assms] simp: law_reads [OF assms] split: option.split)

lemma get_vm_triple:
  assumes "cloud_laws api inven"
  shows "triple (seen inven I cs) (get_vm_by_name api client n)
     (\<lambda>v s. seen inven I cs s \<and> (n, vm_href v) \<in> inv_vms I \<and> vm_shows I v)
     (\<lambda>e s. seen inven I cs s \<and> \<not> is_entity_not_found e)"
proof -
  let ?S = "seen inven I cs" and ?E = "\<lambda>e s. seen inven I cs s \<and> \<not> is_entity_not_found e"
  let ?V = "\<lambda>v s. seen inven I cs s \<and> (n, vm_href v) \<in> inv_vms I \<and> vm_shows I v"
  have vapp: "triple ?S (api_call (GetVAppByName api client m False) ev) (\<lambda>_. ?S) ?E"
    if "m \<in> inv_vapps I client" for m ev
    using that by (intro triple_api_call) (auto dest: seenD law_lookups(7) [OF assms] simp: law_reads [OF assms])
  have vm: "triple ?S (attempt (api_call (VApp_GetVMByName api va n False) ev))
      (\<lambda>r s. ?S s \<and> (case r of Inl _ \<Rightarrow> True | Inr v \<Rightarrow> ?V v s)) ?E" for va ev
    by (intro triple_attempt triple_api_call)
      (auto dest: seenD law_lookups(5) [OF assms] simp: law_reads [OF assms])
  have step: "triple ?S
      (if ref_type obj = MimeVApp api then
         andThen (api_call (GetVAppByName api client (ref_name obj) False) ev) (\<lambda>vApp.
         andThen (attempt (api_call (VApp_GetVMByName api vApp n False) ev'))
           (\<lambda>r. case r of
                  Inl err \<Rightarrow> if is_entity_not_found err then ret Continue else raise err
                | Inr vappVm \<Rightarrow> ret (Return vappVm)))
       else ret Continue)
      (\<lambda>c s. case c of Continue \<Rightarrow> ?S s | Return v \<Rightarrow> ?V v s) ?E"
    if "ref_type obj = MimeVApp api \<Longrightarrow> ref_name obj \<in> inv_vapps I client" for obj ev ev'
    by (intro triple_if triple_bind [OF vapp] triple_bind [OF vm] triple_case_sum triple_ret triple_raise that)
      auto
  show ?thesis
    unfolding get_vm_by_name_def
    apply (rule triple_bind [where R = "\<lambda>ents s. (\<forall>r \<in> set ents. ref_type r = MimeVApp api \<longrightarrow>
        ref_name r \<in> inv_vapps I client) \<and> ?S s"])
     apply (rule triple_gets)
     apply (use law_lookups(6) [OF assms] in \<open>auto simp: seen_def\<close>)[1]
    apply (rule triple_fact)
    apply (intro triple_for_each_inv step triple_raise)
     apply auto
    done
qed

subsection \<open>detachDisk\<close>

definition vm_names_unique :: "inventory \<Rightarrow> bool" where
  "vm_names_unique I \<longleftrightarrow> (\<forall>n h h'. (n, h) \<in> inv_vms I \<longrightarrow> (n, h') \<in> inv_vms I \<longrightarrow> h = h')"

lemma settings_triple:
  "triple P (vm_disk_settings v) (\<lambda>ss s. settings_list v = Some ss \<and> P s) E"
  unfolding vm_disk_settings_def settings_list_def
  by (auto simp: triple_def wp_rules split: option.split)

lemma detach_request:
  assumes "cloud_laws api inven"
  shows "triple (seen inven I cs)
     (andThen (api_call (VM_DetachDisk api v p) ev) (wait_task api))
     (\<lambda>_. seen inven (unplug (ref_href (param_disk p)) I) cs) (\<lambda>e s. \<not> is_entity_not_found e)"
  by (rule triple_request) (auto simp: seen_def law_changes(2-4) [OF assms])

text \<open>The disk is not among the settings passed so far.\<close>

definition not_shown :: "disk_setting option list \<Rightarrow> string \<Rightarrow> bool" where
  "not_shown ss h \<longleftrightarrow> (\<forall>s r. Some s \<in> set ss \<longrightarrow> setting_disk s = Some r \<longrightarrow> ref_href r \<noteq> h)"

lemma not_shown_simps [simp]:
  "not_shown [] h"
  "not_shown (ss @ [None]) h \<longleftrightarrow> not_shown ss h"
  "not_shown (ss @ [Some s]) h \<longleftrightarrow> not_shown ss h \<and> (\<forall>r. setting_disk s = Some r \<longrightarrow> ref_href r \<noteq> h)"
  by (auto simp: not_shown_def)

lemma not_shownD: "not_shown ss h \<Longrightarrow> \<not> shows_disk ss h b u"
  by (auto simp: not_shown_def shows_disk_def)

lemma detach_spec_triple:
  assumes "cloud_laws api inven"
  shows "triple (\<lambda>s. seen inven I cs s \<and> not_shown ys (disk_href dk)) (detach_from_spec api v dk x)
     (\<lambda>c s. case c of
        Continue \<Rightarrow> seen inven I cs s \<and> not_shown (ys @ [x]) (disk_href dk)
      | Return _ \<Rightarrow> seen inven (unplug (disk_href dk) I) cs s)
     (\<lambda>e s. \<not> is_entity_not_found e)"
proof (cases x)
  case None
  then show ?thesis by (simp add: detach_from_spec_def triple_def wp_rules)
next
  case (Some spec)
  show ?thesis
  proof (cases "setting_disk spec")
    case None
    with Some show ?thesis by (simp add: detach_from_spec_def triple_def wp_rules)
  next
    case r: (Some r)
    show ?thesis
    proof (cases "ref_href r = disk_href dk")
      case True
      let ?p = "\<lparr>param_disk = r, param_bus = BusNumber spec, param_unit = UnitNumber spec\<rparr>"
      have request: "triple (\<lambda>s. seen inven I cs s \<and> not_shown ys (disk_href dk))
          (andThen (api_call (VM_DetachDisk api v ?p) (EvDetach v ?p)) (wait_task api))
          (\<lambda>_. seen inven (unplug (disk_href dk) I) cs) (\<lambda>e s. \<not> is_entity_not_found e)"
        by (rule triple_weaken [OF detach_request [OF assms]]) (auto simp: True)
      show ?thesis
        unfolding Some detach_from_spec_def deref.simps andThen_ret r option.case Let_def if_P [OF True]
        by (intro triple_request_then [OF request] triple_ret) simp
    next
      case False
      with Some r show ?thesis by (simp add: detach_from_spec_def triple_def wp_rules)
    qed
  qed
qed

lemma detach_triple:
  assumes "cloud_laws api inven"
  shows "triple (seen inven I cs) (detach_disk_in api client d)
     (\<lambda>_ s. \<exists>dk. named I client d = {dk} \<and>
        (seen inven (unplug (disk_href dk) I) cs s \<or> seen inven I cs s \<and> \<not> vm_names_unique I))
     (\<lambda>e s. is_entity_not_found e \<longrightarrow> seen inven I cs s \<and> named I client d = {})"
    (is "triple ?S _ ?Q ?E")
proof -
  have get: "triple ?S (get_disk_by_name api client d) (\<lambda>dk s. named I client d = {dk} \<and> ?S s) ?E"
    by (rule triple_weaken [OF get_disk_triple [OF assms]]) auto
  have attached: "triple ?S (attached_vm api dk)
      (\<lambda>at s. ((at = None \<longrightarrow> inv_plug I (disk_href dk) = None) \<and>
         (\<forall>r. at = Some r \<longrightarrow> (\<exists>b u. inv_plug I (disk_href dk) = Some (ref_href r, b, u)) \<and>
                     (ref_name r, ref_href r) \<in> inv_vms I)) \<and> ?S s) ?E" for dk
    by (rule triple_weaken [OF attached_triple [OF assms]]) auto
  have vm: "triple ?S (get_vm_by_name api client n)
      (\<lambda>v s. ((n, vm_href v) \<in> inv_vms I \<and> vm_shows I v) \<and> ?S s) ?E" for n
    by (rule triple_weaken [OF get_vm_triple [OF assms]]) auto
  have loop: "triple ?S (for_each ss (detach_from_spec api v dk) (ret ())) ?Q ?E"
    if dk: "named I client d = {dk}" and v: "(ref_name r, vm_href v) \<in> inv_vms I" "vm_shows I v"
      and ss: "settings_list v = Some ss"
      and r: "inv_plug I (disk_href dk) = Some (ref_href r, b, u)" "(ref_name r, ref_href r) \<in> inv_vms I"
    for dk v ss r b u
  proof -
    have all: "not_shown ss (disk_href dk) \<Longrightarrow> \<not> vm_names_unique I"
      using v ss r not_shownD [of ss "disk_href dk" b u] by (auto simp: vm_shows_def vm_names_unique_def)
    have "triple (\<lambda>s. seen inven I cs s \<and> not_shown [] (disk_href dk))
        (for_each ss (detach_from_spec api v dk) (ret ())) ?Q ?E"
    proof (rule triple_for_each [where I = "\<lambda>ys s. seen inven I cs s \<and> not_shown ys (disk_href dk)"])
      show "triple (\<lambda>s. seen inven I cs s \<and> not_shown ss (disk_href dk)) (ret ()) ?Q ?E"
        using dk all by (intro triple_ret) blast
      show "triple (\<lambda>s. seen inven I cs s \<and> not_shown ys (disk_href dk)) (detach_from_spec api v dk x)
          (\<lambda>c s. case c of Continue \<Rightarrow> seen inven I cs s \<and> not_shown (ys @ [x]) (disk_href dk)
             | Return w \<Rightarrow> ?Q w s) ?E" for ys x
        by (rule triple_weaken [OF detach_spec_triple [OF assms]]) (use dk in \<open>auto split: ctl.splits\<close>)
    qed
    then show ?thesis by simp
  qed
  show ?thesis
    unfolding detach_disk_in_def
    apply (rule triple_bind [OF get], rule triple_fact)
    apply (rule triple_bind [OF attached], rule triple_fact)
    apply (rule triple_case_option)
     apply (rule triple_ret)
     apply (simp add: unplug_same)
    apply (rule triple_bind [OF vm], rule triple_fact)
    apply (rule triple_bind [OF settings_triple], rule triple_fact)
    apply (blast intro: loop)
    done
qed

subsection \<open>The frame of a public method\<close>

definition any_error :: "go_error \<Rightarrow> 'w vcd_client \<Rightarrow> bool" where
  "any_error e s = True"

lemma any_error [simp]: "any_error e s"
  by (simp add: any_error_def)

lemma method_triple:
  assumes "cloud_laws api inven" and "\<And>cs. triple (seen inven I cs) (body cs) Q any_error"
    and "\<And>v s b. Q v s \<Longrightarrow> Q v (s\<lparr>mt := b\<rparr>)"
  shows "triple (\<lambda>s. inven (world s) = I)
     (locked (andThen (refresh_auth api c) (\<lambda>_. andThen (gets VdcClients) body))) Q any_error"
proof -
  have refresh: "triple (\<lambda>s. inven (world s) = I) (refresh_auth api c) (\<lambda>_ s. inven (world s) = I) any_error"
    by (rule triple_weaken [OF refresh_triple [OF assms(1)]]) simp_all
  have clients: "triple (\<lambda>s. inven (world s) = I) (gets VdcClients) (seen inven I) any_error"
    by (rule triple_gets) (simp add: seen_def)
  have "triple (\<lambda>s. inven (world s) = I)
      (andThen (refresh_auth api c) (\<lambda>_. andThen (gets VdcClients) body)) Q any_error"
    by (rule triple_bind [OF refresh triple_bind [OF clients assms(2)]])
  then show ?thesis
    unfolding locked_def by (rule triple_with_mutex) (simp_all add: assms(3))
qed

lemma vdc_refresh_any:
  assumes "cloud_laws api inven"
  shows "triple (seen inven I cs) (vdc_refresh api client) (\<lambda>_. seen inven I cs) any_error"
  by (rule triple_weaken [OF vdc_refresh_triple [OF assms]]) simp_all

lemma get_disk_any:
  assumes "cloud_laws api inven"
  shows "triple (seen inven I cs) (get_disk_by_name api client d)
     (\<lambda>dk s. named I client d = {dk} \<and> seen inven I cs s) any_error"
  by (rule triple_weaken [OF get_disk_triple [OF assms]]) auto

lemma attached_any:
  assumes "cloud_laws api inven"
  shows "triple (seen inven I cs) (attached_vm api dk)
      (\<lambda>at s. ((at = None \<longleftrightarrow> inv_plug I (disk_href dk) = None) \<and>
         (\<forall>r. at = Some r \<longrightarrow> (\<exists>b u. inv_plug I (disk_href dk) = Some (ref_href r, b, u)))) \<and>
         seen inven I cs s) any_error"
  by (rule triple_weaken [OF attached_triple [OF assms]]) (auto split: option.splits)

subsection \<open>DetachDisk\<close>

text \<open>Done: the disk of that name in one of the VDCs is unplugged. Nothing to do: no VDC has a disk
  of that name.\<close>

definition detach_post :: "inventory \<Rightarrow> string \<Rightarrow> vdc_ref set \<Rightarrow> inventory \<Rightarrow> bool" where
  "detach_post I d clients J \<longleftrightarrow>
     (\<exists>client \<in> clients. \<exists>dk. named I client d = {dk} \<and> J = unplug (disk_href dk) I) \<or>
     (J = I \<and> (\<forall>client \<in> clients. named I client d = {}))"

lemma detach_in_triple:
  assumes "cloud_laws api inven" and "vm_names_unique I" and "entry \<in> set cs"
  shows "triple (seen inven I cs) (detach_in_vdc api d entry)
     (\<lambda>c s. case c of Continue \<Rightarrow> seen inven I cs s \<and> named I (snd entry) d = {}
        | Return _ \<Rightarrow> detach_post I d (snd ` set (VdcClients s)) (inven (world s))) any_error"
proof -
  obtain n client where e: "entry = (n, client)" by fastforce
  have detach: "triple (seen inven I cs) (attempt (detach_disk_in api client d))
      (\<lambda>r s. case r of
         Inl e \<Rightarrow> is_entity_not_found e \<longrightarrow> seen inven I cs s \<and> named I client d = {}
       | Inr _ \<Rightarrow> \<exists>dk. named I client d = {dk} \<and> seen inven (unplug (disk_href dk) I) cs s) any_error"
    by (intro triple_attempt triple_weaken [OF detach_triple [OF assms(1)]]) (use assms(2) in auto)
  have client: "client \<in> snd ` set cs"
    using assms(3) e by force
  show ?thesis
    unfolding detach_in_vdc_def e prod.case snd_conv
    by (intro triple_bind [OF vdc_refresh_any [OF assms(1)]] triple_bind [OF detach]
        triple_case_sum triple_if triple_ret triple_raise)
      (use client in \<open>auto simp: detach_post_def seen_def\<close>)
qed

lemma detach_disk_triple:
  assumes "cloud_laws api inven" and "vm_names_unique I" and "runtime_ok rt"
  shows "triple (\<lambda>s. inven (world s) = I) (detach_disk rt api c vmn d)
     (\<lambda>_ s. detach_post I d (snd ` set (VdcClients s)) (inven (world s))) any_error"
  unfolding detach_disk_def
proof (rule method_triple [OF assms(1)])
  fix cs
  let ?I = "\<lambda>(ys :: (string \<times> vdc_ref) list) s.
    seen inven I cs s \<and> (\<forall>e \<in> set ys. named I (snd e) d = {})"
  have order: "set (range_vdcs rt cs) = set cs"
    using assms(3) by (simp add: runtime_ok_def)
  have "triple (?I []) (for_each (range_vdcs rt cs) (detach_in_vdc api d) (ret ()))
      (\<lambda>_ s. detach_post I d (snd ` set (VdcClients s)) (inven (world s))) any_error"
  proof (rule triple_for_each [where I = ?I])
    fix ys x zs
    assume "range_vdcs rt cs = ys @ x # zs"
    then have "set cs = set (ys @ x # zs)" using order by simp
    then have "x \<in> set cs" by simp
    show "triple (?I ys) (detach_in_vdc api d x)
       (\<lambda>c s. case c of Continue \<Rightarrow> ?I (ys @ [x]) s
          | Return _ \<Rightarrow> detach_post I d (snd ` set (VdcClients s)) (inven (world s))) any_error"
      by (rule triple_weaken [OF triple_conj [OF detach_in_triple [OF assms(1,2) \<open>x \<in> set cs\<close>]
              triple_frame [where F = "\<forall>e \<in> set ys. named I (snd e) d = {}"]]])
        (auto split: ctl.splits)
  qed (auto intro!: triple_ret simp: seen_def detach_post_def order)
  then show "triple (seen inven I cs) (for_each (range_vdcs rt cs) (detach_in_vdc api d) (ret ()))
      (\<lambda>_ s. detach_post I d (snd ` set (VdcClients s)) (inven (world s))) any_error"
    by simp
qed (simp add: detach_post_def)

subsection \<open>AttachDisk\<close>

text \<open>The disk of that name is plugged into a VM of that name, at the unit the answer says, and
  nothing else has changed.\<close>

definition attach_post ::
  "inventory \<Rightarrow> string \<Rightarrow> string \<Rightarrow> vdc_ref set \<Rightarrow> disk_attach_params \<Rightarrow> inventory \<Rightarrow> bool" where
  "attach_post I vmn d clients p J \<longleftrightarrow>
     (\<exists>client \<in> clients. \<exists>dk h b u.
        named I client d = {dk} \<and> (vmn, h) \<in> inv_vms I \<and> J = plug (disk_href dk) (h, b, u) I \<and>
        p = \<lparr>attach_name = d, attach_path = itoa u, attach_size = NewStorageSizeFromMb (disk_size_mb dk)\<rparr>)"

lemma do_attach_triple:
  assumes "cloud_laws api inven"
  shows "triple (seen inven J cs) (do_attach rt api c v d dk)
     (\<lambda>p s. \<exists>b u. seen inven (plug (disk_href dk) (vm_href v, b, u) J) cs s \<and>
        p = \<lparr>attach_name = d, attach_path = itoa u, attach_size = NewStorageSizeFromMb (disk_size_mb dk)\<rparr>)
     any_error"
proof -
  let ?p = "\<lambda>u. \<lparr>param_disk = \<lparr>ref_name = disk_name dk, ref_type = disk_type dk, ref_href = disk_href dk\<rparr>,
                 param_bus = DefaultBusNum c, param_unit = u\<rparr>"
  have request: "triple (seen inven J cs)
      (andThen (api_call (VM_AttachDisk api v (?p u)) (EvAttach v (?p u))) (wait_task api))
      (\<lambda>_. seen inven (plug (disk_href dk) (vm_href v, DefaultBusNum c, u) J) cs) any_error" for u
    by (rule triple_request) (auto simp: seen_def law_changes(1) [OF assms])
  have unit: "triple (seen inven J cs) (get_free_unit_num rt v (DefaultBusNum c)) (\<lambda>_. seen inven J cs) any_error"
    unfolding get_free_unit_num_def
    by (intro triple_bind [OF settings_triple] triple_ret) simp
  show ?thesis
    unfolding do_attach_def Let_def
    by (intro triple_bind [OF unit] triple_case_prod triple_request_then [OF request] triple_ret) blast
qed

lemma find_triple:
  assumes "vm_shows I v" and "settings_list v = Some ss" and "x \<in> set ss"
  shows "triple (seen inven I cs) (find_attachment dk x)
     (\<lambda>c s. case c of Continue \<Rightarrow> seen inven I cs s
        | Return f \<Rightarrow> seen inven I cs s \<and>
            (\<forall>u. f = Some u \<longrightarrow> (\<exists>b. inv_plug I (disk_href dk) = Some (vm_href v, b, u)))) any_error"
proof -
  have "\<exists>b. inv_plug I (ref_href r) = Some (vm_href v, b, UnitNumber s)"
    if "Some s \<in> set ss" "setting_disk s = Some r" for s r
    using assms(1,2) that unfolding vm_shows_def shows_disk_def by blast
  with assms(3) show ?thesis
    by (auto simp: find_attachment_def triple_def wp_rules split: option.split) metis
qed

lemma check_triple:
  assumes "cloud_laws api inven" and "vm_shows I v" and "named I client d = {dk}"
  shows "triple (seen inven I cs) (check_attached api client v d dk avm)
     (\<lambda>found s. case found of
        Some u \<Rightarrow> seen inven I cs s \<and> (\<exists>b. inv_plug I (disk_href dk) = Some (vm_href v, b, u))
      | None \<Rightarrow> seen inven I cs s \<or> seen inven (unplug (disk_href dk) I) cs s) any_error"
proof -
  let ?F = "\<lambda>f s. seen inven I cs s \<and>
      (\<forall>u. f = Some u \<longrightarrow> (\<exists>b. inv_plug I (disk_href dk) = Some (vm_href v, b, u)))"
  have loop: "triple (seen inven I cs) (for_each ss (find_attachment dk) (ret None)) ?F any_error"
    if "settings_list v = Some ss" for ss
    using that by (intro triple_for_each_inv find_triple [OF assms(2)] triple_ret) simp_all
  have search: "triple (seen inven I cs)
      (if vm_href v = ref_href avm then
         andThen (vm_disk_settings v) (\<lambda>ss. for_each ss (find_attachment dk) (ret None))
       else ret None) ?F any_error"
    by (intro triple_if triple_bind [OF settings_triple] triple_fact loop triple_ret) simp_all
  have detach: "triple (seen inven I cs) (mapErr (detach_disk_in api client d) h)
      (\<lambda>_ s. seen inven I cs s \<or> seen inven (unplug (disk_href dk) I) cs s) any_error" for h
    by (intro triple_mapErr triple_weaken [OF detach_triple [OF assms(1)]]) (use assms(3) in auto)
  have rest: "triple (?F found)
      (case found of
         Some unit \<Rightarrow> ret (Some unit)
       | None \<Rightarrow> andThen (mapErr (detach_disk_in api client d) (\<lambda>_. ErrWrongDiskAttach)) (\<lambda>_. ret None))
      (\<lambda>found s. case found of
        Some u \<Rightarrow> seen inven I cs s \<and> (\<exists>b. inv_plug I (disk_href dk) = Some (vm_href v, b, u))
      | None \<Rightarrow> seen inven I cs s \<or> seen inven (unplug (disk_href dk) I) cs s) any_error" for found
  proof (cases found)
    case None
    then show ?thesis
      by (simp, intro triple_bind [OF detach] triple_ret) simp
  next
    case (Some u)
    then show ?thesis by (auto intro!: triple_ret)
  qed
  show ?thesis
    unfolding check_attached_def by (rule triple_bind [OF search rest])
qed

lemma attach_in_triple:
  assumes "cloud_laws api inven" and "entry \<in> set cs"
  shows "triple (seen inven I cs) (attach_in_vdc rt api c vmn d entry)
     (\<lambda>r s. case r of Continue \<Rightarrow> seen inven I cs s
        | Return p \<Rightarrow> attach_post I vmn d (snd ` set (VdcClients s)) p (inven (world s))) any_error"
proof -
  obtain n client where e: "entry = (n, client)" by fastforce
  have client: "client \<in> snd ` set cs"
    using assms(2) e by force
  let ?Q = "\<lambda>r s. case r of Continue \<Rightarrow> seen inven I cs s
        | Return p \<Rightarrow> attach_post I vmn d (snd ` set (VdcClients s)) p (inven (world s))"
  have vm: "triple (seen inven I cs) (attempt (get_vm_by_name api client vmn))
      (\<lambda>r s. (\<forall>v. r = Inr v \<longrightarrow> (vmn, vm_href v) \<in> inv_vms I \<and> vm_shows I v) \<and> seen inven I cs s)
      any_error"
    by (intro triple_attempt triple_weaken [OF get_vm_triple [OF assms(1)]]) auto
  have disk: "triple (seen inven I cs) (mapErr (get_disk_by_name api client d) h)
      (\<lambda>dk s. named I client d = {dk} \<and> seen inven I cs s) any_error" for h
    by (intro triple_mapErr triple_weaken [OF get_disk_any [OF assms(1)]]) simp_all
  have found: "triple (seen inven I cs)
      (case at of None \<Rightarrow> ret None | Some avm \<Rightarrow> check_attached api client v d dk avm)
      (\<lambda>found s. case found of
        Some u \<Rightarrow> seen inven I cs s \<and> (\<exists>b. inv_plug I (disk_href dk) = Some (vm_href v, b, u))
      | None \<Rightarrow> seen inven I cs s \<or> seen inven (unplug (disk_href dk) I) cs s) any_error"
    if "vm_shows I v" "named I client d = {dk}" for at v dk
    by (intro triple_case_option check_triple [OF assms(1) that] triple_ret) simp
  have post: "attach_post I vmn d (snd ` set (VdcClients s))
      \<lparr>attach_name = d, attach_path = itoa u, attach_size = NewStorageSizeFromMb (disk_size_mb dk)\<rparr>
      (inven (world s))"
    if "seen inven (plug (disk_href dk) (vm_href v, b, u) I) cs s" "(vmn, vm_href v) \<in> inv_vms I"
      "named I client d = {dk}" for v dk b u s
    using that client unfolding attach_post_def seen_def by blast
  have attach: "triple (\<lambda>s. seen inven I cs s \<or> seen inven (unplug (disk_href dk) I) cs s)
      (andThen (do_attach rt api c v d dk) (\<lambda>p. ret (Return p))) ?Q any_error"
    if "(vmn, vm_href v) \<in> inv_vms I" "named I client d = {dk}" for v dk
    by (rule triple_disj; rule triple_bind [OF do_attach_triple [OF assms(1)]]; rule triple_ret)
      (use post [OF _ that] in \<open>auto\<close>)
  have use_found: "triple (\<lambda>s. case f of
        Some u \<Rightarrow> seen inven I cs s \<and> (\<exists>b. inv_plug I (disk_href dk) = Some (vm_href v, b, u))
      | None \<Rightarrow> seen inven I cs s \<or> seen inven (unplug (disk_href dk) I) cs s)
      (case f of
         Some unit \<Rightarrow> ret (Return \<lparr>attach_name = d, attach_path = itoa unit,
                             attach_size = NewStorageSizeFromMb (disk_size_mb dk)\<rparr>)
       | None \<Rightarrow> andThen (do_attach rt api c v d dk) (\<lambda>p. ret (Return p))) ?Q any_error"
    if v: "(vmn, vm_href v) \<in> inv_vms I" and dk: "named I client d = {dk}" for f v dk
  proof (cases f)
    case None
    then show ?thesis using attach [OF v dk] by simp
  next
    case (Some u)
    have "attach_post I vmn d (snd ` set (VdcClients s))
      \<lparr>attach_name = d, attach_path = itoa u, attach_size = NewStorageSizeFromMb (disk_size_mb dk)\<rparr>
      (inven (world s))"
      if "seen inven I cs s" "inv_plug I (disk_href dk) = Some (vm_href v, b, u)" for s b
      using post [OF _ v dk, of b u s] that plug_same [OF that(2)] by simp
    with Some show ?thesis by (auto intro!: triple_ret)
  qed
  show ?thesis
    unfolding attach_in_vdc_def e prod.case
    apply (rule triple_bind [OF vdc_refresh_any [OF assms(1)]])
    apply (rule triple_bind [OF vm], rule triple_fact)
    apply (rule triple_case_sum)
     apply (intro triple_if triple_ret triple_raise)
      apply simp_all[2]
    apply (rule triple_bind [OF disk], rule triple_fact)
    apply (rule triple_bind [OF attached_any [OF assms(1)]], rule triple_fact)
    apply (rule triple_bind [OF found])
      apply simp_all[2]
    apply (rule use_found)
     apply simp_all
    done
qed

lemma attach_disk_triple:
  assumes "cloud_laws api inven" and "runtime_ok rt"
  shows "triple (\<lambda>s. inven (world s) = I) (attach_disk rt api c vmn d)
     (\<lambda>p s. attach_post I vmn d (snd ` set (VdcClients s)) p (inven (world s))) any_error"
  unfolding attach_disk_def
proof (rule method_triple [OF assms(1)])
  show "triple (seen inven I cs)
      (for_each (range_vdcs rt cs) (attach_in_vdc rt api c vmn d) (raise ErrVmNotFound))
      (\<lambda>p s. attach_post I vmn d (snd ` set (VdcClients s)) p (inven (world s))) any_error" for cs
    using assms(2)
    by (intro triple_for_each_inv attach_in_triple [OF assms(1)] triple_raise)
      (simp_all add: runtime_ok_def)
qed simp

subsection \<open>DeleteDisk\<close>

text \<open>The disk of that name is unplugged and gone; or nothing has changed.\<close>

definition delete_post :: "inventory \<Rightarrow> string \<Rightarrow> vdc_ref set \<Rightarrow> inventory \<Rightarrow> bool" where
  "delete_post I d clients J \<longleftrightarrow>
     (\<exists>client \<in> clients. \<exists>dk. named I client d = {dk} \<and>
        J = remove_disk (disk_href dk) (unplug (disk_href dk) I)) \<or> J = I"

lemma delete_in_triple:
  assumes "cloud_laws api inven" and "vm_names_unique I" and "entry \<in> set cs"
  shows "triple (seen inven I cs) (delete_in_vdc api d entry)
     (\<lambda>c s. case c of Continue \<Rightarrow> seen inven I cs s
        | Return _ \<Rightarrow> delete_post I d (snd ` set (VdcClients s)) (inven (world s))) any_error"
proof -
  obtain n client where e: "entry = (n, client)" by fastforce
  have client: "client \<in> snd ` set cs"
    using assms(3) e by force
  have get: "triple (seen inven I cs) (attempt (get_disk_by_name api client d))
      (\<lambda>r s. (\<forall>dk. r = Inr dk \<longrightarrow> named I client d = {dk}) \<and> seen inven I cs s) any_error"
    by (intro triple_attempt triple_weaken [OF get_disk_triple [OF assms(1)]]) auto
  have detach: "triple (seen inven I cs) (if at \<noteq> None then detach_disk_in api client d else ret ())
      (\<lambda>_. seen inven (unplug (disk_href dk) I) cs) any_error"
    if "named I client d = {dk}" "at = None \<longleftrightarrow> inv_plug I (disk_href dk) = None"
    for at :: "reference option" and dk
    by (intro triple_if triple_ret triple_weaken [OF detach_triple [OF assms(1)]])
      (use that assms(2) in \<open>auto simp: unplug_same\<close>)
  have request: "triple (seen inven J cs) (andThen (api_call (Disk_Delete api dk) (EvDelete dk)) (wait_task api))
      (\<lambda>_. seen inven (remove_disk (disk_href dk) J) cs) any_error" for J dk
    by (rule triple_request) (auto simp: seen_def law_changes(5) [OF assms(1)])
  show ?thesis
    unfolding delete_in_vdc_def e prod.case
    apply (rule triple_bind [OF vdc_refresh_any [OF assms(1)]])
    apply (rule triple_bind [OF get], rule triple_fact)
    apply (rule triple_case_sum)
     apply (rule triple_ret, simp)
    apply (rule triple_bind [OF attached_any [OF assms(1)]], rule triple_fact)
    apply (rule triple_bind [OF detach])
      apply simp_all[2]
    apply (rule triple_request_then [OF request], rule triple_ret)
    using client
    apply (auto simp: delete_post_def seen_def)
    done
qed

lemma delete_disk_triple:
  assumes "cloud_laws api inven" and "vm_names_unique I" and "runtime_ok rt"
  shows "triple (\<lambda>s. inven (world s) = I) (delete_disk rt api c d)
     (\<lambda>_ s. delete_post I d (snd ` set (VdcClients s)) (inven (world s))) any_error"
  unfolding delete_disk_def
proof (rule method_triple [OF assms(1)])
  show "triple (seen inven I cs)
      (for_each (range_vdcs rt cs) (delete_in_vdc api d) (ret ()))
      (\<lambda>_ s. delete_post I d (snd ` set (VdcClients s)) (inven (world s))) any_error" for cs
    using assms(3)
    by (intro triple_for_each_inv delete_in_triple [OF assms(1,2)] triple_ret)
      (simp_all add: runtime_ok_def delete_post_def seen_def)
qed (simp add: delete_post_def)

subsection \<open>CreateDisk and ResizeDisk\<close>

definition create_post ::
  "inventory \<Rightarrow> string \<Rightarrow> string \<Rightarrow> storage_size \<Rightarrow> (string \<times> vdc_ref) list \<Rightarrow> inventory \<Rightarrow> bool" where
  "create_post I vdc d sz cs J \<longleftrightarrow>
     (\<exists>client. map_of cs vdc = Some client \<and>
        (if named I client d \<noteq> {} then J = I
         else \<exists>dk. disk_name dk = d \<and> disk_size_mb dk = Mb sz \<and> J = add_disk client dk I))"

lemma of_ext_opt_Ok: "of_ext_opt r s = (Ok u, s') \<longleftrightarrow> r = None \<and> s' = s"
  by (cases r) (auto simp: ret_def raise_def)

lemma create_disk_triple:
  assumes "cloud_laws api inven"
  shows "triple (\<lambda>s. inven (world s) = I) (create_disk api c vdc d profile sz)
     (\<lambda>_ s. create_post I vdc d sz (VdcClients s) (inven (world s))) any_error"
  unfolding create_disk_def
proof (rule method_triple [OF assms(1)])
  fix cs
  have exists: "triple (seen inven I cs) (disks_exists api client d)
     (\<lambda>b s. (b \<longleftrightarrow> named I client d \<noteq> {}) \<and> seen inven I cs s) any_error" for client
    by (rule triple_weaken [OF exists_triple [OF assms]]) auto
  have profile: "triple (seen inven I cs) (api_call (FindStorageProfileReference api client profile) ev)
     (\<lambda>_. seen inven I cs) any_error" for client ev
    by (rule triple_api_call) (auto simp: seen_def law_reads(8) [OF assms])
  have create: "triple (seen inven I cs)
      (andThen (ext_call (Vdc_CreateDisk api client p) ev) (\<lambda>te. wait_task api (fst te)))
      (\<lambda>_ s. create_post I vdc d sz (VdcClients s) (inven (world s))) any_error"
    if "map_of cs vdc = Some client" "named I client d = {}" "create_name p = d" "create_size_mb p = Mb sz"
    for client p ev
  proof (rule tripleI)
    fix s r s'
    assume s: "seen inven I cs s"
      and "andThen (ext_call (Vdc_CreateDisk api client p) ev) (\<lambda>te. wait_task api (fst te)) s = (Ok r, s')"
    then obtain t err w where call: "Vdc_CreateDisk api client p (world s) = ((t, err), w)"
      and wait: "WaitTaskCompletion api t w = (None, world s')" and cs: "VdcClients s' = VdcClients s"
      by (auto simp: andThen_def ext_call_def wait_task_def api_call0_def of_ext_opt_Ok split: prod.splits)
    then have "err = None"
      using law_changes(8) [OF assms] by (cases err) auto
    with law_changes(7) [OF assms] call wait s that cs
    show "create_post I vdc d sz (VdcClients s') (inven (world s'))"
      unfolding create_post_def seen_def by fastforce
  qed simp
  show "triple (seen inven I cs)
      (case map_of cs vdc of
         None \<Rightarrow> raise (ErrNew (''vdcName not found: '' @ vdc))
       | Some client \<Rightarrow>
           andThen (vdc_refresh api client) (\<lambda>_.
           andThen (disks_exists api client d) (\<lambda>ex.
           if ex then ret ()
           else
             andThen (api_call (FindStorageProfileReference api client profile) (\<lambda>_. EvLookup)) (\<lambda>prof.
             let params = \<lparr>create_name = d, create_size_mb = Mb sz,
                           create_profile = prof, create_bus_type = DefaultBusType c,
                           create_bus_sub_type = DefaultSubBusType c\<rparr> in
             andThen (ext_call (Vdc_CreateDisk api client params)
                        (\<lambda>te. EvCreateDisk client params (snd te))) (\<lambda>te.
             wait_task api (fst te))))))
     (\<lambda>_ s. create_post I vdc d sz (VdcClients s) (inven (world s))) any_error"
    unfolding Let_def
    apply (rule triple_case_option)
     apply (rule triple_raise, simp)
    apply (rule triple_bind [OF vdc_refresh_any [OF assms(1)]])
    apply (rule triple_bind [OF exists], rule triple_fact)
    apply (rule triple_if)
     apply (rule triple_ret)
     apply (auto simp: create_post_def seen_def)[1]
    apply (rule triple_bind [OF profile], rule create)
       apply simp_all
    done
qed (simp add: create_post_def)

definition resize_post ::
  "inventory \<Rightarrow> string \<Rightarrow> string \<Rightarrow> storage_size \<Rightarrow> (string \<times> vdc_ref) list \<Rightarrow> inventory \<Rightarrow> bool" where
  "resize_post I vdc d sz cs J \<longleftrightarrow>
     (\<exists>client dk. map_of cs vdc = Some client \<and> named I client d = {dk} \<and>
        inv_plug I (disk_href dk) = None \<and> J = set_size (disk_href dk) (Mb sz) I)"

lemma resize_disk_triple:
  assumes "cloud_laws api inven"
  shows "triple (\<lambda>s. inven (world s) = I) (resize_disk api c vdc d sz)
     (\<lambda>_ s. resize_post I vdc d sz (VdcClients s) (inven (world s))) any_error"
  unfolding resize_disk_def
proof (rule method_triple [OF assms(1)])
  fix cs
  have request: "triple (seen inven I cs)
      (andThen (api_call (Disk_Update api dk (disk_name dk) mb) ev) (wait_task api))
      (\<lambda>_. seen inven (set_size (disk_href dk) mb I) cs) any_error" for dk mb ev
    by (rule triple_request) (auto simp: seen_def law_changes(6) [OF assms])
  show "triple (seen inven I cs)
      (case map_of cs vdc of
         None \<Rightarrow> raise (ErrNew ''vdc not exists'')
       | Some client \<Rightarrow>
           andThen (get_disk_by_name api client d) (\<lambda>d.
           andThen (attached_vm api d) (\<lambda>v.
           if v \<noteq> None then raise ErrDiskAttachedToVm
           else
             andThen (api_call (Disk_Update api d (disk_name d) (Mb sz))
                        (EvUpdate d (disk_name d) (Mb sz))) (\<lambda>task.
             wait_task api task))))
     (\<lambda>_ s. resize_post I vdc d sz (VdcClients s) (inven (world s))) any_error"
    apply (rule triple_case_option)
     apply (rule triple_raise, simp)
    apply (rule triple_bind [OF get_disk_any [OF assms(1)]], rule triple_fact)
    apply (rule triple_bind [OF attached_any [OF assms(1)]], rule triple_fact)
    apply (rule triple_if)
     apply (rule triple_raise, simp)
    apply (rule triple_weaken [OF request])
      apply (auto simp: resize_post_def seen_def)
    done
qed (simp add: resize_post_def)

end
