(* ===== verification/Client_Correctness.thy ===== *)
theory Client_Correctness
  imports Client_Refinement
begin

text \<open>
  The functional properties of the client over the inventory of a cloud that obeys \<open>cloud_laws\<close>: what
  a successful call of each public method has done. The reference cloud instantiates each of them.
\<close>

subsection \<open>ListVolumes\<close>

text \<open>The volumes of the VDCs of a client.\<close>

definition volumes_of :: "inventory \<Rightarrow> string \<times> vdc_ref \<Rightarrow> volume_with_cap set" where
  "volumes_of I entry =
     (\<lambda>dk. \<lparr>Name = disk_name dk, Cap = NewStorageSizeFromMb (disk_size_mb dk), VdcName = fst entry\<rparr>)
       ` inv_disks I (snd entry)"

definition disk_hrefs_unique :: "inventory \<Rightarrow> bool" where
  "disk_hrefs_unique I \<longleftrightarrow> (\<forall>client. inj_on disk_href (inv_disks I client))"

text \<open>The volumes of the disks that a list of entities refers to.\<close>

definition listed :: "'w govcd \<Rightarrow> inventory \<Rightarrow> string \<times> vdc_ref \<Rightarrow> reference list \<Rightarrow> volume_with_cap set" where
  "listed api I entry refs =
     (\<lambda>dk. \<lparr>Name = disk_name dk, Cap = NewStorageSizeFromMb (disk_size_mb dk), VdcName = fst entry\<rparr>)
       ` {dk \<in> inv_disks I (snd entry). \<exists>r \<in> set refs. ref_type r = MimeDisk api \<and> ref_href r = disk_href dk}"

lemma listed_simps:
  "listed api I entry [] = {}"
  "listed api I entry (refs @ [r]) = listed api I entry refs \<union> listed api I entry [r]"
  by (auto simp: listed_def)

lemma law_listing:
  assumes "cloud_laws api inven"
  shows "{(ref_name r, ref_href r) | r. r \<in> set (concat (ResourceEntities api v w)) \<and>
            ref_type r = MimeDisk api} = (\<lambda>d. (disk_name d, disk_href d)) ` inv_disks (inven w) v"
    and "GetDiskByHref api v h w = (Inr d, w') \<Longrightarrow> d \<in> inv_disks (inven w) v \<and> disk_href d = h"
  using law_parts(2) [OF assms] unfolding listing_laws_def by blast+

lemma entity_triple:
  fixes api :: "'w govcd"
  assumes "cloud_laws api inven" and "disk_hrefs_unique I"
    and r: "ref_type r = MimeDisk api \<Longrightarrow> (ref_name r, ref_href r) \<in> (\<lambda>d. (disk_name d, disk_href d)) ` inv_disks I client"
  shows "triple (\<lambda>s. seen inven I cs s \<and> set acc = A) (list_entity api n client r acc)
     (\<lambda>acc' s. seen inven I cs s \<and> set acc' = A \<union> listed api I (n, client) [r]) any_error"
proof (cases "ref_type r = MimeDisk api")
  case True
  have one: "listed api I (n, client) [r] =
      {\<lparr>Name = ref_name r, Cap = NewStorageSizeFromMb (disk_size_mb dk), VdcName = n\<rparr>}"
    if "dk \<in> inv_disks I client" "disk_href dk = ref_href r" for dk
  proof -
    have inj: "inj_on disk_href (inv_disks I client)"
      using assms(2) by (simp add: disk_hrefs_unique_def)
    have only: "x = dk" if "x \<in> inv_disks I client" "disk_href x = ref_href r" for x
      using inj_onD [OF inj, of x dk] that \<open>dk \<in> inv_disks I client\<close> \<open>disk_href dk = ref_href r\<close>
      by simp
    have "{x \<in> inv_disks I client. ref_href r = disk_href x} = {dk}"
    proof (rule set_eqI, rule iffI)
      show "x \<in> {dk}" if "x \<in> {x \<in> inv_disks I client. ref_href r = disk_href x}" for x
        using only [of x] that by simp
      show "x \<in> {x \<in> inv_disks I client. ref_href r = disk_href x}" if "x \<in> {dk}" for x
        using that \<open>dk \<in> inv_disks I client\<close> \<open>disk_href dk = ref_href r\<close> by simp
    qed
    moreover obtain dk' where dk': "dk' \<in> inv_disks I client" "ref_name r = disk_name dk'"
        "ref_href r = disk_href dk'"
      using r [OF True] by blast
    moreover have "dk' = dk"
      using only [OF dk'(1)] dk'(3) by simp
    ultimately show ?thesis
      using True by (simp add: listed_def)
  qed
  have get: "triple (\<lambda>s. seen inven I cs s \<and> set acc = A)
      (api_call (GetDiskByHref api client (ref_href r)) ev)
      (\<lambda>dk s. (dk \<in> inv_disks I client \<and> disk_href dk = ref_href r) \<and> seen inven I cs s \<and> set acc = A) any_error" for ev
  proof (rule triple_api_call)
    show "(dk \<in> inv_disks I client \<and> disk_href dk = ref_href r) \<and>
        seen inven I cs (s\<lparr>world := w, trace := ev (Inr dk) # trace s\<rparr>) \<and> set acc = A"
      if "seen inven I cs s \<and> set acc = A" "GetDiskByHref api client (ref_href r) (world s) = (Inr dk, w)"
      for s :: "'w vcd_client" and dk w
      using that law_listing(2) [OF assms(1) that(2)] law_reads(6) [OF assms(1) that(2)]
      by (simp add: seen_def)
  qed simp
  show ?thesis
    unfolding list_entity_def if_P [OF True]
  proof (rule triple_bind [OF get], rule triple_fact)
    fix dk
    assume "dk \<in> inv_disks I client \<and> disk_href dk = ref_href r"
    with one [of dk]
    show "triple (\<lambda>s. seen inven I cs s \<and> set acc = A)
        (ret (acc @ [\<lparr>Name = ref_name r, Cap = NewStorageSizeFromMb (disk_size_mb dk), VdcName = n\<rparr>]))
        (\<lambda>acc' s. seen inven I cs s \<and> set acc' = A \<union> listed api I (n, client) [r]) any_error"
      by (intro triple_ret) simp
  qed
next
  case False
  then have "listed api I (n, client) [r] = {}" by (auto simp: listed_def)
  with False show ?thesis by (auto simp: list_entity_def intro!: triple_ret)
qed

lemma list_vdc_triple:
  assumes "cloud_laws api inven" and "disk_hrefs_unique I"
  shows "triple (\<lambda>s. seen inven I cs s \<and> set acc = A) (list_vdc api entry acc)
     (\<lambda>acc' s. seen inven I cs s \<and> set acc' = A \<union> volumes_of I entry) any_error"
proof -
  obtain n client where e: "entry = (n, client)" by fastforce
  let ?S = "\<lambda>s. seen inven I cs s \<and> set acc = A"
  let ?names = "(\<lambda>d. (disk_name d, disk_href d)) ` inv_disks I client"
  have refresh: "triple ?S (vdc_refresh api client) (\<lambda>_. ?S) any_error"
    by (rule triple_weaken [OF triple_conj [OF vdc_refresh_any [OF assms(1)] triple_frame]]) auto
  have ents: "triple ?S (gets (\<lambda>v. concat (ResourceEntities api client (world v))))
      (\<lambda>refs s. {(ref_name r, ref_href r) | r. r \<in> set refs \<and> ref_type r = MimeDisk api} = ?names \<and> ?S s)
      any_error"
    using law_listing(1) [OF assms(1)] by (intro triple_gets) (auto simp: seen_def)
  have loop: "triple ?S (fold_act (list_entity api n client) refs acc)
      (\<lambda>acc' s. seen inven I cs s \<and> set acc' = A \<union> volumes_of I entry) any_error"
    if refs: "{(ref_name r, ref_href r) | r. r \<in> set refs \<and> ref_type r = MimeDisk api} = ?names" for refs
  proof -
    have "dk \<in> inv_disks I client \<Longrightarrow> \<exists>r \<in> set refs. ref_type r = MimeDisk api \<and> ref_href r = disk_href dk" for dk
      using refs by (force simp: set_eq_iff image_iff)
    then have all: "listed api I entry refs = volumes_of I entry"
      by (auto simp: listed_def volumes_of_def e)
    have "triple (\<lambda>s. seen inven I cs s \<and> set acc = A \<union> listed api I entry [])
        (fold_act (list_entity api n client) refs acc)
        (\<lambda>acc' s. seen inven I cs s \<and> set acc' = A \<union> listed api I entry refs) any_error"
    proof (rule triple_fold_act)
      fix ys x zs acc'
      assume "refs = ys @ x # zs"
      with refs have "ref_type x = MimeDisk api \<Longrightarrow> (ref_name x, ref_href x) \<in> ?names" by auto
      from entity_triple [OF assms this, of cs acc' "A \<union> listed api I entry ys" n]
      show "triple (\<lambda>s. seen inven I cs s \<and> set acc' = A \<union> listed api I entry ys)
          (list_entity api n client x acc')
          (\<lambda>acc'' s. seen inven I cs s \<and> set acc'' = A \<union> listed api I entry (ys @ [x])) any_error"
        unfolding listed_simps(2) e Un_assoc .
    qed
    then show ?thesis by (simp add: all listed_simps)
  qed
  show ?thesis
    unfolding list_vdc_def e prod.case
    by (intro triple_bind [OF refresh] triple_bind [OF ents] triple_fact loop [unfolded e])
qed

lemma list_volumes_triple:
  assumes "cloud_laws api inven" and "disk_hrefs_unique I" and "runtime_ok rt"
  shows "triple (\<lambda>s. inven (world s) = I) (list_volumes rt api c)
     (\<lambda>vs s. inven (world s) = I \<and> set vs = \<Union> (volumes_of I ` set (VdcClients s))) any_error"
  unfolding list_volumes_def
proof (rule method_triple [OF assms(1)])
  fix cs
  have order: "set (range_vdcs rt cs) = set cs"
    using assms(3) by (simp add: runtime_ok_def)
  have "triple (\<lambda>s. seen inven I cs s \<and> set [] = \<Union> (volumes_of I ` set []))
      (fold_act (list_vdc api) (range_vdcs rt cs) [])
      (\<lambda>vs s. seen inven I cs s \<and> set vs = \<Union> (volumes_of I ` set (range_vdcs rt cs))) any_error"
  proof (rule triple_fold_act)
    show "triple (\<lambda>s. seen inven I cs s \<and> set acc = \<Union> (volumes_of I ` set ys)) (list_vdc api x acc)
        (\<lambda>acc' s. seen inven I cs s \<and> set acc' = \<Union> (volumes_of I ` set (ys @ [x]))) any_error" for ys x acc
      by (rule triple_weaken [OF list_vdc_triple [OF assms(1,2), where A = "\<Union> (volumes_of I ` set ys)"]])
        auto
  qed
  then show "triple (seen inven I cs) (fold_act (list_vdc api) (range_vdcs rt cs) [])
      (\<lambda>vs s. inven (world s) = I \<and> set vs = \<Union> (volumes_of I ` set (VdcClients s))) any_error"
    by (rule triple_weaken) (auto simp: seen_def order)
qed simp

subsection \<open>What the methods do\<close>

text \<open>The inventory of the example client, on which the witnesses run.\<close>

lemma example_unique:
  "vm_names_unique (sim_inventory (world example_client))"
  "disk_hrefs_unique (sim_inventory (world example_client))"
  by (auto simp: vm_names_unique_def disk_hrefs_unique_def inj_on_def sim_inventory_def all_vms_def
      example_client_def example_cloud_def example_disk_def example_disk2_def)

text \<open>
  C4. A successful \<open>AttachDisk\<close> has found exactly one disk of the name in the VDC where it found a VM
  of the name, and leaves that disk plugged into that VM at the unit it returns, wherever the disk
  was before; nothing else in the inventory has changed.
\<close>

theorem attach_disk_correct:
  assumes "cloud_laws api inven" and "runtime_ok rt"
    and "attach_disk rt api c vmn d v = (Ok p, v')"
  shows "attach_post (inven (world v)) vmn d (snd ` set (VdcClients v')) p (inven (world v'))"
  using tripleD [OF attach_disk_triple [OF assms(1,2)] refl assms(3)] .

text \<open>The disk plugged into \<open>node-1\<close> is moved to \<open>node-2\<close>.\<close>

theorem attach_disk_correct_witness:
  "\<exists>p v'. attach_disk example_runtime sim_api example_config ''node-2'' ''pvc-2'' example_client = (Ok p, v')
     \<and> attach_path p = ''15'' \<and> plug_of (world v') ''d2'' = Some (''vm2'', 3, 15)
     \<and> attach_post (sim_inventory example_cloud) ''node-2'' ''pvc-2'' (snd ` set (VdcClients v')) p
         (sim_inventory (world v'))"
proof -
  have "case attach_disk example_runtime sim_api example_config ''node-2'' ''pvc-2'' example_client of
          (Ok p, v') \<Rightarrow> attach_path p = ''15'' \<and> plug_of (world v') ''d2'' = Some (''vm2'', 3, 15)
        | _ \<Rightarrow> False"
    by code_simp
  then obtain p v' where run: "attach_disk example_runtime sim_api example_config ''node-2'' ''pvc-2''
      example_client = (Ok p, v')" and "attach_path p = ''15''" "plug_of (world v') ''d2'' = Some (''vm2'', 3, 15)"
    by (auto split: prod.splits outcome.splits)
  with attach_disk_correct [OF sim_laws example_runtime_ok run] show ?thesis
    by (auto simp: example_client_def)
qed

text \<open>
  C5. A successful \<open>DetachDisk\<close>, whatever VM it was given, leaves the one disk of the name in one of
  the VDCs plugged into no VM, or has changed nothing because no VDC has a disk of the name. It rests
  on the names of VMs being unique: the VM of an attached disk is looked up by its name.
\<close>

theorem detach_disk_correct:
  assumes "cloud_laws api inven" and "runtime_ok rt" and "vm_names_unique (inven (world v))"
    and "detach_disk rt api c vmn d v = (Ok r, v')"
  shows "detach_post (inven (world v)) d (snd ` set (VdcClients v')) (inven (world v'))"
  using tripleD [OF detach_disk_triple [OF assms(1,3,2)] refl assms(4)] .

theorem detach_disk_correct_witness:
  "\<exists>v'. detach_disk example_runtime sim_api example_config ''node-1'' ''pvc-2'' example_client = (Ok (), v')
     \<and> plug_of (world v') ''d2'' = None
     \<and> detach_post (sim_inventory example_cloud) ''pvc-2'' (snd ` set (VdcClients v')) (sim_inventory (world v'))"
proof -
  have "case detach_disk example_runtime sim_api example_config ''node-1'' ''pvc-2'' example_client of
          (Ok r, v') \<Rightarrow> plug_of (world v') ''d2'' = None | _ \<Rightarrow> False"
    by code_simp
  then obtain v' where run: "detach_disk example_runtime sim_api example_config ''node-1'' ''pvc-2''
      example_client = (Ok (), v')" and "plug_of (world v') ''d2'' = None"
    by (auto split: prod.splits outcome.splits)
  with detach_disk_correct [OF sim_laws example_runtime_ok example_unique(1) run] show ?thesis
    by (auto simp: example_client_def)
qed

text \<open>Two vApps that each have a VM called \<open>node-1\<close>; the disk is plugged into the second one.\<close>

definition twin_cloud :: cloud where
  "twin_cloud = example_cloud\<lparr>
     c_vapps := [(VdcRef 0, ''app-1'', [(''node-1'', ''vm1'')]), (VdcRef 0, ''app-2'', [(''node-1'', ''vm2'')])],
     c_plugs := [(''d1'', ''vm2'', 3, 8)]\<rparr>"

text \<open>
  Where two vApps have a VM of the same name, \<open>DetachDisk\<close> can report success and leave the
  disk plugged in: it looks at the VM of the wrong vApp, finds no disk there, and returns no error. So
  the uniqueness of names in the previous property is necessary.
\<close>

lemma detach_wrong_vapp:
  "case detach_disk example_runtime sim_api example_config ''node-1'' ''pvc-1''
          (example_client\<lparr>world := twin_cloud\<rparr>) of
     (r, v') \<Rightarrow> r = Ok () \<and> plug_of (world v') ''d1'' = Some (''vm2'', 3, 8) \<and>
               \<not> list_ex mutating (trace v')"
  by code_simp

text \<open>
  C6. A successful \<open>DeleteDisk\<close> has unplugged and removed the one disk of the name in one of the
  VDCs, or has changed nothing at all; it never removes one of several disks that share the name.
\<close>

theorem delete_disk_correct:
  assumes "cloud_laws api inven" and "runtime_ok rt" and "vm_names_unique (inven (world v))"
    and "delete_disk rt api c d v = (Ok r, v')"
  shows "delete_post (inven (world v)) d (snd ` set (VdcClients v')) (inven (world v'))"
  using tripleD [OF delete_disk_triple [OF assms(1,3,2)] refl assms(4)] .

theorem delete_disk_correct_witness:
  "\<exists>v'. delete_disk example_runtime sim_api example_config ''pvc-2'' example_client = (Ok (), v')
     \<and> c_disks (world v') = [(VdcRef 0, example_disk)]
     \<and> delete_post (sim_inventory example_cloud) ''pvc-2'' (snd ` set (VdcClients v')) (sim_inventory (world v'))"
proof -
  have "case delete_disk example_runtime sim_api example_config ''pvc-2'' example_client of
          (Ok r, v') \<Rightarrow> c_disks (world v') = [(VdcRef 0, example_disk)] | _ \<Rightarrow> False"
    by code_simp
  then obtain v' where run: "delete_disk example_runtime sim_api example_config ''pvc-2''
      example_client = (Ok (), v')" and "c_disks (world v') = [(VdcRef 0, example_disk)]"
    by (auto split: prod.splits outcome.splits)
  with delete_disk_correct [OF sim_laws example_runtime_ok example_unique(1) run] show ?thesis
    by (auto simp: example_client_def)
qed

text \<open>
  The success of \<open>DeleteDisk\<close> does not say that the disk is gone: where two disks of a VDC have
  the name, every look-up fails, the failure is only logged, and the method returns no error with
  both disks in place. \<open>ResizeDisk\<close> reports the collision.
\<close>

lemma delete_ambiguous:
  "let v = example_client\<lparr>world := example_cloud\<lparr>
       c_disks := [(VdcRef 0, example_disk), (VdcRef 0, example_disk\<lparr>disk_href := ''d3''\<rparr>)]\<rparr>\<rparr> in
   (case delete_disk example_runtime sim_api example_config ''pvc-1'' v of
      (r, v') \<Rightarrow> r = Ok () \<and> c_disks (world v') = c_disks (world v) \<and> \<not> list_ex mutating (trace v')) \<and>
   (case resize_disk sim_api example_config ''vdc'' ''pvc-1'' (StorageSize 20971520) v of
      (r, v') \<Rightarrow> r = Err (Errorf ''disk count mismatch, we want excatly one, seems like collision, count: %d'' [FInt 2]))"
  by code_simp



text \<open>
  C8. A successful \<open>ResizeDisk\<close> has set the size, in whole mebibytes, of the one disk of the name in
  the named VDC, which was plugged into no VM, and changed nothing else.
\<close>

theorem resize_disk_correct:
  assumes "cloud_laws api inven" and "resize_disk api c vdc d sz v = (Ok r, v')"
  shows "resize_post (inven (world v)) vdc d sz (VdcClients v') (inven (world v'))"
  using tripleD [OF resize_disk_triple [OF assms(1)] refl assms(2)] .

theorem resize_disk_correct_witness:
  "\<exists>v'. resize_disk sim_api example_config ''vdc'' ''pvc-1'' (StorageSize 20971520) example_client = (Ok (), v')
     \<and> map (disk_size_mb \<circ> snd) (c_disks (world v')) = [20, 20]
     \<and> resize_post (sim_inventory example_cloud) ''vdc'' ''pvc-1'' (StorageSize 20971520) (VdcClients v')
         (sim_inventory (world v'))"
proof -
  have "case resize_disk sim_api example_config ''vdc'' ''pvc-1'' (StorageSize 20971520) example_client of
          (Ok r, v') \<Rightarrow> map (disk_size_mb \<circ> snd) (c_disks (world v')) = [20, 20] | _ \<Rightarrow> False"
    by code_simp
  then obtain v' where run: "resize_disk sim_api example_config ''vdc'' ''pvc-1'' (StorageSize 20971520)
      example_client = (Ok (), v')" and "map (disk_size_mb \<circ> snd) (c_disks (world v')) = [20, 20]"
    by (auto split: prod.splits outcome.splits)
  with resize_disk_correct [OF sim_laws run] show ?thesis
    by (auto simp: example_client_def)
qed



end
