(* ===== verification/Capacity.thy ===== *)
theory Capacity
  imports Storage_Size
begin

text \<open>
  The size arithmetic of \<open>internal/driver/disk.go\<close>: the supported range of sizes, the choice of a
  size from a CSI capacity range (\<open>extractStorage\<close>) and the human-readable sizes of its error
  messages (\<open>formatBytes\<close>).
\<close>

subsection \<open>Constants and requests\<close>

definition kiB :: int where "kiB = 2 ^ 10"
definition miB :: int where "miB = 2 ^ 20"
definition giB :: int where "giB = 2 ^ 30"
definition tiB :: int where "tiB = 2 ^ 40"

definition minimumVolumeSizeInBytes :: int64 where
  "minimumVolumeSizeInBytes = 4194304"

definition maximumVolumeSizeInBytes :: int64 where
  "maximumVolumeSizeInBytes = 4398046511104"

definition defaultVolumeSizeInBytes :: int64 where
  "defaultVolumeSizeInBytes = 5 * word_of_int giB"

lemmas capacity_consts =
  kiB_def miB_def giB_def tiB_def minimumVolumeSizeInBytes_def maximumVolumeSizeInBytes_def
  defaultVolumeSizeInBytes_def

text \<open>\<open>csi.CapacityRange\<close>: two signed 64-bit numbers, 0 meaning not given.\<close>

record capacity_range =
  RequiredBytes :: int64
  LimitBytes :: int64

subsection \<open>formatBytes\<close>

text \<open>\<open>strconv.FormatFloat(float64(i) / 2^k, 'f', 1, 64)\<close>; dividing a float64 by a power of two is
  exact here.\<close>

definition format_float :: "int \<Rightarrow> int \<Rightarrow> string" where
  "format_float i unit_size =
     (if i < 0 then ''-'' else []) @
     format_tenths (float64_of_nat (nat \<bar>i\<bar>)) (nat unit_size)"

definition format_bytes :: "int64 \<Rightarrow> string" where
  "format_bytes inputBytes =
     (let i = sint inputBytes;
          finish = (\<lambda>unit_size unit_name.
                      trim_suffix (format_float i unit_size) ''.0'' @ unit_name) in
      if tiB \<le> i then finish tiB ''Ti''
      else if giB \<le> i then finish giB ''Gi''
      else if miB \<le> i then finish miB ''Mi''
      else if kiB \<le> i then finish kiB ''Ki''
      else if i = 0 then ''0''
      else finish 1 [])"

subsection \<open>extractStorage\<close>

definition extract_storage :: "capacity_range option \<Rightarrow> go_error + storage_size" where
  "extract_storage capRange =
     (case capRange of
        None \<Rightarrow> Inr (NewStorageSize defaultVolumeSizeInBytes)
      | Some cr \<Rightarrow>
         (let requiredBytes = RequiredBytes cr;
              requiredSet = 0 <s requiredBytes;
              limitBytes = LimitBytes cr;
              limitSet = 0 <s limitBytes in
          if \<not> requiredSet \<and> \<not> limitSet then Inr (NewStorageSize defaultVolumeSizeInBytes)
          else if requiredSet \<and> limitSet \<and> limitBytes <s requiredBytes then
            Inl (Errorf ''limit (%v) can not be less than required (%v) size''
                   [FStr (format_bytes limitBytes), FStr (format_bytes requiredBytes)])
          else if requiredSet \<and> \<not> limitSet \<and> requiredBytes <s minimumVolumeSizeInBytes then
            Inl (Errorf ''required (%v) can not be less than minimum supported volume size (%v)''
                   [FStr (format_bytes requiredBytes), FStr (format_bytes minimumVolumeSizeInBytes)])
          else if limitSet \<and> limitBytes <s minimumVolumeSizeInBytes then
            Inl (Errorf ''limit (%v) can not be less than minimum supported volume size (%v)''
                   [FStr (format_bytes limitBytes), FStr (format_bytes minimumVolumeSizeInBytes)])
          else if requiredSet \<and> maximumVolumeSizeInBytes <s requiredBytes then
            Inl (Errorf ''required (%v) can not exceed maximum supported volume size (%v)''
                   [FStr (format_bytes requiredBytes), FStr (format_bytes maximumVolumeSizeInBytes)])
          else if \<not> requiredSet \<and> limitSet \<and> maximumVolumeSizeInBytes <s limitBytes then
            Inl (Errorf ''limit (%v) can not exceed maximum supported volume size (%v)''
                   [FStr (format_bytes limitBytes), FStr (format_bytes maximumVolumeSizeInBytes)])
          else if requiredSet \<and> limitSet \<and> requiredBytes = limitBytes then
            Inr (NewStorageSize requiredBytes)
          else if requiredSet then Inr (NewStorageSize requiredBytes)
          else if limitSet then Inr (NewStorageSize limitBytes)
          else Inr (NewStorageSize defaultVolumeSizeInBytes)))"

subsection \<open>What extractStorage promises\<close>

text \<open>
  The specification on mathematical integers: which ranges are accepted, and the size chosen. A
  range is rejected when its limit is below its required size, when the limit (or a required size
  that stands alone) is below 4 MiB, or when the required size (or a limit that stands alone) is
  above 4 TiB.
\<close>

definition acceptable :: "int \<Rightarrow> int \<Rightarrow> bool" where
  "acceptable r l \<longleftrightarrow>
     (r \<le> 0 \<or> l \<le> 0 \<or> r \<le> l) \<and>
     (0 < r \<longrightarrow> r \<le> 4 * tiB \<and> (l \<le> 0 \<longrightarrow> 4 * miB \<le> r)) \<and>
     (0 < l \<longrightarrow> 4 * miB \<le> l \<and> (r \<le> 0 \<longrightarrow> l \<le> 4 * tiB))"

definition chosen_size :: "int \<Rightarrow> int \<Rightarrow> int" where
  "chosen_size r l = (if 0 < r then r else if 0 < l then l else 5 * giB)"

lemma const_sints [simp]:
  "sint minimumVolumeSizeInBytes = 4 * miB"
  "sint maximumVolumeSizeInBytes = 4 * tiB"
  "sint defaultVolumeSizeInBytes = 5 * giB"
  by (simp_all add: capacity_consts)

lemma extract_storage_Some:
  fixes r l :: int64
  defines "R \<equiv> sint r" and "L \<equiv> sint l"
  shows "(\<exists>e. extract_storage (Some \<lparr>RequiredBytes = r, LimitBytes = l\<rparr>) = Inl e)
             \<longleftrightarrow> \<not> acceptable R L"
    and "extract_storage (Some \<lparr>RequiredBytes = r, LimitBytes = l\<rparr>) = Inr sz \<Longrightarrow>
           acceptable R L \<and> sint (Bytes sz) = chosen_size R L"
proof -
  have zero: "sint (0 :: int64) = 0" by simp
  note sless = word_sless_alt [where 'a = 64]
  show "(\<exists>e. extract_storage (Some \<lparr>RequiredBytes = r, LimitBytes = l\<rparr>) = Inl e)
             \<longleftrightarrow> \<not> acceptable R L"
    unfolding extract_storage_def acceptable_def Let_def R_def L_def
    by (auto simp: sless not_less)
  show "extract_storage (Some \<lparr>RequiredBytes = r, LimitBytes = l\<rparr>) = Inr sz \<Longrightarrow>
           acceptable R L \<and> sint (Bytes sz) = chosen_size R L"
    unfolding extract_storage_def acceptable_def chosen_size_def Let_def R_def L_def
    by (auto simp: sless not_less split: if_splits)
qed

end
