(* ===== verification/Size_Properties.thy ===== *)
theory Size_Properties
  imports Capacity
begin

text \<open>
  The properties of sizes: the conversions of \<open>pkg/types/disk.go\<close>, and the choice and the printing of
  a size in \<open>internal/driver/disk.go\<close>, with Go's 64-bit arithmetic.
\<close>

subsection \<open>Conversions\<close>

text \<open>
  C38. A number of mebibytes survives the way through bytes and back, up to the \<open>2 ^ 43\<close> mebibytes
  whose bytes still fit in 64 bits; a size in bytes loses, on the way through mebibytes, exactly its
  remainder modulo a mebibyte. At \<open>2 ^ 43\<close> the multiplication wraps round.
\<close>

theorem size_roundtrip:
  "(0 \<le> sint mb \<and> sint mb < 2 ^ 43 \<longrightarrow>
      Mb (NewStorageSizeFromMb mb) = mb \<and> sint (Bytes (NewStorageSizeFromMb mb)) = sint mb * MiB) \<and>
   (0 \<le> sint (Bytes s) \<longrightarrow>
      sint (Bytes (NewStorageSizeFromMb (Mb s))) = sint (Bytes s) - sint (Bytes s) mod MiB) \<and>
   Mb (NewStorageSizeFromMb (2 ^ 43)) \<noteq> 2 ^ 43"
proof (intro conjI impI)
  assume mb: "0 \<le> sint mb \<and> sint mb < 2 ^ 43"
  then have bytes: "sint (Bytes (NewStorageSizeFromMb mb)) = sint mb * MiB"
    by (simp add: sint_NewStorageSizeFromMb)
  with mb have "sint (Mb (NewStorageSizeFromMb mb)) = sint mb"
    by (subst sint_Mb) simp_all
  then show "Mb (NewStorageSizeFromMb mb) = mb" by (rule signed_word_eqI)
  from bytes show "sint (Bytes (NewStorageSizeFromMb mb)) = sint mb * MiB" .
next
  assume s: "0 \<le> sint (Bytes s)"
  then have mb: "sint (Mb s) = sint (Bytes s) div MiB" by (rule sint_Mb)
  have "sint (Bytes (NewStorageSizeFromMb (Mb s))) = sint (Mb s) * MiB"
  proof (rule sint_NewStorageSizeFromMb)
    show "0 \<le> sint (Mb s)" using s by (simp add: mb)
    show "sint (Mb s) < 2 ^ 43" using sint_bounds64(2) [of "Bytes s"] by (simp add: mb)
  qed
  then show "sint (Bytes (NewStorageSizeFromMb (Mb s))) = sint (Bytes s) - sint (Bytes s) mod MiB"
    by (simp add: mb minus_mod_eq_div_mult)
next
  show "Mb (NewStorageSizeFromMb (2 ^ 43)) \<noteq> 2 ^ 43" by code_simp
qed

text \<open>Ten mebibytes, and a size that is not whole.\<close>

theorem size_roundtrip_witness:
  "Mb (NewStorageSizeFromMb 10) = 10 \<and> sint (Bytes (NewStorageSizeFromMb 10)) = 10 * MiB \<and>
   sint (Bytes (NewStorageSizeFromMb (Mb (StorageSize 5000000)))) = 5000000 - 5000000 mod MiB"
  using size_roundtrip [of 10 "StorageSize 5000000"] by (simp add: Bytes_def)

subsection \<open>extractStorage\<close>

text \<open>
  C36. \<open>extractStorage\<close> decides as documented over all 64-bit requests: a range fails exactly when it
  is not acceptable (limit below required, below 4 MiB or above 4 TiB where that is looked at), and
  otherwise the size is the required one, or else the limit, or else 5 GiB; without a range it is
  5 GiB.
\<close>

theorem extract_storage_correct:
  fixes r l :: int64
  shows "(case extract_storage (Some \<lparr>RequiredBytes = r, LimitBytes = l\<rparr>) of
            Inl _ \<Rightarrow> \<not> acceptable (sint r) (sint l)
          | Inr sz \<Rightarrow> acceptable (sint r) (sint l) \<and> sint (Bytes sz) = chosen_size (sint r) (sint l)) \<and>
         extract_storage None = Inr (StorageSize (5 * 2 ^ 30))"
proof
  show "case extract_storage (Some \<lparr>RequiredBytes = r, LimitBytes = l\<rparr>) of
            Inl _ \<Rightarrow> \<not> acceptable (sint r) (sint l)
          | Inr sz \<Rightarrow> acceptable (sint r) (sint l) \<and> sint (Bytes sz) = chosen_size (sint r) (sint l)"
    using extract_storage_Some [of r l] by (auto split: sum.split)
  show "extract_storage None = Inr (StorageSize (5 * 2 ^ 30))"
    by (simp add: extract_storage_def NewStorageSize_def capacity_consts)
qed

text \<open>
  C37. Every size \<open>extractStorage\<close> chooses is positive and at most 4 TiB, and is at least 4 MiB unless
  both a required size and a limit were given; with both, sizes below the minimum get through, down
  to one byte, which the client then rounds to a disk of no mebibytes.
\<close>

theorem extract_storage_bounds:
  "(extract_storage (Some cr) = Inr sz \<longrightarrow>
      0 < sint (Bytes sz) \<and> sint (Bytes sz) \<le> 4 * tiB \<and>
      (sint (RequiredBytes cr) \<le> 0 \<or> sint (LimitBytes cr) \<le> 0 \<longrightarrow> 4 * miB \<le> sint (Bytes sz))) \<and>
   extract_storage (Some \<lparr>RequiredBytes = 1, LimitBytes = minimumVolumeSizeInBytes\<rparr>) = Inr (StorageSize 1) \<and>
   Mb (StorageSize 1) = 0"
proof (intro conjI impI)
  assume run: "extract_storage (Some cr) = Inr sz"
  then have "acceptable (sint (RequiredBytes cr)) (sint (LimitBytes cr))"
    and "sint (Bytes sz) = chosen_size (sint (RequiredBytes cr)) (sint (LimitBytes cr))"
    using extract_storage_Some(2) [of "RequiredBytes cr" "LimitBytes cr" sz] by (cases cr; simp)+
  then show "0 < sint (Bytes sz)" and "sint (Bytes sz) \<le> 4 * tiB"
    and "sint (RequiredBytes cr) \<le> 0 \<or> sint (LimitBytes cr) \<le> 0 \<Longrightarrow> 4 * miB \<le> sint (Bytes sz)"
    by (auto simp: acceptable_def chosen_size_def capacity_consts split: if_splits)
next
  show "extract_storage (Some \<lparr>RequiredBytes = 1, LimitBytes = minimumVolumeSizeInBytes\<rparr>) = Inr (StorageSize 1)"
    by code_simp
  show "Mb (StorageSize 1) = 0" by code_simp
qed

theorem extract_storage_bounds_witness:
  "extract_storage (Some \<lparr>RequiredBytes = 4194304, LimitBytes = 0\<rparr>) = Inr (StorageSize 4194304) \<and>
   0 < sint (4194304 :: int64) \<and> sint (4194304 :: int64) \<le> 4 * tiB \<and> 4 * miB \<le> sint (4194304 :: int64)"
proof -
  have run: "extract_storage (Some \<lparr>RequiredBytes = 4194304, LimitBytes = 0\<rparr>) = Inr (StorageSize 4194304)"
    by code_simp
  with extract_storage_bounds [of "\<lparr>RequiredBytes = 4194304, LimitBytes = 0\<rparr>" "StorageSize 4194304"]
  show ?thesis by (simp add: Bytes_def)
qed

subsection \<open>formatBytes\<close>

definition unit_names :: "(int \<times> string) list" where
  "unit_names = [(1, []), (kiB, ''Ki''), (miB, ''Mi''), (giB, ''Gi''), (tiB, ''Ti'')]"

lemma nat_digits_0: "nat_digits 0 = ''0''"
  by code_simp

lemma trim_tenths_whole:
  assumes "0 < d" and "n * d < 2 ^ 53"
  shows "trim_suffix (format_tenths (float64_of_nat (n * d)) d) ''.0'' = nat_digits n"
proof -
  have "10 * (n * d) = 10 * n * d" by simp
  then have "div_half_even (10 * (n * d)) d = 10 * n"
    using div_half_even_mult [OF assms(1), of "10 * n"] by (simp only:)
  then have "format_tenths (float64_of_nat (n * d)) d = nat_digits n @ ''.0''"
    using assms by (simp add: float64_of_nat_small format_tenths_def Let_def nat_digits_0)
  then show ?thesis by (simp only: trim_suffix_append)
qed

lemma trim_float_whole:
  assumes "0 < n" and "n < 1024" and "0 < u" and "u \<le> tiB"
  shows "trim_suffix (format_float (n * u) u) ''.0'' = itoa n"
proof -
  have "n * u \<le> 1024 * tiB"
    using assms by (intro mult_mono) auto
  then have "nat (n * u) < 2 ^ 53"
    using assms by (simp add: tiB_def nat_less_iff)
  then have "nat n * nat u < 2 ^ 53"
    using assms by (simp add: nat_mult_distrib)
  then have "trim_suffix (format_tenths (float64_of_nat (nat n * nat u)) (nat u)) ''.0'' = nat_digits (nat n)"
    using assms by (intro trim_tenths_whole) simp_all
  moreover have "\<not> n * u < 0"
    using assms by (simp add: not_less)
  ultimately show ?thesis
    using assms by (simp add: format_float_def itoa_def nat_mult_distrib)
qed

text \<open>
  A whole number below 1024 of bytes, KiB, MiB, GiB or TiB is printed as this number followed by
  its unit; so the sizes in the error messages of \<open>extractStorage\<close> are exact where they are whole.
\<close>

lemma format_bytes_whole:
  assumes "(u, name) \<in> set unit_names" and "0 < n" and "n < 1024"
  shows "format_bytes (word_of_int (n * u)) = itoa n @ name"
proof -
  have u: "0 < u" "u \<le> tiB"
    using assms(1) by (auto simp: unit_names_def capacity_consts)
  have "n * u \<le> 1024 * tiB"
    using assms u by (intro mult_mono) auto
  moreover have "0 \<le> n * u"
    using assms(2) u by simp
  ultimately have i: "sint (word_of_int (n * u) :: int64) = n * u"
    using \<open>0 \<le> n * u\<close> by (intro sint_of_int64) (simp_all add: tiB_def)
  from assms(1) consider "u = 1" "name = []" | "u = kiB" "name = ''Ki''" | "u = miB" "name = ''Mi''"
    | "u = giB" "name = ''Gi''" | "u = tiB" "name = ''Ti''"
    by (auto simp: unit_names_def)
  then have "format_bytes (word_of_int (n * u)) = trim_suffix (format_float (n * u) u) ''.0'' @ name"
    unfolding format_bytes_def Let_def i
    by cases (use assms(2,3) in \<open>simp_all add: capacity_consts\<close>)
  with trim_float_whole [OF assms(2,3) u] show ?thesis by (simp only:)
qed

lemma format_bytes_whole_witness: "format_bytes 4194304 = ''4Mi''"
proof -
  have "(miB, ''Mi'') \<in> set unit_names" by (simp add: unit_names_def)
  from format_bytes_whole [OF this, of 4] have "format_bytes (word_of_int (4 * miB)) = itoa 4 @ ''Mi''"
    by simp
  moreover have "itoa 4 = ''4''" by code_simp
  ultimately show ?thesis by (simp add: miB_def)
qed

end
