(* ===== verification/Locker.thy ===== *)
theory Locker
  imports Go_Prelude
begin

text \<open>
  \<open>internal/locker/locker.go\<close>: the set of volumes whose resize waits for a detach. First the
  operations of \<open>SimpleLock\<close> run one at a time, with the interface the driver uses them through
  (\<open>locker\<close>, the Go interface \<open>Locker\<close>) as a locale; then the goroutines that run them
  concurrently, as a step relation, for the mutual exclusion the mutex gives and the access that
  escapes it.
\<close>

subsection \<open>SimpleLock\<close>

record simple_lock =
  storage :: "string \<rightharpoonup> bool"
  m_locked :: bool

definition NewSimpleLock :: simple_lock where
  "NewSimpleLock = \<lparr>storage = Map.empty, m_locked = False\<rparr>"

text \<open>\<open>Put\<close> writes the map without taking the mutex.\<close>

definition lock_put :: "string \<Rightarrow> (simple_lock, unit) act" where
  "lock_put key = modify (\<lambda>sl. sl\<lparr>storage := (storage sl)(key \<mapsto> True)\<rparr>)"

text \<open>The body shared by \<open>IsLocked\<close> and \<open>Pop\<close>: delete the key if it is there.\<close>

definition take_key :: "string \<Rightarrow> (simple_lock, bool) act" where
  "take_key key =
     andThen (gets storage) (\<lambda>st.
     if st key \<noteq> None then
       andThen (modify (\<lambda>sl. sl\<lparr>storage := (storage sl)(key := None)\<rparr>)) (\<lambda>_. ret True)
     else ret False)"

definition lock_is_locked :: "string \<Rightarrow> (simple_lock, bool) act" where
  "lock_is_locked key = with_mutex m_locked (\<lambda>b sl. sl\<lparr>m_locked := b\<rparr>) (take_key key)"

definition lock_pop :: "string \<Rightarrow> (simple_lock, bool) act" where
  "lock_pop key = with_mutex m_locked (\<lambda>b sl. sl\<lparr>m_locked := b\<rparr>) (take_key key)"

lemmas lock_defs = lock_put_def lock_is_locked_def lock_pop_def take_key_def

subsection \<open>The interface\<close>

text \<open>
  The Go interface \<open>Locker\<close> as a record of operations, and its contract: the abstract state is the
  set of keys held. \<open>IsLocked\<close> is a test that also takes the key away.
\<close>

record 'l locker_ops =
  Put :: "string \<Rightarrow> ('l, unit) act"
  Pop :: "string \<Rightarrow> ('l, bool) act"
  IsLocked :: "string \<Rightarrow> ('l, bool) act"

definition simple_locker :: "simple_lock locker_ops" where
  "simple_locker = \<lparr>Put = lock_put, Pop = lock_pop, IsLocked = lock_is_locked\<rparr>"

locale locker =
  fixes ops :: "'l locker_ops"
    and keys :: "'l \<Rightarrow> string set"
    and free :: "'l \<Rightarrow> bool"
  assumes put_spec: "free l \<Longrightarrow>
      wp (Put ops k) (\<lambda>r l'. r = Ok () \<and> free l' \<and> keys l' = insert k (keys l)) l"
    and pop_spec: "free l \<Longrightarrow>
      wp (Pop ops k) (\<lambda>r l'. r = Ok (k \<in> keys l) \<and> free l' \<and> keys l' = keys l - {k}) l"
    and is_locked_spec: "free l \<Longrightarrow>
      wp (IsLocked ops k) (\<lambda>r l'. r = Ok (k \<in> keys l) \<and> free l' \<and> keys l' = keys l - {k}) l"
begin

lemma keeps_free: "keeps free (Put ops k)" "keeps free (Pop ops k)" "keeps free (IsLocked ops k)"
  unfolding keeps_def
  by (blast intro: wp_mono [OF put_spec] wp_mono [OF pop_spec] wp_mono [OF is_locked_spec])+

text \<open>What the driver relies on: a key that was put is seen by one test, and by no second one.\<close>

lemma test_after_put:
  assumes "free l"
  shows "wp (andThen (Put ops k) (\<lambda>_. IsLocked ops k)) (\<lambda>r l'. r = Ok True \<and> k \<notin> keys l') l"
  unfolding wp_andThen
  by (rule wp_mono [OF put_spec [OF assms]]) (auto intro!: wp_mono [OF is_locked_spec])

lemma second_test_is_false:
  assumes "free l"
  shows "wp (andThen (IsLocked ops k) (\<lambda>_. IsLocked ops k)) (\<lambda>r l'. r = Ok False) l"
  unfolding wp_andThen
  by (rule wp_mono [OF is_locked_spec [OF assms]]) (auto intro!: wp_mono [OF is_locked_spec])

lemma test_after_pop:
  assumes "free l"
  shows "wp (andThen (Pop ops k) (\<lambda>_. IsLocked ops k)) (\<lambda>r l'. r = Ok False) l"
  unfolding wp_andThen
  by (rule wp_mono [OF pop_spec [OF assms]]) (auto intro!: wp_mono [OF is_locked_spec])

end

interpretation simple: locker simple_locker "\<lambda>sl. dom (storage sl)" "\<lambda>sl. \<not> m_locked sl"
  by unfold_locales (auto simp: simple_locker_def lock_defs wp_rules)

subsection \<open>Goroutines\<close>

text \<open>
  Goroutine \<open>t\<close> runs one operation. \<open>Start\<close>: about to run its first statement; \<open>Holding\<close>: has the
  mutex, about to read and update the map; \<open>Unlocking\<close>: has done so, the deferred unlock is next;
  \<open>Done\<close>: returned. Every step is one goroutine moving.
\<close>

datatype lock_op = OpPut string | OpPop string | OpIsLocked string

datatype lock_pc = Start lock_op | Holding lock_op | Unlocking bool | Done "bool option"

record lock_sys =
  sl :: simple_lock
  pcs :: "nat \<Rightarrow> lock_pc"

fun op_key :: "lock_op \<Rightarrow> string" where
  "op_key (OpPut k) = k"
| "op_key (OpPop k) = k"
| "op_key (OpIsLocked k) = k"

fun takes_mutex :: "lock_op \<Rightarrow> bool" where
  "takes_mutex (OpPut _) = False"
| "takes_mutex _ = True"

inductive lock_step :: "lock_sys \<Rightarrow> lock_sys \<Rightarrow> bool" where
  put: "pcs s t = Start (OpPut k) \<Longrightarrow> lock_put k (sl s) = (Ok (), sl') \<Longrightarrow>
     lock_step s (s\<lparr>sl := sl', pcs := (pcs s)(t := Done None)\<rparr>)"
| acquire: "pcs s t = Start opn \<Longrightarrow> takes_mutex opn \<Longrightarrow> \<not> m_locked (sl s) \<Longrightarrow>
     lock_step s (s\<lparr>sl := (sl s)\<lparr>m_locked := True\<rparr>, pcs := (pcs s)(t := Holding opn)\<rparr>)"
| access: "pcs s t = Holding opn \<Longrightarrow> take_key (op_key opn) (sl s) = (Ok b, sl') \<Longrightarrow>
     lock_step s (s\<lparr>sl := sl', pcs := (pcs s)(t := Unlocking b)\<rparr>)"
| release: "pcs s t = Unlocking b \<Longrightarrow>
     lock_step s (s\<lparr>sl := (sl s)\<lparr>m_locked := False\<rparr>, pcs := (pcs s)(t := Done (Some b))\<rparr>)"

inductive lock_reachable :: "(nat \<Rightarrow> lock_op) \<Rightarrow> lock_sys \<Rightarrow> bool" for prog where
  start: "lock_reachable prog \<lparr>sl = NewSimpleLock, pcs = (\<lambda>t. Start (prog t))\<rparr>"
| step: "lock_reachable prog s \<Longrightarrow> lock_step s s' \<Longrightarrow> lock_reachable prog s'"

inductive_cases lock_stepE: "lock_step s s'"

fun in_critical :: "lock_pc \<Rightarrow> bool" where
  "in_critical (Holding _) = True"
| "in_critical (Unlocking _) = True"
| "in_critical _ = False"

text \<open>The next statement of a goroutine touches the map.\<close>

fun about_to_access :: "lock_pc \<Rightarrow> bool" where
  "about_to_access (Start (OpPut _)) = True"
| "about_to_access (Holding _) = True"
| "about_to_access _ = False"

text \<open>Two goroutines whose next statements touch the map: the unsynchronised access.\<close>

definition map_race :: "lock_sys \<Rightarrow> bool" where
  "map_race s \<longleftrightarrow> (\<exists>t u. t \<noteq> u \<and> about_to_access (pcs s t) \<and> about_to_access (pcs s u))"

text \<open>The mutex is held exactly when one goroutine is in its critical section, and only one is.\<close>

definition mutex_inv :: "lock_sys \<Rightarrow> bool" where
  "mutex_inv s \<longleftrightarrow>
     (\<forall>t u. in_critical (pcs s t) \<longrightarrow> in_critical (pcs s u) \<longrightarrow> t = u) \<and>
     (m_locked (sl s) \<longleftrightarrow> (\<exists>t. in_critical (pcs s t)))"

lemma lock_put_run [simp]: "lock_put k l = (Ok (), l\<lparr>storage := (storage l)(k \<mapsto> True)\<rparr>)"
  by (simp add: lock_put_def modify_def)

lemma take_key_run [simp]:
  "take_key k l = (Ok (k \<in> dom (storage l)),
     if k \<in> dom (storage l) then l\<lparr>storage := (storage l)(k := None)\<rparr> else l)"
  by (auto simp: take_key_def gets_def modify_def andThen_def ret_def)

lemma take_key_mutex: "take_key k l = (r, l') \<Longrightarrow> m_locked l' = m_locked l"
  by (auto split: if_splits)

lemma lock_step_inv:
  assumes "lock_step s s'" and "mutex_inv s"
  shows "mutex_inv s'"
  using assms
proof (cases rule: lock_step.cases)
  case (put t k sl')
  have "in_critical (pcs s' u) = in_critical (pcs s u)" for u
    using put by auto
  with put assms(2) show ?thesis by (auto simp: mutex_inv_def)
next
  case (acquire t opn)
  have "in_critical (pcs s' u) \<longleftrightarrow> u = t \<or> in_critical (pcs s u)" for u
    using acquire by auto
  moreover have "\<not> in_critical (pcs s u)" for u
    using acquire assms(2) by (auto simp: mutex_inv_def)
  ultimately show ?thesis using acquire by (auto simp: mutex_inv_def)
next
  case (access t opn b sl')
  have "in_critical (pcs s' u) = in_critical (pcs s u)" for u
    using access by auto
  moreover have "m_locked (sl s') = m_locked (sl s)"
    using access by (auto simp del: take_key_run dest: take_key_mutex)
  ultimately show ?thesis using assms(2) by (simp add: mutex_inv_def)
next
  case (release t b)
  have "in_critical (pcs s' u) \<longleftrightarrow> u \<noteq> t \<and> in_critical (pcs s u)" for u
    using release by auto
  moreover have "in_critical (pcs s u) \<Longrightarrow> u = t" for u
    using release assms(2) by (auto simp: mutex_inv_def)
  ultimately have "\<not> in_critical (pcs s' u)" for u by blast
  then show ?thesis using release by (auto simp: mutex_inv_def)
qed

lemma lock_reachable_inv: "lock_reachable prog s \<Longrightarrow> mutex_inv s"
proof (induction rule: lock_reachable.induct)
  case start
  show ?case by (simp add: mutex_inv_def NewSimpleLock_def)
next
  case (step s s')
  then show ?case by (blast intro: lock_step_inv)
qed

end
