(* ===== verification/Locker_Properties.thy ===== *)
theory Locker_Properties
  imports Locker
begin

text \<open>
  The properties of the locker (\<open>internal/locker/locker.go\<close>): its sequential contract, obtained from
  the locale \<open>locker\<close> at \<open>SimpleLock\<close>, and what holds when goroutines run its operations at once.
\<close>

subsection \<open>One operation after the other\<close>

text \<open>
  A key that was put is reported locked once: the test takes it away, so a second test, or a test
  after \<open>Pop\<close>, says it is free, however often it was put.
\<close>

lemma lock_seen_once:
  assumes "\<not> m_locked l"
  shows "wp (andThen (lock_put k) (\<lambda>_. lock_is_locked k)) (\<lambda>r l'. r = Ok True \<and> k \<notin> dom (storage l')) l
    \<and> wp (andThen (lock_is_locked k) (\<lambda>_. lock_is_locked k)) (\<lambda>r l'. r = Ok False) l
    \<and> wp (andThen (lock_pop k) (\<lambda>_. lock_is_locked k)) (\<lambda>r l'. r = Ok False) l"
  using simple.test_after_put [of l k] simple.second_test_is_false [of l k] simple.test_after_pop [of l k] assms
  by (simp add: simple_locker_def)

lemma lock_seen_once_witness:
  "fst (andThen (lock_put ''v'') (\<lambda>_. lock_is_locked ''v'') NewSimpleLock) = Ok True \<and>
   fst (andThen (lock_is_locked ''v'') (\<lambda>_. lock_is_locked ''v'')
     (snd (lock_put ''v'' NewSimpleLock))) = Ok False"
proof -
  have free: "\<not> m_locked NewSimpleLock" "\<not> m_locked (snd (lock_put ''v'' NewSimpleLock))"
    by (simp_all add: NewSimpleLock_def)
  from lock_seen_once [OF free(1), of "''v''"] lock_seen_once [OF free(2), of "''v''"] show ?thesis
    by (simp add: wp_def split: prod.splits)
qed

subsection \<open>Goroutines at once\<close>

text \<open>
  C39. In every interleaving of any number of goroutines, at most one is between taking and releasing
  the mutex, and two goroutines are only ever about to touch the map at the same time when one of them
  is in \<open>Put\<close>, which does not take the mutex.
\<close>

theorem lock_mutual_exclusion:
  assumes "lock_reachable prog s"
  shows "(in_critical (pcs s t) \<and> in_critical (pcs s u) \<longrightarrow> t = u) \<and>
         (map_race s \<longrightarrow> (\<exists>t k. pcs s t = Start (OpPut k)))"
proof -
  have one: "in_critical (pcs s t) \<Longrightarrow> in_critical (pcs s u) \<Longrightarrow> t = u" for t u
    using lock_reachable_inv [OF assms] by (simp add: mutex_inv_def)
  have "\<exists>t k. pcs s t = Start (OpPut k)" if race: "map_race s"
  proof -
    from race obtain t u where tu: "t \<noteq> u" "about_to_access (pcs s t)" "about_to_access (pcs s u)"
      unfolding map_race_def by blast
    then have "\<not> (in_critical (pcs s t) \<and> in_critical (pcs s u))" using one by blast
    with tu have "\<exists>x \<in> {t, u}. about_to_access (pcs s x) \<and> \<not> in_critical (pcs s x)" by blast
    then show ?thesis by (auto elim!: about_to_access.elims)
  qed
  with one show ?thesis by blast
qed

text \<open>Goroutine 0 puts a volume while goroutine 1, which holds the mutex, tests it.\<close>

definition put_and_test :: "nat \<Rightarrow> lock_op" where
  "put_and_test t = (if t = 0 then OpPut ''pvc-1'' else OpIsLocked ''pvc-1'')"

definition racing :: lock_sys where
  "racing = \<lparr>sl = NewSimpleLock\<lparr>m_locked := True\<rparr>,
             pcs = (\<lambda>t. Start (put_and_test t))(1 := Holding (OpIsLocked ''pvc-1''))\<rparr>"

lemma racing_reachable: "lock_reachable put_and_test racing"
proof -
  let ?s = "\<lparr>sl = NewSimpleLock, pcs = (\<lambda>t. Start (put_and_test t))\<rparr>"
  have "lock_step ?s (?s\<lparr>sl := (sl ?s)\<lparr>m_locked := True\<rparr>,
      pcs := (pcs ?s)(1 := Holding (OpIsLocked ''pvc-1''))\<rparr>)"
    by (rule lock_step.acquire) (simp_all add: put_and_test_def NewSimpleLock_def)
  with lock_reachable.start [of put_and_test] show ?thesis
    by (auto simp: racing_def intro: lock_reachable.step)
qed

theorem lock_mutual_exclusion_witness:
  "lock_reachable put_and_test racing \<and> (\<exists>t k. pcs racing t = Start (OpPut k)) \<and> map_race racing"
proof -
  have "map_race racing"
    unfolding map_race_def by (rule exI [of _ 0], rule exI [of _ 1]) (simp add: racing_def put_and_test_def)
  with lock_mutual_exclusion [OF racing_reachable, of 0 0] racing_reachable show ?thesis by blast
qed

text \<open>The goroutines whose test of a key came out true, and those that have put it.\<close>

definition seen_locked :: "(nat \<Rightarrow> lock_op) \<Rightarrow> lock_sys \<Rightarrow> string \<Rightarrow> nat set" where
  "seen_locked prog s k = {t. op_key (prog t) = k \<and> (pcs s t = Unlocking True \<or> pcs s t = Done (Some True))}"

definition have_put :: "(nat \<Rightarrow> lock_op) \<Rightarrow> lock_sys \<Rightarrow> string \<Rightarrow> nat set" where
  "have_put prog s k = {t. prog t = OpPut k \<and> pcs s t = Done None}"

definition token_inv :: "(nat \<Rightarrow> lock_op) \<Rightarrow> string \<Rightarrow> lock_sys \<Rightarrow> bool" where
  "token_inv prog k s \<longleftrightarrow>
     finite (seen_locked prog s k) \<and> finite (have_put prog s k) \<and>
     card (seen_locked prog s k) + (if k \<in> dom (storage (sl s)) then 1 else 0) \<le> card (have_put prog s k) \<and>
     (\<forall>t opn. pcs s t = Start opn \<or> pcs s t = Holding opn \<longrightarrow> opn = prog t)"

lemma token_step:
  assumes "lock_step s s'" and inv: "token_inv prog k s"
  shows "token_inv prog k s'"
  using assms(1)
proof (cases rule: lock_step.cases)
  case (put t k' sl')
  then have prog: "prog t = OpPut k'" using inv by (auto simp: token_inv_def)
  have "seen_locked prog s' k = seen_locked prog s k"
    using put by (auto simp: seen_locked_def)
  moreover have "have_put prog s' k = (if k' = k then insert t (have_put prog s k) else have_put prog s k)"
    using put prog by (auto simp: have_put_def)
  moreover have "t \<notin> have_put prog s k"
    using put by (simp add: have_put_def)
  moreover have "dom (storage (sl s')) = insert k' (dom (storage (sl s)))"
    using put by auto
  ultimately show ?thesis
    using inv put by (auto simp: token_inv_def)
next
  case (acquire t opn)
  then have "seen_locked prog s' k = seen_locked prog s k" and "have_put prog s' k = have_put prog s k"
    by (auto simp: seen_locked_def have_put_def)
  then show ?thesis using inv acquire by (auto simp: token_inv_def)
next
  case (access t opn b sl')
  then have opn: "opn = prog t" using inv by (auto simp: token_inv_def)
  let ?hit = "b \<and> op_key opn = k"
  have "seen_locked prog s' k = (if ?hit then insert t (seen_locked prog s k) else seen_locked prog s k)"
    using access opn by (auto simp: seen_locked_def)
  moreover have "t \<notin> seen_locked prog s k"
    using access by (simp add: seen_locked_def)
  moreover have "have_put prog s' k = have_put prog s k"
    using access by (auto simp: have_put_def)
  moreover have "b \<longleftrightarrow> op_key opn \<in> dom (storage (sl s))"
      and "k \<in> dom (storage (sl s')) \<longleftrightarrow> k \<in> dom (storage (sl s)) \<and> k \<noteq> op_key opn"
    using access by (auto split: if_splits)
  moreover have "\<forall>u opn. pcs s' u = Start opn \<or> pcs s' u = Holding opn \<longrightarrow> opn = prog u"
    using inv access by (auto simp: token_inv_def)
  ultimately show ?thesis
    using inv unfolding token_inv_def
    by (cases "op_key opn = k"; cases b) (simp_all split: if_splits del: domIff)
next
  case (release t b)
  have "seen_locked prog s' k = seen_locked prog s k"
    using release by (auto simp: seen_locked_def)
  moreover have "have_put prog s' k = have_put prog s k"
    using release by (auto simp: have_put_def)
  ultimately show ?thesis using inv release by (auto simp: token_inv_def)
qed

lemma token_reachable: "lock_reachable prog s \<Longrightarrow> token_inv prog k s"
proof (induction rule: lock_reachable.induct)
  case start
  show ?case by (auto simp: token_inv_def seen_locked_def have_put_def NewSimpleLock_def)
next
  case (step s s')
  then show ?case by (blast intro: token_step)
qed

text \<open>
  C40. However the goroutines interleave, no more of them have been told that a volume is locked than
  have locked it: one failed resize stops at most one publish.
\<close>

theorem lock_tokens:
  assumes "lock_reachable prog s"
  shows "finite (have_put prog s k) \<and> card (seen_locked prog s k) \<le> card (have_put prog s k)"
  using token_reachable [OF assms, of k] by (auto simp: token_inv_def split: if_splits)

theorem lock_tokens_witness:
  "finite (have_put put_and_test racing ''pvc-1'') \<and>
   card (seen_locked put_and_test racing ''pvc-1'') \<le> card (have_put put_and_test racing ''pvc-1'')"
  by (rule lock_tokens [OF racing_reachable])

end
