(* ===== verification/Mounter.thy ===== *)
theory Mounter
  imports Go_Lib Storage_Size
begin

unbundle bit_operations_syntax

text \<open>
  \<open>internal/mount/mounter.go\<close>: formatting, mounting and finding the devices of a node, by running
  the system's tools. The operating system is a parameter: the fields of a record \<open>os_ops\<close> are the
  system calls and library calls the code makes, each a function of the state of the machine. The
  decoding of the JSON that \<open>findmnt\<close> prints is one of them.
\<close>

subsection \<open>The operating system\<close>

text \<open>How a command ends when it does not succeed: with an exit status, or because it could not be
  run at all.\<close>

datatype run_error = ExitStatus int | RunFailed ext_error

fun run_error_text :: "run_error \<Rightarrow> go_error" where
  "run_error_text (ExitStatus n) = Ext (ExtMsg (''exit status '' @ itoa n))"
| "run_error_text (RunFailed e) = Ext e"

text \<open>\<open>fileSystem\<close> and \<open>findmntResponse\<close>\<close>

record file_system =
  fs_target :: string
  fs_propagation :: string
  fs_type :: string
  fs_options :: string

record findmnt_response =
  FileSystems :: "file_system list"

text \<open>\<open>unix.Statfs_t\<close>, the fields read; the block and inode counts are unsigned.\<close>

record statfs =
  Bsize :: int64
  Blocks :: "64 word"
  Bfree :: "64 word"
  Bavail :: "64 word"
  Files :: "64 word"
  Ffree :: "64 word"

text \<open>\<open>ghw.Disk\<close>\<close>

record ghw_disk =
  gd_name :: string
  gd_bus_path :: string
  gd_size_bytes :: "64 word"

record 'o os_ops =
  LookPath :: "string \<Rightarrow> 'o \<Rightarrow> ext_error option \<times> 'o"
  CombinedOutput :: "string \<Rightarrow> string list \<Rightarrow> 'o \<Rightarrow> (string \<times> run_error option) \<times> 'o"
  Run :: "string \<Rightarrow> string list \<Rightarrow> 'o \<Rightarrow> run_error option \<times> 'o"
  MkdirAll :: "string \<Rightarrow> 'o \<Rightarrow> ext_error option \<times> 'o"
  CreateFile :: "string \<Rightarrow> 'o \<Rightarrow> ext_error option \<times> 'o"
  UnmarshalFindmnt :: "string \<Rightarrow> ext_error + findmnt_response option"
  Unix_Statfs :: "string \<Rightarrow> 'o \<Rightarrow> (ext_error + statfs) \<times> 'o"
  Unix_Stat :: "string \<Rightarrow> 'o \<Rightarrow> (ext_error + 32 word) \<times> 'o"
  Ghw_Block :: "'o \<Rightarrow> (ext_error + ghw_disk list) \<times> 'o"

datatype os_event =
  EvLookPath string
| EvExec string "string list" "run_error option"
| EvMkdirAll string
| EvCreateFile string
| EvStat string
| EvGhw

type_synonym 'o os_env = "('o, os_event) env"
type_synonym ('o, 'a) os_act = "('o os_env, 'a) act"

definition exec_ErrNotFound :: ext_error where
  "exec_ErrNotFound = ExtMsg ''executable file not found in $PATH''"

text \<open>\<open>exec.LookPath(cmd)\<close> and the two returns that follow it everywhere.\<close>

definition look_path :: "'o os_ops \<Rightarrow> string \<Rightarrow> ('o, unit) os_act" where
  "look_path os cmd =
     andThen (ext_call (LookPath os cmd) (\<lambda>_. EvLookPath cmd)) (\<lambda>err.
     case err of
       None \<Rightarrow> ret ()
     | Some e \<Rightarrow>
         if e = exec_ErrNotFound
         then raise (Errorf ''%q executable not found in $PATH'' [FStr cmd])
         else raise (Ext e))"

definition combined_output ::
  "'o os_ops \<Rightarrow> string \<Rightarrow> string list \<Rightarrow> ('o, string \<times> run_error option) os_act" where
  "combined_output os cmd args =
     ext_call (CombinedOutput os cmd args) (\<lambda>r. EvExec cmd args (snd r))"

definition os_call0 ::
  "('o \<Rightarrow> ext_error option \<times> 'o) \<Rightarrow> os_event \<Rightarrow> ('o, ext_error option) os_act" where
  "os_call0 f ev = ext_call f (\<lambda>_. ev)"

subsection \<open>Formatting and mounting\<close>

definition mounter_format :: "'o os_ops \<Rightarrow> string \<Rightarrow> string \<Rightarrow> ('o, unit) os_act" where
  "mounter_format os source fsType =
     (let mkfsCmd = ''mkfs.'' @ fsType in
      andThen (look_path os mkfsCmd) (\<lambda>_.
      if fsType = [] then raise (ErrNew ''fs type is not specified for formatting the volume'')
      else if source = [] then raise (ErrNew ''source is not specified for formatting the volume'')
      else
        (let mkfsArgs = (if fsType = ''ext4'' \<or> fsType = ''ext3'' then [''-F'', source] else [source]) in
         andThen (combined_output os mkfsCmd mkfsArgs) (\<lambda>(out, err).
         case err of
           Some e \<Rightarrow> raise (Errorf ''formatting disk failed: %v cmd: '%s %s' output: %q'' 
                       [FErr (run_error_text e), FStr mkfsCmd, FStr (join '' '' mkfsArgs), FStr out])
         | None \<Rightarrow> ret ()))))"

text \<open>The mount point: a file for a raw block device (no file system type), else a directory.\<close>

definition make_mount_point :: "'o os_ops \<Rightarrow> string \<Rightarrow> string \<Rightarrow> ('o, unit) os_act" where
  "make_mount_point os target fsType =
     (if fsType = [] then
        andThen (os_call0 (MkdirAll os (path_dir target)) (EvMkdirAll (path_dir target))) (\<lambda>err.
        case err of
          Some e \<Rightarrow> raise (Errorf ''failed to create target directory for raw block bind mount: %v''
                      [FErr (Ext e)])
        | None \<Rightarrow>
            andThen (os_call0 (CreateFile os target) (EvCreateFile target)) (\<lambda>err.
            case err of
              Some e \<Rightarrow> raise (Errorf ''failed to create target file for raw block bind mount: %v''
                          [FErr (Ext e)])
            | None \<Rightarrow> ret ()))
      else
        andThen (os_call0 (MkdirAll os target) (EvMkdirAll target)) of_ext_opt)"

definition mount_args :: "string \<Rightarrow> string \<Rightarrow> string \<Rightarrow> string list \<Rightarrow> string list" where
  "mount_args source target fsType opts =
     (if fsType = [] then [] else [''-t'', fsType]) @
     (if opts = [] then [] else [''-o'', join '','' opts]) @ [source, target]"

definition mounter_mount ::
  "'o os_ops \<Rightarrow> string \<Rightarrow> string \<Rightarrow> string \<Rightarrow> string list \<Rightarrow> ('o, unit) os_act" where
  "mounter_mount os source target fsType opts =
     (if source = [] then raise (ErrNew ''source is not specified for mounting the volume'')
      else if target = [] then raise (ErrNew ''target is not specified for mounting the volume'')
      else
        andThen (make_mount_point os target fsType) (\<lambda>_.
        let mountArgs = mount_args source target fsType opts in
        andThen (combined_output os ''mount'' mountArgs) (\<lambda>(out, err).
        case err of
          Some e \<Rightarrow> raise (Errorf ''mounting failed: %v cmd: '%s %s' output: %q''
                      [FErr (run_error_text e), FStr ''mount'', FStr (join '' '' mountArgs), FStr out])
        | None \<Rightarrow> ret ())))"

definition mounter_unmount :: "'o os_ops \<Rightarrow> string \<Rightarrow> ('o, unit) os_act" where
  "mounter_unmount os target =
     (if target = [] then raise (ErrNew ''target is not specified for unmounting the volume'')
      else
        andThen (combined_output os ''umount'' [target]) (\<lambda>(out, err).
        case err of
          Some e \<Rightarrow> raise (Errorf ''unmounting failed: %v cmd: '%s %s' output: %q''
                      [FErr (run_error_text e), FStr ''umount'', FStr target, FStr out])
        | None \<Rightarrow> ret ()))"

subsection \<open>Queries\<close>

definition blkidExitStatusNoIdentifiers :: int where
  "blkidExitStatusNoIdentifiers = 2"

definition mounter_is_formatted :: "'o os_ops \<Rightarrow> string \<Rightarrow> ('o, bool) os_act" where
  "mounter_is_formatted os source =
     (if source = [] then raise (ErrNew ''source is not specified'')
      else
        andThen (look_path os ''blkid'') (\<lambda>_.
        andThen (ext_call (Run os ''blkid'' [source]) (EvExec ''blkid'' [source])) (\<lambda>err.
        case err of
          None \<Rightarrow> ret True
        | Some e \<Rightarrow>
            (let failed = raise (Errorf ''checking formatting failed: %v cmd: %q, args: %q''
                            [FErr (run_error_text e), FStr ''blkid'', FStrs [source]]) in
             case e of
               RunFailed _ \<Rightarrow> failed
             | ExitStatus exitCode \<Rightarrow>
                 if exitCode = blkidExitStatusNoIdentifiers then ret False else failed))))"

text \<open>The loop over the file systems \<open>findmnt\<close> lists.\<close>

fun check_file_systems :: "string \<Rightarrow> file_system list \<Rightarrow> bool \<Rightarrow> go_error + bool" where
  "check_file_systems target [] targetFound = Inr targetFound"
| "check_file_systems target (fs # fss) targetFound =
     (if fs_propagation fs \<noteq> ''shared'' then
        Inl (Errorf ''mount propagation for target %q is not enabled'' [FStr target])
      else check_file_systems target fss (if fs_target fs = target then True else targetFound))"

definition findmnt_args :: "string \<Rightarrow> string list" where
  "findmnt_args target = [''-o'', ''TARGET,PROPAGATION,FSTYPE,OPTIONS'', ''-M'', target, ''-J'']"

definition mounter_is_mounted :: "'o os_ops \<Rightarrow> string \<Rightarrow> ('o, bool) os_act" where
  "mounter_is_mounted os target =
     (if target = [] then raise (ErrNew ''target is not specified for checking the mount'')
      else
        andThen (look_path os ''findmnt'') (\<lambda>_.
        andThen (combined_output os ''findmnt'' (findmnt_args target)) (\<lambda>(out, err).
        case err of
          Some e \<Rightarrow>
            if trim_space out = [] then ret False
            else raise (Errorf ''checking mounted failed: %v cmd: %q output: %q''
                          [FErr (run_error_text e), FStr ''findmnt'', FStr out])
        | None \<Rightarrow>
            if out = [] then ret False
            else
              (case UnmarshalFindmnt os out of
                 Inl e \<Rightarrow> raise (Errorf ''couldn't unmarshal data: %q: %s'' [FStr out, FErr (Ext e)])
               | Inr resp \<Rightarrow>
                   andThen (deref resp) (\<lambda>r.
                   of_sum (check_file_systems target (FileSystems r) False))))))"

record volume_statistics =
  AvailableBytes :: int64
  TotalBytes :: int64
  UsedBytes :: int64
  AvailableInodes :: int64
  TotalInodes :: int64
  UsedInodes :: int64

definition S_IFMT :: "32 word" where "S_IFMT = 0xf000"
definition S_IFBLK :: "32 word" where "S_IFBLK = 0x6000"

definition mounter_is_block_device :: "'o os_ops \<Rightarrow> string \<Rightarrow> ('o, bool) os_act" where
  "mounter_is_block_device os devicePath =
     andThen (ext_call (Unix_Stat os devicePath) (\<lambda>_. EvStat devicePath)) (\<lambda>r.
     andThen (of_ext r) (\<lambda>mode. ret (mode AND S_IFMT = S_IFBLK)))"

text \<open>The conversions \<open>int64(statfs.X)\<close> keep the bits; the products and differences wrap.\<close>

definition stats_of_statfs :: "statfs \<Rightarrow> volume_statistics" where
  "stats_of_statfs st =
     \<lparr>AvailableBytes = Bavail st * Bsize st,
      TotalBytes = Blocks st * Bsize st,
      UsedBytes = (Blocks st - Bfree st) * Bsize st,
      AvailableInodes = Ffree st,
      TotalInodes = Files st,
      UsedInodes = Files st - Ffree st\<rparr>"

definition block_stats :: "int \<Rightarrow> volume_statistics" where
  "block_stats n =
     \<lparr>AvailableBytes = 0, TotalBytes = word_of_int n, UsedBytes = 0,
      AvailableInodes = 0, TotalInodes = 0, UsedInodes = 0\<rparr>"

definition mounter_get_statistics :: "'o os_ops \<Rightarrow> string \<Rightarrow> ('o, volume_statistics) os_act" where
  "mounter_get_statistics os volumePath =
     andThen (mapErr (mounter_is_block_device os volumePath)
       (\<lambda>err. Errorf ''failed to determine if volume %s is block device: %v'' [FStr volumePath, FErr err]))
       (\<lambda>isBlock.
     if isBlock then
       andThen (combined_output os ''blockdev'' [''getsize64'', volumePath]) (\<lambda>(output, err).
       case err of
         Some e \<Rightarrow> raise (Errorf ''error when getting size of block volume at path %s: output: %s, err: %v''
                     [FStr volumePath, FStr output, FErr (run_error_text e)])
       | None \<Rightarrow>
           (let strOut = trim_space output in
            case parse_int64 strOut of
              Inl _ \<Rightarrow> raise (Errorf ''failed to parse size %s into int'' [FStr strOut])
            | Inr gotSizeBytes \<Rightarrow> ret (block_stats gotSizeBytes)))
     else
       andThen (ext_call (Unix_Statfs os volumePath) (\<lambda>_. EvStat volumePath)) (\<lambda>r.
       andThen (of_ext r) (\<lambda>st. ret (stats_of_statfs st))))"

subsection \<open>Finding a disk by its unit number\<close>

definition extractUnitNumForScsi :: "string \<Rightarrow> string" where
  "extractUnitNumForScsi bus =
     (let splittedData = split_on (CHR '':'') bus in
      if length splittedData < 5 then [] else splittedData ! 4)"

text \<open>The size and the bus are not looked at.\<close>

definition mounter_get_disk_unit :: "'o os_ops \<Rightarrow> string \<Rightarrow> string \<Rightarrow> string \<Rightarrow> ('o, string) os_act" where
  "mounter_get_disk_unit os dsize unit bus =
     andThen (ext_call (Ghw_Block os) (\<lambda>_. EvGhw)) (\<lambda>r.
     andThen (of_ext r) (\<lambda>disks.
     case filter (\<lambda>d. extractUnitNumForScsi (gd_bus_path d) = unit) disks of
       [] \<Rightarrow> raise (ErrNew ''cannot find disk by size'')
     | [d] \<Rightarrow> ret (''/dev/'' @ gd_name d)
     | ds \<Rightarrow> raise (Errorf ''disk not match by filter for unit number, matched result len: %v, but we want only 1 match''
                    [FInt (int (length ds))])))"

definition num_error_of :: "string \<Rightarrow> num_error \<Rightarrow> go_error" where
  "num_error_of s e =
     Errorf ''strconv.ParseUint: parsing %q: %s'' [FStr s, FStr (case e of ErrSyntax \<Rightarrow> ''invalid syntax''
       | ErrRange \<Rightarrow> ''value out of range'')]"

definition mounter_get_disk_by_size_and_unit ::
  "'o os_ops \<Rightarrow> string \<Rightarrow> string \<Rightarrow> string \<Rightarrow> ('o, string) os_act" where
  "mounter_get_disk_by_size_and_unit os dsize unit bus =
     (case parse_uint64 dsize of
        Inl e \<Rightarrow> raise (num_error_of dsize e)
      | Inr parseUintSize \<Rightarrow>
          andThen (ext_call (Ghw_Block os) (\<lambda>_. EvGhw)) (\<lambda>r.
          andThen (of_ext r) (\<lambda>disks.
          case filter (\<lambda>d. unat (gd_size_bytes d) = parseUintSize) disks of
            [] \<Rightarrow> raise (ErrNew ''cannot find disk by size'')
          | [d] \<Rightarrow>
              if extractUnitNumForScsi (gd_bus_path d) \<noteq> unit
              then raise (ErrNew ''disk matched by size, but unit num is not the same'')
              else ret (''/dev/'' @ gd_name d)
          | ds \<Rightarrow>
              (let matchedBusUnit =
                     map gd_name (filter (\<lambda>d. extractUnitNumForScsi (gd_bus_path d) = unit) ds) in
               if length matchedBusUnit = 1 then ret (''/dev/'' @ hd matchedBusUnit)
               else raise (Errorf ''disk not match by filter for unit number, matched result len: %v, but we want only 1 match''
                             [FInt (int (length matchedBusUnit))])))))"

subsection \<open>The interface\<close>

text \<open>The Go interface \<open>Mounter\<close> as a record of operations, and its implementation.\<close>

record 'm mounter_ops =
  mnt_Format :: "string \<Rightarrow> string \<Rightarrow> ('m, unit) act"
  mnt_Mount :: "string \<Rightarrow> string \<Rightarrow> string \<Rightarrow> string list \<Rightarrow> ('m, unit) act"
  mnt_Unmount :: "string \<Rightarrow> ('m, unit) act"
  mnt_IsFormatted :: "string \<Rightarrow> ('m, bool) act"
  mnt_IsMounted :: "string \<Rightarrow> ('m, bool) act"
  mnt_GetStatistics :: "string \<Rightarrow> ('m, volume_statistics) act"
  mnt_IsBlockDevice :: "string \<Rightarrow> ('m, bool) act"
  mnt_GetDiskUnit :: "string \<Rightarrow> string \<Rightarrow> string \<Rightarrow> ('m, string) act"

definition mounter_handler :: "'o os_ops \<Rightarrow> 'o os_env mounter_ops" where
  "mounter_handler os = \<lparr>
     mnt_Format = mounter_format os,
     mnt_Mount = mounter_mount os,
     mnt_Unmount = mounter_unmount os,
     mnt_IsFormatted = mounter_is_formatted os,
     mnt_IsMounted = mounter_is_mounted os,
     mnt_GetStatistics = mounter_get_statistics os,
     mnt_IsBlockDevice = mounter_is_block_device os,
     mnt_GetDiskUnit = mounter_get_disk_unit os\<rparr>"

end
