(* ===== verification/Mounter_Contract.thy ===== *)
theory Mounter_Contract
  imports Mounter Go_Hoare
begin

text \<open>
  The Go interface \<open>Mounter\<close> (\<open>internal/mount/mounter.go\<close>) as a locale: what the node service relies
  on. The state of a mounter shows the changes it has made to the node, newest first, and whether it has
  just been told that a device has no file system. Queries change nothing; \<open>Format\<close>, \<open>Mount\<close> and
  \<open>Unmount\<close> make at most the change they are asked for, and have made it when they succeed. The
  implementation is shown to keep the contract on every operating system.
\<close>

subsection \<open>The contract\<close>

datatype mount_change =
  Formatted string string
| Mounted string string
| Unmounted string

definition adds :: "('m \<Rightarrow> mount_change list) \<Rightarrow> mount_change \<Rightarrow> ('m, 'a) act \<Rightarrow> bool" where
  "adds changes ch m \<longleftrightarrow>
     (\<forall>s. wp m (\<lambda>r s'. r \<noteq> Blocked \<and> (changes s' = changes s \<or> changes s' = ch # changes s) \<and>
                  ((\<exists>v. r = Ok v) \<longrightarrow> changes s' = ch # changes s)) s)"

definition leaves :: "('m \<Rightarrow> 'x) \<Rightarrow> ('m, 'a) act \<Rightarrow> bool" where
  "leaves f m \<longleftrightarrow> (\<forall>s. wp m (\<lambda>r s'. r \<noteq> Blocked \<and> f s' = f s) s)"

locale mounter =
  fixes ops :: "'m mounter_ops"
    and changes :: "'m \<Rightarrow> mount_change list"
    and blank :: "string \<Rightarrow> 'm \<Rightarrow> bool"
    and careful :: "'m \<Rightarrow> bool"
  assumes is_formatted_query: "leaves changes (mnt_IsFormatted ops src)"
    and is_mounted_query: "leaves changes (mnt_IsMounted ops tgt)"
    and statistics_query: "leaves changes (mnt_GetStatistics ops path)"
    and block_query: "leaves changes (mnt_IsBlockDevice ops path)"
    and disk_query: "leaves changes (mnt_GetDiskUnit ops sz unt bus)"
    and format_change: "adds changes (Formatted src fs) (mnt_Format ops src fs)"
    and mount_change: "adds changes (Mounted src tgt) (mnt_Mount ops src tgt fs opts)"
    and unmount_change: "adds changes (Unmounted tgt) (mnt_Unmount ops tgt)"
    and not_formatted_blank: "mnt_IsFormatted ops src m = (Ok False, m') \<Longrightarrow> blank src m'"
    and format_careful: "careful m \<Longrightarrow> blank src m \<Longrightarrow> mnt_Format ops src fs m = (r, m') \<Longrightarrow> careful m'"
    and is_formatted_careful: "keeps careful (mnt_IsFormatted ops src)"
    and is_mounted_careful: "keeps careful (mnt_IsMounted ops tgt)"
    and disk_careful: "keeps careful (mnt_GetDiskUnit ops sz unt bus)"
    and mount_careful: "keeps careful (mnt_Mount ops src tgt fs opts)"
    and unmount_careful: "keeps careful (mnt_Unmount ops tgt)"
    and block_careful: "keeps careful (mnt_IsBlockDevice ops path)"
    and statistics_careful: "keeps careful (mnt_GetStatistics ops path)"
begin

lemmas queries = is_formatted_query is_mounted_query statistics_query block_query disk_query
lemmas keeps_careful = is_formatted_careful is_mounted_careful disk_careful mount_careful unmount_careful
  block_careful statistics_careful

end

subsection \<open>The implementation\<close>

text \<open>Which change a system call or command of the trace is: the commands \<open>mkfs.*\<close>, \<open>mount\<close> and
  \<open>umount\<close>, with the device and the target at the end of their arguments.\<close>

fun change_of :: "os_event \<Rightarrow> mount_change list" where
  "change_of (EvExec cmd args r) =
     (if take 5 cmd = ''mkfs.'' then [Formatted (last args) (drop 5 cmd)]
      else if cmd = ''mount'' then [Mounted (last (butlast args)) (last args)]
      else if cmd = ''umount'' then [Unmounted (last args)]
      else [])"
| "change_of _ = []"

definition changes_made :: "'o os_env \<Rightarrow> mount_change list" where
  "changes_made s = concat (map change_of (trace s))"

text \<open>\<open>blkid\<close> has just exited with the status that says it found no identifiers on the device.\<close>

fun blank_reported :: "string \<Rightarrow> os_event list \<Rightarrow> bool" where
  "blank_reported src (EvExec cmd args (Some (ExitStatus n)) # _) =
     (cmd = ''blkid'' \<and> args = [src] \<and> n = blkidExitStatusNoIdentifiers)"
| "blank_reported src _ = False"

text \<open>Every \<open>mkfs\<close> in a trace comes right after such a report on its device, but for the search of
  the command's own path.\<close>

fun careful_formats :: "os_event list \<Rightarrow> bool" where
  "careful_formats [] = True"
| "careful_formats (EvExec cmd args r # tr) =
     ((take 5 cmd = ''mkfs.'' \<longrightarrow>
         (case tr of EvLookPath cmd' # tr' \<Rightarrow> cmd' = cmd \<and> blank_reported (last args) tr' | _ \<Rightarrow> False)) \<and>
      careful_formats tr)"
| "careful_formats (_ # tr) = careful_formats tr"

lemma wp_os_calls [wp_rules]:
  "wp (look_path os cmd) Q s =
     (\<forall>r w. LookPath os cmd (world s) = (r, w) \<longrightarrow>
        (case r of None \<Rightarrow> Q (Ok ()) (s\<lparr>world := w, trace := EvLookPath cmd # trace s\<rparr>)
         | Some e \<Rightarrow>
             Q (Err (if e = exec_ErrNotFound then Errorf ''%q executable not found in $PATH'' [FStr cmd] else Ext e))
               (s\<lparr>world := w, trace := EvLookPath cmd # trace s\<rparr>)))"
  "wp (combined_output os cmd args) Q' s =
     (\<forall>r w. CombinedOutput os cmd args (world s) = (r, w) \<longrightarrow>
        Q' (Ok r) (s\<lparr>world := w, trace := EvExec cmd args (snd r) # trace s\<rparr>))"
  "wp (os_call0 f ev) Q'' s =
     (\<forall>r w. f (world s) = (r, w) \<longrightarrow> Q'' (Ok r) (s\<lparr>world := w, trace := ev # trace s\<rparr>))"
  by (auto simp: look_path_def combined_output_def os_call0_def wp_rules split: option.split)

lemma changes_simps [simp]:
  "changes_made (s\<lparr>world := w, trace := e # tr\<rparr>) = change_of e @ concat (map change_of tr)"
  "concat (map change_of (trace s)) = changes_made s"
  by (simp_all add: changes_made_def)

lemmas query_defs = mounter_is_formatted_def mounter_is_mounted_def mounter_get_statistics_def
  mounter_is_block_device_def mounter_get_disk_unit_def

lemma handler_queries:
  "leaves changes_made (mounter_is_formatted os src)"
  "leaves changes_made (mounter_is_mounted os tgt)"
  "leaves changes_made (mounter_is_block_device os path)"
  "leaves changes_made (mounter_get_statistics os path)"
  "leaves changes_made (mounter_get_disk_unit os sz unt bus)"
  unfolding leaves_def query_defs Let_def
  by (auto simp: wp_rules split: option.split sum.split run_error.split prod.split list.split)

lemma handler_format: "adds changes_made (Formatted src fs) (mounter_format os src fs)"
  unfolding adds_def mounter_format_def Let_def
  by (auto simp: wp_rules split: option.split)

lemma handler_mount: "adds changes_made (Mounted src tgt) (mounter_mount os src tgt fs opts)"
  unfolding adds_def mounter_mount_def make_mount_point_def mount_args_def Let_def
  by (auto simp: wp_rules butlast_append split: option.split)

lemma handler_unmount: "adds changes_made (Unmounted tgt) (mounter_unmount os tgt)"
  unfolding adds_def mounter_unmount_def
  by (auto simp: wp_rules split: option.split)

lemma handler_blank:
  assumes "mounter_is_formatted os src m = (Ok False, m')"
  shows "blank_reported src (trace m')"
proof -
  have "wp (mounter_is_formatted os src) (\<lambda>r m'. r = Ok False \<longrightarrow> blank_reported src (trace m')) m"
    by (auto simp: mounter_is_formatted_def Let_def wp_rules split: option.split run_error.split)
  from wpD [OF this assms] show ?thesis by simp
qed

lemma handler_careful:
  "keeps (\<lambda>m. careful_formats (trace m)) (mounter_is_formatted os src)"
  "keeps (\<lambda>m. careful_formats (trace m)) (mounter_is_mounted os tgt)"
  "keeps (\<lambda>m. careful_formats (trace m)) (mounter_get_disk_unit os sz unt bus)"
  "keeps (\<lambda>m. careful_formats (trace m)) (mounter_mount os src tgt fs opts)"
  "keeps (\<lambda>m. careful_formats (trace m)) (mounter_unmount os tgt)"
  "keeps (\<lambda>m. careful_formats (trace m)) (mounter_is_block_device os path)"
  "keeps (\<lambda>m. careful_formats (trace m)) (mounter_get_statistics os path)"
  unfolding keeps_def query_defs mounter_mount_def make_mount_point_def mounter_unmount_def Let_def
  by (auto simp: wp_rules split: option.split sum.split run_error.split prod.split list.split)

lemma handler_format_careful:
  assumes "careful_formats (trace m)" and "blank_reported src (trace m)"
    and "mounter_format os src fs m = (r, m')"
  shows "careful_formats (trace m')"
proof -
  have "wp (mounter_format os src fs) (\<lambda>r m'. careful_formats (trace m')) m"
    using assms(1,2) by (auto simp: mounter_format_def Let_def wp_rules split: option.split)
  from wpD [OF this assms(3)] show ?thesis .
qed

interpretation handler: mounter "mounter_handler os" changes_made "\<lambda>src m. blank_reported src (trace m)"
    "\<lambda>m. careful_formats (trace m)" for os :: "'o os_ops"
  by unfold_locales
    (simp_all add: mounter_handler_def handler_queries handler_format handler_mount handler_unmount
      handler_blank handler_careful handler_format_careful)

end
