(* ===== verification/Mounter_Properties.thy ===== *)
theory Mounter_Properties
  imports Mounter_Contract
begin

text \<open>
  The properties of the mounter (\<open>internal/mount/mounter.go\<close>): how it finds the device of a volume, when
  it says that a target is mounted, the commands it runs and the statistics it computes.
\<close>

subsection \<open>A concrete node\<close>

text \<open>A node whose answers do not depend on what has been done: every tool is there, \<open>blkid\<close> exits with
  the given status, \<open>findmnt\<close> prints nothing, the other commands succeed.\<close>

definition example_os :: "int option \<Rightarrow> ghw_disk list \<Rightarrow> unit os_ops" where
  "example_os blkid disks = \<lparr>
     LookPath = (\<lambda>_ st. (None, st)),
     CombinedOutput = (\<lambda>_ _ st. (([], None), st)),
     Run = (\<lambda>_ _ st. (map_option ExitStatus blkid, st)),
     MkdirAll = (\<lambda>_ st. (None, st)),
     CreateFile = (\<lambda>_ st. (None, st)),
     UnmarshalFindmnt = (\<lambda>_. Inl (ExtMsg ''unexpected end of JSON input'')),
     Unix_Statfs = (\<lambda>_ st. (Inr \<lparr>Bsize = 4096, Blocks = 1000, Bfree = 600, Bavail = 500, Files = 100, Ffree = 90\<rparr>, st)),
     Unix_Stat = (\<lambda>_ st. (Inr 0x41ed, st)),
     Ghw_Block = (\<lambda>st. (Inr disks, st))\<rparr>"

definition scsi_disk :: "string \<Rightarrow> string \<Rightarrow> 64 word \<Rightarrow> ghw_disk" where
  "scsi_disk name path sz = \<lparr>gd_name = name, gd_bus_path = path, gd_size_bytes = sz\<rparr>"

definition example_disks :: "ghw_disk list" where
  "example_disks =
     [scsi_disk ''sda'' ''pci-0000:03:00.0-scsi-0:0:0:0'' 80,
      scsi_disk ''sdb'' ''pci-0000:1b:00.0-scsi-0:0:8:0'' 10,
      scsi_disk ''sdc'' ''pci-0000:1b:00.0-scsi-0:0:11:0'' 10]"

definition example_node :: "unit os_env" where
  "example_node = \<lparr>world = (), trace = []\<rparr>"

subsection \<open>Finding the device\<close>

text \<open>The bus path of a SCSI disk, in the form the code splits: the unit number is the fifth of its
  parts between colons.\<close>

definition scsi_path :: "string \<Rightarrow> string \<Rightarrow> string \<Rightarrow> string \<Rightarrow> int \<Rightarrow> string \<Rightarrow> string" where
  "scsi_path domain bus slot target unit lun = join '':'' [domain, bus, slot, target, itoa unit, lun]"

definition no_colon :: "string \<Rightarrow> bool" where
  "no_colon s \<longleftrightarrow> CHR '':'' \<notin> set s"

lemma itoa_no_colon [simp]: "no_colon (itoa u)"
  using itoa_chars [of "CHR '':''" u] by (auto simp: no_colon_def is_digit_def)

lemma extract_scsi:
  assumes "\<And>x. x \<in> {domain, bus, slot, target, lun} \<Longrightarrow> no_colon x"
  shows "extractUnitNumForScsi (scsi_path domain bus slot target unit lun) = itoa unit"
proof -
  have "split_on (CHR '':'') (scsi_path domain bus slot target unit lun)
      = [domain, bus, slot, target, itoa unit, lun]"
    unfolding scsi_path_def
    by (rule split_on_join) (use assms itoa_no_colon [of unit] in \<open>auto simp: no_colon_def\<close>)
  then show ?thesis by (simp add: extractUnitNumForScsi_def)
qed

text \<open>The disks whose bus path has a unit number.\<close>

definition at_unit :: "string \<Rightarrow> ghw_disk list \<Rightarrow> ghw_disk list" where
  "at_unit unit disks = filter (\<lambda>d. extractUnitNumForScsi (gd_bus_path d) = unit) disks"

lemma get_disk_unit_run:
  assumes "Ghw_Block os (world s) = (Inr disks, w)"
  shows "fst (mounter_get_disk_unit os sz unit bus s) =
     (case at_unit unit disks of
        [] \<Rightarrow> Err (ErrNew ''cannot find disk by size'')
      | [d] \<Rightarrow> Ok (''/dev/'' @ gd_name d)
      | ds \<Rightarrow> Err (Errorf ''disk not match by filter for unit number, matched result len: %v, but we want only 1 match''
                    [FInt (int (length ds))]))"
  using assms
  by (auto simp: mounter_get_disk_unit_def at_unit_def andThen_def ext_call_def ret_def raise_def
      split: list.splits)

text \<open>
  C27. The unit number that publishing a volume writes in decimal is found again on the node: where
  exactly one disk of the node sits at the unit, \<open>GetDiskUnit\<close> gives the device of this disk, whatever
  size and bus it is asked for.
\<close>

theorem disk_unit_found:
  assumes "Ghw_Block os (world s) = (Inr (ds @ d # ds'), w)"
    and "gd_bus_path d = scsi_path domain bus slot target unit lun"
    and "\<And>x. x \<in> {domain, bus, slot, target, lun} \<Longrightarrow> no_colon x"
    and "\<And>x. x \<in> set (ds @ ds') \<Longrightarrow> extractUnitNumForScsi (gd_bus_path x) \<noteq> itoa unit"
  shows "fst (mounter_get_disk_unit os sz (itoa unit) bus' s) = Ok (''/dev/'' @ gd_name d)"
proof -
  have "extractUnitNumForScsi (gd_bus_path d) = itoa unit"
    unfolding assms(2) by (rule extract_scsi) (rule assms(3))
  then have "at_unit (itoa unit) (ds @ d # ds') = [d]"
    using assms(4) by (auto simp: at_unit_def filter_empty_conv)
  then show ?thesis by (simp add: get_disk_unit_run [OF assms(1)])
qed

theorem disk_unit_found_witness:
  "fst (mounter_get_disk_unit (example_os None example_disks) ''10'' (itoa 11) [] example_node) = Ok ''/dev/sdc''"
proof -
  have "fst (mounter_get_disk_unit (example_os None example_disks) ''10'' (itoa 11) [] example_node)
      = Ok (''/dev/'' @ gd_name (scsi_disk ''sdc'' ''pci-0000:1b:00.0-scsi-0:0:11:0'' 10))"
  proof (rule disk_unit_found)
    show "Ghw_Block (example_os None example_disks) (world example_node)
        = (Inr ([scsi_disk ''sda'' ''pci-0000:03:00.0-scsi-0:0:0:0'' 80,
                 scsi_disk ''sdb'' ''pci-0000:1b:00.0-scsi-0:0:8:0'' 10] @
                scsi_disk ''sdc'' ''pci-0000:1b:00.0-scsi-0:0:11:0'' 10 # []), ())"
      by (simp add: example_os_def example_disks_def)
    have "itoa 11 = ''11''" by code_simp
    then show "gd_bus_path (scsi_disk ''sdc'' ''pci-0000:1b:00.0-scsi-0:0:11:0'' 10)
        = scsi_path ''pci-0000'' ''1b'' ''00.0-scsi-0'' ''0'' 11 ''0''"
      by (simp add: scsi_disk_def scsi_path_def)
    show "no_colon x" if "x \<in> {''pci-0000'', ''1b'', ''00.0-scsi-0'', ''0'', ''0''}" for x
      using that by (auto simp: no_colon_def)
    show "extractUnitNumForScsi (gd_bus_path x) \<noteq> itoa 11"
      if "x \<in> set ([scsi_disk ''sda'' ''pci-0000:03:00.0-scsi-0:0:0:0'' 80,
               scsi_disk ''sdb'' ''pci-0000:1b:00.0-scsi-0:0:8:0'' 10] @ [])" for x
      using that \<open>itoa 11 = ''11''\<close> by (auto simp: scsi_disk_def extractUnitNumForScsi_def)
  qed
  then show ?thesis by (simp add: scsi_disk_def)
qed

lemma list_cases_two [case_names none one more]:
  "(xs = [] \<Longrightarrow> P) \<Longrightarrow> (\<And>x. xs = [x] \<Longrightarrow> P) \<Longrightarrow> (\<And>x y ys. xs = x # y # ys \<Longrightarrow> P) \<Longrightarrow> P"
  by (cases xs; cases "tl xs") auto

lemma by_size_run:
  assumes "Ghw_Block os (world s) = (Inr disks, w)"
    and "fst (mounter_get_disk_by_size_and_unit os sz unit bus s) = Ok p"
  shows "\<exists>d. at_unit unit (filter (\<lambda>d. Inr (unat (gd_size_bytes d)) = parse_uint64 sz) disks) = [d] \<and>
             p = ''/dev/'' @ gd_name d"
proof -
  obtain n where n: "parse_uint64 sz = Inr n"
    using assms(2) by (auto simp: mounter_get_disk_by_size_and_unit_def raise_def split: sum.splits)
  let ?m = "filter (\<lambda>d. unat (gd_size_bytes d) = n) disks"
  have "\<exists>d. at_unit unit ?m = [d] \<and> p = ''/dev/'' @ gd_name d"
  proof (cases ?m rule: list_cases_two)
    case none
    with assms n show ?thesis
      by (simp add: mounter_get_disk_by_size_and_unit_def andThen_def ext_call_def ret_def raise_def)
  next
    case (one d)
    with assms n show ?thesis
      by (auto simp: mounter_get_disk_by_size_and_unit_def andThen_def ext_call_def ret_def raise_def
          at_unit_def split: if_splits)
  next
    case (more d d' ds)
    with assms n show ?thesis
      by (auto simp: mounter_get_disk_by_size_and_unit_def andThen_def ext_call_def ret_def raise_def
          at_unit_def Let_def length_Suc_conv split: if_splits)
  qed
  then show ?thesis by (simp add: n eq_commute)
qed

text \<open>
  C28. The two searches agree: where both find a device, it is the same one, so filtering by the unit
  alone is only ever less able to decide than filtering by size first.
\<close>

theorem disk_searches_agree:
  assumes "fst (mounter_get_disk_by_size_and_unit os sz unit bus s) = Ok p"
    and "fst (mounter_get_disk_unit os sz' unit bus' s) = Ok q"
  shows "p = q"
proof -
  obtain r w where ghw: "Ghw_Block os (world s) = (r, w)" by fastforce
  with assms(2) obtain disks where "r = Inr disks"
    by (cases r) (simp_all add: mounter_get_disk_unit_def andThen_def ext_call_def ret_def raise_def)
  with ghw have g: "Ghw_Block os (world s) = (Inr disks, w)" by simp
  from by_size_run [OF g assms(1)] obtain d where
      d: "at_unit unit (filter (\<lambda>d. Inr (unat (gd_size_bytes d)) = parse_uint64 sz) disks) = [d]"
      and p: "p = ''/dev/'' @ gd_name d" by blast
  from assms(2) obtain d' where d': "at_unit unit disks = [d']" and q: "q = ''/dev/'' @ gd_name d'"
    by (auto simp: get_disk_unit_run [OF g] split: list.splits)
  have "d \<in> set (at_unit unit (filter (\<lambda>d. Inr (unat (gd_size_bytes d)) = parse_uint64 sz) disks))"
    by (simp add: d)
  then have "d \<in> set (at_unit unit disks)" by (simp add: at_unit_def)
  with p q d' show ?thesis by simp
qed

lemma parse_ten: "parse_uint64 ''10'' = Inr 10"
proof -
  have "itoa 10 = ''10''" by code_simp
  with parse_uint64_itoa [of 10] show ?thesis by simp
qed

lemmas search_defs = mounter_get_disk_by_size_and_unit_def mounter_get_disk_unit_def example_os_def
  scsi_disk_def extractUnitNumForScsi_def andThen_def ext_call_def ret_def raise_def example_node_def

text \<open>Two disks of the same size, told apart by their units.\<close>

theorem disk_searches_agree_witness:
  "\<exists>p q. fst (mounter_get_disk_by_size_and_unit (example_os None example_disks) ''10'' ''8'' [] example_node) = Ok p
      \<and> fst (mounter_get_disk_unit (example_os None example_disks) ''10'' ''8'' [] example_node) = Ok q
      \<and> p = q"
proof -
  have one: "fst (mounter_get_disk_by_size_and_unit (example_os None example_disks) ''10'' ''8'' [] example_node)
     = Ok ''/dev/sdb''"
    by (simp add: search_defs parse_ten example_disks_def)
  have two: "fst (mounter_get_disk_unit (example_os None example_disks) ''10'' ''8'' [] example_node)
     = Ok ''/dev/sdb''"
    by (simp add: search_defs example_disks_def)
  from disk_searches_agree [OF one two] one two show ?thesis by blast
qed

text \<open>
  \<open>GetDiskUnit\<close> does not use the size: where a disk on another controller has the same unit
  number, it gives up, although the size tells the two disks apart and the other search finds the
  device.
\<close>

lemma disk_unit_ignores_size:
  "let disks = [scsi_disk ''sda'' ''pci-0000:03:00.0-scsi-0:0:8:0'' 80,
                scsi_disk ''sdb'' ''pci-0000:1b:00.0-scsi-0:0:8:0'' 10] in
   mounter_get_disk_unit os sz unit bus = mounter_get_disk_unit os sz' unit bus' \<and>
   (\<forall>p. fst (mounter_get_disk_unit (example_os None disks) ''10'' ''8'' [] example_node) \<noteq> Ok p) \<and>
   fst (mounter_get_disk_by_size_and_unit (example_os None disks) ''10'' ''8'' [] example_node) = Ok ''/dev/sdb''"
proof -
  let ?disks = "[scsi_disk ''sda'' ''pci-0000:03:00.0-scsi-0:0:8:0'' 80,
                scsi_disk ''sdb'' ''pci-0000:1b:00.0-scsi-0:0:8:0'' 10]"
  have "case fst (mounter_get_disk_unit (example_os None ?disks) ''10'' ''8'' [] example_node) of
      Err _ \<Rightarrow> True | _ \<Rightarrow> False"
    by (simp add: search_defs)
  moreover have "fst (mounter_get_disk_by_size_and_unit (example_os None ?disks) ''10'' ''8'' [] example_node)
      = Ok ''/dev/sdb''"
    by (simp add: search_defs parse_ten)
  ultimately show ?thesis
    by (auto simp: Let_def mounter_get_disk_unit_def split: outcome.splits)
qed

subsection \<open>Is it mounted?\<close>

lemma check_file_systems_spec:
  "check_file_systems tgt fss found =
     (if \<forall>fs \<in> set fss. fs_propagation fs = ''shared'' then Inr (found \<or> (\<exists>fs \<in> set fss. fs_target fs = tgt))
      else Inl (Errorf ''mount propagation for target %q is not enabled'' [FStr tgt]))"
  by (induction fss arbitrary: found) auto

text \<open>What \<open>findmnt\<close> has to print for a target to count as mounted.\<close>

definition mount_listed :: "'o os_ops \<Rightarrow> string \<Rightarrow> string \<Rightarrow> bool \<Rightarrow> bool" where
  "mount_listed os tgt out hit \<longleftrightarrow>
     (\<exists>resp. UnmarshalFindmnt os out = Inr (Some resp) \<and>
        (\<forall>fs \<in> set (FileSystems resp). fs_propagation fs = ''shared'') \<and>
        (hit \<longleftrightarrow> (\<exists>fs \<in> set (FileSystems resp). fs_target fs = tgt)))"



subsection \<open>Statistics\<close>

lemma sint_uint_mult:
  fixes a b :: "64 word"
  assumes "uint a * uint b < 2 ^ 63"
  shows "sint (a * b) = uint a * uint b"
proof -
  have "a * b = word_of_int (uint a * uint b)" by simp
  moreover have "- (2 ^ 63) \<le> uint a * uint b"
    by (rule order_trans [of _ 0]) simp_all
  ultimately show ?thesis using assms sint_of_int64 [of "uint a * uint b"] by simp
qed

text \<open>
  C29. For a file system whose size fits in 63 bits and whose free blocks are among its blocks, the
  statistics are the exact numbers of bytes, in spite of the conversions and products at 64 bits: the
  used bytes are what is not free, and used and available bytes together are at most the total.
\<close>

theorem statistics_exact:
  fixes st :: statfs
  assumes "uint (Blocks st) * uint (Bsize st) < 2 ^ 63"
    and "uint (Bfree st) \<le> uint (Blocks st)" and "uint (Bavail st) \<le> uint (Bfree st)"
  shows "sint (TotalBytes (stats_of_statfs st)) = uint (Blocks st) * uint (Bsize st) \<and>
         sint (UsedBytes (stats_of_statfs st)) = (uint (Blocks st) - uint (Bfree st)) * uint (Bsize st) \<and>
         sint (AvailableBytes (stats_of_statfs st)) = uint (Bavail st) * uint (Bsize st) \<and>
         0 \<le> sint (UsedBytes (stats_of_statfs st)) \<and>
         sint (UsedBytes (stats_of_statfs st)) + sint (AvailableBytes (stats_of_statfs st))
           \<le> sint (TotalBytes (stats_of_statfs st))"
proof -
  have diff: "uint (Blocks st - Bfree st) = uint (Blocks st) - uint (Bfree st)"
    using assms(2) by (simp add: uint_sub_lem)
  have below: "x * uint (Bsize st) < 2 ^ 63" if "x \<le> uint (Blocks st)" for x
    using mult_right_mono [OF that, of "uint (Bsize st)"] assms(1) by simp
  have total: "sint (TotalBytes (stats_of_statfs st)) = uint (Blocks st) * uint (Bsize st)"
    using assms(1) by (simp add: stats_of_statfs_def sint_uint_mult)
  have used: "sint (UsedBytes (stats_of_statfs st)) = (uint (Blocks st) - uint (Bfree st)) * uint (Bsize st)"
    using below [of "uint (Blocks st) - uint (Bfree st)"]
    by (simp add: stats_of_statfs_def sint_uint_mult diff)
  have avail: "sint (AvailableBytes (stats_of_statfs st)) = uint (Bavail st) * uint (Bsize st)"
    using below [of "uint (Bavail st)"] assms(2,3) by (simp add: stats_of_statfs_def sint_uint_mult)
  have "uint (Bavail st) * uint (Bsize st) \<le> uint (Bfree st) * uint (Bsize st)"
    using assms(3) by (intro mult_right_mono) simp_all
  moreover have "uint (Bfree st) * uint (Bsize st) \<le> uint (Blocks st) * uint (Bsize st)"
    using assms(2) by (intro mult_right_mono) simp_all
  ultimately show ?thesis
    unfolding total used avail
    by (simp add: left_diff_distrib)
qed

theorem statistics_exact_witness:
  "let st = \<lparr>Bsize = 4096, Blocks = 1000, Bfree = 600, Bavail = 500, Files = 100, Ffree = 90\<rparr> in
   sint (UsedBytes (stats_of_statfs st)) = (1000 - 600) * 4096 \<and>
   sint (UsedBytes (stats_of_statfs st)) + sint (AvailableBytes (stats_of_statfs st)) \<le> 4096000"
  using statistics_exact [of "\<lparr>Bsize = 4096, Blocks = 1000, Bfree = 600, Bavail = 500, Files = 100, Ffree = 90\<rparr>"]
  by simp

lemma trim_itoa_newline: "trim_space (itoa n @ [CHR 0x0A]) = itoa n"
proof -
  have no: "\<not> is_space c" if "c \<in> set (itoa n)" for c
    using itoa_chars [OF that] by (auto simp: is_space_def is_digit_def)
  have nl: "is_space (CHR 0x0A)" by (simp add: is_space_def)
  have keep: "dropWhile is_space xs = xs" if "\<forall>c \<in> set xs. \<not> is_space c" for xs
    using that by (cases xs) simp_all
  obtain c cs where c: "itoa n = c # cs" by (cases "itoa n") auto
  then have "\<not> is_space c" using no by simp
  with c have "dropWhile is_space (itoa n @ [CHR 0x0A]) = itoa n @ [CHR 0x0A]" by simp
  moreover have "dropWhile is_space (rev (itoa n)) = rev (itoa n)"
    using no by (intro keep) simp
  ultimately show ?thesis by (simp add: trim_space_def nl)
qed



end
