(* ===== verification/Client_Service.thy ===== *)
theory Client_Service
  imports Client_Safety
begin

text \<open>
  The Go interface \<open>VcdService\<close> (\<open>pkg/vcd-client/client.go\<close>), through which the driver uses the
  client: the operations as a record, the contract as a locale, and the client as its
  implementation, for every cloud and configuration.
\<close>

record 's vcd_service =
  svc_CreateDisk :: "string \<Rightarrow> string \<Rightarrow> string \<Rightarrow> storage_size \<Rightarrow> ('s, unit) act"
  svc_ListVolumes :: "('s, volume_with_cap list) act"
  svc_DeleteDisk :: "string \<Rightarrow> ('s, unit) act"
  svc_DetachDisk :: "string \<Rightarrow> string \<Rightarrow> ('s, unit) act"
  svc_AttachDisk :: "string \<Rightarrow> string \<Rightarrow> ('s, disk_attach_params) act"
  svc_ResizeDisk :: "string \<Rightarrow> string \<Rightarrow> storage_size \<Rightarrow> ('s, unit) act"

definition vcd_client_service ::
  "go_runtime \<Rightarrow> 'w govcd \<Rightarrow> controller_config \<Rightarrow> 'w vcd_client vcd_service" where
  "vcd_client_service rt api c = \<lparr>
     svc_CreateDisk = create_disk api c,
     svc_ListVolumes = list_volumes rt api c,
     svc_DeleteDisk = delete_disk rt api c,
     svc_DetachDisk = detach_disk rt api c,
     svc_AttachDisk = attach_disk rt api c,
     svc_ResizeDisk = resize_disk api c\<rparr>"

subsection \<open>The contract\<close>

text \<open>
  What a client of the service may rely on: from an idle service no method waits for ever, each leaves
  the service idle however it ends, and the errors of some methods are restricted.
\<close>

locale vcd_service =
  fixes svc :: "'s vcd_service" and idle :: "'s \<Rightarrow> bool"
  assumes create_idle: "keeps idle (svc_CreateDisk svc vdc d profile sz)"
    and list_idle: "keeps idle (svc_ListVolumes svc)"
    and delete_idle: "keeps idle (svc_DeleteDisk svc d)"
    and detach_idle: "keeps idle (svc_DetachDisk svc vmn d)"
    and attach_idle: "keeps idle (svc_AttachDisk svc vmn d)"
    and resize_idle: "keeps idle (svc_ResizeDisk svc vdc d sz)"
    and list_errors: "errs (range Ext) (svc_ListVolumes svc)"
    and create_errors: "errs (- {ErrDiskAlreadyExists}) (svc_CreateDisk svc vdc d profile sz)"
    and attach_errors: "errs (- {ErrNoFreeUnits}) (svc_AttachDisk svc vmn d)"
begin

lemmas service_idle = create_idle list_idle delete_idle detach_idle attach_idle resize_idle

end

lemma keepsI: "(\<And>s. I s \<Longrightarrow> wp m (\<lambda>r s'. r \<noteq> Blocked \<and> I s') s) \<Longrightarrow> keeps I m"
  by (simp add: keeps_def)

lemma methods_idle:
  "keeps (\<lambda>v. \<not> mt v) (create_disk api c vdc d profile sz)"
  "keeps (\<lambda>v. \<not> mt v) (list_volumes rt api c)"
  "keeps (\<lambda>v. \<not> mt v) (delete_disk rt api c d)"
  "keeps (\<lambda>v. \<not> mt v) (detach_disk rt api c vmn d)"
  "keeps (\<lambda>v. \<not> mt v) (attach_disk rt api c vmn d)"
  "keeps (\<lambda>v. \<not> mt v) (resize_disk api c vdc d sz)"
proof -
  note free = run_call_free [where rt = rt and api = api and c = c]
  note I = call_invariant_mt(2)
  show "keeps (\<lambda>v. \<not> mt v) (create_disk api c vdc d profile sz)"
    using free [where x = "CreateDisk vdc d profile sz"] by (intro keepsI) simp
  show "keeps (\<lambda>v. \<not> mt v) (delete_disk rt api c d)"
    using free [where x = "DeleteDisk d"] by (intro keepsI) simp
  show "keeps (\<lambda>v. \<not> mt v) (detach_disk rt api c vmn d)"
    using free [where x = "DetachDisk vmn d"] by (intro keepsI) simp
  show "keeps (\<lambda>v. \<not> mt v) (resize_disk api c vdc d sz)"
    using free [where x = "ResizeDisk vdc d sz"] by (intro keepsI) simp
  show "keeps (\<lambda>v. \<not> mt v) (list_volumes rt api c)"
    unfolding list_volumes_def by (intro keepsI locked_free [OF bodies_keep(1) [OF I]])
  show "keeps (\<lambda>v. \<not> mt v) (attach_disk rt api c vmn d)"
    unfolding attach_disk_def by (intro keepsI locked_free [OF bodies_keep(4) [OF I]])
qed

lemma list_errs: "errs (range Ext) (list_volumes rt api c)"
  unfolding list_volumes_def locked_def list_vdc_def list_entity_def
  by (intro errs_intros) (simp_all add: cloud_errs_def)

lemma create_errs: "errs (- {ErrDiskAlreadyExists}) (create_disk api c vdc d profile sz)"
  unfolding create_disk_def locked_def Let_def
  by (intro errs_intros) (auto simp: cloud_errs_def)

lemma attach_errs: "errs (- {ErrNoFreeUnits}) (attach_disk rt api c vmn d)"
  unfolding attach_disk_def locked_def
  using cloud_errs_lookup
  by (intro errs_intros errs_attach_in) (auto simp: lookup_errs_def cloud_errs_def)

interpretation client: vcd_service "vcd_client_service rt api c" "\<lambda>v. \<not> mt v" for rt api c
  by unfold_locales (simp_all add: vcd_client_service_def methods_idle list_errs create_errs attach_errs)

end
