(* ===== verification/Driver.thy ===== *)
theory Driver
  imports Client_Service Locker Mounter Capacity
begin

text \<open>
  \<open>internal/driver/drv.go\<close>: the driver and its identity service, and the messages of the Container
  Storage Interface that the driver reads and answers (\<open>csi\<close>, not part of the repository: the
  fields of its generated structs). The driver holds the client, the locker and the mounter behind
  interfaces; the state of the driver is the three states, and a handler is an action on it that
  takes the interfaces it calls as arguments.
\<close>

subsection \<open>CSI messages\<close>

text \<open>The code names one access mode; \<open>MODE_UNKNOWN\<close> is the zero value of the enumeration.\<close>

datatype access_mode = MODE_UNKNOWN | SINGLE_NODE_WRITER | OTHER_MODE int

record mount_volume =
  FsType :: string
  MountFlags :: "string list"

datatype access_type = AccessBlock | AccessMount mount_volume

record volume_capability =
  cap_AccessMode :: "access_mode option"
  cap_AccessType :: "access_type option"

text \<open>The generated getters answer the zero value on nil.\<close>

definition GetMode :: "volume_capability option \<Rightarrow> access_mode" where
  "GetMode cap =
     (case cap of None \<Rightarrow> MODE_UNKNOWN
      | Some c \<Rightarrow> (case cap_AccessMode c of None \<Rightarrow> MODE_UNKNOWN | Some m \<Rightarrow> m))"

definition GetAccessType :: "volume_capability option \<Rightarrow> access_type option" where
  "GetAccessType cap = (case cap of None \<Rightarrow> None | Some c \<Rightarrow> cap_AccessType c)"

definition GetMount :: "volume_capability option \<Rightarrow> mount_volume option" where
  "GetMount cap = (case GetAccessType cap of Some (AccessMount m) \<Rightarrow> Some m | _ \<Rightarrow> None)"

type_synonym string_map = "string \<rightharpoonup> string"

record csi_volume =
  VolumeId :: string
  CapacityBytes :: int64
  AccessibleTopology :: "string_map list"

datatype controller_capability =
  CREATE_DELETE_VOLUME | PUBLISH_UNPUBLISH_VOLUME | LIST_VOLUMES | CONTROLLER_EXPAND_VOLUME

datatype node_capability = STAGE_UNSTAGE_VOLUME | NODE_EXPAND_VOLUME | GET_VOLUME_STATS

datatype plugin_capability =
  CONTROLLER_SERVICE | VOLUME_ACCESSIBILITY_CONSTRAINTS | VOLUME_EXPANSION_OFFLINE

subsection \<open>The driver\<close>

definition maxVolumesPerNode :: int where "maxVolumesPerNode = 8"

definition topologyKey :: string where "topologyKey = ''failure-domain.beta.kubernetes.io/zone''"
definition vcdParam :: string where "vcdParam = ''vcd''"
definition storageProfileParam :: string where "storageProfileParam = ''storageProfile''"
definition pubContextUnit :: string where "pubContextUnit = ''diskUnitNum''"
definition pubContextDiskSize :: string where "pubContextDiskSize = ''diskSizeB''"

text \<open>The fields of \<open>CsiDriver\<close> that never change after \<open>NewCsiDriver\<close>; nothing sets the version.\<close>

record driver_info =
  drv_Name :: string
  drv_Version :: string
  drv_nodeId :: string
  drv_conf :: controller_config

record ('v, 'l, 'm) csi_driver =
  vcl :: 'v
  lock :: 'l
  mnt :: 'm

definition NewCsiDriver ::
  "controller_config \<Rightarrow> 'v \<Rightarrow> 'm \<Rightarrow> 'l \<Rightarrow> driver_info \<times> ('v, 'l, 'm) csi_driver" where
  "NewCsiDriver c VcdClient m lk =
     (\<lparr>drv_Name = ControllerName c, drv_Version = [], drv_nodeId = NodeName c, drv_conf = c\<rparr>,
      \<lparr>vcl = VcdClient, lock = lk, mnt = m\<rparr>)"

text \<open>Calls through \<open>c.vcl\<close>, \<open>c.lock\<close> and \<open>c.m\<close>.\<close>

definition on_vcl :: "('v, 'a) act \<Rightarrow> (('v, 'l, 'm) csi_driver, 'a) act" where
  "on_vcl = zoom vcl (\<lambda>t d. d\<lparr>vcl := t\<rparr>)"

definition on_lock :: "('l, 'a) act \<Rightarrow> (('v, 'l, 'm) csi_driver, 'a) act" where
  "on_lock = zoom lock (\<lambda>t d. d\<lparr>lock := t\<rparr>)"

definition on_mnt :: "('m, 'a) act \<Rightarrow> (('v, 'l, 'm) csi_driver, 'a) act" where
  "on_mnt = zoom mnt (\<lambda>t d. d\<lparr>mnt := t\<rparr>)"

lemma wp_on [wp_rules]:
  "wp (on_vcl mv) Q d = wp mv (\<lambda>r t. Q r (d\<lparr>vcl := t\<rparr>)) (vcl d)"
  "wp (on_lock ml) Q d = wp ml (\<lambda>r t. Q r (d\<lparr>lock := t\<rparr>)) (lock d)"
  "wp (on_mnt mm) Q d = wp mm (\<lambda>r t. Q r (d\<lparr>mnt := t\<rparr>)) (mnt d)"
  by (simp_all add: on_vcl_def on_lock_def on_mnt_def wp_zoom)

lemma wp_access [wp_rules]:
  "wp (case a of AccessBlock \<Rightarrow> m | AccessMount v \<Rightarrow> n v) Q s =
     (case a of AccessBlock \<Rightarrow> wp m Q s | AccessMount v \<Rightarrow> wp (n v) Q s)"
  by (cases a) simp_all

lemma keeps_access [keeps_intros]:
  "keeps I m \<Longrightarrow> (\<And>v. keeps I (n v)) \<Longrightarrow> keeps I (case a of AccessBlock \<Rightarrow> m | AccessMount v \<Rightarrow> n v)"
  by (cases a) simp_all

subsection \<open>The identity service\<close>

definition get_plugin_info :: "driver_info \<Rightarrow> ('d, string \<times> string) act" where
  "get_plugin_info info = ret (drv_Name info, drv_Version info)"

definition get_plugin_capabilities :: "('d, plugin_capability list) act" where
  "get_plugin_capabilities =
     ret [CONTROLLER_SERVICE, VOLUME_ACCESSIBILITY_CONSTRAINTS, VOLUME_EXPANSION_OFFLINE]"

definition probe :: "('d, bool) act" where
  "probe = ret True"

end
