(* ===== verification/Node_Service.thy ===== *)
theory Node_Service
  imports Driver
begin

text \<open>
  \<open>internal/driver/node.go\<close>: the node service. Each handler checks its request and works on the
  node through the mounter interface: staging formats and mounts the device of a volume, publishing
  bind-mounts it where the pod wants it.
\<close>

definition node_invalid :: "string \<Rightarrow> ('s, 'a) act" where
  "node_invalid msg = raise (Status InvalidArgument (Msg msg))"

definition internal_err :: "go_error \<Rightarrow> go_error" where
  "internal_err err = Status Internal (ErrText err)"

text \<open>\<open>mnt.MountFlags\<close> and \<open>mnt.FsType\<close>, where \<open>mnt\<close> is nil unless the access type is a mount; the
  file system type defaults to ext4.\<close>

definition fs_type_of :: "mount_volume \<Rightarrow> string" where
  "fs_type_of m = (if FsType m \<noteq> [] then FsType m else ''ext4'')"

subsection \<open>Staging\<close>

record node_stage_request =
  ns_VolumeId :: string
  ns_PublishContext :: string_map
  ns_StagingTargetPath :: string
  ns_VolumeCapability :: "volume_capability option"

definition ensure_formatted ::
  "'m mounter_ops \<Rightarrow> string \<Rightarrow> string \<Rightarrow> (('v, 'l, 'm) csi_driver, unit) act" where
  "ensure_formatted ops source fsType =
     andThen (on_mnt (mnt_IsFormatted ops source)) (\<lambda>formatted.
     if \<not> formatted then mapErr (on_mnt (mnt_Format ops source fsType)) internal_err
     else ret ())"

definition ensure_mounted ::
  "'m mounter_ops \<Rightarrow> string \<Rightarrow> string \<Rightarrow> string \<Rightarrow> string list \<Rightarrow> (go_error \<Rightarrow> go_error) \<Rightarrow>
     (('v, 'l, 'm) csi_driver, unit) act" where
  "ensure_mounted ops source target fsType options err_of =
     andThen (on_mnt (mnt_IsMounted ops target)) (\<lambda>mounted.
     if \<not> mounted then mapErr (on_mnt (mnt_Mount ops source target fsType options)) err_of
     else ret ())"

definition node_stage_volume ::
  "'m mounter_ops \<Rightarrow> node_stage_request \<Rightarrow> (('v, 'l, 'm) csi_driver, unit) act" where
  "node_stage_volume ops req =
     (if ns_VolumeId req = [] then node_invalid ''NodeStageVolume Volume ID must be provided''
      else if ns_StagingTargetPath req = [] then
        node_invalid ''NodeStageVolume Staging Target Path must be provided''
      else if ns_VolumeCapability req = None then
        node_invalid ''NodeStageVolume Volume Capability must be provided''
      else
        case ns_PublishContext req pubContextUnit of
          None \<Rightarrow> node_invalid ''Publish context diskUnitNum must be provided''
        | Some diskUnit \<Rightarrow>
       (case ns_PublishContext req pubContextDiskSize of
          None \<Rightarrow> node_invalid ''Publish context diskSizeB must be provided''
        | Some diskSize \<Rightarrow>
            if GetAccessType (ns_VolumeCapability req) = Some AccessBlock then ret ()
            else
              andThen (on_mnt (mnt_GetDiskUnit ops diskSize diskUnit [])) (\<lambda>source.
              andThen (deref (GetMount (ns_VolumeCapability req))) (\<lambda>m.
              andThen (ensure_formatted ops source (fs_type_of m)) (\<lambda>_.
              ensure_mounted ops source (ns_StagingTargetPath req) (fs_type_of m) (MountFlags m)
                internal_err)))))"

definition ensure_unmounted :: "'m mounter_ops \<Rightarrow> string \<Rightarrow> (('v, 'l, 'm) csi_driver, unit) act" where
  "ensure_unmounted ops target =
     andThen (on_mnt (mnt_IsMounted ops target)) (\<lambda>mounted.
     if mounted then on_mnt (mnt_Unmount ops target) else ret ())"

definition node_unstage_volume ::
  "'m mounter_ops \<Rightarrow> string \<Rightarrow> string \<Rightarrow> (('v, 'l, 'm) csi_driver, unit) act" where
  "node_unstage_volume ops volumeId stagingTargetPath =
     (if volumeId = [] then node_invalid ''NodeUnstageVolume Volume ID must be provided''
      else if stagingTargetPath = [] then
        node_invalid ''NodeUnstageVolume Staging Target Path must be provided''
      else ensure_unmounted ops stagingTargetPath)"

subsection \<open>Publishing\<close>

record node_publish_request =
  np_VolumeId :: string
  np_PublishContext :: string_map
  np_StagingTargetPath :: string
  np_TargetPath :: string
  np_VolumeCapability :: "volume_capability option"
  np_Readonly :: bool

definition node_publish_for_file_system ::
  "'m mounter_ops \<Rightarrow> node_publish_request \<Rightarrow> string list \<Rightarrow> (('v, 'l, 'm) csi_driver, unit) act" where
  "node_publish_for_file_system ops req mountOptions =
     andThen (deref (GetMount (np_VolumeCapability req))) (\<lambda>m.
     ensure_mounted ops (np_StagingTargetPath req) (np_TargetPath req) (fs_type_of m)
       (mountOptions @ MountFlags m) internal_err)"

definition node_publish_for_block ::
  "'m mounter_ops \<Rightarrow> node_publish_request \<Rightarrow> string list \<Rightarrow> (('v, 'l, 'm) csi_driver, unit) act" where
  "node_publish_for_block ops req mountOptions =
     (case np_PublishContext req pubContextUnit of
        None \<Rightarrow> node_invalid ''Publish context diskUnitNum must be provided''
      | Some diskUnit \<Rightarrow>
     (case np_PublishContext req pubContextDiskSize of
        None \<Rightarrow> node_invalid ''Publish context diskSizeB must be provided''
      | Some diskSize \<Rightarrow>
          andThen (mapErr (on_mnt (mnt_GetDiskUnit ops diskSize diskUnit []))
            (\<lambda>err. Status Internal (Msgf ''Failed to find device path for volume %s. %v''
                      [FStr (np_VolumeId req), FErr err]))) (\<lambda>source.
          ensure_mounted ops source (np_TargetPath req) [] mountOptions
            (\<lambda>err. Status Internal (FmtText err)))))"

definition node_publish_volume ::
  "'m mounter_ops \<Rightarrow> node_publish_request \<Rightarrow> (('v, 'l, 'm) csi_driver, unit) act" where
  "node_publish_volume ops req =
     (if np_VolumeId req = [] then node_invalid ''NodePublishVolume Volume ID must be provided''
      else if np_StagingTargetPath req = [] then
        node_invalid ''NodePublishVolume Staging Target Path must be provided''
      else if np_TargetPath req = [] then
        node_invalid ''NodePublishVolume Target Path must be provided''
      else if np_VolumeCapability req = None then
        node_invalid ''NodePublishVolume Volume Capability must be provided''
      else
        (let options = [''bind''] @ (if np_Readonly req then [''ro''] else []) in
         case GetAccessType (np_VolumeCapability req) of
           Some AccessBlock \<Rightarrow> node_publish_for_block ops req options
         | Some (AccessMount _) \<Rightarrow> node_publish_for_file_system ops req options
         | None \<Rightarrow> node_invalid ''Unknown access type''))"

definition node_unpublish_volume ::
  "'m mounter_ops \<Rightarrow> string \<Rightarrow> string \<Rightarrow> (('v, 'l, 'm) csi_driver, unit) act" where
  "node_unpublish_volume ops volumeId targetPath =
     (if volumeId = [] then node_invalid ''NodeUnpublishVolume Volume ID must be provided''
      else if targetPath = [] then node_invalid ''NodeUnpublishVolume Target Path must be provided''
      else ensure_unmounted ops targetPath)"

subsection \<open>Statistics, capabilities, information\<close>

datatype usage_unit = UsageBytes | UsageInodes

record volume_usage =
  use_Available :: int64
  use_Total :: int64
  use_Used :: int64
  use_Unit :: usage_unit

definition usage_of :: "bool \<Rightarrow> volume_statistics \<Rightarrow> volume_usage list" where
  "usage_of isBlock stats =
     (if isBlock then
        [\<lparr>use_Available = 0, use_Total = TotalBytes stats, use_Used = 0, use_Unit = UsageBytes\<rparr>]
      else
        [\<lparr>use_Available = AvailableBytes stats, use_Total = TotalBytes stats,
          use_Used = UsedBytes stats, use_Unit = UsageBytes\<rparr>,
         \<lparr>use_Available = AvailableInodes stats, use_Total = TotalInodes stats,
          use_Used = UsedInodes stats, use_Unit = UsageInodes\<rparr>])"

definition node_get_volume_stats ::
  "'m mounter_ops \<Rightarrow> string \<Rightarrow> string \<Rightarrow> (('v, 'l, 'm) csi_driver, volume_usage list) act" where
  "node_get_volume_stats ops volumeId volumePath =
     (if volumeId = [] then node_invalid ''NodeGetVolumeStats Volume ID must be provided''
      else if volumePath = [] then node_invalid ''NodeGetVolumeStats Volume Path must be provided''
      else
        andThen (mapErr (on_mnt (mnt_IsMounted ops volumePath))
          (\<lambda>err. Status Internal (Msgf ''failed to check if volume path %q is mounted: %s''
                    [FStr volumePath, FErr err]))) (\<lambda>mounted.
        if \<not> mounted then
          raise (Status NotFound (Msgf ''volume path %q is not mounted'' [FStr volumePath]))
        else
          andThen (mapErr (on_mnt (mnt_IsBlockDevice ops volumePath))
            (\<lambda>err. Status Internal (Msgf ''failed to determine if %q is block device: %s''
                      [FStr volumePath, FErr err]))) (\<lambda>isBlock.
          andThen (mapErr (on_mnt (mnt_GetStatistics ops volumePath))
            (\<lambda>err. Status Internal (Msgf ''failed to retrieve capacity statistics for volume path %q: %s''
                      [FStr volumePath, FErr err]))) (\<lambda>stats.
          ret (usage_of isBlock stats)))))"

text \<open>\<open>return nil, nil\<close>: no response and no error.\<close>

definition node_expand_volume :: "string \<Rightarrow> (('v, 'l, 'm) csi_driver, unit option) act" where
  "node_expand_volume volumeId = ret None"

definition node_get_capabilities :: "(('v, 'l, 'm) csi_driver, node_capability list) act" where
  "node_get_capabilities = ret [STAGE_UNSTAGE_VOLUME, NODE_EXPAND_VOLUME, GET_VOLUME_STATS]"

record node_info =
  NodeId :: string
  MaxVolumesPerNode :: int
  NodeTopology :: string_map

definition node_get_info :: "driver_info \<Rightarrow> (('v, 'l, 'm) csi_driver, node_info) act" where
  "node_get_info info =
     ret \<lparr>NodeId = drv_nodeId info, MaxVolumesPerNode = maxVolumesPerNode,
          NodeTopology = [topologyKey \<mapsto> NodeVdc (drv_conf info)]\<rparr>"

end
