(* ===== verification/Node_Contract.thy ===== *)
theory Node_Contract
  imports Node_Service Mounter_Contract
begin

text \<open>
  The node service over the contract of the mounter: which changes each handler makes to the node, and
  when it formats a device. Proved once in the locale \<open>mounter\<close>, for the handlers of every
  implementation.
\<close>

text \<open>What staging and publishing may do: format and mount one device, each at most once and in this
  order; mount one thing at the target.\<close>

definition stage_effect :: "string \<Rightarrow> mount_change list \<Rightarrow> mount_change list \<Rightarrow> bool" where
  "stage_effect tgt before after \<longleftrightarrow>
     (\<exists>src fs. after \<in> {before, Formatted src fs # before, Mounted src tgt # before,
                      Mounted src tgt # Formatted src fs # before})"

definition publish_effect :: "string \<Rightarrow> mount_change list \<Rightarrow> mount_change list \<Rightarrow> bool" where
  "publish_effect tgt before after \<longleftrightarrow> (\<exists>src. after \<in> {before, Mounted src tgt # before})"

lemma effect_refl [simp]: "stage_effect tgt C C" "publish_effect tgt C C"
  by (simp_all add: stage_effect_def publish_effect_def)

context mounter begin

lemma leavesD: "leaves f m \<Longrightarrow> wp m (\<lambda>r s'. r \<noteq> Blocked \<and> f s' = f s) s"
  by (simp add: leaves_def)

lemma addsD:
  "adds changes ch m \<Longrightarrow>
     wp m (\<lambda>r s'. r \<noteq> Blocked \<and> (changes s' = changes s \<or> changes s' = ch # changes s) \<and>
                  ((\<exists>v. r = Ok v) \<longrightarrow> changes s' = ch # changes s)) s"
  by (simp add: adds_def)

text \<open>The two steps that change the node: format unless formatted, mount unless mounted.\<close>

lemma ensure_formatted_changes:
  "wp (ensure_formatted ops src fs)
     (\<lambda>r d'. r \<noteq> Blocked \<and> (changes (mnt d') = changes (mnt d) \<or>
        changes (mnt d') = Formatted src fs # changes (mnt d))) d"
  unfolding ensure_formatted_def
  by (auto simp: wp_rules intro!: wp_mono [OF leavesD [OF is_formatted_query]] wp_mono [OF addsD [OF format_change]]
      split: outcome.split)

lemma ensure_mounted_changes:
  "wp (ensure_mounted ops src tgt fs opts h)
     (\<lambda>r d'. r \<noteq> Blocked \<and> (changes (mnt d') = changes (mnt d) \<or>
        changes (mnt d') = Mounted src tgt # changes (mnt d))) d"
  unfolding ensure_mounted_def
  by (auto simp: wp_rules intro!: wp_mono [OF leavesD [OF is_mounted_query]] wp_mono [OF addsD [OF mount_change]]
      split: outcome.split)

lemma ensure_unmounted_changes:
  "wp (ensure_unmounted ops tgt)
     (\<lambda>r d'. r \<noteq> Blocked \<and> (changes (mnt d') = changes (mnt d) \<or>
        changes (mnt d') = Unmounted tgt # changes (mnt d))) d"
  unfolding ensure_unmounted_def
  by (auto simp: wp_rules intro!: wp_mono [OF leavesD [OF is_mounted_query]] wp_mono [OF addsD [OF unmount_change]]
      split: outcome.split)

lemma stage_changes:
  "wp (node_stage_volume ops req)
     (\<lambda>r d'. r \<noteq> Blocked \<and> stage_effect (ns_StagingTargetPath req) (changes (mnt d)) (changes (mnt d'))) d"
proof -
  have mount: "wp (ensure_mounted ops src tgt fs opts h)
      (\<lambda>r d'. r \<noteq> Blocked \<and> stage_effect tgt (changes (mnt d)) (changes (mnt d'))) e"
    if "changes (mnt e) = changes (mnt d) \<or> changes (mnt e) = Formatted src fs # changes (mnt d)"
    for src tgt fs opts h e
    by (rule wp_mono [OF ensure_mounted_changes]) (use that in \<open>auto simp: stage_effect_def\<close>)
  have formatted: "stage_effect tgt C (Formatted src fs # C)" for tgt src fs C
    by (auto simp: stage_effect_def)
  have device: "wp (andThen (deref (GetMount cap)) (\<lambda>m.
        andThen (ensure_formatted ops src (fs_type_of m)) (\<lambda>_.
        ensure_mounted ops src tgt (fs_type_of m) (MountFlags m) internal_err)))
      (\<lambda>r d'. r \<noteq> Blocked \<and> stage_effect tgt (changes (mnt d)) (changes (mnt d'))) e"
    if "changes (mnt e) = changes (mnt d)" for cap src tgt e
    unfolding wp_andThen wp_deref
    by (auto simp: that formatted intro!: wp_mono [OF ensure_formatted_changes] mount
        split: option.split outcome.split)
  show ?thesis
    unfolding node_stage_volume_def node_invalid_def
    by (auto simp: wp_if wp_case_option wp_raise wp_ret wp_andThen [where m = "on_mnt m" for m] wp_on
        intro!: wp_mono [OF leavesD [OF disk_query]] device split: option.split outcome.split)
qed

text \<open>Formatting only what has just been reported blank.\<close>

lemma ensure_formatted_careful:
  "keeps (\<lambda>d. careful (mnt d)) (ensure_formatted ops src fs)"
  unfolding keeps_def
proof (intro allI impI)
  fix d :: "('v, 'l, 'm) csi_driver"
  assume careful: "careful (mnt d)"
  have query: "wp (mnt_IsFormatted ops src) (\<lambda>r m. r \<noteq> Blocked \<and> careful m \<and> (r = Ok False \<longrightarrow> blank src m)) (mnt d)"
    using wp_conj [OF keepsD [OF is_formatted_careful careful] wpI [where Q = "\<lambda>r m. r = Ok False \<longrightarrow> blank src m"]]
      not_formatted_blank by (auto elim!: wp_mono)
  have format: "wp (mnt_Format ops src fs) (\<lambda>r m'. r \<noteq> Blocked \<and> careful m') m"
    if "careful m" "blank src m" for m
  proof -
    have "wp (mnt_Format ops src fs) (\<lambda>r m'. careful m') m"
      by (rule wpI) (rule format_careful [OF that])
    from wp_conj [OF addsD [OF format_change] this] show ?thesis
      by (rule wp_mono) auto
  qed
  show "wp (ensure_formatted ops src fs) (\<lambda>r d'. r \<noteq> Blocked \<and> careful (mnt d')) d"
    unfolding ensure_formatted_def
    by (auto simp: wp_rules intro!: wp_mono [OF query] wp_mono [OF format] split: outcome.split)
qed

lemma on_mnt_careful: "keeps careful m \<Longrightarrow> keeps (\<lambda>d. careful (mnt d)) (on_mnt m)"
  unfolding on_mnt_def by (erule keeps_zoom [rotated 2]; simp)

lemma handlers_careful:
  "keeps (\<lambda>d. careful (mnt d)) (node_stage_volume ops sreq)"
  "keeps (\<lambda>d. careful (mnt d)) (node_publish_volume ops preq)"
  "keeps (\<lambda>d. careful (mnt d)) (node_unstage_volume ops vid tgt)"
  "keeps (\<lambda>d. careful (mnt d)) (node_unpublish_volume ops vid tgt)"
  unfolding node_stage_volume_def node_publish_volume_def node_publish_for_file_system_def
    node_publish_for_block_def node_unstage_volume_def node_unpublish_volume_def ensure_mounted_def
    ensure_unmounted_def node_invalid_def Let_def
  by (intro keeps_intros keeps_access on_mnt_careful ensure_formatted_careful keeps_careful)+

lemma publish_changes:
  "wp (node_publish_volume ops req)
     (\<lambda>r d'. r \<noteq> Blocked \<and> publish_effect (np_TargetPath req) (changes (mnt d)) (changes (mnt d'))) d"
proof -
  have mount: "wp (ensure_mounted ops src (np_TargetPath req) fs opts h)
      (\<lambda>r d'. r \<noteq> Blocked \<and> publish_effect (np_TargetPath req) (changes (mnt d)) (changes (mnt d'))) e"
    if "changes (mnt e) = changes (mnt d)" for src fs opts h e
    by (rule wp_mono [OF ensure_mounted_changes]) (use that in \<open>auto simp: publish_effect_def\<close>)
  show ?thesis
    unfolding node_publish_volume_def node_publish_for_file_system_def node_publish_for_block_def
      node_invalid_def Let_def
    by (auto simp: wp_if wp_case_option wp_raise wp_ret wp_panic wp_andThen wp_deref wp_mapErr wp_on wp_access
        intro!: wp_mono [OF leavesD [OF disk_query]] mount split: option.split outcome.split access_type.split)
qed

lemma unmount_changes:
  "wp (node_unstage_volume ops vid tgt)
     (\<lambda>r d'. r \<noteq> Blocked \<and> changes (mnt d') \<in> {changes (mnt d), Unmounted tgt # changes (mnt d)}) d"
  "wp (node_unpublish_volume ops vid tgt)
     (\<lambda>r d'. r \<noteq> Blocked \<and> changes (mnt d') \<in> {changes (mnt d), Unmounted tgt # changes (mnt d)}) d"
  unfolding node_unstage_volume_def node_unpublish_volume_def node_invalid_def
  by (auto simp: wp_if wp_raise intro!: wp_mono [OF ensure_unmounted_changes])

end

subsection \<open>Runs of the node service\<close>

text \<open>The requests of the node service that work on the node; the answers are dropped.\<close>

datatype node_request =
  NodeStage node_stage_request
| NodeUnstage string string
| NodePublish node_publish_request
| NodeUnpublish string string
| NodeStats string string

fun serve_node :: "'m mounter_ops \<Rightarrow> node_request \<Rightarrow> (('v, 'l, 'm) csi_driver, unit) act" where
  "serve_node ops (NodeStage req) = node_stage_volume ops req"
| "serve_node ops (NodeUnstage vid tgt) = node_unstage_volume ops vid tgt"
| "serve_node ops (NodePublish req) = node_publish_volume ops req"
| "serve_node ops (NodeUnpublish vid tgt) = node_unpublish_volume ops vid tgt"
| "serve_node ops (NodeStats vid path) = andThen (node_get_volume_stats ops vid path) (\<lambda>_. ret ())"

fun serve_nodes ::
  "'m mounter_ops \<Rightarrow> node_request list \<Rightarrow> ('v, 'l, 'm) csi_driver \<Rightarrow>
     unit outcome list \<times> ('v, 'l, 'm) csi_driver" where
  "serve_nodes ops [] d = ([], d)"
| "serve_nodes ops (x # xs) d =
     (case serve_node ops x d of (r, d') \<Rightarrow>
      case serve_nodes ops xs d' of (rs, d'') \<Rightarrow> (r # rs, d''))"

text \<open>The changes a request may make, newest first.\<close>

fun node_effect :: "node_request \<Rightarrow> mount_change list \<Rightarrow> mount_change list \<Rightarrow> bool" where
  "node_effect (NodeStage req) before after = stage_effect (ns_StagingTargetPath req) before after"
| "node_effect (NodeUnstage vid tgt) before after = (after \<in> {before, Unmounted tgt # before})"
| "node_effect (NodePublish req) before after = publish_effect (np_TargetPath req) before after"
| "node_effect (NodeUnpublish vid tgt) before after = (after \<in> {before, Unmounted tgt # before})"
| "node_effect (NodeStats vid path) before after = (after = before)"

context mounter begin

lemma stats_changes:
  "wp (node_get_volume_stats ops vid path) (\<lambda>r d'. r \<noteq> Blocked \<and> changes (mnt d') = changes (mnt d)) d"
  unfolding node_get_volume_stats_def node_invalid_def
  by (auto simp: wp_if wp_raise wp_ret wp_andThen wp_mapErr wp_on
      intro!: wp_mono [OF leavesD [OF is_mounted_query]] wp_mono [OF leavesD [OF block_query]]
        wp_mono [OF leavesD [OF statistics_query]] split: outcome.split)

lemma request_changes:
  "wp (serve_node ops x) (\<lambda>r d'. r \<noteq> Blocked \<and> node_effect x (changes (mnt d)) (changes (mnt d'))) d"
proof (cases x)
  case (NodeStats vid path)
  then show ?thesis
    by (auto simp: wp_andThen wp_ret intro!: wp_mono [OF stats_changes] split: outcome.split)
qed (simp_all add: stage_changes publish_changes unmount_changes [simplified])

lemma request_careful: "keeps (\<lambda>d. careful (mnt d)) (serve_node ops x)"
proof (cases x)
  case (NodeStats vid path)
  show ?thesis
    unfolding NodeStats serve_node.simps node_get_volume_stats_def node_invalid_def
    by (intro keeps_intros on_mnt_careful keeps_careful)
qed (simp_all add: handlers_careful)

lemma requests_careful:
  assumes "careful (mnt d)"
  shows "Blocked \<notin> set (fst (serve_nodes ops xs d)) \<and> careful (mnt (snd (serve_nodes ops xs d)))"
  using assms
proof (induction xs arbitrary: d)
  case (Cons x xs)
  obtain r d' where run: "serve_node ops x d = (r, d')" by fastforce
  then have "r \<noteq> Blocked \<and> careful (mnt d')"
    using wpD [OF keepsD [OF request_careful Cons.prems] run] by simp
  then show ?case
    using run Cons.IH [of d'] by (auto split: prod.splits)
qed simp

end

end
