(* ===== verification/Mount_Table.thy ===== *)
theory Mount_Table
  imports Node_Contract Mounter_Properties
begin

text \<open>
  What the node service does to the mount table of a node. The contract \<open>mount_table\<close> says how the
  operations of a mounter read and change the table; the node handlers are proved correct over it; the
  implementation keeps it on every operating system whose tools \<open>mount\<close>, \<open>umount\<close> and \<open>findmnt\<close> do what
  their manuals say, and a small concrete node shows that there is one.
\<close>

subsection \<open>The contract\<close>

text \<open>The table is a multiset: mounting over a mount point stacks, and unmounting takes one away. Only
  calls that succeed are restricted.\<close>

definition no_claim :: "go_error \<Rightarrow> 'm \<Rightarrow> bool" where
  "no_claim e m = True"

lemma no_claim [simp]: "no_claim e m"
  by (simp add: no_claim_def)

lemma mapErr_no_claim: "triple P m Q no_claim \<Longrightarrow> triple P (mapErr m h) Q no_claim"
  by (rule triple_mapErr) (erule triple_weaken; simp)

lemma deref_keeps: "triple P (deref p) (\<lambda>x s. p = Some x \<and> P s) no_claim"
  by (rule triple_deref) simp

locale mount_table =
  fixes ops :: "'m mounter_ops" and table :: "'m \<Rightarrow> string multiset"
  assumes is_mounted_table: "triple (\<lambda>m. table m = T) (mnt_IsMounted ops t)
      (\<lambda>b m. b = (t \<in># T) \<and> table m = T) no_claim"
    and is_formatted_table: "triple (\<lambda>m. table m = T) (mnt_IsFormatted ops src) (\<lambda>b m. table m = T) no_claim"
    and disk_table: "triple (\<lambda>m. table m = T) (mnt_GetDiskUnit ops sz unt bus) (\<lambda>p m. table m = T) no_claim"
    and format_table: "triple (\<lambda>m. table m = T) (mnt_Format ops src fs) (\<lambda>_ m. table m = T) no_claim"
    and mount_adds: "triple (\<lambda>m. table m = T) (mnt_Mount ops src t fs opts) (\<lambda>_ m. table m = add_mset t T) no_claim"
    and unmount_takes: "triple (\<lambda>m. table m = T) (mnt_Unmount ops t) (\<lambda>_ m. table m = T - {#t#}) no_claim"
begin

lemma on_mnt_triple:
  assumes "triple (\<lambda>m. table m = T) m (\<lambda>v m. Q v m) no_claim"
  shows "triple (\<lambda>d. table (mnt d) = T) (on_mnt m) (\<lambda>v d. Q v (mnt d)) no_claim"
  unfolding on_mnt_def by (rule triple_zoom [OF assms]) simp_all

lemma ensure_mounted_table:
  "triple (\<lambda>d. table (mnt d) = T) (ensure_mounted ops src t fs opts h)
     (\<lambda>_ d. table (mnt d) = (if t \<in># T then T else add_mset t T)) no_claim"
  unfolding ensure_mounted_def
  apply (rule triple_bind [OF on_mnt_triple [OF is_mounted_table]], rule triple_fact)
  apply (rule triple_if)
   apply (rule mapErr_no_claim)
   apply (rule triple_weaken [OF on_mnt_triple [OF mount_adds]]; simp)
  apply (rule triple_ret, simp)
  done

lemma ensure_unmounted_table:
  "triple (\<lambda>d. table (mnt d) = T) (ensure_unmounted ops t) (\<lambda>_ d. table (mnt d) = T - {#t#}) no_claim"
  unfolding ensure_unmounted_def
  apply (rule triple_bind [OF on_mnt_triple [OF is_mounted_table]], rule triple_fact)
  apply (rule triple_if)
   apply (rule on_mnt_triple [OF unmount_takes])
  apply (rule triple_ret, simp)
  done

lemma ensure_formatted_table:
  "triple (\<lambda>d. table (mnt d) = T) (ensure_formatted ops src fs) (\<lambda>_ d. table (mnt d) = T) no_claim"
  unfolding ensure_formatted_def
  by (intro triple_bind [OF on_mnt_triple [OF is_formatted_table]] triple_if mapErr_no_claim triple_ret
      on_mnt_triple [OF format_table])

lemma stage_table:
  "triple (\<lambda>d. table (mnt d) = T) (node_stage_volume ops req)
     (\<lambda>_ d. table (mnt d) =
        (if GetAccessType (ns_VolumeCapability req) = Some AccessBlock \<or> ns_StagingTargetPath req \<in># T
         then T else add_mset (ns_StagingTargetPath req) T)) no_claim"
proof -
  have device: "triple (\<lambda>d. table (mnt d) = T)
      (andThen (on_mnt (mnt_GetDiskUnit ops sz unt [])) (\<lambda>source.
       andThen (deref cap) (\<lambda>m.
       andThen (ensure_formatted ops source (fs_type_of m)) (\<lambda>_.
       ensure_mounted ops source t (fs_type_of m) (MountFlags m) h))))
      (\<lambda>_ d. table (mnt d) = (if t \<in># T then T else add_mset t T)) no_claim" for sz unt cap t h
    by (intro triple_bind [OF on_mnt_triple [OF disk_table]] triple_bind [OF deref_keeps] triple_fact
        triple_bind [OF ensure_formatted_table] ensure_mounted_table)
  show ?thesis
    unfolding node_stage_volume_def node_invalid_def
    by (intro triple_if triple_raise triple_case_option triple_ret triple_weaken [OF device]) auto
qed

lemma publish_table:
  "triple (\<lambda>d. table (mnt d) = T) (node_publish_volume ops req)
     (\<lambda>_ d. table (mnt d) = (if np_TargetPath req \<in># T then T else add_mset (np_TargetPath req) T)) no_claim"
proof -
  have block: "triple (\<lambda>d. table (mnt d) = T) (node_publish_for_block ops req opts)
     (\<lambda>_ d. table (mnt d) = (if np_TargetPath req \<in># T then T else add_mset (np_TargetPath req) T)) no_claim" for opts
    unfolding node_publish_for_block_def node_invalid_def
    by (intro triple_case_option triple_raise triple_bind [OF mapErr_no_claim [OF on_mnt_triple [OF disk_table]]]
        ensure_mounted_table) simp_all
  have fs: "triple (\<lambda>d. table (mnt d) = T) (node_publish_for_file_system ops req opts)
     (\<lambda>_ d. table (mnt d) = (if np_TargetPath req \<in># T then T else add_mset (np_TargetPath req) T)) no_claim" for opts
    unfolding node_publish_for_file_system_def
    by (intro triple_bind [OF deref_keeps] triple_fact ensure_mounted_table)
  have access: "triple (\<lambda>d. table (mnt d) = T)
     (case a of
        Some AccessBlock \<Rightarrow> node_publish_for_block ops req opts
      | Some (AccessMount x) \<Rightarrow> node_publish_for_file_system ops req opts
      | None \<Rightarrow> node_invalid msg)
     (\<lambda>_ d. table (mnt d) = (if np_TargetPath req \<in># T then T else add_mset (np_TargetPath req) T)) no_claim" for a opts msg
  proof (cases a)
    case None
    then show ?thesis by (simp add: node_invalid_def triple_raise)
  next
    case (Some v)
    then show ?thesis using block [of opts] fs [of opts] by (cases v) (simp_all only: option.case access_type.case)
  qed
  show ?thesis
    unfolding node_publish_volume_def node_invalid_def Let_def
    by (intro triple_if triple_raise access [unfolded node_invalid_def]; simp)
qed

lemma unmount_table:
  "triple (\<lambda>d. table (mnt d) = T) (node_unstage_volume ops vid t) (\<lambda>_ d. table (mnt d) = T - {#t#}) no_claim"
  "triple (\<lambda>d. table (mnt d) = T) (node_unpublish_volume ops vid t) (\<lambda>_ d. table (mnt d) = T - {#t#}) no_claim"
  unfolding node_unstage_volume_def node_unpublish_volume_def node_invalid_def
  by (intro triple_if triple_raise ensure_unmounted_table; simp)+

end

subsection \<open>The implementation\<close>

text \<open>What the manuals say of the tools: only a successful \<open>mount\<close> adds to the table, its last argument, and
  only a successful \<open>umount\<close> takes from it; \<open>findmnt\<close> with output lists exactly the mounts at the target it
  was asked for, and with none says that there is no such mount.\<close>

definition os_laws :: "'o os_ops \<Rightarrow> ('o \<Rightarrow> string multiset) \<Rightarrow> bool" where
  "os_laws os tbl \<longleftrightarrow>
     (\<forall>cmd w. tbl (snd (LookPath os cmd w)) = tbl w) \<and>
     (\<forall>cmd args w. tbl (snd (Run os cmd args w)) = tbl w) \<and>
     (\<forall>p w. tbl (snd (MkdirAll os p w)) = tbl w) \<and>
     (\<forall>p w. tbl (snd (CreateFile os p w)) = tbl w) \<and>
     (\<forall>w. tbl (snd (Ghw_Block os w)) = tbl w) \<and>
     (\<forall>cmd args w. cmd \<noteq> ''mount'' \<longrightarrow> cmd \<noteq> ''umount'' \<longrightarrow> tbl (snd (CombinedOutput os cmd args w)) = tbl w) \<and>
     (\<forall>args w out w'. CombinedOutput os ''mount'' args w = ((out, None), w') \<longrightarrow>
        tbl w' = add_mset (last args) (tbl w)) \<and>
     (\<forall>t w out w'. CombinedOutput os ''umount'' [t] w = ((out, None), w') \<longrightarrow> tbl w' = tbl w - {#t#}) \<and>
     (\<forall>t w out w' resp. CombinedOutput os ''findmnt'' (findmnt_args t) w = ((out, None), w') \<longrightarrow>
        UnmarshalFindmnt os out = Inr (Some resp) \<longrightarrow>
        (t \<in># tbl w \<longleftrightarrow> (\<exists>fs \<in> set (FileSystems resp). fs_target fs = t))) \<and>
     (\<forall>t w out err w'. CombinedOutput os ''findmnt'' (findmnt_args t) w = ((out, err), w') \<longrightarrow>
        trim_space out = [] \<longrightarrow> t \<notin># tbl w)"

lemma os_lawsD:
  assumes "os_laws os tbl"
  shows "LookPath os cmd w = (r1, w') \<Longrightarrow> tbl w' = tbl w"
    and "Run os cmd args w = (r2, w') \<Longrightarrow> tbl w' = tbl w"
    and "MkdirAll os p w = (r3, w') \<Longrightarrow> tbl w' = tbl w"
    and "CreateFile os p w = (r4, w') \<Longrightarrow> tbl w' = tbl w"
    and "Ghw_Block os w = (r5, w') \<Longrightarrow> tbl w' = tbl w"
    and "CombinedOutput os cmd args w = (r6, w') \<Longrightarrow> cmd \<noteq> ''mount'' \<Longrightarrow> cmd \<noteq> ''umount'' \<Longrightarrow> tbl w' = tbl w"
    and "CombinedOutput os ''mount'' args w = ((out, None), w') \<Longrightarrow> tbl w' = add_mset (last args) (tbl w)"
    and "CombinedOutput os ''umount'' [t] w = ((out, None), w') \<Longrightarrow> tbl w' = tbl w - {#t#}"
    and "CombinedOutput os ''findmnt'' (findmnt_args t) w = ((out, None), w') \<Longrightarrow>
      UnmarshalFindmnt os out = Inr (Some resp) \<Longrightarrow>
      t \<in># tbl w \<longleftrightarrow> (\<exists>fs \<in> set (FileSystems resp). fs_target fs = t)"
    and "CombinedOutput os ''findmnt'' (findmnt_args t) w = ((out, err), w') \<Longrightarrow> trim_space out = [] \<Longrightarrow> t \<notin># tbl w"
  using assms unfolding os_laws_def by (metis snd_conv)+

lemma look_path_table:
  assumes "os_laws os tbl"
  shows "triple (\<lambda>m. tbl (world m) = T) (look_path os cmd) (\<lambda>_ m. tbl (world m) = T) no_claim"
  by (auto simp: triple_def wp_rules os_lawsD(1) [OF assms] split: option.split)

lemma is_mounted_keeps_table:
  assumes "os_laws os tbl"
  shows "triple (\<lambda>m. tbl (world m) = T) (mounter_is_mounted os t) (\<lambda>b m. b = (t \<in># T) \<and> tbl (world m) = T) no_claim"
proof -
  have ask: "triple (\<lambda>m. tbl (world m) = T) (combined_output os ''findmnt'' (findmnt_args t))
      (\<lambda>r m. ((trim_space (fst r) = [] \<longrightarrow> t \<notin># T) \<and>
         (\<forall>resp. snd r = None \<longrightarrow> UnmarshalFindmnt os (fst r) = Inr (Some resp) \<longrightarrow>
            (t \<in># T \<longleftrightarrow> (\<exists>fs \<in> set (FileSystems resp). fs_target fs = t)))) \<and> tbl (world m) = T) no_claim"
    by (auto simp: triple_def wp_rules os_lawsD(9) [OF assms] os_lawsD(10) [OF assms] os_lawsD(6) [OF assms])
  have found: "triple P (of_sum (check_file_systems t fss False))
      (\<lambda>b m. b = (\<exists>fs \<in> set fss. fs_target fs = t) \<and> P m) no_claim" for P and fss
    by (simp add: check_file_systems_spec triple_def wp_rules)
  have trim_space_nil: "trim_space [] = []"
    by (simp add: trim_space_def)
  show ?thesis
    unfolding mounter_is_mounted_def
    apply (rule triple_if)
     apply (rule triple_raise, simp)
    apply (rule triple_bind [OF look_path_table [OF assms]])
    apply (rule triple_bind [OF ask], rule triple_fact)
    apply (intro triple_case_prod triple_case_option triple_if triple_ret triple_case_sum triple_raise
        triple_bind [OF deref_keeps] triple_fact triple_weaken [OF found])
           apply (auto simp: trim_space_nil)
    done
qed

lemma handler_table:
  assumes "os_laws os tbl"
  shows "mount_table (mounter_handler os) (\<lambda>m. tbl (world m))"
proof
  note laws = os_lawsD [OF assms]
  show "triple (\<lambda>m. tbl (world m) = T) (mnt_IsMounted (mounter_handler os) t)
      (\<lambda>b m. b = (t \<in># T) \<and> tbl (world m) = T) no_claim" for T t
    by (simp add: mounter_handler_def is_mounted_keeps_table [OF assms])
  show "triple (\<lambda>m. tbl (world m) = T) (mnt_IsFormatted (mounter_handler os) src) (\<lambda>b m. tbl (world m) = T) no_claim"
    for T src
    by (auto simp: mounter_handler_def mounter_is_formatted_def triple_def wp_rules Let_def laws(1,2)
        split: option.split run_error.split)
  show "triple (\<lambda>m. tbl (world m) = T) (mnt_GetDiskUnit (mounter_handler os) sz unt bus) (\<lambda>p m. tbl (world m) = T) no_claim"
    for T sz unt bus
    by (auto simp: mounter_handler_def mounter_get_disk_unit_def triple_def wp_rules laws(5)
        split: sum.split list.split)
  have "''mkfs.'' @ fs \<noteq> ''mount''" and "''mkfs.'' @ fs \<noteq> ''umount''" for fs
    by simp_all
  then show "triple (\<lambda>m. tbl (world m) = T) (mnt_Format (mounter_handler os) src fs) (\<lambda>_ m. tbl (world m) = T) no_claim"
    for T src fs
    by (auto simp: mounter_handler_def mounter_format_def triple_def wp_rules Let_def laws(1,6)
        split: option.split)
  have point: "triple (\<lambda>m. tbl (world m) = T) (make_mount_point os t fs) (\<lambda>_ m. tbl (world m) = T) no_claim" for T t fs
    by (auto simp: make_mount_point_def triple_def wp_rules laws(3,4) split: option.split)
  have mount: "triple (\<lambda>m. tbl (world m) = T) (combined_output os ''mount'' args)
      (\<lambda>r m. snd r = None \<longrightarrow> tbl (world m) = add_mset (last args) T) no_claim" for T args
    by (auto simp: triple_def wp_rules laws(7))
  show "triple (\<lambda>m. tbl (world m) = T) (mnt_Mount (mounter_handler os) src t fs opts)
      (\<lambda>_ m. tbl (world m) = add_mset t T) no_claim" for T src t fs opts
    unfolding mounter_handler_def mounter_mount_def Let_def mounter_ops.simps
    by (intro triple_if triple_raise triple_bind [OF point] triple_bind [OF mount] triple_case_prod
        triple_case_option triple_ret) (simp_all add: mount_args_def)
  show "triple (\<lambda>m. tbl (world m) = T) (mnt_Unmount (mounter_handler os) t) (\<lambda>_ m. tbl (world m) = T - {#t#}) no_claim"
    for T t
    by (auto simp: mounter_handler_def mounter_unmount_def triple_def wp_rules laws(8) split: option.split)
qed

subsection \<open>A concrete node\<close>

text \<open>A node with a list of mount points and of formatted devices; \<open>findmnt\<close> prints a brace and the target.\<close>

record sim_node =
  sn_mounts :: "string list"
  sn_formatted :: "string list"
  sn_disks :: "ghw_disk list"

definition sim_output :: "string \<Rightarrow> string list \<Rightarrow> sim_node \<Rightarrow> (string \<times> run_error option) \<times> sim_node" where
  "sim_output cmd args w =
     (if cmd = ''mount'' then (([], None), w\<lparr>sn_mounts := last args # sn_mounts w\<rparr>)
      else if cmd = ''umount'' then
        if hd args \<in> set (sn_mounts w) then (([], None), w\<lparr>sn_mounts := remove1 (hd args) (sn_mounts w)\<rparr>)
        else ((''not mounted'', Some (ExitStatus 32)), w)
      else if cmd = ''findmnt'' then
        if args ! 3 \<in> set (sn_mounts w) then ((CHR ''{'' # args ! 3, None), w)
        else (([], Some (ExitStatus 1)), w)
      else if take 5 cmd = ''mkfs.'' then (([], None), w\<lparr>sn_formatted := last args # sn_formatted w\<rparr>)
      else (([], None), w))"

definition sim_os :: "sim_node os_ops" where
  "sim_os = \<lparr>
     LookPath = (\<lambda>_ w. (None, w)),
     CombinedOutput = sim_output,
     Run = (\<lambda>_ args w. (if hd args \<in> set (sn_formatted w) then None else Some (ExitStatus 2), w)),
     MkdirAll = (\<lambda>_ w. (None, w)),
     CreateFile = (\<lambda>_ w. (None, w)),
     UnmarshalFindmnt = (\<lambda>out. Inr (Some \<lparr>FileSystems =
       [\<lparr>fs_target = tl out, fs_propagation = ''shared'', fs_type = ''ext4'', fs_options = []\<rparr>]\<rparr>)),
     Unix_Statfs = (\<lambda>_ w. (Inr \<lparr>Bsize = 4096, Blocks = 1000, Bfree = 600, Bavail = 500, Files = 100, Ffree = 90\<rparr>, w)),
     Unix_Stat = (\<lambda>_ w. (Inr 0x41ed, w)),
     Ghw_Block = (\<lambda>w. (Inr (sn_disks w), w))\<rparr>"

lemma sim_os_laws: "os_laws sim_os (\<lambda>w. mset (sn_mounts w))"
  unfolding os_laws_def
  by (auto simp: sim_os_def sim_output_def findmnt_args_def trim_space_blank is_space_def)

interpretation sim_table: mount_table "mounter_handler sim_os" "\<lambda>m. mset (sn_mounts (world m))"
  by (rule handler_table [OF sim_os_laws])

end
