(* ===== verification/Controller_Service.thy ===== *)
theory Controller_Service
  imports Driver
begin

text \<open>
  \<open>internal/driver/disk.go\<close>: the controller service. Each handler checks its request, calls the
  client or the locker through their interfaces, and answers.
\<close>

subsection \<open>Capabilities of a volume\<close>

text \<open>What the code uses of packages outside the repository here: the name of an access mode, and the
  listing of a set of strings.\<close>

record csi_ext =
  mode_string :: "access_mode \<Rightarrow> string"
  set_list :: "string set \<Rightarrow> string list"

definition csi_ext_ok :: "csi_ext \<Rightarrow> bool" where
  "csi_ext_ok ext \<longleftrightarrow> (\<forall>S. finite S \<longrightarrow> set (set_list ext S) = S \<and> distinct (set_list ext S))"

definition supportedAccessMode :: access_mode where
  "supportedAccessMode = SINGLE_NODE_WRITER"

fun collect_violations :: "csi_ext \<Rightarrow> volume_capability option list \<Rightarrow> string set \<Rightarrow> string set" where
  "collect_violations ext [] violations = violations"
| "collect_violations ext (capability # caps) violations =
     (let v1 = (if GetMode capability \<noteq> supportedAccessMode
                then insert (''unsupported access mode '' @ mode_string ext (GetMode capability)) violations
                else violations);
          v2 = (case GetAccessType capability of
                  Some AccessBlock \<Rightarrow> v1
                | Some (AccessMount _) \<Rightarrow> v1
                | None \<Rightarrow> insert ''unsupported access type'' v1)
      in collect_violations ext caps v2)"

definition validate_capabilities :: "csi_ext \<Rightarrow> volume_capability option list \<Rightarrow> string list" where
  "validate_capabilities ext caps = set_list ext (collect_violations ext caps {})"

subsection \<open>CreateVolume and DeleteVolume\<close>

record create_volume_request =
  cv_Name :: string
  cv_VolumeCapabilities :: "volume_capability option list option"
  cv_Parameters :: string_map
  cv_CapacityRange :: "capacity_range option"

definition invalid :: "string \<Rightarrow> ('s, 'a) act" where
  "invalid msg = raise (Status InvalidArgument (Msg msg))"

definition create_volume ::
  "csi_ext \<Rightarrow> 'v vcd_service \<Rightarrow> create_volume_request \<Rightarrow> (('v, 'l, 'm) csi_driver, csi_volume) act" where
  "create_volume ext svc req =
     (if cv_Name req = [] then invalid ''CreateVolume Name must be provided''
      else
        case cv_VolumeCapabilities req of
          None \<Rightarrow> invalid ''CreateVolume Volume capabilities must be provided''
        | Some caps \<Rightarrow>
       (if caps = [] then invalid ''CreateVolume Volume capabilities must be provided''
        else
          let violations = validate_capabilities ext caps in
          if 0 < length violations then
            raise (Status InvalidArgument (Msgf ''volume capabilities cannot be satisified: %s''
                     [FStr (join ''; '' violations)]))
          else
            case cv_Parameters req vcdParam of
              None \<Rightarrow> invalid (''CreateVolume Volume parameter \"'' @ vcdParam @ ''\" must be provided'')
            | Some vcd \<Rightarrow>
           (case cv_Parameters req storageProfileParam of
              None \<Rightarrow> invalid (''CreateVolume Volume parameter \"'' @ storageProfileParam @ ''\" must be provided'')
            | Some profile \<Rightarrow>
           (case extract_storage (cv_CapacityRange req) of
              Inl err \<Rightarrow> raise (Status OutOfRange (Msgf ''invalid capacity range: %v'' [FErr err]))
            | Inr sz \<Rightarrow>
               (let resp = \<lparr>VolumeId = cv_Name req, CapacityBytes = Bytes sz,
                            AccessibleTopology = [[topologyKey \<mapsto> vcd]]\<rparr> in
                andThen (attempt (on_vcl (svc_CreateDisk svc vcd (cv_Name req) profile sz))) (\<lambda>r.
                case r of
                  Inl err \<Rightarrow> if err = ErrDiskAlreadyExists then ret resp else raise err
                | Inr _ \<Rightarrow> ret resp))))))"

definition delete_volume ::
  "'v vcd_service \<Rightarrow> string \<Rightarrow> (('v, 'l, 'm) csi_driver, unit) act" where
  "delete_volume svc volumeId =
     (if volumeId = [] then invalid ''DeleteVolume Volume ID must be provided''
      else mapErr (on_vcl (svc_DeleteDisk svc volumeId)) (\<lambda>err. Status Internal (ErrText err)))"

subsection \<open>Publish and unpublish\<close>

record controller_publish_request =
  cp_VolumeId :: string
  cp_NodeId :: string
  cp_VolumeCapability :: "volume_capability option"
  cp_Readonly :: bool

definition publish_error :: "string \<Rightarrow> go_error \<Rightarrow> go_error" where
  "publish_error volumeId err =
     (if err = ErrDiskNotExists then Status Internal (Msg ''disk not exists'')
      else if err = ErrVmNotFound then Status NotFound (Msg ''vm not exists at cloud'')
      else if err = ErrWrongDiskAttach then
        Status FailedPrecondition
          (Msgf ''Disk %q is attached to the wrong Instance, detach the Disk to fix it'' [FStr volumeId])
      else Status Internal (ErrText err))"

text \<open>The answer is the publish context that the node service is given.\<close>

definition controller_publish_volume ::
  "'v vcd_service \<Rightarrow> 'l locker_ops \<Rightarrow> controller_publish_request \<Rightarrow>
     (('v, 'l, 'm) csi_driver, string_map) act" where
  "controller_publish_volume svc lk req =
     (if cp_VolumeId req = [] then invalid ''ControllerPublishVolume Volume ID must be provided''
      else if cp_NodeId req = [] then invalid ''ControllerPublishVolume Node ID must be provided''
      else if cp_VolumeCapability req = None then
        invalid ''ControllerPublishVolume Volume capability must be provided''
      else if cp_Readonly req then
        raise (Status AlreadyExists (Msg ''read only Volumes are not supported''))
      else
        andThen (on_lock (IsLocked lk (cp_VolumeId req))) (\<lambda>ok.
        if ok then raise (Status Internal (Msg ''Resize required for volume, not publishing''))
        else
          andThen (mapErr (on_vcl (svc_AttachDisk svc (cp_NodeId req) (cp_VolumeId req)))
                     (publish_error (cp_VolumeId req))) (\<lambda>diskAttach.
          ret [pubContextUnit \<mapsto> attach_path diskAttach])))"

definition controller_unpublish_volume ::
  "'v vcd_service \<Rightarrow> string \<Rightarrow> string \<Rightarrow> (('v, 'l, 'm) csi_driver, unit) act" where
  "controller_unpublish_volume svc volumeId nodeId =
     (if volumeId = [] then invalid ''ControllerUnpublishVolume Volume ID must be provided''
      else mapErr (on_vcl (svc_DetachDisk svc nodeId volumeId)) (\<lambda>err. Status Internal (FmtText err)))"

subsection \<open>Queries\<close>

text \<open>The confirmed capabilities do not depend on the requested ones.\<close>

definition validate_volume_capabilities ::
  "string \<Rightarrow> volume_capability option list option \<Rightarrow> (('v, 'l, 'm) csi_driver, volume_capability list) act" where
  "validate_volume_capabilities volumeId caps =
     (if volumeId = [] then invalid ''ValidateVolumeCapabilities Volume ID must be provided''
      else if caps = None then
        invalid ''ValidateVolumeCapabilities Volume Capabilities must be provided''
      else ret [\<lparr>cap_AccessMode = Some supportedAccessMode, cap_AccessType = None\<rparr>])"

definition controller_list_volumes ::
  "'v vcd_service \<Rightarrow> (('v, 'l, 'm) csi_driver, csi_volume list) act" where
  "controller_list_volumes svc =
     andThen (on_vcl (svc_ListVolumes svc)) (\<lambda>volumes.
     ret (map (\<lambda>v. \<lparr>VolumeId = Name v, CapacityBytes = Bytes (Cap v), AccessibleTopology = []\<rparr>) volumes))"

definition get_capacity :: "(('v, 'l, 'm) csi_driver, unit) act" where
  "get_capacity = raise (Status Unimplemented (Msg []))"

definition controller_get_capabilities :: "(('v, 'l, 'm) csi_driver, controller_capability list) act" where
  "controller_get_capabilities =
     ret [CREATE_DELETE_VOLUME, PUBLISH_UNPUBLISH_VOLUME, LIST_VOLUMES, CONTROLLER_EXPAND_VOLUME]"

definition create_snapshot :: "(('v, 'l, 'm) csi_driver, unit) act" where
  "create_snapshot = raise (ErrNew ''not implemeneted'')"

definition delete_snapshot :: "(('v, 'l, 'm) csi_driver, unit) act" where
  "delete_snapshot = raise (ErrNew ''not implemeneted'')"

definition list_snapshots :: "(('v, 'l, 'm) csi_driver, unit) act" where
  "list_snapshots = raise (ErrNew ''not implemeneted'')"

subsection \<open>ControllerExpandVolume\<close>

record expand_request =
  ev_VolumeId :: string
  ev_CapacityRange :: "capacity_range option"
  ev_VolumeCapability :: "volume_capability option"

record expand_response =
  ex_CapacityBytes :: int64
  ex_NodeExpansionRequired :: bool

text \<open>The loop keeps the last volume of the name; with none, the size stays nil and the VDC empty.\<close>

fun current_disk ::
  "string \<Rightarrow> volume_with_cap list \<Rightarrow> storage_size option \<times> string \<Rightarrow> storage_size option \<times> string" where
  "current_disk vid [] acc = acc"
| "current_disk vid (volume # volumes) acc =
     current_disk vid volumes (if Name volume = vid then (Some (Cap volume), VdcName volume) else acc)"

definition expand_error :: "string \<Rightarrow> go_error \<Rightarrow> go_error" where
  "expand_error vid err =
     (if err = ErrDiskAttachedToVm then
        Status Internal (Msgf ''cannot resize volume %s: %s, disk is attached, locking it with mutex, you have to delete pod''
                           [FStr vid, FErr err])
      else Status Internal (Msgf ''cannot resize volume %s: %s'' [FStr vid, FErr err]))"

definition controller_expand_volume ::
  "'v vcd_service \<Rightarrow> 'l locker_ops \<Rightarrow> expand_request \<Rightarrow> (('v, 'l, 'm) csi_driver, expand_response) act" where
  "controller_expand_volume svc lk req =
     andThen (deref (ev_CapacityRange req)) (\<lambda>_.
     if ev_VolumeId req = [] then invalid ''ControllerExpandVolume volume ID missing in request''
     else
       andThen (on_vcl (svc_ListVolumes svc)) (\<lambda>volumes.
       case current_disk (ev_VolumeId req) volumes (None, []) of (currentDiskCap, vdcName) \<Rightarrow>
      (case extract_storage (ev_CapacityRange req) of
         Inl err \<Rightarrow> raise (Status OutOfRange (Msgf ''ControllerExpandVolume invalid capacity range: %v'' [FErr err]))
       | Inr resizeBytes \<Rightarrow>
           andThen (deref currentDiskCap) (\<lambda>currentCap.
           if Bytes resizeBytes <=s Bytes currentCap then
             ret \<lparr>ex_CapacityBytes = Bytes currentCap, ex_NodeExpansionRequired = True\<rparr>
           else
             andThen (attempt (on_vcl (svc_ResizeDisk svc vdcName (ev_VolumeId req) resizeBytes))) (\<lambda>r.
             case r of
               Inl err \<Rightarrow>
                 if err = ErrDiskAttachedToVm then
                   andThen (on_lock (Put lk (ev_VolumeId req))) (\<lambda>_.
                   raise (expand_error (ev_VolumeId req) err))
                 else raise (expand_error (ev_VolumeId req) err)
             | Inr _ \<Rightarrow>
                 andThen (on_lock (Pop lk (ev_VolumeId req))) (\<lambda>_.
                 ret \<lparr>ex_CapacityBytes = Bytes resizeBytes,
                      ex_NodeExpansionRequired =
                        (GetAccessType (ev_VolumeCapability req) \<noteq> Some AccessBlock)\<rparr>))))))"

end
