(* ===== verification/Controller_Contract.thy ===== *)
theory Controller_Contract
  imports Controller_Service Go_Hoare
begin

text \<open>
  The controller service over the contracts of the client and the locker: the locale \<open>controller_backend\<close>
  joins the two interfaces, the lemmas about the handlers are proved in it once, and it is
  instantiated by the vCloud Director client and \<open>SimpleLock\<close>.
\<close>

subsection \<open>Runs of the handlers\<close>

text \<open>The requests of the controller service; the answers are dropped.\<close>

datatype controller_request =
  CreateVolume create_volume_request
| DeleteVolume string
| ControllerPublish controller_publish_request
| ControllerUnpublish string string
| ValidateCapabilities string "volume_capability option list option"
| ListAll
| ControllerExpand expand_request

fun serve ::
  "csi_ext \<Rightarrow> 'v vcd_service \<Rightarrow> 'l locker_ops \<Rightarrow> controller_request \<Rightarrow> (('v, 'l, 'm) csi_driver, unit) act" where
  "serve ext svc lk (CreateVolume req) = drop_value (create_volume ext svc req)"
| "serve ext svc lk (DeleteVolume vid) = delete_volume svc vid"
| "serve ext svc lk (ControllerPublish req) = drop_value (controller_publish_volume svc lk req)"
| "serve ext svc lk (ControllerUnpublish vid node) = controller_unpublish_volume svc vid node"
| "serve ext svc lk (ValidateCapabilities vid caps) = drop_value (validate_volume_capabilities vid caps)"
| "serve ext svc lk ListAll = drop_value (controller_list_volumes svc)"
| "serve ext svc lk (ControllerExpand req) = drop_value (controller_expand_volume svc lk req)"

fun serve_all ::
  "csi_ext \<Rightarrow> 'v vcd_service \<Rightarrow> 'l locker_ops \<Rightarrow> controller_request list \<Rightarrow> ('v, 'l, 'm) csi_driver \<Rightarrow>
     unit outcome list \<times> ('v, 'l, 'm) csi_driver" where
  "serve_all ext svc lk [] d = ([], d)"
| "serve_all ext svc lk (x # xs) d =
     (case serve ext svc lk x d of (r, d') \<Rightarrow>
      case serve_all ext svc lk xs d' of (rs, d'') \<Rightarrow> (r # rs, d''))"

text \<open>The error of a volume whose resize waits for a detach, and the one of an expansion that found
  the disk attached.\<close>

definition resize_required :: go_error where
  "resize_required = Status Internal (Msg ''Resize required for volume, not publishing'')"

definition attached_error :: "string \<Rightarrow> go_error" where
  "attached_error vid = expand_error vid ErrDiskAttachedToVm"

text \<open>A publish request that passes the checks of the handler.\<close>

definition publishable :: "controller_publish_request \<Rightarrow> bool" where
  "publishable req \<longleftrightarrow>
     cp_VolumeId req \<noteq> [] \<and> cp_NodeId req \<noteq> [] \<and> cp_VolumeCapability req \<noteq> None \<and> \<not> cp_Readonly req"

definition attach_step ::
  "'v vcd_service \<Rightarrow> controller_publish_request \<Rightarrow> (('v, 'l, 'm) csi_driver, string_map) act" where
  "attach_step svc req =
     andThen (mapErr (on_vcl (svc_AttachDisk svc (cp_NodeId req) (cp_VolumeId req)))
                (publish_error (cp_VolumeId req))) (\<lambda>diskAttach.
     ret [pubContextUnit \<mapsto> attach_path diskAttach])"

lemma publish_steps:
  "publishable req \<Longrightarrow>
     controller_publish_volume svc lk req =
       andThen (on_lock (IsLocked lk (cp_VolumeId req)))
         (\<lambda>ok. if ok then raise resize_required else attach_step svc req)"
  unfolding publishable_def controller_publish_volume_def resize_required_def attach_step_def
  by auto

text \<open>The same for an expansion: the size is compared with the current one, then the disk resized.\<close>

definition resize_step ::
  "'v vcd_service \<Rightarrow> 'l locker_ops \<Rightarrow> expand_request \<Rightarrow> string \<Rightarrow> storage_size \<Rightarrow>
     (('v, 'l, 'm) csi_driver, expand_response) act" where
  "resize_step svc lk req vdcName sz =
     andThen (attempt (on_vcl (svc_ResizeDisk svc vdcName (ev_VolumeId req) sz))) (\<lambda>r.
     case r of
       Inl err \<Rightarrow>
         if err = ErrDiskAttachedToVm then
           andThen (on_lock (Put lk (ev_VolumeId req))) (\<lambda>_. raise (expand_error (ev_VolumeId req) err))
         else raise (expand_error (ev_VolumeId req) err)
     | Inr _ \<Rightarrow>
         andThen (on_lock (Pop lk (ev_VolumeId req))) (\<lambda>_.
         ret \<lparr>ex_CapacityBytes = Bytes sz,
              ex_NodeExpansionRequired = (GetAccessType (ev_VolumeCapability req) \<noteq> Some AccessBlock)\<rparr>))"

definition compare_step ::
  "'v vcd_service \<Rightarrow> 'l locker_ops \<Rightarrow> expand_request \<Rightarrow> storage_size \<Rightarrow> storage_size option \<times> string \<Rightarrow>
     (('v, 'l, 'm) csi_driver, expand_response) act" where
  "compare_step svc lk req sz cur =
     andThen (deref (fst cur)) (\<lambda>currentCap.
     if Bytes sz <=s Bytes currentCap then
       ret \<lparr>ex_CapacityBytes = Bytes currentCap, ex_NodeExpansionRequired = True\<rparr>
     else resize_step svc lk req (snd cur) sz)"

lemma expand_steps:
  "controller_expand_volume svc lk req =
     andThen (deref (ev_CapacityRange req)) (\<lambda>_.
     if ev_VolumeId req = [] then invalid ''ControllerExpandVolume volume ID missing in request''
     else
       andThen (on_vcl (svc_ListVolumes svc)) (\<lambda>volumes.
       case extract_storage (ev_CapacityRange req) of
         Inl err \<Rightarrow> raise (Status OutOfRange (Msgf ''ControllerExpandVolume invalid capacity range: %v'' [FErr err]))
       | Inr sz \<Rightarrow> compare_step svc lk req sz (current_disk (ev_VolumeId req) volumes (None, []))))"
  unfolding controller_expand_volume_def resize_step_def compare_step_def case_prod_beta by (rule refl)

lemma errs_wp: "errs E m \<Longrightarrow> wp m (\<lambda>r s'. \<forall>e. r = Err e \<longrightarrow> e \<in> E) s"
  by (rule wpI) (auto dest: errsD)

subsection \<open>Over the contracts\<close>

locale controller_backend = service: vcd_service svc idle + lock: locker lk keys free
  for svc :: "'v vcd_service" and idle :: "'v \<Rightarrow> bool"
    and lk :: "'l locker_ops" and keys :: "'l \<Rightarrow> string set" and free :: "'l \<Rightarrow> bool"
begin

lemma ready_steps:
  "keeps idle mv \<Longrightarrow> keeps (\<lambda>d. idle (vcl d) \<and> F (lock d)) (on_vcl mv)"
  "keeps F ml \<Longrightarrow> keeps (\<lambda>d. idle (vcl d) \<and> F (lock d)) (on_lock ml)"
  unfolding on_vcl_def on_lock_def by (erule keeps_zoom [rotated 2]; simp)+

lemma handlers_ready: "keeps (\<lambda>d. idle (vcl d) \<and> free (lock d)) (serve ext svc lk x)"
  by (cases x;
      simp only: serve.simps create_volume_def delete_volume_def controller_publish_volume_def
        controller_unpublish_volume_def validate_volume_capabilities_def controller_list_volumes_def
        controller_expand_volume_def invalid_def Let_def case_prod_beta;
      intro keeps_intros ready_steps service.service_idle lock.keeps_free)

lemma serves_ready:
  "idle (vcl d) \<Longrightarrow> free (lock d) \<Longrightarrow>
     Blocked \<notin> set (fst (serve_all ext svc lk xs d)) \<and>
     idle (vcl (snd (serve_all ext svc lk xs d))) \<and> free (lock (snd (serve_all ext svc lk xs d)))"
proof (induction xs arbitrary: d)
  case Nil
  then show ?case by simp
next
  case (Cons x xs)
  obtain r d' where run: "serve ext svc lk x d = (r, d')" by fastforce
  then have "r \<noteq> Blocked \<and> idle (vcl d') \<and> free (lock d')"
    using wpD [OF keepsD [OF handlers_ready] run] Cons.prems by simp
  then show ?case
    using run Cons.IH [of d'] by (auto split: prod.splits)
qed

text \<open>A locked volume is refused once, without a call of the client.\<close>

lemma publish_refused:
  assumes "publishable req" and "free (lock d)" and "cp_VolumeId req \<in> keys (lock d)"
  shows "wp (controller_publish_volume svc lk req)
     (\<lambda>r d'. r = Err resize_required \<and> vcl d' = vcl d \<and> free (lock d') \<and>
        keys (lock d') = keys (lock d) - {cp_VolumeId req}) d"
  unfolding publish_steps [OF assms(1)] wp_andThen wp_on
  by (rule wp_mono [OF lock.is_locked_spec [OF assms(2)]]) (use assms(3) in \<open>auto simp: wp_rules\<close>)

lemma publish_attaches:
  assumes "publishable req" and "free (lock d)" and "cp_VolumeId req \<notin> keys (lock d)"
  shows "\<exists>l'. keys l' = keys (lock d) \<and> free l' \<and>
     controller_publish_volume svc lk req d = attach_step svc req (d\<lparr>lock := l'\<rparr>)"
proof -
  obtain r l' where run: "IsLocked lk (cp_VolumeId req) (lock d) = (r, l')" by fastforce
  with wpD [OF lock.is_locked_spec [OF assms(2)] run] assms(3)
  have "r = Ok False" "free l'" "keys l' = keys (lock d)" by simp_all
  with run show ?thesis
    by (auto simp: publish_steps [OF assms(1)] andThen_def on_lock_def zoom_def)
qed

text \<open>An expansion locks the volume exactly when it fails because the disk is attached.\<close>

lemma expand_locks:
  assumes "free (lock d)"
  shows "wp (controller_expand_volume svc lk req)
     (\<lambda>r d'. if r = Err (attached_error (ev_VolumeId req))
        then keys (lock d') = insert (ev_VolumeId req) (keys (lock d)) \<and> free (lock d')
        else keys (lock d') \<subseteq> keys (lock d)) d"
proof -
  have resizing: "wp (svc_ResizeDisk svc vdc vid sz) Q v" if "\<And>r v'. Q r v'" for vdc vid sz Q v
    using that by (simp add: wp_def split: prod.split)
  note put = wp_mono [OF lock.put_spec [OF assms, of "ev_VolumeId req"]]
  note pop = wp_mono [OF lock.pop_spec [OF assms, of "ev_VolumeId req"]]
  note listing = wp_mono [OF errs_wp [OF service.list_errors]]
  show ?thesis
    unfolding controller_expand_volume_def invalid_def
    by (auto simp: wp_rules attached_error_def expand_error_def split: option.split sum.split prod.split outcome.split
        intro!: listing resizing put pop)
qed

end

text \<open>Only such an expansion adds a key.\<close>

definition earned :: "controller_request \<times> unit outcome \<Rightarrow> string set" where
  "earned xr =
     (case xr of
        (ControllerExpand req, r) \<Rightarrow>
          if r = Err (attached_error (ev_VolumeId req)) then {ev_VolumeId req} else {}
      | _ \<Rightarrow> {})"

context controller_backend begin

lemma lock_shrinks:
  "keeps (\<lambda>l. free l \<and> keys l \<subseteq> K) (IsLocked lk k)"
  "keeps (\<lambda>l. free l \<and> keys l \<subseteq> K) (Pop lk k)"
  unfolding keeps_def
  by (auto intro!: wp_mono [OF lock.is_locked_spec] wp_mono [OF lock.pop_spec])

lemma others_shrink:
  assumes "\<And>req. x \<noteq> ControllerExpand req"
  shows "keeps (\<lambda>d. idle (vcl d) \<and> free (lock d) \<and> keys (lock d) \<subseteq> K) (serve ext svc lk x)"
proof -
  note steps = keeps_intros ready_steps [where F = "\<lambda>l. free l \<and> keys l \<subseteq> K"] service.service_idle lock_shrinks
  show ?thesis
    using assms
    by (cases x;
        simp only: serve.simps create_volume_def delete_volume_def controller_publish_volume_def
          controller_unpublish_volume_def validate_volume_capabilities_def controller_list_volumes_def
          invalid_def Let_def case_prod_beta;
        (intro steps)?; blast)
qed

lemma serve_locks:
  assumes "idle (vcl d)" and "free (lock d)" and "serve ext svc lk x d = (r, d')"
  shows "keys (lock d') \<subseteq> keys (lock d) \<union> earned (x, r)"
proof (cases "\<exists>req. x = ControllerExpand req")
  case True
  then obtain req where x: "x = ControllerExpand req" by blast
  obtain r0 d0 where run: "controller_expand_volume svc lk req d = (r0, d0)" by fastforce
  with assms(3) x have "d0 = d'" and "r = Err e \<longleftrightarrow> r0 = Err e" for e
    by (cases r0; auto simp: drop_value_def andThen_def ret_def)+
  with wpD [OF expand_locks [OF assms(2)] run] show ?thesis
    by (auto simp: earned_def x split: if_splits)
next
  case False
  with others_shrink [of x "keys (lock d)"]
  have "keeps (\<lambda>d'. idle (vcl d') \<and> free (lock d') \<and> keys (lock d') \<subseteq> keys (lock d)) (serve ext svc lk x)"
    by blast
  from wpD [OF keepsD [OF this] assms(3)] assms(1,2) show ?thesis by auto
qed

lemma serve_all_locks:
  assumes "idle (vcl d)" and "free (lock d)" and "serve_all ext svc lk xs d = (rs, d')"
  shows "keys (lock d') \<subseteq> keys (lock d) \<union> \<Union> (earned ` set (zip xs rs))"
  using assms
proof (induction xs arbitrary: d rs)
  case Nil
  then show ?case by simp
next
  case (Cons x xs)
  obtain r d1 where run: "serve ext svc lk x d = (r, d1)" by fastforce
  obtain rs1 where rest: "serve_all ext svc lk xs d1 = (rs1, d')" and rs: "rs = r # rs1"
    using Cons.prems(3) run by (auto split: prod.splits)
  have "idle (vcl d1)" "free (lock d1)"
    using wpD [OF keepsD [OF handlers_ready] run] Cons.prems(1,2) by simp_all
  from Cons.IH [OF this rest] serve_locks [OF Cons.prems(1,2) run] show ?case
    by (auto simp: rs)
qed

end

lemma client_backend: "controller_backend (vcd_client_service rt api c) (\<lambda>v. \<not> mt v) simple_locker
    (\<lambda>sl. dom (storage sl)) (\<lambda>sl. \<not> m_locked sl)"
  by (intro controller_backend.intro client.vcd_service_axioms simple.locker_axioms)

interpretation backend: controller_backend "vcd_client_service rt api c" "\<lambda>v. \<not> mt v" simple_locker
    "\<lambda>sl. dom (storage sl)" "\<lambda>sl. \<not> m_locked sl" for rt api c
  by (rule client_backend)

end
