(* ===== verification/Controller_Properties.thy ===== *)
theory Controller_Properties
  imports Controller_Contract Client_Correctness Size_Properties
    "HOL-Library.List_Lexorder" "HOL-Library.Char_ord"
begin

text \<open>
  The properties of the controller service (\<open>internal/driver/disk.go\<close>) with the vCloud Director client
  and \<open>SimpleLock\<close> behind its interfaces: liveness, errors, what a successful request has done to
  the cloud, and the protocol by which a volume waits for its resize.
\<close>

text \<open>The driver as the command builds it, on the example client.\<close>

definition example_driver :: "(cloud vcd_client, simple_lock, unit) csi_driver" where
  "example_driver = snd (NewCsiDriver example_config example_client () NewSimpleLock)"

definition example_ext :: csi_ext where
  "example_ext = \<lparr>mode_string = (\<lambda>_. ''MODE''), set_list = sorted_list_of_set\<rparr>"

abbreviation example_service :: "cloud vcd_client vcd_service" where
  "example_service \<equiv> vcd_client_service example_runtime sim_api example_config"

lemma example_ext_ok: "csi_ext_ok example_ext"
  by (simp add: csi_ext_ok_def example_ext_def)

lemma example_driver_parts [simp]:
  "vcl example_driver = example_client" "lock example_driver = NewSimpleLock"
  by (simp_all add: example_driver_def NewCsiDriver_def)

lemma new_lock [simp]: "storage NewSimpleLock = Map.empty" "\<not> m_locked NewSimpleLock"
  by (simp_all add: NewSimpleLock_def)

lemma service_methods [simp]:
  "svc_CreateDisk (vcd_client_service rt api c) = create_disk api c"
  "svc_ListVolumes (vcd_client_service rt api c) = list_volumes rt api c"
  "svc_DeleteDisk (vcd_client_service rt api c) = delete_disk rt api c"
  "svc_DetachDisk (vcd_client_service rt api c) = detach_disk rt api c"
  "svc_AttachDisk (vcd_client_service rt api c) = attach_disk rt api c"
  "svc_ResizeDisk (vcd_client_service rt api c) = resize_disk api c"
  by (simp_all add: vcd_client_service_def)

definition example_capability :: volume_capability where
  "example_capability = \<lparr>cap_AccessMode = Some SINGLE_NODE_WRITER,
     cap_AccessType = Some (AccessMount \<lparr>FsType = [], MountFlags = []\<rparr>)\<rparr>"

definition publish_of :: "string \<Rightarrow> string \<Rightarrow> controller_publish_request" where
  "publish_of vid node = \<lparr>cp_VolumeId = vid, cp_NodeId = node,
     cp_VolumeCapability = Some example_capability, cp_Readonly = False\<rparr>"

definition expand_of :: "string \<Rightarrow> int64 \<Rightarrow> expand_request" where
  "expand_of vid n = \<lparr>ev_VolumeId = vid,
     ev_CapacityRange = Some \<lparr>RequiredBytes = n, LimitBytes = 0\<rparr>,
     ev_VolumeCapability = Some example_capability\<rparr>"

subsection \<open>No request waits for ever\<close>

lemma new_client_free:
  assumes "new_vcd_client api c herr w = (Ok (), v)"
  shows "\<not> mt v"
proof -
  have "keeps (\<lambda>v. \<not> mt v) (build_clients api c)"
    unfolding build_clients_def
    by (intro keeps_intros call_invariantD [OF call_invariant_mt(1) [where b = False, simplified]]; assumption?)
  then have "wp (build_clients api c) (\<lambda>r v. r \<noteq> Blocked \<and> \<not> mt v)
      \<lparr>world = w, trace = [], VdcClients = [], mt = False\<rparr>"
    by (rule keepsD) simp
  from wpD [OF this] assms show ?thesis
    by (auto simp: new_vcd_client_def Let_def split: option.splits)
qed

text \<open>
  C13. A driver built by \<open>NewVcdClient\<close>, \<open>NewSimpleLock\<close> and \<open>NewCsiDriver\<close> answers every sequence of
  controller requests: whatever the cloud does, no request waits for ever, and when they are served
  both mutexes are free. (A request may still panic; the mutexes are free then too.)
\<close>

theorem driver_never_blocks:
  assumes "new_vcd_client api c herr w = (Ok (), v)"
    and "serve_all ext (vcd_client_service rt api c) simple_locker xs
           (snd (NewCsiDriver c v m NewSimpleLock)) = (rs, d')"
  shows "Blocked \<notin> set rs \<and> \<not> mt (vcl d') \<and> \<not> m_locked (lock d')"
  using backend.serves_ready [where d = "snd (NewCsiDriver c v m NewSimpleLock)" and ext = ext and xs = xs
      and rt = rt and api = api and c = c] new_client_free [OF assms(1)]
  unfolding assms(2) by (simp add: NewCsiDriver_def)

theorem driver_never_blocks_witness:
  "\<exists>v rs d'. new_vcd_client sim_api example_config None example_cloud = (Ok (), v) \<and>
     serve_all example_ext example_service simple_locker
       [ControllerExpand (expand_of ''pvc-2'' 104857600), ControllerPublish (publish_of ''pvc-2'' ''node-1'')]
       (snd (NewCsiDriver example_config v () NewSimpleLock)) = (rs, d') \<and> Blocked \<notin> set rs"
proof -
  let ?v = "example_client\<lparr>trace := [EvSession, EvSession, EvSession]\<rparr>"
  obtain rs d' where run: "serve_all example_ext example_service simple_locker
      [ControllerExpand (expand_of ''pvc-2'' 104857600), ControllerPublish (publish_of ''pvc-2'' ''node-1'')]
      (snd (NewCsiDriver example_config ?v () NewSimpleLock)) = (rs, d')" by fastforce
  with driver_never_blocks [OF new_client_example run] new_client_example show ?thesis by blast
qed

subsection \<open>Resizing an attached volume\<close>

text \<open>
  C17. The protocol of an offline resize: an expansion refused because the disk is attached makes the
  next publication of the volume fail, without a call of the cloud; the publication after that
  attaches the disk, whether or not the resize has been done in between.
\<close>

theorem resize_gate:
  assumes "\<not> m_locked (lock d)" and "publishable req" and "cp_VolumeId req = ev_VolumeId ereq"
    and "controller_expand_volume (vcd_client_service rt api c) simple_locker ereq d
           = (Err (attached_error (ev_VolumeId ereq)), d1)"
    and "controller_publish_volume (vcd_client_service rt api c) simple_locker req d1 = (r2, d2)"
    and "controller_publish_volume (vcd_client_service rt api c) simple_locker req d2 = (r3, d3)"
  shows "r2 = Err resize_required \<and> vcl d2 = vcl d1 \<and>
         (\<exists>l. (r3, d3) = attach_step (vcd_client_service rt api c) req (d2\<lparr>lock := l\<rparr>))"
proof -
  have held: "cp_VolumeId req \<in> dom (storage (lock d1))" "\<not> m_locked (lock d1)"
    using wpD [OF backend.expand_locks [OF assms(1)] assms(4)] assms(3) by simp_all
  have second: "r2 = Err resize_required" "vcl d2 = vcl d1" "\<not> m_locked (lock d2)"
      "cp_VolumeId req \<notin> dom (storage (lock d2))"
    using wpD [OF backend.publish_refused [OF assms(2) held(2,1)] assms(5)] by simp_all
  from backend.publish_attaches [OF assms(2) second(3,4)] assms(6) second(1,2) show ?thesis
    by metis
qed

text \<open>The disk of \<open>pvc-2\<close> is plugged into \<open>node-1\<close>.\<close>

theorem resize_gate_witness:
  "\<exists>d1 r2 d2 r3 d3.
     controller_expand_volume example_service simple_locker (expand_of ''pvc-2'' 104857600) example_driver
       = (Err (attached_error ''pvc-2''), d1) \<and>
     controller_publish_volume example_service simple_locker (publish_of ''pvc-2'' ''node-1'') d1 = (r2, d2) \<and>
     controller_publish_volume example_service simple_locker (publish_of ''pvc-2'' ''node-1'') d2 = (r3, d3) \<and>
     r2 = Err resize_required \<and> vcl d2 = vcl d1"
proof -
  have "fst (controller_expand_volume example_service simple_locker (expand_of ''pvc-2'' 104857600) example_driver)
      = Err (attached_error ''pvc-2'')"
    by code_simp
  then obtain d1 where one: "controller_expand_volume example_service simple_locker
      (expand_of ''pvc-2'' 104857600) example_driver = (Err (attached_error (ev_VolumeId (expand_of ''pvc-2'' 104857600))), d1)"
    by (cases "controller_expand_volume example_service simple_locker (expand_of ''pvc-2'' 104857600) example_driver")
      (auto simp: expand_of_def)
  obtain r2 d2 where two: "controller_publish_volume example_service simple_locker
      (publish_of ''pvc-2'' ''node-1'') d1 = (r2, d2)" by fastforce
  obtain r3 d3 where three: "controller_publish_volume example_service simple_locker
      (publish_of ''pvc-2'' ''node-1'') d2 = (r3, d3)" by fastforce
  have "publishable (publish_of ''pvc-2'' ''node-1'')" and "\<not> m_locked (lock example_driver)"
    and "cp_VolumeId (publish_of ''pvc-2'' ''node-1'') = ev_VolumeId (expand_of ''pvc-2'' 104857600)"
    by (simp_all add: publishable_def publish_of_def expand_of_def)
  from resize_gate [OF this(2,1,3) one two three] one two three show ?thesis
    by (auto simp: expand_of_def)
qed

text \<open>
  C18. No volume is kept from being published for another reason: after any sequence of requests to a
  new driver, the volumes whose next publication is refused are among those whose expansion has been
  refused because the disk was attached.
\<close>

theorem locks_earned:
  assumes "new_vcd_client api c herr w = (Ok (), v)"
    and "serve_all ext (vcd_client_service rt api c) simple_locker xs
           (snd (NewCsiDriver c v m NewSimpleLock)) = (rs, d')"
    and "publishable req"
    and "fst (controller_publish_volume (vcd_client_service rt api c) simple_locker req d') = Err resize_required"
  shows "\<exists>ereq. ev_VolumeId ereq = cp_VolumeId req \<and>
           (ControllerExpand ereq, Err (attached_error (cp_VolumeId req))) \<in> set (zip xs rs)"
proof -
  let ?d = "snd (NewCsiDriver c v m NewSimpleLock)"
  have d: "\<not> mt (vcl ?d)" "\<not> m_locked (lock ?d)" "dom (storage (lock ?d)) = {}"
    using new_client_free [OF assms(1)] by (simp_all add: NewCsiDriver_def)
  have free: "\<not> m_locked (lock d')"
    using backend.serves_ready [OF d(1,2), of ext rt api c xs] assms(2) by simp
  have "cp_VolumeId req \<in> dom (storage (lock d'))"
  proof (rule ccontr)
    assume "cp_VolumeId req \<notin> dom (storage (lock d'))"
    from backend.publish_attaches [OF assms(3) free this, of rt api c] assms(4) obtain e where
        "publish_error (cp_VolumeId req) e = resize_required"
      by (auto simp: attach_step_def andThen_def mapErr_def ret_def split: prod.splits outcome.splits)
    then show False
      by (auto simp: publish_error_def resize_required_def split: if_splits)
  qed
  with backend.serve_all_locks [OF d(1,2) assms(2)]
  have "cp_VolumeId req \<in> \<Union> (earned ` set (zip xs rs))"
    unfolding d(3) by (simp only: Un_empty_left) (erule subsetD)
  then show ?thesis
    by (force simp: earned_def split: controller_request.splits if_splits)
qed

theorem locks_earned_witness:
  "\<exists>v rs d'. new_vcd_client sim_api example_config None example_cloud = (Ok (), v) \<and>
     serve_all example_ext example_service simple_locker [ControllerExpand (expand_of ''pvc-2'' 104857600)]
       (snd (NewCsiDriver example_config v () NewSimpleLock)) = (rs, d') \<and>
     fst (controller_publish_volume example_service simple_locker (publish_of ''pvc-2'' ''node-1'') d')
       = Err resize_required \<and>
     (\<exists>ereq. (ControllerExpand ereq, Err (attached_error ''pvc-2''))
        \<in> set (zip [ControllerExpand (expand_of ''pvc-2'' 104857600)] rs))"
proof -
  let ?v = "example_client\<lparr>trace := [EvSession, EvSession, EvSession]\<rparr>"
  let ?d = "snd (NewCsiDriver example_config ?v () NewSimpleLock)"
  let ?xs = "[ControllerExpand (expand_of ''pvc-2'' 104857600)]"
  obtain rs d' where run: "serve_all example_ext example_service simple_locker ?xs ?d = (rs, d')" by fastforce
  have "case serve_all example_ext example_service simple_locker ?xs ?d of
      (rs, d') \<Rightarrow> case fst (controller_publish_volume example_service simple_locker
        (publish_of ''pvc-2'' ''node-1'') d') of Err e \<Rightarrow> e = resize_required | _ \<Rightarrow> False"
    by code_simp
  with run have refused: "fst (controller_publish_volume example_service simple_locker
      (publish_of ''pvc-2'' ''node-1'') d') = Err resize_required" by (simp split: outcome.splits)
  have "publishable (publish_of ''pvc-2'' ''node-1'')"
    by (simp add: publishable_def publish_of_def)
  from locks_earned [OF new_client_example run this refused] run refused new_client_example
  show ?thesis by (auto simp: publish_of_def)
qed

subsection \<open>What a successful request has done\<close>

lemma triple_on_vcl:
  assumes "triple P m Q any_error"
  shows "triple (\<lambda>d. P (vcl d)) (on_vcl m) (\<lambda>v d. Q v (vcl d)) (\<lambda>e d. any_error e (vcl d))"
  unfolding on_vcl_def by (rule triple_zoom [OF assms]) simp_all

lemma triple_on_lock: "triple (\<lambda>d. P (vcl d)) (on_lock m) (\<lambda>_ d. P (vcl d)) (\<lambda>e d. any_error e (vcl d))"
  unfolding on_lock_def
  by (rule triple_zoom [where P' = "\<lambda>_. True" and Q' = "\<lambda>_ _. True" and E' = "\<lambda>_ _. True"])
    (simp_all add: triple_def wp_def split: prod.split)

lemma current_disk_found:
  "current_disk vid vs acc = (Some cap, n) \<Longrightarrow>
     acc = (Some cap, n) \<or> (\<exists>x \<in> set vs. Name x = vid \<and> Cap x = cap \<and> VdcName x = n)"
  by (induction vs arbitrary: acc) (auto split: if_splits)

text \<open>The volume that an expansion works on, and what it answers.\<close>

definition expand_post ::
  "inventory \<Rightarrow> expand_request \<Rightarrow> expand_response \<Rightarrow> (string \<times> vdc_ref) list \<Rightarrow> inventory \<Rightarrow> bool" where
  "expand_post I req resp cs J \<longleftrightarrow>
     (\<exists>vdc client dk sz. dk \<in> named I client (ev_VolumeId req) \<and>
        extract_storage (ev_CapacityRange req) = Inr sz \<and>
        (let current = Bytes (NewStorageSizeFromMb (disk_size_mb dk)) in
         if Bytes sz <=s current then J = I \<and> ex_CapacityBytes resp = current
         else resize_post I vdc (ev_VolumeId req) sz cs J \<and> ex_CapacityBytes resp = Bytes sz))"

lemma resize_step_triple:
  assumes "cloud_laws api inven"
  shows "triple (\<lambda>d. inven (world (vcl d)) = I) (resize_step (vcd_client_service rt api c) lk req vdc sz)
     (\<lambda>resp d. ex_CapacityBytes resp = Bytes sz \<and>
        resize_post I vdc (ev_VolumeId req) sz (VdcClients (vcl d)) (inven (world (vcl d))))
     (\<lambda>e d. any_error e (vcl d))"
  unfolding resize_step_def service_methods
proof (rule triple_bind)
  let ?R = "\<lambda>r d. \<forall>u. r = Inr u \<longrightarrow>
      resize_post I vdc (ev_VolumeId req) sz (VdcClients (vcl d)) (inven (world (vcl d)))"
  show "triple (\<lambda>d. inven (world (vcl d)) = I) (attempt (on_vcl (resize_disk api c vdc (ev_VolumeId req) sz)))
      ?R (\<lambda>e d. any_error e (vcl d))"
    by (rule triple_attempt, rule triple_weaken [OF triple_on_vcl [OF resize_disk_triple [OF assms]]]) simp_all
qed (intro triple_case_sum triple_if triple_bind [OF triple_on_lock] triple_raise triple_ret; simp)

lemma current_disk_named:
  assumes "current_disk vid vs (None, []) = (Some cap, n)" and "set vs = \<Union> (volumes_of I ` cs)"
  shows "\<exists>client dk. dk \<in> named I client vid \<and> cap = NewStorageSizeFromMb (disk_size_mb dk)"
  using current_disk_found [OF assms(1)] assms(2) by (fastforce simp: volumes_of_def named_def)

lemma compare_step_triple:
  assumes laws: "cloud_laws api inven"
    and vs: "set vs = \<Union> (volumes_of I ` cs)" and sz: "extract_storage (ev_CapacityRange req) = Inr sz"
  shows "triple (\<lambda>d. inven (world (vcl d)) = I)
     (compare_step (vcd_client_service rt api c) lk req sz (current_disk (ev_VolumeId req) vs (None, [])))
     (\<lambda>resp d. expand_post I req resp (VdcClients (vcl d)) (inven (world (vcl d))))
     (\<lambda>e d. any_error e (vcl d))"
proof -
  obtain cap n where cur: "current_disk (ev_VolumeId req) vs (None, []) = (cap, n)" by fastforce
  show ?thesis
    unfolding compare_step_def cur fst_conv snd_conv
  proof (rule triple_bind [OF triple_deref [where Q = "\<lambda>x d. cap = Some x \<and> inven (world (vcl d)) = I"]])
    show "triple (\<lambda>d. cap = Some x \<and> inven (world (vcl d)) = I)
        (if Bytes sz <=s Bytes x then ret \<lparr>ex_CapacityBytes = Bytes x, ex_NodeExpansionRequired = True\<rparr>
         else resize_step (vcd_client_service rt api c) lk req n sz)
        (\<lambda>resp d. expand_post I req resp (VdcClients (vcl d)) (inven (world (vcl d))))
        (\<lambda>e d. any_error e (vcl d))" for x
    proof (rule triple_fact)
      assume "cap = Some x"
      from current_disk_named [OF cur [unfolded this] vs] obtain client dk
        where dk: "dk \<in> named I client (ev_VolumeId req)" and x: "x = NewStorageSizeFromMb (disk_size_mb dk)"
        by blast
      have kept: "expand_post I req resp cs' I"
        if "Bytes sz <=s Bytes x" "ex_CapacityBytes resp = Bytes x" for resp cs'
        unfolding expand_post_def Let_def using that dk sz unfolding x by fastforce
      have grown: "expand_post I req resp cs' J"
        if "\<not> Bytes sz <=s Bytes x" "ex_CapacityBytes resp = Bytes sz" "resize_post I n (ev_VolumeId req) sz cs' J"
        for resp cs' J
        unfolding expand_post_def Let_def using that dk sz unfolding x by fastforce
      show "triple (\<lambda>d. inven (world (vcl d)) = I)
        (if Bytes sz <=s Bytes x then ret \<lparr>ex_CapacityBytes = Bytes x, ex_NodeExpansionRequired = True\<rparr>
         else resize_step (vcd_client_service rt api c) lk req n sz)
        (\<lambda>resp d. expand_post I req resp (VdcClients (vcl d)) (inven (world (vcl d))))
        (\<lambda>e d. any_error e (vcl d))"
        apply (intro triple_if triple_ret)
         apply (simp add: kept)
        apply (rule triple_weaken [OF resize_step_triple [OF laws]], assumption)
         apply (blast intro: grown)
        apply assumption
        done
    qed
  qed simp
qed

lemma expand_triple:
  assumes laws: "cloud_laws api inven" "disk_hrefs_unique I" "runtime_ok rt"
  shows "triple (\<lambda>d. inven (world (vcl d)) = I)
     (controller_expand_volume (vcd_client_service rt api c) lk req)
     (\<lambda>resp d. expand_post I req resp (VdcClients (vcl d)) (inven (world (vcl d))))
     (\<lambda>e d. any_error e (vcl d))"
proof -
  have lists: "triple (\<lambda>d. inven (world (vcl d)) = I) (on_vcl (list_volumes rt api c))
      (\<lambda>vs d. (\<exists>cs. set vs = \<Union> (volumes_of I ` cs)) \<and> inven (world (vcl d)) = I)
      (\<lambda>e d. any_error e (vcl d))"
    by (rule triple_weaken [OF triple_on_vcl [OF list_volumes_triple [OF laws]]]) auto
  show ?thesis
    unfolding expand_steps invalid_def service_methods
    apply (rule triple_bind [OF triple_deref [where Q = "\<lambda>_ d. inven (world (vcl d)) = I"]], assumption)
    apply (rule triple_if)
     apply (rule triple_raise, simp)
    apply (rule triple_bind [OF lists], rule triple_fact)
    apply (rule triple_case_sum)
     apply (rule triple_raise, simp)
    apply (blast intro: compare_step_triple [OF laws(1)])
    done
qed





end
