(* ===== verification/Controller_Answers.thy ===== *)
theory Controller_Answers
  imports Controller_Properties
begin

text \<open>
  More properties of the controller service: what creating and publishing a volume has done to the
  cloud, the capabilities it accepts and confirms, and the errors of every handler.
\<close>

subsection \<open>Capabilities\<close>

text \<open>A capability the driver supports: one writer, with a block or a mount access type.\<close>

definition supported :: "volume_capability option \<Rightarrow> bool" where
  "supported cap \<longleftrightarrow> GetMode cap = SINGLE_NODE_WRITER \<and> GetAccessType cap \<noteq> None"

lemma collect_violations_mono: "vs \<subseteq> collect_violations ext caps vs"
proof (induction caps arbitrary: vs)
  case (Cons cap caps)
  show ?case
    unfolding collect_violations.simps Let_def
    by (rule subset_trans [OF _ Cons.IH]) (auto split: option.split access_type.split)
qed simp

lemma collect_violations_some: "vs \<noteq> {} \<Longrightarrow> collect_violations ext caps vs \<noteq> {}"
  using collect_violations_mono [of vs ext caps] by blast

lemma collect_violations_empty: "collect_violations ext caps {} = {} \<longleftrightarrow> (\<forall>cap \<in> set caps. supported cap)"
proof (induction caps)
  case (Cons cap caps)
  have "collect_violations ext (cap # caps) {} = {} \<longleftrightarrow> supported cap \<and> collect_violations ext caps {} = {}"
    by (auto simp: Let_def supported_def supportedAccessMode_def collect_violations_some
        split: option.split access_type.split)
  with Cons.IH show ?case by simp
qed simp

lemma collect_violations_finite: "finite vs \<Longrightarrow> finite (collect_violations ext caps vs)"
proof (induction caps arbitrary: vs)
  case (Cons cap caps)
  show ?case
    unfolding collect_violations.simps Let_def
    by (rule Cons.IH) (simp add: Cons.prems split: option.split access_type.split)
qed simp

lemma validate_empty:
  assumes "csi_ext_ok ext"
  shows "validate_capabilities ext caps = [] \<longleftrightarrow> (\<forall>cap \<in> set caps. supported cap)"
proof -
  have "set (validate_capabilities ext caps) = collect_violations ext caps {}"
    using assms collect_violations_finite [of "{}" ext caps]
    by (simp add: validate_capabilities_def csi_ext_ok_def)
  then show ?thesis
    unfolding collect_violations_empty [of ext, symmetric] by (metis set_empty)
qed



subsection \<open>Creating and publishing\<close>

text \<open>What a created volume is, and what the cloud holds then.\<close>

definition create_answer ::
  "inventory \<Rightarrow> create_volume_request \<Rightarrow> csi_volume \<Rightarrow> (string \<times> vdc_ref) list \<Rightarrow> inventory \<Rightarrow> bool" where
  "create_answer I req vol cs J \<longleftrightarrow>
     (\<exists>vdc sz caps. cv_Name req \<noteq> [] \<and> cv_VolumeCapabilities req = Some caps \<and> (\<forall>cap \<in> set caps. supported cap) \<and>
        cv_Parameters req vcdParam = Some vdc \<and> extract_storage (cv_CapacityRange req) = Inr sz \<and>
        vol = \<lparr>VolumeId = cv_Name req, CapacityBytes = Bytes sz, AccessibleTopology = [[topologyKey \<mapsto> vdc]]\<rparr> \<and>
        create_post I vdc (cv_Name req) sz cs J)"

lemma triple_errs:
  assumes "triple P m Q E" and "errs X m"
  shows "triple P m Q (\<lambda>e s. E e s \<and> e \<in> X)"
  by (rule tripleI) (use tripleD [OF assms(1)] tripleD_err [OF assms(1)] errsD [OF assms(2)] in blast)+

lemma create_volume_triple:
  fixes api :: "'w govcd"
  assumes laws: "cloud_laws api inven" and ext: "csi_ext_ok ext"
  shows "triple (\<lambda>d. inven (world (vcl d)) = I) (create_volume ext (vcd_client_service rt api c) req)
     (\<lambda>vol d. create_answer I req vol (VdcClients (vcl d)) (inven (world (vcl d))))
     (\<lambda>e d. any_error e (vcl d))"
proof -
  have creates: "triple (\<lambda>d. inven (world (vcl d)) = I) (attempt (on_vcl (create_disk api c vdc n profile sz)))
      (\<lambda>r d. (r \<noteq> Inl ErrDiskAlreadyExists) \<and>
         (\<forall>u. r = Inr u \<longrightarrow> create_post I vdc n sz (VdcClients (vcl d)) (inven (world (vcl d)))))
      (\<lambda>e d. any_error e (vcl d))" for vdc n profile sz
  proof (rule triple_attempt)
    have "errs (- {ErrDiskAlreadyExists}) (on_vcl (create_disk api c vdc n profile sz))"
      unfolding on_vcl_def by (intro errs_intros create_errs)
    from triple_errs [OF triple_on_vcl [OF create_disk_triple [OF laws]] this]
    show "triple (\<lambda>d. inven (world (vcl d)) = I) (on_vcl (create_disk api c vdc n profile sz))
      (\<lambda>v d. Inr v \<noteq> Inl ErrDiskAlreadyExists \<and>
         (\<forall>u. Inr v = (Inr u :: go_error + unit) \<longrightarrow>
            create_post I vdc n sz (VdcClients (vcl d)) (inven (world (vcl d)))))
      (\<lambda>e d. Inl e \<noteq> Inl ErrDiskAlreadyExists \<and>
         (\<forall>u. Inl e = (Inr u :: go_error + unit) \<longrightarrow>
            create_post I vdc n sz (VdcClients (vcl d)) (inven (world (vcl d)))))"
      by (rule triple_weaken) simp_all
  qed
  show ?thesis
    unfolding create_volume_def invalid_def service_methods Let_def
    by (intro triple_if triple_raise triple_case_option triple_case_sum triple_bind [OF creates] triple_fact triple_ret)
      (auto simp: create_answer_def validate_empty [OF ext])
qed


definition create_of :: "string \<Rightarrow> int64 \<Rightarrow> create_volume_request" where
  "create_of n b = \<lparr>cv_Name = n, cv_VolumeCapabilities = Some [Some example_capability],
     cv_Parameters = [vcdParam \<mapsto> ''vdc'', storageProfileParam \<mapsto> ''hdd''],
     cv_CapacityRange = Some \<lparr>RequiredBytes = b, LimitBytes = 0\<rparr>\<rparr>"


text \<open>
  C16. A successful \<open>ControllerPublishVolume\<close> leaves the one disk of the volume's name plugged into a VM
  of the node's name, and its answer is the publish context with the unit in decimal, and nothing else.
\<close>

theorem publish_volume_correct:
  assumes "cloud_laws api inven" and "runtime_ok rt"
    and "controller_publish_volume (vcd_client_service rt api c) lk req d = (Ok ctx, d')"
  shows "\<exists>p. attach_post (inven (world (vcl d))) (cp_NodeId req) (cp_VolumeId req)
               (snd ` set (VdcClients (vcl d'))) p (inven (world (vcl d'))) \<and>
             ctx = [pubContextUnit \<mapsto> attach_path p]"
proof -
  let ?I = "\<lambda>d'. inven (world (vcl d')) = inven (world (vcl d))"
  have attaches: "triple ?I (mapErr (on_vcl (attach_disk rt api c n v)) h)
      (\<lambda>p d'. attach_post (inven (world (vcl d))) n v (snd ` set (VdcClients (vcl d'))) p (inven (world (vcl d'))))
      (\<lambda>e d. any_error e (vcl d))" for n v h
    by (rule triple_mapErr, rule triple_weaken [OF triple_on_vcl [OF attach_disk_triple [OF assms(1,2)]]]) simp_all
  have "triple ?I (controller_publish_volume (vcd_client_service rt api c) lk req)
     (\<lambda>ctx d'. \<exists>p. attach_post (inven (world (vcl d))) (cp_NodeId req) (cp_VolumeId req)
               (snd ` set (VdcClients (vcl d'))) p (inven (world (vcl d'))) \<and> ctx = [pubContextUnit \<mapsto> attach_path p])
     (\<lambda>e d. any_error e (vcl d))"
    unfolding controller_publish_volume_def invalid_def service_methods
    by (intro triple_if triple_raise triple_bind [OF triple_on_lock] triple_bind [OF attaches] triple_ret)
      ((simp only: any_error) | blast)+
  from tripleD [OF this refl assms(3)] show ?thesis .
qed

theorem publish_volume_correct_witness:
  "\<exists>ctx d'. controller_publish_volume example_service simple_locker (publish_of ''pvc-2'' ''node-2'') example_driver
       = (Ok ctx, d') \<and> ctx = [pubContextUnit \<mapsto> ''15''] \<and> plug_of (world (vcl d')) ''d2'' = Some (''vm2'', 3, 15)"
proof -
  have "case controller_publish_volume example_service simple_locker (publish_of ''pvc-2'' ''node-2'') example_driver of
      (Ok ctx, d') \<Rightarrow> ctx pubContextUnit = Some ''15'' \<and> plug_of (world (vcl d')) ''d2'' = Some (''vm2'', 3, 15)
    | _ \<Rightarrow> False"
    by code_simp
  then obtain ctx d' where run: "controller_publish_volume example_service simple_locker
      (publish_of ''pvc-2'' ''node-2'') example_driver = (Ok ctx, d')" and unit: "ctx pubContextUnit = Some ''15''"
      and "plug_of (world (vcl d')) ''d2'' = Some (''vm2'', 3, 15)"
    by (auto split: prod.splits outcome.splits)
  moreover from publish_volume_correct [OF sim_laws example_runtime_ok run] unit
  have "ctx = [pubContextUnit \<mapsto> ''15'']" by auto
  ultimately show ?thesis by blast
qed

subsection \<open>Errors\<close>

text \<open>The errors of each handler: a status with one of its codes, or what it passes on from the client.\<close>

definition statuses :: "grpc_code set \<Rightarrow> go_error set" where
  "statuses codes = {Status code msg | code msg. code \<in> codes}"

lemma statuses_iff [simp]: "e \<in> statuses codes \<longleftrightarrow> (\<exists>code msg. e = Status code msg \<and> code \<in> codes)"
  by (auto simp: statuses_def)

fun handler_errors :: "controller_request \<Rightarrow> go_error set" where
  "handler_errors (CreateVolume req) =
     statuses {InvalidArgument, OutOfRange} \<union> cloud_errs \<union> range (\<lambda>vdc. ErrNew (''vdcName not found: '' @ vdc))"
| "handler_errors (DeleteVolume vid) = statuses {InvalidArgument, Internal}"
| "handler_errors (ControllerPublish req) =
     statuses {InvalidArgument, AlreadyExists, NotFound, FailedPrecondition, Internal}"
| "handler_errors (ControllerUnpublish vid node) = statuses {InvalidArgument, Internal}"
| "handler_errors (ValidateCapabilities vid caps) = statuses {InvalidArgument}"
| "handler_errors ListAll = cloud_errs"
| "handler_errors (ControllerExpand req) = statuses {InvalidArgument, OutOfRange, Internal} \<union> cloud_errs"

lemma create_errs_all:
  "errs (cloud_errs \<union> {ErrNew (''vdcName not found: '' @ vdc)}) (create_disk api c vdc d profile sz)"
  unfolding create_disk_def locked_def Let_def by (intro errs_intros) auto

lemma errs_on_vcl: "errs E m \<Longrightarrow> errs E (on_vcl m)"
  unfolding on_vcl_def by (rule errs_zoom)

lemma errs_on_lock:
  "errs E (on_lock (IsLocked simple_locker k))" "errs E (on_lock (Put simple_locker k))"
  "errs E (on_lock (Pop simple_locker k))"
  unfolding on_lock_def simple_locker_def lock_defs by (simp_all; intro errs_intros)+

lemma publish_error_status: "publish_error vid e \<in> handler_errors (ControllerPublish req)"
  by (simp add: publish_error_def)



end
