(* ===== verification/Node_Properties.thy ===== *)
theory Node_Properties
  imports Mount_Table Controller_Answers
begin

text \<open>
  The properties of the node service (\<open>internal/driver/node.go\<close>) with \<open>MounterHandler\<close> behind its
  interface, and of its interplay with the controller service through the publish context.
\<close>

subsection \<open>Requests to stage and publish\<close>

definition node_context :: string_map where
  "node_context = [pubContextUnit \<mapsto> ''8'', pubContextDiskSize \<mapsto> ''10'']"

definition stage_of :: "string \<Rightarrow> node_stage_request" where
  "stage_of tgt = \<lparr>ns_VolumeId = ''pvc-1'', ns_PublishContext = node_context, ns_StagingTargetPath = tgt,
     ns_VolumeCapability = Some example_capability\<rparr>"

definition node_publish_of :: "string \<Rightarrow> string \<Rightarrow> node_publish_request" where
  "node_publish_of staging tgt = \<lparr>np_VolumeId = ''pvc-1'', np_PublishContext = node_context,
     np_StagingTargetPath = staging, np_TargetPath = tgt, np_VolumeCapability = Some example_capability,
     np_Readonly = False\<rparr>"

text \<open>A driver on the concrete node, with the disks of the mounter's examples and nothing mounted.\<close>

definition sim_driver :: "(unit, unit, sim_node os_env) csi_driver" where
  "sim_driver = \<lparr>vcl = (), lock = (), mnt =
     \<lparr>world = \<lparr>sn_mounts = [], sn_formatted = [], sn_disks = example_disks\<rparr>, trace = []\<rparr>\<rparr>"

subsection \<open>Formatting\<close>

text \<open>
  C23. No data is lost by formatting: in any sequence of node requests on any operating system, every run of
  \<open>mkfs\<close> comes right after \<open>blkid\<close> has exited with the status that says it found no file system on this
  device. No request waits for ever.
\<close>

theorem formats_only_blank:
  assumes "trace (mnt d) = []" and "serve_nodes (mounter_handler os) xs d = (rs, d')"
  shows "Blocked \<notin> set rs \<and> careful_formats (trace (mnt d'))"
  using handler.requests_careful [of d os xs] assms by simp

text \<open>Staging the same volume twice formats its device once.\<close>

theorem formats_only_blank_witness:
  "\<exists>d'. serve_nodes (mounter_handler sim_os) [NodeStage (stage_of ''/s''), NodeUnstage ''pvc-1'' ''/s'', NodeStage (stage_of ''/s'')] sim_driver
       = ([Ok (), Ok (), Ok ()], d')
     \<and> changes_made (mnt d') = [Mounted ''/dev/sdb'' ''/s'', Unmounted ''/s'', Mounted ''/dev/sdb'' ''/s'', Formatted ''/dev/sdb'' ''ext4'']
     \<and> careful_formats (trace (mnt d'))"
proof -
  let ?xs = "[NodeStage (stage_of ''/s''), NodeUnstage ''pvc-1'' ''/s'', NodeStage (stage_of ''/s'')]"
  have "case serve_nodes (mounter_handler sim_os) ?xs sim_driver of
      (rs, d') \<Rightarrow> rs = [Ok (), Ok (), Ok ()] \<and> changes_made (mnt d') =
        [Mounted ''/dev/sdb'' ''/s'', Unmounted ''/s'', Mounted ''/dev/sdb'' ''/s'', Formatted ''/dev/sdb'' ''ext4'']"
    by code_simp
  then obtain d' where run: "serve_nodes (mounter_handler sim_os) ?xs sim_driver = ([Ok (), Ok (), Ok ()], d')"
      and "changes_made (mnt d') =
        [Mounted ''/dev/sdb'' ''/s'', Unmounted ''/s'', Mounted ''/dev/sdb'' ''/s'', Formatted ''/dev/sdb'' ''ext4'']"
    by (auto split: prod.splits)
  moreover from formats_only_blank [OF _ run] have "careful_formats (trace (mnt d'))"
    by (simp add: sim_driver_def)
  ultimately show ?thesis by blast
qed

subsection \<open>Mounting\<close>

text \<open>
  C25. Each node request changes the node only where it says: staging formats and mounts one device, each at
  most once and in this order, the mount at the staging path; publishing mounts one thing at the target path;
  unstaging and unpublishing unmount their path, once; statistics change nothing.
\<close>

theorem node_request_effects:
  assumes "serve_node (mounter_handler os) x d = (r, d')"
  shows "r \<noteq> Blocked \<and> node_effect x (changes_made (mnt d)) (changes_made (mnt d'))"
  using wpD [OF handler.request_changes assms] .

theorem node_request_effects_witness:
  "\<exists>d'. serve_node (mounter_handler sim_os) (NodeStage (stage_of ''/s'')) sim_driver = (Ok (), d') \<and>
     stage_effect ''/s'' [] (changes_made (mnt d')) \<and> changes_made (mnt d') \<noteq> []"
proof -
  have "case serve_node (mounter_handler sim_os) (NodeStage (stage_of ''/s'')) sim_driver of
      (r, d') \<Rightarrow> r = Ok () \<and> changes_made (mnt d') \<noteq> []"
    by code_simp
  then obtain d' where run: "serve_node (mounter_handler sim_os) (NodeStage (stage_of ''/s'')) sim_driver = (Ok (), d')"
      and "changes_made (mnt d') \<noteq> []"
    by (auto split: prod.splits)
  moreover have "changes_made (mnt sim_driver) = []"
    by (simp add: changes_made_def sim_driver_def del: changes_simps)
  ultimately show ?thesis
    using node_request_effects [OF run] by (simp add: stage_of_def)
qed



subsection \<open>The controller and the node\<close>

lemma published_context:
  assumes "controller_publish_volume svc lk req d = (Ok ctx, d')"
  shows "\<exists>unit. ctx = [pubContextUnit \<mapsto> unit]"
proof -
  have "triple (\<lambda>_. True) (controller_publish_volume svc lk req)
      (\<lambda>ctx _. \<exists>unit. ctx = [pubContextUnit \<mapsto> unit]) (\<lambda>_ _. True)"
    unfolding controller_publish_volume_def invalid_def
    by (rule tripleI)
      (auto simp: andThen_def ret_def raise_def split: if_splits prod.splits outcome.splits)
  from tripleD [OF this _ assms] show ?thesis by simp
qed

text \<open>
  C22. The publish context that the controller answers is never enough for the node: with it, for every client
  and every node, staging fails, and so does publishing a raw block volume, because the size that both
  handlers require is not in it. (Publishing a file system does not read the context.)
\<close>

theorem publish_context_incomplete:
  assumes "controller_publish_volume svc lk req d = (Ok ctx, d')"
    and "ns_PublishContext sreq = ctx" and "np_PublishContext preq = ctx"
    and "GetAccessType (np_VolumeCapability preq) = Some AccessBlock"
  shows "\<exists>msg msg'. node_stage_volume ops sreq n = (Err (Status InvalidArgument msg), n) \<and>
                  node_publish_volume ops preq n = (Err (Status InvalidArgument msg'), n)"
proof -
  from published_context [OF assms(1)] obtain unit where ctx: "ctx = [pubContextUnit \<mapsto> unit]" by blast
  then have size: "ctx pubContextDiskSize = None" and unit: "ctx pubContextUnit = Some unit"
    by (simp_all add: pubContextUnit_def pubContextDiskSize_def)
  have "\<exists>msg. node_stage_volume ops sreq n = (Err (Status InvalidArgument msg), n)"
    using size unit assms(2) by (auto simp: node_stage_volume_def node_invalid_def raise_def)
  moreover have "\<exists>msg. node_publish_volume ops preq n = (Err (Status InvalidArgument msg), n)"
    using size unit assms(3,4)
    by (auto simp: node_publish_volume_def node_publish_for_block_def node_invalid_def raise_def Let_def)
  ultimately show ?thesis by blast
qed

definition block_capability :: volume_capability where
  "block_capability = \<lparr>cap_AccessMode = Some SINGLE_NODE_WRITER, cap_AccessType = Some AccessBlock\<rparr>"

theorem publish_context_incomplete_witness:
  "\<exists>ctx d' msg. controller_publish_volume example_service simple_locker (publish_of ''pvc-2'' ''node-2'') example_driver
       = (Ok ctx, d') \<and>
     node_stage_volume (mounter_handler sim_os) ((stage_of ''/s'')\<lparr>ns_PublishContext := ctx\<rparr>) sim_driver
       = (Err (Status InvalidArgument msg), sim_driver)"
proof -
  have "case fst (controller_publish_volume example_service simple_locker (publish_of ''pvc-2'' ''node-2'') example_driver) of
      Ok ctx \<Rightarrow> True | _ \<Rightarrow> False"
    by code_simp
  then obtain ctx d' where run: "controller_publish_volume example_service simple_locker
      (publish_of ''pvc-2'' ''node-2'') example_driver = (Ok ctx, d')"
    by (cases "controller_publish_volume example_service simple_locker (publish_of ''pvc-2'' ''node-2'') example_driver")
      (auto split: outcome.splits)
  let ?preq = "(node_publish_of ''/s'' ''/t'')\<lparr>np_PublishContext := ctx, np_VolumeCapability := Some block_capability\<rparr>"
  have "GetAccessType (np_VolumeCapability ?preq) = Some AccessBlock"
    by (simp add: block_capability_def GetAccessType_def)
  from publish_context_incomplete [OF run _ _ this, where sreq = "(stage_of ''/s'')\<lparr>ns_PublishContext := ctx\<rparr>"
      and ops = "mounter_handler sim_os" and n = sim_driver] run
  show ?thesis by auto
qed

text \<open>The controller asks for an expansion on the node after every resize of a file system volume, and the
  node advertises the capability, but the node's handler answers nothing and does nothing.\<close>

lemma node_expansion_missing:
  assumes "controller_expand_volume svc lk req d = (Ok resp, d')"
    and "GetAccessType (ev_VolumeCapability req) \<noteq> Some AccessBlock"
  shows "ex_NodeExpansionRequired resp \<and> node_expand_volume (ev_VolumeId req) n = (Ok None, n) \<and>
         (\<exists>caps. node_get_capabilities n = (Ok caps, n) \<and> NODE_EXPAND_VOLUME \<in> set caps)"
proof (intro conjI)
  show "ex_NodeExpansionRequired resp"
    using assms
    by (auto simp: expand_steps compare_step_def resize_step_def invalid_def andThen_def attempt_def ret_def raise_def
        split: if_splits prod.splits outcome.splits sum.splits)
qed (simp_all add: node_expand_volume_def node_get_capabilities_def ret_def)

end
