(* ===== verification/Server.thy ===== *)
theory Server
  imports Config Go_Lib
begin

text \<open>
  \<open>pkg/controller/v1/cntrl.go\<close> and the part of \<open>cmd/provisioner/main.go\<close> that runs it: setting the two
  servers up, and the goroutines that serve, wait for the signal and shut the servers down. The
  operating system's sockets and the servers of \<open>grpc\<close> and \<open>net/http\<close> are outside the repository.
\<close>

subsection \<open>Setting up\<close>

text \<open>What the code uses of \<open>net/url\<close>, \<open>os\<close> and \<open>net\<close>. \<open>os.Remove\<close> fails in two ways that the code
  tells apart.\<close>

record url =
  url_scheme :: string
  url_host :: string
  url_path :: string

datatype remove_error = NotExist | RemoveFailed ext_error

record 'n net_ops =
  Url_Parse :: "string \<Rightarrow> ext_error + url"
  Os_Remove :: "string \<Rightarrow> 'n \<Rightarrow> remove_error option \<times> 'n"
  Net_Listen :: "string \<Rightarrow> string \<Rightarrow> 'n \<Rightarrow> ext_error option \<times> 'n"

datatype net_event =
  EvRemove string "remove_error option"
| EvListen string string "ext_error option"

text \<open>\<open>path.Join\<close> of two elements; \<open>filepath.FromSlash\<close> changes nothing on Linux.\<close>

definition path_join :: "string \<Rightarrow> string \<Rightarrow> string" where
  "path_join a b =
     (case filter (\<lambda>e. e \<noteq> []) [a, b] of [] \<Rightarrow> [] | es \<Rightarrow> path_clean (join ''/'' es))"

definition grpc_addr :: "url \<Rightarrow> string" where
  "grpc_addr u = (if url_host u = [] then url_path u else path_join (url_host u) (url_path u))"

text \<open>\<open>Run\<close> up to the errgroup.\<close>

definition run_setup :: "'n net_ops \<Rightarrow> controller_config \<Rightarrow> (('n, net_event) env, unit) act" where
  "run_setup net c =
     (case Url_Parse net (UnixSocket c) of
        Inl err \<Rightarrow> raise (Errorf ''bad unix socket: %s'' [FErr (Ext err)])
      | Inr u \<Rightarrow>
          andThen (ext_call (Os_Remove net (grpc_addr u)) (EvRemove (grpc_addr u))) (\<lambda>r.
          case r of
            Some (RemoveFailed err) \<Rightarrow>
              raise (Errorf ''failed to remove unix domain socket file %s, error: %s''
                       [FStr (grpc_addr u), FErr (Ext err)])
          | _ \<Rightarrow>
              andThen (ext_call (Net_Listen net (url_scheme u) (grpc_addr u)) (EvListen (url_scheme u) (grpc_addr u))) (\<lambda>r.
              case r of
                Some err \<Rightarrow> raise (Errorf ''failed to listen: %v'' [FErr (Ext err)])
              | None \<Rightarrow>
                  andThen (ext_call (Net_Listen net ''tcp'' (HttpListen c)) (EvListen ''tcp'' (HttpListen c))) (\<lambda>r.
                  case r of
                    Some err \<Rightarrow> raise (Errorf ''failed to listen: %v'' [FErr (Ext err)])
                  | None \<Rightarrow> ret ()))))"

text \<open>The interceptor of the gRPC server logs the error and passes the answer on; the health check of the
  HTTP server answers \<open>200\<close>, whatever the state of the driver.\<close>

definition err_handler :: "('s, 'a) act \<Rightarrow> ('s, 'a) act" where
  "err_handler handler =
     andThen (attempt handler) (\<lambda>r. case r of Inl err \<Rightarrow> raise err | Inr resp \<Rightarrow> ret resp)"

definition health_handler :: "'s \<Rightarrow> int" where
  "health_handler s = 200"

subsection \<open>Goroutines\<close>

text \<open>
  The goroutines of the running process. \<open>main\<close> waits for the signal, cancels the context, and waits
  for \<open>Run\<close>. \<open>Run\<close>, in a goroutine of its own, sets up, starts three goroutines in an errgroup, waits
  for them and returns the first error; its caller panics on an error. One goroutine of the group
  shuts the HTTP server down when the context is done; one starts a goroutine that stops the gRPC
  server when the context is done, and serves gRPC; one serves HTTP.
\<close>

datatype main_pc = AwaitSignal | Cancelling | Joining | Exited

datatype run_pc = SettingUp | InGroup | Returned "go_error option"

text \<open>A goroutine of the group: not started, started, its inner goroutine spawned, inside the call of the
  library that it is there for, returned.\<close>

datatype task = NotStarted | Started | Spawned | Inside | Ended "ext_error option"

record server =
  main_at :: main_pc
  run_at :: run_pc
  wg_count :: int
  ctx_done :: bool
  http_stop :: task
  grpc_serve :: task
  http_serve :: task
  grpc_stopped :: bool
  group_err :: "ext_error option"
  panicked :: bool

definition server_start :: server where
  "server_start = \<lparr>main_at = AwaitSignal, run_at = SettingUp, wg_count = 1, ctx_done = False,
     http_stop = NotStarted, grpc_serve = NotStarted, http_serve = NotStarted, grpc_stopped = False,
     group_err = None, panicked = False\<rparr>"

text \<open>What happens next: which goroutine moves, and what the library call it is in answers.\<close>

datatype server_event =
  Ready
| SetupFails go_error
| Signal
| Cancel
| Join
| HttpCloses
| HttpClosed "ext_error option"
| SpawnsStopper
| GrpcStops
| GrpcServes
| GrpcEnds "ext_error option"
| HttpEnds "ext_error option"
| RunReturns
| Panics

definition ErrServerStopped :: ext_error where
  "ErrServerStopped = ExtMsg ''grpc: the server has been stopped''"

text \<open>The errgroup keeps the first error.\<close>

definition keep_err :: "ext_error option \<Rightarrow> server \<Rightarrow> server" where
  "keep_err e s = s\<lparr>group_err := (if group_err s = None then e else group_err s)\<rparr>"

fun ended :: "task \<Rightarrow> bool" where
  "ended (Ended _) = True"
| "ended _ = False"

definition all_ended :: "server \<Rightarrow> bool" where
  "all_ended s \<longleftrightarrow> ended (http_stop s) \<and> ended (grpc_serve s) \<and> ended (http_serve s)"

definition alive :: "server \<Rightarrow> bool" where
  "alive s \<longleftrightarrow> main_at s \<noteq> Exited \<and> \<not> panicked s"

text \<open>
  One step, or \<open>None\<close> where it cannot happen. The libraries: \<open>Shutdown\<close> closes the HTTP server at once
  and returns when its connections are idle; \<open>Serve\<close> of \<open>net/http\<close> returns \<open>ErrServerClosed\<close> (for which
  the code returns no error) only once the server is closed; \<open>Serve\<close> of \<open>grpc\<close> returns no error only
  after \<open>GracefulStop\<close>, and fails at once where the server has been stopped before it is called. Each
  may fail at any time.
\<close>

fun server_next :: "server_event \<Rightarrow> server \<Rightarrow> server option" where
  "server_next Ready s =
     (if alive s \<and> run_at s = SettingUp
      then Some (s\<lparr>run_at := InGroup, http_stop := Started, grpc_serve := Started, http_serve := Inside\<rparr>) else None)"
| "server_next (SetupFails e) s =
     (if alive s \<and> run_at s = SettingUp
      then Some (s\<lparr>run_at := Returned (Some e), wg_count := wg_count s - 1\<rparr>) else None)"
| "server_next Signal s =
     (if alive s \<and> main_at s = AwaitSignal then Some (s\<lparr>main_at := Cancelling\<rparr>) else None)"
| "server_next Cancel s =
     (if alive s \<and> main_at s = Cancelling then Some (s\<lparr>main_at := Joining, ctx_done := True\<rparr>) else None)"
| "server_next Join s =
     (if alive s \<and> main_at s = Joining \<and> wg_count s = 0 then Some (s\<lparr>main_at := Exited\<rparr>) else None)"
| "server_next HttpCloses s =
     (if alive s \<and> http_stop s = Started \<and> ctx_done s then Some (s\<lparr>http_stop := Inside\<rparr>) else None)"
| "server_next (HttpClosed e) s =
     (if alive s \<and> http_stop s = Inside then Some (keep_err e (s\<lparr>http_stop := Ended e\<rparr>)) else None)"
| "server_next SpawnsStopper s =
     (if alive s \<and> grpc_serve s = Started then Some (s\<lparr>grpc_serve := Spawned\<rparr>) else None)"
| "server_next GrpcStops s =
     (if alive s \<and> grpc_serve s \<noteq> NotStarted \<and> grpc_serve s \<noteq> Started \<and> ctx_done s \<and> \<not> grpc_stopped s
      then Some (s\<lparr>grpc_stopped := True\<rparr>) else None)"
| "server_next GrpcServes s =
     (if alive s \<and> grpc_serve s = Spawned then
        if grpc_stopped s
        then Some (keep_err (Some ErrServerStopped) (s\<lparr>grpc_serve := Ended (Some ErrServerStopped)\<rparr>))
        else Some (s\<lparr>grpc_serve := Inside\<rparr>)
      else None)"
| "server_next (GrpcEnds e) s =
     (if alive s \<and> grpc_serve s = Inside \<and> (e = None \<longrightarrow> grpc_stopped s)
      then Some (keep_err e (s\<lparr>grpc_serve := Ended e\<rparr>)) else None)"
| "server_next (HttpEnds e) s =
     (if alive s \<and> http_serve s = Inside \<and> (e = None \<longrightarrow> http_stop s \<noteq> Started)
      then Some (keep_err e (s\<lparr>http_serve := Ended e\<rparr>)) else None)"
| "server_next RunReturns s =
     (if alive s \<and> run_at s = InGroup \<and> all_ended s
      then Some (s\<lparr>run_at := Returned (map_option Ext (group_err s)), wg_count := wg_count s - 1\<rparr>) else None)"
| "server_next Panics s =
     (if alive s \<and> (case run_at s of Returned (Some e) \<Rightarrow> True | _ \<Rightarrow> False)
      then Some (s\<lparr>panicked := True\<rparr>) else None)"

fun server_run :: "server_event list \<Rightarrow> server \<Rightarrow> server option" where
  "server_run [] s = Some s"
| "server_run (ev # evs) s = Option.bind (server_next ev s) (server_run evs)"

end
