(* ===== verification/Server_Properties.thy ===== *)
theory Server_Properties
  imports Server
begin

text \<open>
  The properties of the running process: what holds in every interleaving of its goroutines, that it
  ends after the signal, and what a server that fails does to it.
\<close>

subsection \<open>The invariant\<close>

definition server_inv :: "server \<Rightarrow> bool" where
  "server_inv s \<longleftrightarrow>
     wg_count s = (case run_at s of Returned _ \<Rightarrow> 0 | _ \<Rightarrow> 1) \<and>
     (ctx_done s \<longleftrightarrow> main_at s \<in> {Joining, Exited}) \<and>
     (main_at s = Exited \<longrightarrow> (\<exists>r. run_at s = Returned r)) \<and>
     (\<not> ctx_done s \<longrightarrow> http_stop s \<in> {NotStarted, Started} \<and> \<not> grpc_stopped s) \<and>
     http_stop s \<noteq> Spawned \<and> http_serve s \<notin> {Started, Spawned} \<and>
     (case run_at s of
        InGroup \<Rightarrow> http_stop s \<noteq> NotStarted \<and> grpc_serve s \<noteq> NotStarted \<and> http_serve s \<noteq> NotStarted
      | Returned r \<Rightarrow> all_ended s \<or>
          (r \<noteq> None \<and> http_stop s = NotStarted \<and> grpc_serve s = NotStarted \<and> http_serve s = NotStarted)
      | SettingUp \<Rightarrow> http_stop s = NotStarted \<and> grpc_serve s = NotStarted \<and> http_serve s = NotStarted) \<and>
     (panicked s \<longrightarrow> (\<exists>e. run_at s = Returned (Some e)))"

lemma server_start_inv: "server_inv server_start"
  by (simp add: server_inv_def server_start_def)

lemma keep_err_simps [simp]:
  "main_at (keep_err e s) = main_at s" "run_at (keep_err e s) = run_at s" "wg_count (keep_err e s) = wg_count s"
  "ctx_done (keep_err e s) = ctx_done s" "http_stop (keep_err e s) = http_stop s"
  "grpc_serve (keep_err e s) = grpc_serve s" "http_serve (keep_err e s) = http_serve s"
  "grpc_stopped (keep_err e s) = grpc_stopped s" "panicked (keep_err e s) = panicked s"
  by (simp_all add: keep_err_def)

lemma server_next_inv:
  assumes "server_next ev s = Some s'" and "server_inv s"
  shows "server_inv s'"
  using assms
  by (cases ev; simp only: server_next.simps split: if_splits; clarsimp simp: server_inv_def alive_def all_ended_def;
      auto simp: all_ended_def split: run_pc.splits option.splits)

lemma server_run_inv: "server_run evs s = Some s' \<Longrightarrow> server_inv s \<Longrightarrow> server_inv s'"
  by (induction evs arbitrary: s) (auto simp: bind_eq_Some_conv dest: server_next_inv)

subsection \<open>Termination\<close>

fun main_rank :: "main_pc \<Rightarrow> nat" where
  "main_rank AwaitSignal = 3"
| "main_rank Cancelling = 2"
| "main_rank Joining = 1"
| "main_rank Exited = 0"

fun run_rank :: "run_pc \<Rightarrow> nat" where
  "run_rank SettingUp = 2"
| "run_rank InGroup = 1"
| "run_rank (Returned _) = 0"

fun task_rank :: "task \<Rightarrow> nat" where
  "task_rank NotStarted = 4"
| "task_rank Started = 3"
| "task_rank Spawned = 2"
| "task_rank Inside = 1"
| "task_rank (Ended _) = 0"

definition server_rank :: "server \<Rightarrow> nat" where
  "server_rank s = main_rank (main_at s) + run_rank (run_at s) + task_rank (http_stop s) +
     task_rank (grpc_serve s) + task_rank (http_serve s) + of_bool (\<not> grpc_stopped s) + of_bool (\<not> panicked s)"

lemma server_next_rank:
  "server_next ev s = Some s' \<Longrightarrow> server_inv s \<Longrightarrow> server_rank s' < server_rank s"
  by (cases ev; cases "run_at s")
    (auto simp: server_rank_def server_inv_def alive_def split: if_splits option.splits)

lemma server_run_rank:
  "server_run evs s = Some s' \<Longrightarrow> server_inv s \<Longrightarrow> length evs + server_rank s' \<le> server_rank s"
proof (induction evs arbitrary: s)
  case (Cons ev evs)
  then obtain t where t: "server_next ev s = Some t" "server_run evs t = Some s'"
    by (auto simp: bind_eq_Some_conv)
  from Cons.IH [OF t(2) server_next_inv [OF t(1) Cons.prems(2)]] server_next_rank [OF t(1) Cons.prems(2)]
  show ?case by simp
qed simp

text \<open>Where nothing goes wrong, something can happen: the goroutine that moves next.\<close>

lemma server_progress:
  assumes inv: "server_inv s" and "alive s"
  shows "\<exists>ev \<in> {Ready, Signal, Cancel, Join, HttpCloses, HttpClosed None, SpawnsStopper, GrpcStops, GrpcServes,
      GrpcEnds None, HttpEnds None, RunReturns}. server_next ev s \<noteq> None"
proof -
  consider "main_at s = AwaitSignal" | "main_at s = Cancelling" | "main_at s = Joining" | "main_at s = Exited"
    by (cases "main_at s")
  then show ?thesis
  proof cases
    case 3
    consider "run_at s = SettingUp" | r where "run_at s = Returned r" | "run_at s = InGroup"
      by (cases "run_at s")
    then show ?thesis
    proof cases
      case 1
      then have "server_next Ready s \<noteq> None" using assms by simp
      then show ?thesis by blast
    next
      case 2
      then have "server_next Join s \<noteq> None" using assms \<open>main_at s = Joining\<close> by (simp add: server_inv_def)
      then show ?thesis by blast
    next
      case 3
      have ctx: "ctx_done s" using inv \<open>main_at s = Joining\<close> by (simp add: server_inv_def)
      have stop: "server_next HttpCloses s \<noteq> None \<or> server_next (HttpClosed None) s \<noteq> None \<or> ended (http_stop s)"
        using inv \<open>alive s\<close> 3 ctx by (cases "http_stop s") (simp_all add: server_inv_def)
      have grpc: "server_next SpawnsStopper s \<noteq> None \<or> server_next GrpcServes s \<noteq> None \<or>
          server_next GrpcStops s \<noteq> None \<or> server_next (GrpcEnds None) s \<noteq> None \<or> ended (grpc_serve s)"
        using inv \<open>alive s\<close> 3 ctx by (cases "grpc_serve s") (auto simp: server_inv_def)
      have http: "server_next HttpCloses s \<noteq> None \<or> server_next (HttpEnds None) s \<noteq> None \<or> ended (http_serve s)"
        using inv \<open>alive s\<close> 3 ctx by (cases "http_serve s") (auto simp: server_inv_def)
      have "server_next RunReturns s \<noteq> None"
        if "ended (http_stop s)" "ended (grpc_serve s)" "ended (http_serve s)"
        using that \<open>alive s\<close> 3 by (simp add: all_ended_def)
      with stop grpc http show ?thesis by blast
    qed
  next
    case 1
    then have "server_next Signal s \<noteq> None" using assms by simp
    then show ?thesis by blast
  next
    case 2
    then have "server_next Cancel s \<noteq> None" using assms by simp
    then show ?thesis by blast
  qed (use \<open>alive s\<close> in \<open>simp add: alive_def\<close>)
qed

lemma some_case: "(case x of Some s \<Rightarrow> P s | None \<Rightarrow> False) \<Longrightarrow> \<exists>s. x = Some s \<and> P s"
  by (cases x) simp_all

subsection \<open>The process\<close>


definition clean_run :: "server_event list" where
  "clean_run = [Ready, SpawnsStopper, GrpcServes, Signal, Cancel, HttpCloses, GrpcStops, HttpEnds None,
     GrpcEnds None, HttpClosed None, RunReturns, Join]"




lemma run_unsignalled:
  "server_run evs t = Some s \<Longrightarrow> server_inv t \<Longrightarrow> run_at t = InGroup \<Longrightarrow> \<not> panicked t \<Longrightarrow>
     main_at t = AwaitSignal \<Longrightarrow> Signal \<notin> set evs \<Longrightarrow>
     run_at s = InGroup \<and> \<not> panicked s \<and> main_at s = AwaitSignal"
proof (induction evs arbitrary: t)
  case (Cons ev evs)
  then obtain u where u: "server_next ev t = Some u" "server_run evs u = Some s"
    by (auto simp: bind_eq_Some_conv)
  have "\<not> all_ended t"
    using Cons.prems(2,3,5) by (auto simp: server_inv_def all_ended_def)
  then have "run_at u = InGroup \<and> \<not> panicked u \<and> main_at u = AwaitSignal"
    using u(1) Cons.prems(3-6) by (cases ev) (auto split: if_splits)
  with Cons.IH [OF u(2) server_next_inv [OF u(1) Cons.prems(2)]] Cons.prems(6) show ?case by simp
qed simp



text \<open>A signal that comes while the servers start can make an orderly shutdown a panic: the gRPC server is
  stopped before it serves, so serving fails.\<close>

lemma early_signal_panics:
  "\<exists>s. server_run [Signal, Cancel, Ready, SpawnsStopper, GrpcStops, GrpcServes, HttpCloses, HttpEnds None,
      HttpClosed None, RunReturns, Panics] server_start = Some s \<and> panicked s"
proof -
  have "case server_run [Signal, Cancel, Ready, SpawnsStopper, GrpcStops, GrpcServes, HttpCloses, HttpEnds None,
      HttpClosed None, RunReturns, Panics] server_start of Some s \<Rightarrow> panicked s | None \<Rightarrow> False"
    by code_simp
  then show ?thesis by (rule some_case)
qed

text \<open>An error of \<open>Run\<close> can also be lost: \<open>main\<close> may return between the deferred \<open>wg.Done\<close> and the panic.\<close>

lemma error_lost:
  "\<exists>s. server_run [SetupFails (ErrNew ''e''), Signal, Cancel, Join] server_start = Some s \<and>
     main_at s = Exited \<and> \<not> panicked s \<and> run_at s = Returned (Some (ErrNew ''e''))"
proof -
  have "case server_run [SetupFails (ErrNew ''e''), Signal, Cancel, Join] server_start of
      Some s \<Rightarrow> main_at s = Exited \<and> \<not> panicked s \<and> run_at s = Returned (Some (ErrNew ''e'')) | None \<Rightarrow> False"
    by code_simp
  then show ?thesis by (rule some_case)
qed

subsection \<open>Setting up\<close>

lemma err_handler_passes: "err_handler h = h"
  by (rule ext) (auto simp: err_handler_def andThen_def attempt_def ret_def raise_def split: prod.splits outcome.splits)


text \<open>The default socket, on a machine where the HTTP port is taken.\<close>

definition busy_net :: "unit net_ops" where
  "busy_net = \<lparr>
     Url_Parse = (\<lambda>_. Inr \<lparr>url_scheme = ''unix'', url_host = [], url_path = ''/var/run/vcd-csi.sock''\<rparr>),
     Os_Remove = (\<lambda>_ w. (Some NotExist, w)),
     Net_Listen = (\<lambda>scheme _ w. (if scheme = ''tcp'' then Some (ExtMsg ''address already in use'') else None, w))\<rparr>"


end
