(* ===== verification/Client_Names.thy ===== *)
theory Client_Names
  imports Client_Service Client_Refinement
begin

text \<open>
  The well-formedness of the client's map of VDC objects: it has one object for every configured VDC and no
  other, from \<open>NewVcdClient\<close> on and after every request, also where the session expires and the objects are
  built again. The client keeps the contract of its interface with this as part of being idle.
\<close>

subsection \<open>A new client\<close>

lemma update_names: "fst ` set (AList.update k x xs) = insert k (fst ` set xs)"
proof -
  have "set (map fst (AList.update k x xs)) = insert k (set (map fst xs))"
    unfolding update_keys by auto
  then show ?thesis by (simp only: set_map)
qed

lemma update_distinct: "distinct (map fst xs) \<Longrightarrow> distinct (map fst (AList.update k x xs))"
  by (rule distinct_update)

definition names_are :: "string set \<Rightarrow> 'w vcd_client \<Rightarrow> bool" where
  "names_are N v \<longleftrightarrow> fst ` set (VdcClients v) = N \<and> distinct (map fst (VdcClients v))"

lemma session_names:
  "triple (names_are N) (api_call f ev) (\<lambda>_. names_are N) any_error"
  "triple (names_are N) (api_call0 g ev') (\<lambda>_. names_are N) any_error"
  by (rule triple_api_call triple_api_call0; simp add: names_are_def)+

lemma build_names: "triple (names_are {}) (build_clients api c) (\<lambda>_. names_are (set (Vdcs c))) any_error"
proof -
  have step: "triple (names_are (set ys)) (andThen (api_call f ev) (\<lambda>vdc.
        andThen (modify (\<lambda>v. v\<lparr>VdcClients := AList.update n vdc (VdcClients v)\<rparr>)) (\<lambda>_. ret Continue)))
      (\<lambda>r v. case r of Continue \<Rightarrow> names_are (set (ys @ [n])) v | Return u \<Rightarrow> names_are (set (Vdcs c)) v) any_error"
    for ys n f ev
    by (intro triple_bind [OF session_names(1)] triple_bind [OF triple_modify [where Q = "\<lambda>_. names_are (set (ys @ [n]))"]]
        triple_ret) (simp_all add: names_are_def update_names update_distinct)
  have "triple (names_are (set [])) (for_each (Vdcs c)
       (\<lambda>vdcName.
          andThen (api_call (GetVDCByName api org vdcName True) (\<lambda>_. EvSession)) (\<lambda>vdc.
          andThen (modify (\<lambda>v. v\<lparr>VdcClients := AList.update vdcName vdc (VdcClients v)\<rparr>)) (\<lambda>_.
          ret Continue)))
       (ret ())) (\<lambda>_. names_are (set (Vdcs c))) any_error" for org
    by (rule triple_for_each [OF step triple_ret])
  then show ?thesis
    unfolding build_clients_def
    by (intro triple_bind [OF session_names(2)] triple_bind [OF session_names(1)]) simp
qed

lemma new_client_names:
  assumes "new_vcd_client api c herr w = (Ok u, v)"
  shows "herr = None \<and> names_are (set (Vdcs c)) v"
proof -
  from assms have "herr = None"
    and run: "build_clients api c \<lparr>world = w, trace = [], VdcClients = [], mt = False\<rparr> = (Ok u, v)"
    by (auto simp: new_vcd_client_def Let_def split: option.splits)
  with tripleD [OF build_names _ run] show ?thesis by (simp add: names_are_def)
qed

subsection \<open>After every method\<close>

text \<open>An invariant that calls of the cloud keep, whatever they answer.\<close>

definition api_invariant :: "('w vcd_client \<Rightarrow> bool) \<Rightarrow> bool" where
  "api_invariant I \<longleftrightarrow> (\<forall>s w e. I s \<longrightarrow> I (s\<lparr>world := w, trace := e # trace s\<rparr>))"

lemma api_invariantD: "api_invariant I \<Longrightarrow> I s \<Longrightarrow> I (s\<lparr>world := w, trace := e # trace s\<rparr>)"
  by (simp add: api_invariant_def)

text \<open>The helpers that do not build the VDC objects keep it.\<close>

lemma lookups_keep:
  assumes "api_invariant I"
  shows "keeps I (detach_disk_in api client d)"
    and "keeps I (list_vdc api entry resp)"
    and "keeps I (delete_in_vdc api d entry)"
    and "keeps I (detach_in_vdc api d entry)"
    and "keeps I (attach_in_vdc rt api c vmn d entry)"
    and "keeps I (disks_exists api client d)"
    and "keeps I (get_disk_by_name api client d)"
    and "keeps I (attached_vm api dk)"
    and "keeps I (vdc_refresh api client)"
  unfolding helper_defs Let_def
  by (intro keeps_intros api_invariantD [OF assms]; assumption?)+

lemma keeps_for_each_set:
  "(\<And>x. x \<in> set xs \<Longrightarrow> keeps I (body x)) \<Longrightarrow> keeps I after \<Longrightarrow> keeps I (for_each xs body after)"
  by (induction xs) (auto intro!: keeps_intros)

text \<open>The invariant while the mutex is held.\<close>

abbreviation held_named :: "controller_config \<Rightarrow> 'w vcd_client \<Rightarrow> bool" where
  "held_named c v \<equiv> mt v \<and> names_are (set (Vdcs c)) v"

abbreviation idle_named :: "controller_config \<Rightarrow> 'w vcd_client \<Rightarrow> bool" where
  "idle_named c v \<equiv> \<not> mt v \<and> names_are (set (Vdcs c)) v"

lemma held_api: "api_invariant (held_named c)"
  by (simp add: api_invariant_def names_are_def)

lemma refresh_named: "keeps (held_named c) (refresh_auth api c)"
  unfolding refresh_auth_def build_clients_def
  by (intro keeps_intros keeps_for_each_set; (rule api_invariantD [OF held_api])?)
    (auto simp: names_are_def update_names update_distinct)

lemma locked_named:
  assumes "keeps (held_named c) (body :: ('w, 'a) client_act)"
  shows "keeps (idle_named c) (locked (andThen (refresh_auth api c) (\<lambda>_. body)))"
proof (rule keepsI)
  fix v :: "'w vcd_client"
  assume "idle_named c v"
  then show "wp (locked (andThen (refresh_auth api c) (\<lambda>_. body))) (\<lambda>r v'. r \<noteq> Blocked \<and> idle_named c v') v"
    by (intro locked_invariant [where I = "held_named c"] keeps_andThen refresh_named assms)
      (simp_all add: names_are_def)
qed

lemma methods_named:
  "keeps (idle_named c) (create_disk api c vdc d profile sz)"
  "keeps (idle_named c) (list_volumes rt api c)"
  "keeps (idle_named c) (delete_disk rt api c d)"
  "keeps (idle_named c) (detach_disk rt api c vmn d)"
  "keeps (idle_named c) (attach_disk rt api c vmn d)"
  "keeps (idle_named c) (resize_disk api c vdc d sz)"
  unfolding create_disk_def list_volumes_def delete_disk_def detach_disk_def attach_disk_def resize_disk_def Let_def
  by (intro locked_named keeps_intros lookups_keep [OF held_api]; (rule api_invariantD [OF held_api])?; assumption?)+

interpretation named_client: vcd_service "vcd_client_service rt api c" "idle_named c" for rt api c
  by unfold_locales (simp_all add: vcd_client_service_def methods_named list_errs create_errs attach_errs)

end
