(* ===== verification/Provisioner.thy ===== *)
theory Provisioner
  imports Node_Properties Server_Properties Client_Names
begin

text \<open>
  \<open>cmd/provisioner/main.go\<close>: the command builds the components in order and starts the servers. From
  here on the process is the one of the theory \<open>Server\<close>.
\<close>

datatype 'd startup = Started_with "driver_info \<times> 'd" | Exit_status int | Start_panic go_error | Start_stuck

text \<open>The constructors of the locker, the mounter, the driver and the controller return no error, so the
  branches of \<open>main\<close> on their errors are never taken.\<close>

definition main_start ::
  "(string \<Rightarrow> controller_config \<Rightarrow> ext_error option \<times> controller_config) \<Rightarrow> 'w govcd \<Rightarrow>
     (controller_config \<Rightarrow> ext_error option) \<Rightarrow> 'm \<Rightarrow> 'w \<Rightarrow>
     ('w vcd_client, simple_lock, 'm) csi_driver startup" where
  "main_start process api href_err m w =
     (case new_controller_config process of
        Inl err \<Rightarrow> Start_panic err
      | Inr c \<Rightarrow>
          (case new_vcd_client api c (href_err c) w of
             (Ok _, client) \<Rightarrow> Started_with (NewCsiDriver c client m NewSimpleLock)
           | (Err _, _) \<Rightarrow> Exit_status 1
           | (Panic, _) \<Rightarrow> Start_panic (ErrNew ''nil dereference'')
           | (Blocked, _) \<Rightarrow> Start_stuck))"

subsection \<open>Starting\<close>

lemma named_backend: "controller_backend (vcd_client_service rt api c) (idle_named c) simple_locker
    (\<lambda>sl. dom (storage sl)) (\<lambda>sl. \<not> m_locked sl)"
  by (intro controller_backend.intro named_client.vcd_service_axioms simple.locker_axioms)



end
