(* ===== verification/Spec2Isabelle.thy ===== *)
theory Spec2Isabelle
  imports Client_Correctness Size_Properties Locker_Properties Mounter_Properties Provisioner
begin

text \<open>
  A model of \<open>vcd-csi\<close>, the Container Storage Interface driver for vCloud Director, and its properties.

  The program. One process (\<open>cmd/provisioner/main.go\<close>) reads its configuration (\<open>conf/conf.go\<close>), builds a
  client of the cloud (\<open>pkg/vcd-client/client.go\<close>), a locker (\<open>internal/locker/locker.go\<close>), a mounter
  (\<open>internal/mount/mounter.go\<close>) and a driver that holds the three behind Go interfaces
  (\<open>internal/driver/drv.go\<close>), and serves the driver over gRPC (\<open>pkg/controller/v1/cntrl.go\<close>). The
  controller service (\<open>internal/driver/disk.go\<close>) creates, deletes, attaches, detaches, lists and resizes disks
  of the cloud; the node service (\<open>internal/driver/node.go\<close>) formats and mounts their devices. The two sides
  meet in the publish context, which carries the unit number a disk is plugged in at, and in the locker,
  which keeps a volume from being published again until its resize could be done.

  How code is modelled. A function that touches state is an action, from a state to an outcome (value,
  error, panic, or waiting for ever on a mutex) and the next state (\<open>Go_Prelude\<close>); loops are
  \<open>for_each\<close> and \<open>fold_act\<close> over lists, and the iteration over a map is a list in an order that is a
  parameter (\<open>go_runtime\<close>, any permutation). Integers of fixed width are words with Go's conversions and
  wrap-around; strings are character lists (\<open>Go_Lib\<close> has the functions of \<open>strings\<close>, \<open>strconv\<close>, \<open>path\<close> and
  \<open>filepath\<close> that the code calls). A formatted message is kept as its format and arguments. Calls that leave
  the repository go through records of functions on an abstract world, and each leaves an event in a trace:
  \<open>govcd\<close> (the cloud's library), \<open>os_ops\<close> (commands and system calls), \<open>net_ops\<close> (sockets), \<open>csi_ext\<close> (names
  of access modes, listing of string sets), and the arguments of \<open>new_controller_config\<close> and
  \<open>logger_level\<close>. Nothing is assumed of them, except where a property names a law.

  Theories and the code they model.
    \<^item> \<open>Storage_Size\<close>: \<open>pkg/types/disk.go\<close>. \<open>Capacity\<close>: \<open>extractStorage\<close> and \<open>formatBytes\<close> of \<open>disk.go\<close>.
    \<^item> \<open>Locker\<close>: \<open>SimpleLock\<close>, run alone, behind its interface (locale \<open>locker\<close>), and interleaved
      (\<open>lock_step\<close>).
    \<^item> \<open>Config\<close>: \<open>ControllerConfig\<close>, \<open>NewControllerConfig\<close>, the level of \<open>GetLogger\<close>.
    \<^item> \<open>Govcd\<close>: the operations of the cloud's library and the events of their calls. \<open>Vcd_Client\<close>: the client,
      one definition per method, helper and loop body. \<open>Client_Service\<close>: the interface \<open>VcdService\<close> (record and
      locale).
    \<^item> \<open>Mounter\<close>: \<open>MounterHandler\<close> and the interface \<open>Mounter\<close>.
    \<^item> \<open>Driver\<close>: the messages, the driver and the identity service. \<open>Controller_Service\<close>, \<open>Node_Service\<close>: the
      handlers, parametrised by the interfaces they call.
    \<^item> \<open>Server\<close>: \<open>Run\<close> and the goroutines of the process, one step function for all of them.
      \<open>Provisioner\<close>: \<open>main\<close> up to the start of the servers.

  What the lemmas show.
    \<^item> \<open>Go_Prelude\<close>, \<open>Go_Hoare\<close>: weakest preconditions, and calculi for invariants kept by every outcome
      (\<open>keeps\<close>), for the errors (\<open>errs\<close>), values and calls of an action, and for triples.
    \<^item> \<open>Client_Safety\<close>, \<open>Client_Units\<close>, \<open>Client_Effects\<close>: for every cloud, the discipline of the mutex, the errors of
      each method, the choice of unit numbers, the changes each method asks for. \<open>Client_Names\<close>: the map of VDC
      objects always has exactly the configured names.
    \<^item> \<open>Cloud_Laws\<close>, \<open>Client_Refinement\<close>, \<open>Client_Correctness\<close>: the abstract specification. An \<open>inventory\<close> (disks of
      each VDC, VMs, what is plugged where) is what a cloud holds; \<open>cloud_laws\<close> states the documented behaviour of
      the library on it; every method is shown to do to the inventory what its postcondition says.
      \<open>Cloud_Model\<close> is an executable cloud that satisfies the laws, on which the witnesses run
      (\<open>Client_Examples\<close>).
    \<^item> \<open>Size_Properties\<close>, \<open>Locker_Properties\<close>, \<open>Mounter_Properties\<close>: the pure parts, exhaustively.
    \<^item> \<open>Controller_Contract\<close>: the locale \<open>controller_backend\<close> joins the contracts of the client and the locker; the
      handlers are proved over it and it is instantiated by the real ones. \<open>Controller_Properties\<close>,
      \<open>Controller_Answers\<close>: liveness, the resize protocol, errors, and the handlers over the inventory.
    \<^item> \<open>Mounter_Contract\<close>, \<open>Node_Contract\<close>: the contract of a mounter (what changes, what is careful) and the node
      handlers over it. \<open>Mount_Table\<close>: a second contract over the mount table of the node, kept by the
      implementation where the tools \<open>mount\<close>, \<open>umount\<close> and \<open>findmnt\<close> do what their manuals say (\<open>os_laws\<close>); a
      concrete node satisfies it. \<open>Node_Properties\<close>: the properties of the node service and of its interplay
      with the controller.
    \<^item> \<open>Server_Properties\<close>: the invariant of the process, termination after the signal (the rank of a state is
      19 at the start and falls with every step), and what happens to failures.

  Bounds. There is no fuel: every loop of the code runs over a finite list. Unit numbers are 8 to 15, sizes are
  64-bit, statistics are exact below \<open>2 ^ 63\<close> bytes.

  Not modelled. Logging and printing. The contents of requests that no handler reads. The wire protocol
  of gRPC, the registration of the services and the health endpoint's routing. Requests served at the same
  time: the client serialises its methods with one mutex, which the model of one request after the other
  rests on (\<open>client_never_deadlocks\<close>), and only the locker is modelled in all its interleavings. A signal that
  arrives before \<open>main\<close> waits for it is lost in the code (the channel has no buffer); the model
  delivers the signal only while \<open>main\<close> waits. The mocks, the tests and the deployment files hold no code
  of the program.
\<close>

end
